(* ===== verification/Prelude.thy ===== *)
theory Prelude
  imports Main "HOL-Library.Word"
begin

text \<open>
  Shared vocabulary of the development: the machine integer types of
  \<open>driverapi/internal/nvidia/nvtypes.h\<close>, the statement combinators in which the operations
  of the driver are written (a C++ function that returns a status and mutates its state becomes
  a function from a state to a result and a state), the rules that carry the proofs about them,
  and generic facts on words and lists.
\<close>

unbundle bit_operations_syntax

section \<open>Machine integers\<close>

type_synonym NvU8 = "8 word"
type_synonym NvU16 = "16 word"
type_synonym NvU32 = "32 word"
type_synonym NvU64 = "64 word"

text \<open>The collections the component theories extend.\<close>

named_theorems prog_simps \<open>evaluation of the statement combinators\<close>
named_theorems presI \<open>preservation of an invariant by a statement\<close>

section \<open>Statuses and failures\<close>

text \<open>
  The statuses declared in \<open>librecuda_all_statuses.h\<close>. A C++ function that returns a status
  either succeeds, or returns one of the others; an uncaught exception, an access outside an
  object (undefined behaviour in the source) and a wait that has used up its fuel are separate
  values, so that no theorem about a status hides one of them.
\<close>

datatype status =
    LIBRECUDA_SUCCESS
  | LIBRECUDA_ERROR_INVALID_VALUE
  | LIBRECUDA_ERROR_OUT_OF_MEMORY
  | LIBRECUDA_ERROR_NOT_INITIALIZED
  | LIBRECUDA_ERROR_INVALID_DEVICE
  | LIBRECUDA_ERROR_INVALID_IMAGE
  | LIBRECUDA_ERROR_INVALID_CONTEXT
  | LIBRECUDA_ERROR_NOT_FOUND
  | LIBRECUDA_ERROR_NOT_READY
  | LIBRECUDA_ERROR_LAUNCH_OUT_OF_RESOURCES
  | LIBRECUDA_ERROR_COMPAT_NOT_SUPPORTED_ON_DEVICE
  | LIBRECUDA_ERROR_UNKNOWN

datatype error =
    Fail status      \<comment> \<open>\<open>LIBRECUDA_FAIL\<close>: the function returned this status\<close>
  | Throw string     \<comment> \<open>an uncaught C++ exception\<close>
  | UB string        \<comment> \<open>undefined behaviour of the source\<close>
  | NoReturn         \<comment> \<open>a polling loop was still waiting when its fuel ran out\<close>

section \<open>Statements\<close>

text \<open>
  A statement keeps the state it has reached when it fails, as a C++ function that returns
  early keeps the effects it has had.
\<close>

type_synonym ('s, 'a) prog = "'s \<Rightarrow> (error + 'a) \<times> 's"

definition ret :: "'a \<Rightarrow> ('s, 'a) prog" where
  "ret a = (\<lambda>s. (Inr a, s))"

definition stop :: "error \<Rightarrow> ('s, 'a) prog" where
  "stop e = (\<lambda>s. (Inl e, s))"

text \<open>\<open>LIBRECUDA_SUCCEED\<close> and \<open>LIBRECUDA_FAIL\<close>.\<close>

definition succeed :: "('s, unit) prog" where
  "succeed = ret ()"

definition fail :: "status \<Rightarrow> ('s, 'a) prog" where
  "fail st = stop (Fail st)"

text \<open>\<open>LIBRECUDA_ERR_PROPAGATE\<close>: go on when the call succeeded, return its status otherwise.\<close>

definition bind :: "('s, 'a) prog \<Rightarrow> ('a \<Rightarrow> ('s, 'b) prog) \<Rightarrow> ('s, 'b) prog" where
  "bind m f = (\<lambda>s. case m s of (Inl e, s') \<Rightarrow> (Inl e, s') | (Inr a, s') \<Rightarrow> f a s')"

definition gets :: "('s \<Rightarrow> 'a) \<Rightarrow> ('s, 'a) prog" where
  "gets f = (\<lambda>s. (Inr (f s), s))"

definition modify :: "('s \<Rightarrow> 's) \<Rightarrow> ('s, unit) prog" where
  "modify f = (\<lambda>s. (Inr (), f s))"

text \<open>\<open>LIBRECUDA_VALIDATE\<close>.\<close>

definition validate :: "bool \<Rightarrow> status \<Rightarrow> ('s, unit) prog" where
  "validate c st = (if c then succeed else fail st)"

text \<open>A condition on which the source relies without a check.\<close>

definition guard_ub :: "bool \<Rightarrow> string \<Rightarrow> ('s, unit) prog" where
  "guard_ub c why = (if c then succeed else stop (UB why))"

definition run_when :: "bool \<Rightarrow> ('s, unit) prog \<Rightarrow> ('s, unit) prog" where
  "run_when c m = (if c then m else succeed)"

text \<open>A function body: its statements in order, up to the first that fails.\<close>

fun block :: "('s, unit) prog list \<Rightarrow> ('s, unit) prog" where
  "block [] = succeed"
| "block (m # ms) = bind m (\<lambda>_. block ms)"

text \<open>A \<open>for\<close> loop over the elements of a list.\<close>

fun foreach :: "'a list \<Rightarrow> ('a \<Rightarrow> ('s, unit) prog) \<Rightarrow> ('s, unit) prog" where
  "foreach [] f = succeed"
| "foreach (x # xs) f = bind (f x) (\<lambda>_. foreach xs f)"

subsection \<open>Evaluation rules\<close>

lemma ret_run [simp, prog_simps]: "ret a s = (Inr a, s)"
  by (simp add: ret_def)

lemma stop_run [simp, prog_simps]: "stop e s = (Inl e, s)"
  by (simp add: stop_def)

lemma succeed_run [simp, prog_simps]: "succeed s = (Inr (), s)"
  by (simp add: succeed_def)

lemma fail_run [simp, prog_simps]: "fail st s = (Inl (Fail st), s)"
  by (simp add: fail_def)

lemma gets_run [simp, prog_simps]: "gets f s = (Inr (f s), s)"
  by (simp add: gets_def)

lemma modify_run [simp, prog_simps]: "modify f s = (Inr (), f s)"
  by (simp add: modify_def)

lemma bind_ret [simp, prog_simps]: "bind (ret a) f = f a"
  by (simp add: bind_def fun_eq_iff)

lemma bind_succeed [simp, prog_simps]: "bind succeed f = f ()"
  by (simp add: succeed_def)

lemma bind_stop [simp, prog_simps]: "bind (stop e) f = stop e"
  by (simp add: bind_def fun_eq_iff)

lemma bind_fail [simp, prog_simps]: "bind (fail st) f = fail st"
  by (simp add: fail_def)

lemma bind_modify [simp, prog_simps]: "bind (modify g) f s = f () (g s)"
  by (simp add: bind_def)

lemma bind_gets [simp, prog_simps]: "bind (gets g) f s = f (g s) s"
  by (simp add: bind_def)

lemma bind_Pair_Inr [simp, prog_simps]: "bind (Pair (Inr a)) f = f a"
  by (simp add: bind_def fun_eq_iff)

lemma bind_Pair_Inl [simp, prog_simps]: "bind (Pair (Inl e)) f = Pair (Inl e)"
  by (simp add: bind_def fun_eq_iff)

lemma bind_assoc: "bind (bind m f) g = bind m (\<lambda>a. bind (f a) g)"
  by (simp add: bind_def fun_eq_iff split: prod.splits sum.splits)

lemma validate_true [simp, prog_simps]: "validate True st = succeed"
  by (simp add: validate_def)

lemma validate_false [simp, prog_simps]: "validate False st = fail st"
  by (simp add: validate_def)

lemma guard_ub_true [simp, prog_simps]: "guard_ub True w = succeed"
  by (simp add: guard_ub_def)

lemma guard_ub_false [simp, prog_simps]: "guard_ub False w = stop (UB w)"
  by (simp add: guard_ub_def)

lemma run_when_true [simp, prog_simps]: "run_when True m = m"
  by (simp add: run_when_def)

lemma run_when_false [simp, prog_simps]: "run_when False m = succeed"
  by (simp add: run_when_def)

text \<open>Running a bind in one step, for a first statement whose outcome is known.\<close>

lemma bind_run_Inr: "m s = (Inr a, s') \<Longrightarrow> bind m f s = f a s'"
  by (simp add: bind_def)

lemma bind_run_Inl: "m s = (Inl e, s') \<Longrightarrow> bind m f s = (Inl e, s')"
  by (simp add: bind_def)

lemma bind_eq_Inr:
  "bind m f s = (Inr b, s'') \<longleftrightarrow> (\<exists>a s'. m s = (Inr a, s') \<and> f a s' = (Inr b, s''))"
  by (auto simp: bind_def split: prod.splits sum.splits)

lemma bind_eq_Inl:
  "bind m f s = (Inl e, s'') \<longleftrightarrow>
     m s = (Inl e, s'') \<or> (\<exists>a s'. m s = (Inr a, s') \<and> f a s' = (Inl e, s''))"
  by (auto simp: bind_def split: prod.splits sum.splits)

lemma validate_eq_Inr: "validate c st s = (Inr u, s') \<longleftrightarrow> c \<and> s' = s"
  by (auto simp: validate_def)

lemma guard_ub_eq_Inr: "guard_ub c w s = (Inr u, s') \<longleftrightarrow> c \<and> s' = s"
  by (auto simp: guard_ub_def)

lemma block_append: "block (ms @ ns) = bind (block ms) (\<lambda>_. block ns)"
  by (induction ms) (simp_all add: bind_assoc)

section \<open>Triples\<close>

text \<open>
  \<open>triple P m Q E\<close>: run from a state with \<open>P\<close>, the statement ends in \<open>Q\<close> when it
  succeeds and in \<open>E\<close> when it does not. \<open>preserves I m\<close> is the case where both keep
  an invariant, which is what a caller that sees an error still relies on.
\<close>

definition triple ::
  "('s \<Rightarrow> bool) \<Rightarrow> ('s, 'a) prog \<Rightarrow> ('a \<Rightarrow> 's \<Rightarrow> bool) \<Rightarrow> (error \<Rightarrow> 's \<Rightarrow> bool) \<Rightarrow> bool" where
  "triple P m Q E \<longleftrightarrow>
     (\<forall>s. P s \<longrightarrow> (case m s of (Inr a, s') \<Rightarrow> Q a s' | (Inl e, s') \<Rightarrow> E e s'))"

definition preserves :: "('s \<Rightarrow> bool) \<Rightarrow> ('s, 'a) prog \<Rightarrow> bool" where
  "preserves I m \<longleftrightarrow> (\<forall>s. I s \<longrightarrow> I (snd (m s)))"

lemma tripleI:
  assumes "\<And>s a s'. P s \<Longrightarrow> m s = (Inr a, s') \<Longrightarrow> Q a s'"
    and "\<And>s e s'. P s \<Longrightarrow> m s = (Inl e, s') \<Longrightarrow> E e s'"
  shows "triple P m Q E"
  using assms by (auto simp: triple_def split: prod.splits sum.splits)

lemma triple_InrD: "triple P m Q E \<Longrightarrow> P s \<Longrightarrow> m s = (Inr a, s') \<Longrightarrow> Q a s'"
  by (force simp: triple_def)

lemma triple_InlD: "triple P m Q E \<Longrightarrow> P s \<Longrightarrow> m s = (Inl e, s') \<Longrightarrow> E e s'"
  by (force simp: triple_def)

lemma triple_bind:
  assumes "triple P m R E" and "\<And>a. triple (R a) (f a) Q E"
  shows "triple P (bind m f) Q E"
  using assms
  by (intro tripleI) (auto simp: bind_eq_Inr bind_eq_Inl dest: triple_InrD triple_InlD)

lemma triple_conseq:
  assumes "triple P' m Q' E'" "\<And>s. P s \<Longrightarrow> P' s" "\<And>a s. Q' a s \<Longrightarrow> Q a s"
    "\<And>e s. E' e s \<Longrightarrow> E e s"
  shows "triple P m Q E"
proof (rule tripleI)
  fix s a s' assume "P s" "m s = (Inr a, s')"
  then show "Q a s'" using assms triple_InrD by metis
next
  fix s e s' assume "P s" "m s = (Inl e, s')"
  then show "E e s'" using assms triple_InlD by metis
qed

lemma preservesD: "preserves I m \<Longrightarrow> I s \<Longrightarrow> m s = (r, s') \<Longrightarrow> I s'"
  by (metis preserves_def snd_conv)

lemma preservesD_snd: "preserves I m \<Longrightarrow> I s \<Longrightarrow> I (snd (m s))"
  by (simp add: preserves_def)

lemma preserves_ret [presI]: "preserves I (ret a)"
  and preserves_stop [presI]: "preserves I (stop e)"
  and preserves_succeed [presI]: "preserves I succeed"
  and preserves_fail [presI]: "preserves I (fail st)"
  and preserves_gets [presI]: "preserves I (gets f)"
  and preserves_validate [presI]: "preserves I (validate c st)"
  and preserves_guard_ub [presI]: "preserves I (guard_ub c w)"
  and preserves_Pair [presI]: "preserves I (Pair r)"
  by (simp_all add: preserves_def validate_def guard_ub_def)

lemma preserves_modify: "(\<And>s. I s \<Longrightarrow> I (f s)) \<Longrightarrow> preserves I (modify f)"
  by (simp add: preserves_def)

lemma preserves_bind [presI]:
  assumes "preserves I m" and "\<And>a. preserves I (f a)"
  shows "preserves I (bind m f)"
  using assms by (fastforce simp: preserves_def bind_def split: prod.splits sum.splits)

lemma preserves_run_when [presI]: "(c \<Longrightarrow> preserves I m) \<Longrightarrow> preserves I (run_when c m)"
  by (cases c) (auto intro: presI)

lemma preserves_if [presI]:
  "(c \<Longrightarrow> preserves I m) \<Longrightarrow> (\<not> c \<Longrightarrow> preserves I n) \<Longrightarrow> preserves I (if c then m else n)"
  by simp

lemma preserves_block [presI]: "(\<And>m. m \<in> set ms \<Longrightarrow> preserves I m) \<Longrightarrow> preserves I (block ms)"
  by (induction ms) (auto intro!: presI)

lemma preserves_foreach [presI]:
  "(\<And>x. x \<in> set xs \<Longrightarrow> preserves I (f x)) \<Longrightarrow> preserves I (foreach xs f)"
  by (induction xs) (auto intro!: presI)

section \<open>Words\<close>

text \<open>\<open>hi_32\<close> and \<open>lo_32\<close> of \<open>cmdqueue.cpp\<close>, and the halves put together again.\<close>

definition hi_32 :: "NvU64 \<Rightarrow> NvU32" where
  "hi_32 v = ucast (drop_bit 32 v)"

definition lo_32 :: "NvU64 \<Rightarrow> NvU32" where
  "lo_32 v = ucast (v AND 0xFFFFFFFF)"

definition join_32 :: "NvU32 \<Rightarrow> NvU32 \<Rightarrow> NvU64" where
  "join_32 hi lo = push_bit 32 (ucast hi) OR ucast lo"

lemma ones32 [simp]: "(0xFFFFFFFF :: NvU32) = - 1"
  by simp

lemma and_low32: "v AND (0xFFFFFFFF :: NvU64) = take_bit 32 v"
proof -
  have "(0xFFFFFFFF :: NvU64) = mask 32" by (simp add: mask_eq_exp_minus_1)
  then show ?thesis by (simp only: take_bit_eq_mask)
qed

lemma bit_hi_32: "bit (hi_32 v) i \<longleftrightarrow> i < 32 \<and> bit v (32 + i)"
  by (simp add: hi_32_def bit_simps)

lemma bit_lo_32: "bit (lo_32 v) i \<longleftrightarrow> i < 32 \<and> bit v i"
  by (auto simp: lo_32_def and_low32 bit_simps)

lemma join_32_hi_lo [simp]: "join_32 (hi_32 v) (lo_32 v) = v"
  by (rule bit_word_eqI) (auto simp: join_32_def bit_simps bit_hi_32 bit_lo_32)

lemma hi_32_join [simp]: "hi_32 (join_32 h l) = h"
  by (rule bit_word_eqI) (auto simp: join_32_def bit_simps bit_hi_32 dest: bit_imp_le_length)

lemma lo_32_join [simp]: "lo_32 (join_32 h l) = l"
  by (rule bit_word_eqI) (auto simp: join_32_def bit_simps bit_lo_32 dest: bit_imp_le_length)

section \<open>Rounding\<close>

text \<open>
  \<open>ceilDiv\<close>, \<open>roundUp\<close>, \<open>maxOf\<close> and \<open>minOf\<close> of the sources, at each width at which they are
  overloaded. The additions wrap.
\<close>

definition ceilDiv64 :: "NvU64 \<Rightarrow> NvU64 \<Rightarrow> NvU64" where
  "ceilDiv64 a b = (a + b - 1) div b"

definition ceilDiv32 :: "NvU32 \<Rightarrow> NvU32 \<Rightarrow> NvU32" where
  "ceilDiv32 a b = (a + b - 1) div b"

definition roundUp64 :: "NvU64 \<Rightarrow> NvU64 \<Rightarrow> NvU64" where
  "roundUp64 a b = ceilDiv64 a b * b"

definition roundUp32 :: "NvU32 \<Rightarrow> NvU32 \<Rightarrow> NvU32" where
  "roundUp32 a b = ceilDiv32 a b * b"

definition maxOf32 :: "NvU32 \<Rightarrow> NvU32 \<Rightarrow> NvU32" where
  "maxOf32 a b = (if a > b then a else b)"

definition maxOf64 :: "NvU64 \<Rightarrow> NvU64 \<Rightarrow> NvU64" where
  "maxOf64 a b = (if a > b then a else b)"

definition minOf32 :: "NvU32 \<Rightarrow> NvU32 \<Rightarrow> NvU32" where
  "minOf32 a b = (if a < b then a else b)"

text \<open>The reference: the least multiple of \<open>b\<close> that is not below \<open>a\<close>.\<close>

definition round_up :: "nat \<Rightarrow> nat \<Rightarrow> nat" where
  "round_up a b = (a + b - 1) div b * b"

lemma round_up_ge: "0 < b \<Longrightarrow> a \<le> round_up a b"
proof -
  assume "0 < b"
  then have "a + b - 1 < (a + b - 1) div b * b + b"
    using mod_less_divisor [of b "a + b - 1"] by (metis add_less_cancel_left mult.commute mult_div_mod_eq)
  then show ?thesis using \<open>0 < b\<close> by (simp add: round_up_def)
qed

lemma round_up_less: "0 < b \<Longrightarrow> round_up a b < a + b"
proof -
  assume "0 < b"
  have "round_up a b \<le> a + b - 1" by (simp add: round_up_def)
  with \<open>0 < b\<close> show ?thesis by linarith
qed

lemma round_up_dvd: "b dvd round_up a b"
  by (simp add: round_up_def)

lemma round_up_least: "0 < b \<Longrightarrow> b dvd m \<Longrightarrow> a \<le> m \<Longrightarrow> round_up a b \<le> m"
proof -
  assume b: "0 < b" and "b dvd m" and "a \<le> m"
  then obtain k where k: "m = b * k" by auto
  have "(a + b - 1) div b < Suc k"
    using b k \<open>a \<le> m\<close> by (simp add: div_less_iff_less_mult) (simp add: algebra_simps)
  then show ?thesis using k by (simp add: round_up_def mult.commute)
qed

lemma round_up_pos: "0 < b \<Longrightarrow> 0 < a \<Longrightarrow> 0 < round_up a b"
  using round_up_ge [of b a] by linarith

lemma round_up_multiple: "0 < b \<Longrightarrow> round_up (k * b) b = k * b"
proof -
  assume "0 < b"
  then have "(k * b + b - 1) div b = k" by (intro div_nat_eqI) (simp_all add: algebra_simps)
  then show ?thesis by (simp add: round_up_def)
qed

lemma round_up_split:
  assumes "0 < b"
  shows "round_up a b = (if a mod b = 0 then a else a + (b - a mod b))"
proof (cases "a mod b = 0")
  case True
  then have "a = a div b * b" by (simp add: dvd_div_mult_self mod_eq_0_iff_dvd)
  then show ?thesis using True round_up_multiple [OF assms, of "a div b"] by simp
next
  case False
  define q r where "q = a div b" and "r = a mod b"
  have a: "a = b * q + r" and r: "0 < r" "r < b"
    using False assms by (simp_all add: q_def r_def)
  have "(a + b - 1) div b = Suc q"
  proof (rule div_nat_eqI)
    show "b * Suc q \<le> a + b - 1" using a r by simp
    show "a + b - 1 < b * Suc (Suc q)" using a r by simp
  qed
  then show ?thesis using False a r by (simp add: round_up_def flip: r_def)
qed

lemma unat_ucast32_64 [simp]: "unat (ucast (w :: NvU32) :: NvU64) = unat w"
proof -
  have "unat w < 2 ^ 64" by (rule less_le_trans [OF unsigned_less]) simp
  then show ?thesis by (simp add: unsigned_ucast_eq take_bit_nat_eq_self)
qed

lemma unat_word_sum:
  fixes a b :: "'l::len word"
  shows "unat a + unat b < 2 ^ LENGTH('l) \<Longrightarrow> unat (a + b) = unat a + unat b"
  by (simp add: unat_word_ariths)

lemma unat_word_prod:
  fixes a b :: "'l::len word"
  shows "unat a * unat b < 2 ^ LENGTH('l) \<Longrightarrow> unat (a * b) = unat a * unat b"
  by (simp add: unat_word_ariths)

lemma unat_word_minus:
  fixes a b :: "'l::len word"
  shows "unat b \<le> unat a \<Longrightarrow> unat (a - b) = unat a - unat b"
  by (simp add: unat_sub word_le_nat_alt)

lemma unat_ceil_word:
  fixes a b :: "'l::len word"
  assumes "0 < unat b" "unat a + unat b < 2 ^ LENGTH('l)"
  shows "unat ((a + b - 1) div b) = (unat a + unat b - 1) div unat b"
proof -
  have s: "unat (a + b) = unat a + unat b" using assms(2) by (rule unat_word_sum)
  have one: "unat (1 :: 'l word) = 1" by simp
  have "unat (a + b - 1) = unat (a + b) - 1"
    using unat_word_minus [of 1 "a + b"] s assms(1) one by simp
  then show ?thesis using s by (simp add: unat_div)
qed

lemma unat_roundUp64:
  assumes "0 < unat b" "unat a + unat b < 2 ^ 64"
  shows "unat (roundUp64 a b) = round_up (unat a) (unat b)"
proof -
  have d: "unat (ceilDiv64 a b) = (unat a + unat b - 1) div unat b"
    using unat_ceil_word [of b a] assms by (simp add: ceilDiv64_def)
  have "round_up (unat a) (unat b) < 2 ^ 64"
    using round_up_less [OF assms(1)] assms(2) by (rule less_trans)
  then have "unat (ceilDiv64 a b) * unat b < 2 ^ LENGTH(64)"
    by (simp add: d round_up_def)
  then show ?thesis by (simp only: roundUp64_def unat_word_prod d round_up_def)
qed

lemma unat_roundUp32:
  assumes "0 < unat b" "unat a + unat b < 2 ^ 32"
  shows "unat (roundUp32 a b) = round_up (unat a) (unat b)"
proof -
  have d: "unat (ceilDiv32 a b) = (unat a + unat b - 1) div unat b"
    using unat_ceil_word [of b a] assms by (simp add: ceilDiv32_def)
  have "round_up (unat a) (unat b) < 2 ^ 32"
    using round_up_less [OF assms(1)] assms(2) by (rule less_trans)
  then have "unat (ceilDiv32 a b) * unat b < 2 ^ LENGTH(32)"
    by (simp add: d round_up_def)
  then show ?thesis by (simp only: roundUp32_def unat_word_prod d round_up_def)
qed

section \<open>Allocation by bumping\<close>

text \<open>
  Ranges \<open>(base, length)\<close> of addresses, and the runs of an allocator: a list of requests, each of
  which may return a range or fail. \<open>fits\<close> says that a request does not wrap the address space.
\<close>

type_synonym range = "nat \<times> nat"

fun range_disj :: "range \<Rightarrow> range \<Rightarrow> bool" where
  "range_disj (a, m) (b, n) \<longleftrightarrow> a + m \<le> b \<or> b + n \<le> a"

inductive alloc_run ::
  "('r \<Rightarrow> 's \<Rightarrow> range option \<times> 's) \<Rightarrow> ('r \<Rightarrow> 's \<Rightarrow> bool) \<Rightarrow> 's \<Rightarrow> range list \<Rightarrow> 's \<Rightarrow> bool"
  for step fits s
where
  run_nil: "alloc_run step fits s [] s"
| run_none: "alloc_run step fits s rs s' \<Longrightarrow> fits r s' \<Longrightarrow> step r s' = (None, s'') \<Longrightarrow>
    alloc_run step fits s rs s''"
| run_some: "alloc_run step fits s rs s' \<Longrightarrow> fits r s' \<Longrightarrow> step r s' = (Some b, s'') \<Longrightarrow>
    alloc_run step fits s (rs @ [b]) s''"

locale bump =
  fixes step :: "'r \<Rightarrow> 's \<Rightarrow> range option \<times> 's"
    and fits :: "'r \<Rightarrow> 's \<Rightarrow> bool"
    and top :: "'s \<Rightarrow> nat"
  assumes step_none: "fits r s \<Longrightarrow> step r s = (None, s') \<Longrightarrow> top s \<le> top s'"
    and step_some: "fits r s \<Longrightarrow> step r s = (Some (b, n), s') \<Longrightarrow> top s \<le> b \<and> top s' = b + n"
begin

lemma run_bounds:
  "alloc_run step fits s rs s' \<Longrightarrow>
    top s \<le> top s' \<and> (\<forall>(b, n) \<in> set rs. top s \<le> b \<and> b + n \<le> top s')"
proof (induction rule: alloc_run.induct)
  case run_nil
  then show ?case by simp
next
  case (run_none rs s' r s'')
  then show ?case using step_none [OF run_none(2,3)] by fastforce
next
  case (run_some rs s' r b s'')
  then show ?case using step_some [OF run_some(2)] by (cases b) fastforce
qed

lemma run_disjoint: "alloc_run step fits s rs s' \<Longrightarrow> sorted_wrt range_disj rs"
proof (induction rule: alloc_run.induct)
  case run_nil
  then show ?case by simp
next
  case (run_none rs s' r s'')
  then show ?case by simp
next
  case (run_some rs s' r b s'')
  obtain a n where b: "b = (a, n)" by fastforce
  have "top s' \<le> a" using step_some [OF run_some(2)] run_some(3) b by auto
  then have "range_disj x b" if "x \<in> set rs" for x
    using run_bounds [OF run_some(1)] that b by (cases x) fastforce
  with run_some show ?case by (simp add: sorted_wrt_append)
qed

end

end
