(* ===== verification/Drf.thy ===== *)
theory Drf
  imports Prelude
begin

text \<open>
  The multi-word bit field macros of \<open>driverapi/internal/nvidia/nvmisc.h\<close>
  (\<open>DRF_*_MW\<close>, \<open>FLD_*_MW\<close>), with which \<open>launchFunction\<close> fills the queue meta data of a
  kernel launch. A field \<open>MW(hi:lo)\<close> names the bits \<open>lo\<close> to \<open>hi\<close> of an array of 32-bit
  words. The reference semantics is the array as one long bit string (\<open>mw_bit\<close>): reading a
  field gives its bits, writing one changes exactly its bits.
\<close>

section \<open>Fields\<close>

datatype drf = MW nat nat  \<comment> \<open>\<open>MW(hi:lo)\<close>\<close>

fun DRF_PICK_MW :: "drf \<Rightarrow> bool \<Rightarrow> nat" where
  "DRF_PICK_MW (MW hi lo) v = (if v then hi else lo)"

definition DRF_WORD_MW :: "drf \<Rightarrow> nat" where
  "DRF_WORD_MW drf = DRF_PICK_MW drf False div 32"

definition DRF_BASE_MW :: "drf \<Rightarrow> nat" where
  "DRF_BASE_MW drf = DRF_PICK_MW drf False mod 32"

definition DRF_EXTENT_MW :: "drf \<Rightarrow> nat" where
  "DRF_EXTENT_MW drf = DRF_PICK_MW drf True mod 32"

definition DRF_SHIFT_MW :: "drf \<Rightarrow> nat" where
  "DRF_SHIFT_MW drf = DRF_PICK_MW drf False mod 32"

definition DRF_MASK_MW :: "drf \<Rightarrow> NvU32" where
  "DRF_MASK_MW drf = drop_bit ((31 - DRF_EXTENT_MW drf + DRF_BASE_MW drf) mod 32) 0xFFFFFFFF"

definition DRF_SHIFTMASK_MW :: "drf \<Rightarrow> NvU32" where
  "DRF_SHIFTMASK_MW drf = push_bit (DRF_SHIFT_MW drf) (DRF_MASK_MW drf)"

text \<open>
  The value operand of \<open>DRF_NUM_MW\<close> is masked with a 32-bit mask and shifted in its own type.
  It is taken at 64 bits here; \<open>DRF_NUM_MW_narrow\<close> below shows that a 32-bit operand gives the
  same word once it is stored in the array.
\<close>

definition DRF_NUM_MW :: "drf \<Rightarrow> NvU64 \<Rightarrow> NvU64" where
  "DRF_NUM_MW drf n = push_bit (DRF_SHIFT_MW drf) (n AND ucast (DRF_MASK_MW drf))"

section \<open>Reading\<close>

definition DRF_VAL_MW_1WORD :: "drf \<Rightarrow> NvU32 list \<Rightarrow> NvU32" where
  "DRF_VAL_MW_1WORD drf v =
     drop_bit (DRF_SHIFT_MW drf) (v ! DRF_WORD_MW drf) AND DRF_MASK_MW drf"

definition DRF_SPANS :: "drf \<Rightarrow> bool" where
  "DRF_SPANS drf \<longleftrightarrow> DRF_PICK_MW drf False div 32 \<noteq> DRF_PICK_MW drf True div 32"

definition DRF_WORD_MW_HIGH :: "drf \<Rightarrow> nat" where
  "DRF_WORD_MW_HIGH drf = DRF_PICK_MW drf True div 32"

definition DRF_MASK_MW_HIGH :: "drf \<Rightarrow> NvU32" where
  "DRF_MASK_MW_HIGH drf = drop_bit (31 - DRF_EXTENT_MW drf) 0xFFFFFFFF"

definition DRF_MERGE_SHIFT :: "drf \<Rightarrow> nat" where
  "DRF_MERGE_SHIFT drf = (32 - DRF_PICK_MW drf False mod 32) mod 32"

definition DRF_VAL_MW_2WORD :: "drf \<Rightarrow> NvU32 list \<Rightarrow> NvU32" where
  "DRF_VAL_MW_2WORD drf v =
     (drop_bit (DRF_SHIFT_MW drf) (v ! DRF_WORD_MW drf) AND 0xFFFFFFFF) OR
     push_bit (DRF_MERGE_SHIFT drf) (v ! DRF_WORD_MW_HIGH drf AND DRF_MASK_MW_HIGH drf)"

definition DRF_VAL_MW :: "drf \<Rightarrow> NvU32 list \<Rightarrow> NvU32" where
  "DRF_VAL_MW drf v =
     (if DRF_SPANS drf then DRF_VAL_MW_2WORD drf v else DRF_VAL_MW_1WORD drf v)"

section \<open>Writing\<close>

definition FLD_MERGE_MW :: "drf \<Rightarrow> NvU64 \<Rightarrow> NvU32 list \<Rightarrow> NvU64" where
  "FLD_MERGE_MW drf n v = ucast (v ! DRF_WORD_MW drf AND NOT (DRF_SHIFTMASK_MW drf)) OR n"

definition FLD_ASSIGN_MW :: "drf \<Rightarrow> NvU64 \<Rightarrow> NvU32 list \<Rightarrow> NvU32 list" where
  "FLD_ASSIGN_MW drf n v = v[DRF_WORD_MW drf := ucast (FLD_MERGE_MW drf n v)]"

definition FLD_SET_DRF_NUM_MW :: "drf \<Rightarrow> NvU64 \<Rightarrow> NvU32 list \<Rightarrow> NvU32 list" where
  "FLD_SET_DRF_NUM_MW drf n v = FLD_ASSIGN_MW drf (DRF_NUM_MW drf n) v"

text \<open>The element the macros write is one of the array's.\<close>

definition drf_in_array :: "drf \<Rightarrow> NvU32 list \<Rightarrow> bool" where
  "drf_in_array drf v \<longleftrightarrow> DRF_WORD_MW drf < length v"

lemmas drf_defs = DRF_WORD_MW_def DRF_BASE_MW_def DRF_EXTENT_MW_def DRF_SHIFT_MW_def
  DRF_MASK_MW_def DRF_SHIFTMASK_MW_def DRF_NUM_MW_def DRF_SPANS_def DRF_WORD_MW_HIGH_def
  DRF_MASK_MW_HIGH_def DRF_MERGE_SHIFT_def

section \<open>The array as a bit string\<close>

definition mw_bit :: "NvU32 list \<Rightarrow> nat \<Rightarrow> bool" where
  "mw_bit v i = bit (v ! (i div 32)) (i mod 32)"

text \<open>A field that a single word holds and that lies inside an array of \<open>n\<close> words.\<close>

fun drf_ok :: "nat \<Rightarrow> drf \<Rightarrow> bool" where
  "drf_ok n (MW hi lo) \<longleftrightarrow> lo \<le> hi \<and> hi div 32 = lo div 32 \<and> lo div 32 < n"

text \<open>Two fields with no bit in common.\<close>

fun drf_disj :: "drf \<Rightarrow> drf \<Rightarrow> bool" where
  "drf_disj (MW h1 l1) (MW h2 l2) \<longleftrightarrow> h1 < l2 \<or> h2 < l1"

lemma drf_disj_sym: "drf_disj a b \<longleftrightarrow> drf_disj b a"
  by (cases a; cases b) auto

lemma split_block: "r < 32 \<Longrightarrow> (n::nat) = 32 * q + r \<Longrightarrow> n div 32 = q \<and> n mod 32 = r"
  by simp

lemma same_word:
  fixes lo hi :: nat
  assumes "lo \<le> hi" "hi div 32 = lo div 32"
  shows "lo mod 32 \<le> hi mod 32" "hi mod 32 - lo mod 32 = hi - lo"
    "k \<le> hi - lo \<Longrightarrow> (lo + k) div 32 = lo div 32"
    "k \<le> hi - lo \<Longrightarrow> (lo + k) mod 32 = lo mod 32 + k"
proof -
  have h: "hi = 32 * (lo div 32) + hi mod 32" using assms(2) by (metis mult_div_mod_eq)
  have l: "lo = 32 * (lo div 32) + lo mod 32" by simp
  show 1: "lo mod 32 \<le> hi mod 32" using h l assms(1) by linarith
  show "hi mod 32 - lo mod 32 = hi - lo" using h l by linarith
  assume k: "k \<le> hi - lo"
  have "lo mod 32 + k < 32" using h l k assms(1) mod_less_divisor [of 32 hi] by linarith
  moreover have "lo + k = 32 * (lo div 32) + (lo mod 32 + k)" using l by linarith
  ultimately show "(lo + k) div 32 = lo div 32" "(lo + k) mod 32 = lo mod 32 + k"
    using split_block [of "lo mod 32 + k" "lo + k" "lo div 32"] by auto
qed

lemma bit_DRF_MASK_MW:
  assumes "drf_ok n (MW hi lo)"
  shows "bit (DRF_MASK_MW (MW hi lo)) i \<longleftrightarrow> i \<le> hi - lo"
proof -
  have *: "lo \<le> hi" "hi div 32 = lo div 32" using assms by auto
  have "31 - hi mod 32 + lo mod 32 = 31 - (hi - lo)"
    using same_word(1,2) [OF *] mod_less_divisor [of 32 hi] by linarith
  moreover have "hi - lo \<le> 31"
    using same_word(1,2) [OF *] mod_less_divisor [of 32 hi] by linarith
  ultimately show ?thesis
    by (auto simp: drf_defs bit_simps)
qed

lemma bit_DRF_SHIFTMASK_MW:
  assumes "drf_ok n (MW hi lo)"
  shows "bit (DRF_SHIFTMASK_MW (MW hi lo)) i \<longleftrightarrow> lo mod 32 \<le> i \<and> i \<le> hi mod 32"
proof -
  have *: "lo \<le> hi" "hi div 32 = lo div 32" using assms by auto
  have "bit (DRF_SHIFTMASK_MW (MW hi lo)) i \<longleftrightarrow> i < 32 \<and> lo mod 32 \<le> i \<and> i - lo mod 32 \<le> hi - lo"
    using bit_DRF_MASK_MW [OF assms]
    by (auto simp: DRF_SHIFTMASK_MW_def DRF_SHIFT_MW_def bit_push_bit_iff)
  also have "(i < 32 \<and> lo mod 32 \<le> i \<and> i - lo mod 32 \<le> hi - lo) \<longleftrightarrow> lo mod 32 \<le> i \<and> i \<le> hi mod 32"
    using same_word(1,2) [OF *] mod_less_divisor [of 32 hi] by linarith
  finally show ?thesis .
qed

section \<open>Writing changes the bits of the field, reading returns them\<close>

lemma mw_bit_set:
  assumes "drf_ok (length v) (MW hi lo)"
  shows "mw_bit (FLD_SET_DRF_NUM_MW (MW hi lo) n v) i \<longleftrightarrow>
    (if lo \<le> i \<and> i \<le> hi then bit n (i - lo) else mw_bit v i)"
proof (cases "i div 32 = lo div 32")
  case True
  have *: "lo \<le> hi" "hi div 32 = lo div 32" "lo div 32 < length v" using assms by auto
  have hi: "hi = 32 * (lo div 32) + hi mod 32" using *(2) by (metis mult_div_mod_eq)
  have i: "i = 32 * (lo div 32) + i mod 32" using True by (metis mult_div_mod_eq)
  have l: "lo = 32 * (lo div 32) + lo mod 32" by simp
  have lt: "i mod 32 < 64" "i mod 32 - lo mod 32 < 64"
    using mod_less_divisor [of 32 i] by linarith+
  have "mw_bit (FLD_SET_DRF_NUM_MW (MW hi lo) n v) i \<longleftrightarrow>
     (mw_bit v i \<and> \<not> (lo mod 32 \<le> i mod 32 \<and> i mod 32 \<le> hi mod 32)) \<or>
     (lo mod 32 \<le> i mod 32 \<and> bit n (i mod 32 - lo mod 32) \<and> i mod 32 - lo mod 32 \<le> hi - lo)"
    using *(3) True lt bit_DRF_SHIFTMASK_MW [OF assms] bit_DRF_MASK_MW [OF assms]
    by (auto simp: FLD_SET_DRF_NUM_MW_def FLD_ASSIGN_MW_def FLD_MERGE_MW_def DRF_WORD_MW_def
        DRF_NUM_MW_def DRF_SHIFT_MW_def mw_bit_def bit_simps)
  moreover have "(lo mod 32 \<le> i mod 32 \<and> i mod 32 \<le> hi mod 32) \<longleftrightarrow> lo \<le> i \<and> i \<le> hi"
    using hi i l by linarith
  moreover have "lo mod 32 \<le> i mod 32 \<Longrightarrow> i mod 32 - lo mod 32 = i - lo"
    using i l by linarith
  moreover have "lo mod 32 \<le> i mod 32 \<longleftrightarrow> lo \<le> i" using i l by linarith
  moreover have "lo \<le> i \<Longrightarrow> i - lo \<le> hi - lo \<longleftrightarrow> i \<le> hi" using *(1) by linarith
  ultimately show ?thesis by auto
next
  case False
  have "\<not> (lo \<le> i \<and> i \<le> hi)"
  proof
    assume "lo \<le> i \<and> i \<le> hi"
    then have "lo div 32 \<le> i div 32" "i div 32 \<le> hi div 32" by (simp_all add: div_le_mono)
    with assms False show False by auto
  qed
  with False show ?thesis
    by (auto simp: FLD_SET_DRF_NUM_MW_def FLD_ASSIGN_MW_def DRF_WORD_MW_def mw_bit_def
        nth_list_update_neq)
qed

lemma bit_DRF_VAL_MW_1:
  assumes "drf_ok (length v) (MW hi lo)"
  shows "bit (DRF_VAL_MW (MW hi lo) v) k \<longleftrightarrow> k \<le> hi - lo \<and> mw_bit v (lo + k)"
proof -
  have *: "lo \<le> hi" "hi div 32 = lo div 32" using assms by auto
  have "DRF_VAL_MW (MW hi lo) v = DRF_VAL_MW_1WORD (MW hi lo) v"
    using *(2) by (simp add: DRF_VAL_MW_def DRF_SPANS_def)
  then show ?thesis
    using bit_DRF_MASK_MW [OF assms] same_word(3,4) [OF *]
    by (auto simp: DRF_VAL_MW_1WORD_def DRF_SHIFT_MW_def DRF_WORD_MW_def mw_bit_def bit_simps)
qed

lemma length_FLD_SET [simp]: "length (FLD_SET_DRF_NUM_MW f n v) = length v"
  by (simp add: FLD_SET_DRF_NUM_MW_def FLD_ASSIGN_MW_def)

text \<open>The value a field holds after \<open>n\<close> was written: \<open>n\<close> cut to the field's width.\<close>

fun drf_cut :: "drf \<Rightarrow> NvU64 \<Rightarrow> NvU32" where
  "drf_cut (MW hi lo) n = ucast (take_bit (Suc (hi - lo)) n)"

lemma drf_get_set:
  assumes "drf_ok (length v) f"
  shows "DRF_VAL_MW f (FLD_SET_DRF_NUM_MW f n v) = drf_cut f n"
proof (cases f)
  case (MW hi lo)
  have ok: "drf_ok (length v) (MW hi lo)" using assms MW by simp
  then have ok': "drf_ok (length (FLD_SET_DRF_NUM_MW f n v)) (MW hi lo)" by simp
  have "hi - lo < 32"
    using ok same_word(1,2) [of lo hi] mod_less_divisor [of 32 hi] by auto
  then show ?thesis
    using ok MW by (intro bit_word_eqI)
      (auto simp: bit_DRF_VAL_MW_1 [OF ok' [unfolded MW]] mw_bit_set [OF ok] bit_simps)
qed

lemma drf_get_set_other:
  assumes "drf_ok (length v) f" "drf_ok (length v) g" "drf_disj f g"
  shows "DRF_VAL_MW f (FLD_SET_DRF_NUM_MW g n v) = DRF_VAL_MW f v"
proof (cases f, cases g)
  fix h1 l1 h2 l2 assume f: "f = MW h1 l1" and g: "g = MW h2 l2"
  have ok: "drf_ok (length v) (MW h1 l1)" "drf_ok (length v) (MW h2 l2)" using assms f g by auto
  have ok': "drf_ok (length (FLD_SET_DRF_NUM_MW (MW h2 l2) n v)) (MW h1 l1)" using ok by simp
  show ?thesis
    unfolding f g using ok assms(3) f g
    by (intro bit_word_eqI)
      (auto simp: bit_DRF_VAL_MW_1 [OF ok'] bit_DRF_VAL_MW_1 [OF ok(1)] mw_bit_set [OF ok(2)])
qed

subsection \<open>Reads that span two words\<close>

text \<open>
  \<open>DRF_VAL_MW\<close> is the one macro that also reads fields crossing a word boundary, as long as they
  are at most 32 bits wide: it puts the two pieces together.
\<close>

lemma bit_DRF_VAL_MW_2:
  assumes "lo \<le> hi" "hi - lo < 32" "hi div 32 \<noteq> lo div 32"
  shows "bit (DRF_VAL_MW (MW hi lo) v) k \<longleftrightarrow> k \<le> hi - lo \<and> mw_bit v (lo + k)"
proof -
  define q s e where "q = lo div 32" and "s = lo mod 32" and "e = hi mod 32"
  have s32: "s < 32" and e32: "e < 32" by (simp_all add: s_def e_def)
  have lo: "lo = 32 * q + s" by (simp add: q_def s_def)
  have "lo div 32 \<le> hi div 32" using assms(1) by (rule div_le_mono)
  then have "Suc q \<le> hi div 32" using assms(3) by (simp add: q_def)
  moreover have hi0: "hi = 32 * (hi div 32) + e" by (simp add: e_def)
  ultimately have hq: "hi div 32 = Suc q" using lo assms(2) s32 by linarith
  then have hi: "hi = 32 * q + 32 + e" using hi0 by simp
  have width: "hi - lo = 32 + e - s" using hi lo by linarith
  have es: "e < s" using hi lo assms(2) by linarith
  have ms: "(32 - s) mod 32 = 32 - s" using es by simp
  have val: "DRF_VAL_MW (MW hi lo) v =
      drop_bit s (v ! q) OR push_bit (32 - s) (v ! Suc q AND drop_bit (31 - e) (- 1))"
    using hq ms by (simp add: DRF_VAL_MW_def DRF_SPANS_def DRF_VAL_MW_2WORD_def drf_defs
        q_def [symmetric] s_def [symmetric] e_def [symmetric])
  have low: "s + k < 32 \<Longrightarrow> mw_bit v (lo + k) = bit (v ! q) (s + k)"
    using split_block [of "s + k" "lo + k" q] lo by (simp add: mw_bit_def)
  have high: "32 \<le> s + k \<Longrightarrow> k < 32 \<Longrightarrow> mw_bit v (lo + k) = bit (v ! Suc q) (s + k - 32)"
    using split_block [of "s + k - 32" "lo + k" "Suc q"] lo s32 by (simp add: mw_bit_def)
  consider "s + k < 32" | "32 \<le> s + k" "k < 32" | "32 \<le> k" by linarith
  then show ?thesis
  proof cases
    case 1
    then show ?thesis using low width es by (auto simp: val bit_simps)
  next
    case 2
    have "\<not> bit (v ! q) (s + k)" using 2 bit_imp_le_length [of "v ! q" "s + k"] by auto
    moreover have "k - (32 - s) = s + k - 32" "32 - s \<le> k" using 2 s32 by linarith+
    moreover have "s + k - 32 \<le> e \<longleftrightarrow> k \<le> 32 + e - s" using 2 es s32 by arith
    ultimately show ?thesis
      using high [OF 2] width e32 2 by (auto simp: val bit_simps)
  next
    case 3
    then show ?thesis using width es bit_imp_le_length [of "DRF_VAL_MW (MW hi lo) v" k] by auto
  qed
qed

section \<open>The interface of a bit field store\<close>

text \<open>
  What the code that fills a descriptor relies on. A field that is written reads back as the
  value cut to its width, and a write to another field does not disturb it. The client's lemma:
  after a sequence of writes to fields that are equal or disjoint, a field holds the last value
  written to it.
\<close>

locale bitfield =
  fixes get :: "'f \<Rightarrow> 'm \<Rightarrow> 'r"
    and put :: "'f \<Rightarrow> 'v \<Rightarrow> 'm \<Rightarrow> 'm"
    and cut :: "'f \<Rightarrow> 'v \<Rightarrow> 'r"
    and ok :: "'m \<Rightarrow> 'f \<Rightarrow> bool"
    and disj :: "'f \<Rightarrow> 'f \<Rightarrow> bool"
  assumes get_put: "ok m f \<Longrightarrow> get f (put f n m) = cut f n"
    and get_put_other: "ok m f \<Longrightarrow> ok m g \<Longrightarrow> disj f g \<Longrightarrow> get f (put g n m) = get f m"
    and ok_put: "ok (put g n m) f = ok m f"
begin

lemma ok_writes: "ok (fold (\<lambda>(g, n). put g n) ws m) f = ok m f"
proof (induction ws arbitrary: m)
  case Nil
  show ?case by simp
next
  case (Cons w ws)
  obtain g n where "w = (g, n)" by fastforce
  then show ?case using Cons.IH [of "put g n m"] by (simp only: fold_Cons comp_apply prod.case ok_put)
qed

lemma get_writes:
  assumes "ok m f" and "\<And>g n. (g, n) \<in> set ws \<Longrightarrow> ok m g \<and> (g = f \<or> disj f g)"
  shows "get f (fold (\<lambda>(g, n). put g n) ws m) =
    (case map_of (rev ws) f of None \<Rightarrow> get f m | Some n \<Rightarrow> cut f n)"
  using assms(2)
proof (induction ws rule: rev_induct)
  case Nil
  then show ?case by simp
next
  case (snoc w ws)
  obtain g n where w: "w = (g, n)" by fastforce
  let ?m = "fold (\<lambda>(g, n). put g n) ws m"
  have okf: "ok ?m f" and okg: "ok ?m g" using assms(1) snoc.prems [of g n] w by (auto simp: ok_writes)
  show ?case
  proof (cases "g = f")
    case True
    then show ?thesis using w okf by (simp add: get_put)
  next
    case False
    then have "get f (put g n ?m) = get f ?m"
      using snoc.prems [of g n] w okf okg by (auto intro: get_put_other)
    with False snoc w show ?thesis by auto
  qed
qed

end

interpretation mw: bitfield DRF_VAL_MW FLD_SET_DRF_NUM_MW drf_cut "\<lambda>v. drf_ok (length v)" drf_disj
  by unfold_locales (auto simp: drf_get_set drf_get_set_other)

text \<open>A run of \<open>FLD_SET_DRF_NUM_MW\<close> statements on one array.\<close>

definition FLD_SET_all :: "(drf \<times> NvU64) list \<Rightarrow> NvU32 list \<Rightarrow> NvU32 list" where
  "FLD_SET_all ws v = fold (\<lambda>(g, n). FLD_SET_DRF_NUM_MW g n) ws v"

lemma length_FLD_SET_all [simp]: "length (FLD_SET_all ws v) = length v"
  unfolding FLD_SET_all_def by (induction ws arbitrary: v) auto

lemmas drf_read_written = mw.get_writes [folded FLD_SET_all_def]

lemma FLD_SET_all_append: "FLD_SET_all (ws @ ws') v = FLD_SET_all ws' (FLD_SET_all ws v)"
  by (simp add: FLD_SET_all_def)

text \<open>A 32-bit operand of the macros.\<close>

lemma DRF_NUM_MW_narrow:
  fixes n :: NvU32
  shows "ucast (DRF_NUM_MW f (ucast n)) = push_bit (DRF_SHIFT_MW f) (n AND DRF_MASK_MW f)"
  by (rule bit_word_eqI) (auto simp: DRF_NUM_MW_def bit_simps dest: bit_imp_le_length)

end
