(* ===== verification/Qmd_Tables.thy ===== *)
theory Qmd_Tables
  imports Drf
begin

text \<open>
  The queue meta data layouts of \<open>driverapi/internal/nvidia/cl*qmd.h\<close>, one table per version in
  the order of the header: its fields (\<open>MW(hi:lo)\<close>), its arrays of fields
  (\<open>MW((hi+(i)*stride):(lo+(i)*stride))\<close>) and the values it names for them. Each layout is
  checked against the 64 words of a descriptor: every field lies in one word, as the writing
  macros need, and no two fields share a bit.
\<close>

section \<open>Layouts\<close>

datatype qmd_item =
    Field string drf
  | Fields string nat nat nat  \<comment> \<open>name, hi, lo and stride\<close>
  | Value string nat

text \<open>The constant buffer arrays, the only arrays of the layouts, have eight entries.\<close>

fun item_fields :: "qmd_item \<Rightarrow> drf list" where
  "item_fields (Field n f) = [f]"
| "item_fields (Fields n hi lo st) = map (\<lambda>i. MW (hi + i * st) (lo + i * st)) [0, 1, 2, 3, 4, 5, 6, 7]"
| "item_fields (Value n v) = []"

definition layout_fields :: "qmd_item list \<Rightarrow> drf list" where
  "layout_fields t = concat (map item_fields t)"

definition layout_ok :: "drf list \<Rightarrow> bool" where
  "layout_ok fs \<longleftrightarrow> list_all (drf_ok 64) fs \<and> sorted_wrt drf_disj fs"

text \<open>
  The quadratic condition is checked by insertion into a descending list of ranges, which takes
  few steps because the headers list the fields almost in order.
\<close>

fun ins_range :: "drf \<Rightarrow> drf list \<Rightarrow> drf list option" where
  "ins_range f [] = Some [f]"
| "ins_range (MW h l) (MW h' l' # fs) =
    (if h' < l then Some (MW h l # MW h' l' # fs)
     else if h < l' then map_option (Cons (MW h' l')) (ins_range (MW h l) fs)
     else None)"

fun ins_ranges :: "drf list \<Rightarrow> drf list \<Rightarrow> bool" where
  "ins_ranges acc [] = True"
| "ins_ranges acc (f # fs) =
    (drf_ok 64 f \<and> (case ins_range f acc of None \<Rightarrow> False | Some acc' \<Rightarrow> ins_ranges acc' fs))"

fun above :: "drf \<Rightarrow> drf \<Rightarrow> bool" where
  "above (MW h l) (MW h' l') \<longleftrightarrow> h' < l"

lemma ins_range_sound:
  assumes "ins_range f acc = Some acc'" "sorted_wrt above acc" "list_all (drf_ok 64) acc"
    "drf_ok 64 f"
  shows "sorted_wrt above acc' \<and> set acc' = insert f (set acc) \<and> (\<forall>g \<in> set acc. drf_disj g f)"
  using assms
proof (induction f acc arbitrary: acc' rule: ins_range.induct)
  case (1 f)
  then show ?case by auto
next
  case (2 h l h' l' fs)
  consider "h' < l" | "\<not> h' < l" "h < l'" using 2(2) by (auto split: if_splits)
  then show ?case
  proof cases
    case 1
    have "above (MW h l) g \<and> drf_disj g (MW h l)" if "g \<in> set (MW h' l' # fs)" for g
    proof (cases g)
      case (MW a b)
      from that 2(3) 1 2(4) MW have "a \<le> h'" by (auto simp: list_all_iff)
      with 1 MW show ?thesis by auto
    qed
    with 1 2(2,3) show ?thesis by auto
  next
    case c: 2
    then obtain gs where gs: "ins_range (MW h l) fs = Some gs" "acc' = MW h' l' # gs"
      using 2(2) by auto
    have IH: "sorted_wrt above gs \<and> set gs = insert (MW h l) (set fs) \<and>
        (\<forall>g \<in> set fs. drf_disj g (MW h l))"
      using 2(1) [OF c gs(1)] 2(3,4,5) by simp
    with c gs 2(3) show ?thesis by auto
  qed
qed

lemma ins_ranges_sound:
  "ins_ranges acc fs \<Longrightarrow> sorted_wrt above acc \<Longrightarrow> list_all (drf_ok 64) acc \<Longrightarrow>
   layout_ok fs \<and> (\<forall>f \<in> set fs. \<forall>g \<in> set acc. drf_disj g f)"
proof (induction fs arbitrary: acc)
  case Nil
  then show ?case by (simp add: layout_ok_def)
next
  case (Cons f fs)
  then obtain acc' where acc': "ins_range f acc = Some acc'" "ins_ranges acc' fs" and ok: "drf_ok 64 f"
    by (auto split: option.splits)
  have s: "sorted_wrt above acc'" "set acc' = insert f (set acc)" "\<forall>g \<in> set acc. drf_disj g f"
    using ins_range_sound [OF acc'(1) Cons.prems(2,3) ok] by auto
  then have "list_all (drf_ok 64) acc'" using Cons.prems(3) ok by (auto simp: list_all_iff)
  from Cons.IH [OF acc'(2) s(1) this] s(2,3) ok show ?case
    by (auto simp: layout_ok_def)
qed

lemma layout_okI: "ins_ranges [] fs \<Longrightarrow> layout_ok fs"
  using ins_ranges_sound [of "[]" fs] by simp

lemma layout_okD:
  assumes "layout_ok fs" "i < j" "j < length fs"
  shows "drf_disj (fs ! i) (fs ! j)"
  using assms by (auto simp: layout_ok_def sorted_wrt_iff_nth_less)

section \<open>The tables\<close>

definition A0C0_QMDV00_06_a :: "qmd_item list" where
  "A0C0_QMDV00_06_a =
   [Field ''QMD_RESERVED_V1_A'' (MW 30 0),
    Field ''QMD_RESERVED_V1_B'' (MW 31 31),
    Field ''QMD_RESERVED_V1_C'' (MW 62 32),
    Field ''QMD_RESERVED_V1_D'' (MW 63 63),
    Field ''QMD_RESERVED_V1_E'' (MW 94 64),
    Field ''QMD_RESERVED_V1_F'' (MW 95 95),
    Field ''QMD_RESERVED_V1_G'' (MW 126 96),
    Field ''QMD_RESERVED_V1_H'' (MW 127 127),
    Field ''QMD_RESERVED_A_A'' (MW 159 128),
    Field ''QMD_RESERVED_V1_I'' (MW 191 160),
    Field ''QMD_RESERVED_V1_J'' (MW 196 192),
    Field ''QMD_RESERVED_A'' (MW 199 197),
    Field ''QMD_RESERVED_V1_K'' (MW 200 200),
    Value ''QMD_RESERVED_V1_K_FALSE'' 0,
    Value ''QMD_RESERVED_V1_K_TRUE'' 1,
    Field ''QMD_RESERVED_V1_L'' (MW 201 201),
    Value ''QMD_RESERVED_V1_L_FALSE'' 0,
    Value ''QMD_RESERVED_V1_L_TRUE'' 1,
    Field ''SEMAPHORE_RELEASE_ENABLE0'' (MW 202 202),
    Value ''SEMAPHORE_RELEASE_ENABLE0_FALSE'' 0,
    Value ''SEMAPHORE_RELEASE_ENABLE0_TRUE'' 1,
    Field ''SEMAPHORE_RELEASE_ENABLE1'' (MW 203 203),
    Value ''SEMAPHORE_RELEASE_ENABLE1_FALSE'' 0,
    Value ''SEMAPHORE_RELEASE_ENABLE1_TRUE'' 1,
    Field ''QMD_RESERVED_B'' (MW 207 204),
    Field ''QMD_RESERVED_V1_M'' (MW 222 208),
    Field ''QMD_RESERVED_V1_N'' (MW 223 223),
    Value ''QMD_RESERVED_V1_N_FALSE'' 0,
    Value ''QMD_RESERVED_V1_N_TRUE'' 1,
    Field ''QMD_RESERVED_V1_O'' (MW 248 224),
    Field ''QMD_RESERVED_C'' (MW 249 249),
    Field ''INVALIDATE_TEXTURE_HEADER_CACHE'' (MW 250 250),
    Value ''INVALIDATE_TEXTURE_HEADER_CACHE_FALSE'' 0,
    Value ''INVALIDATE_TEXTURE_HEADER_CACHE_TRUE'' 1,
    Field ''INVALIDATE_TEXTURE_SAMPLER_CACHE'' (MW 251 251),
    Value ''INVALIDATE_TEXTURE_SAMPLER_CACHE_FALSE'' 0,
    Value ''INVALIDATE_TEXTURE_SAMPLER_CACHE_TRUE'' 1,
    Field ''INVALIDATE_TEXTURE_DATA_CACHE'' (MW 252 252),
    Value ''INVALIDATE_TEXTURE_DATA_CACHE_FALSE'' 0,
    Value ''INVALIDATE_TEXTURE_DATA_CACHE_TRUE'' 1,
    Field ''INVALIDATE_SHADER_DATA_CACHE'' (MW 253 253),
    Value ''INVALIDATE_SHADER_DATA_CACHE_FALSE'' 0,
    Value ''INVALIDATE_SHADER_DATA_CACHE_TRUE'' 1,
    Field ''INVALIDATE_INSTRUCTION_CACHE'' (MW 254 254),
    Value ''INVALIDATE_INSTRUCTION_CACHE_FALSE'' 0,
    Value ''INVALIDATE_INSTRUCTION_CACHE_TRUE'' 1,
    Field ''INVALIDATE_SHADER_CONSTANT_CACHE'' (MW 255 255),
    Value ''INVALIDATE_SHADER_CONSTANT_CACHE_FALSE'' 0,
    Value ''INVALIDATE_SHADER_CONSTANT_CACHE_TRUE'' 1,
    Field ''PROGRAM_OFFSET'' (MW 287 256),
    Field ''QMD_RESERVED_V1_P'' (MW 319 288),
    Field ''QMD_RESERVED_V1_Q'' (MW 327 320),
    Field ''QMD_RESERVED_D'' (MW 335 328),
    Field ''QMD_RESERVED_V1_R'' (MW 351 336),
    Field ''QMD_RESERVED_V1_S'' (MW 357 352),
    Field ''QMD_RESERVED_E'' (MW 365 358),
    Field ''RELEASE_MEMBAR_TYPE'' (MW 366 366),
    Value ''RELEASE_MEMBAR_TYPE_FE_NONE'' 0,
    Value ''RELEASE_MEMBAR_TYPE_FE_SYSMEMBAR'' 1,
    Field ''CWD_MEMBAR_TYPE'' (MW 369 368),
    Value ''CWD_MEMBAR_TYPE_L1_NONE'' 0,
    Value ''CWD_MEMBAR_TYPE_L1_SYSMEMBAR'' 1,
    Value ''CWD_MEMBAR_TYPE_L1_MEMBAR'' 3,
    Field ''QMD_RESERVED_V1_T'' (MW 370 370),
    Value ''QMD_RESERVED_V1_T_FALSE'' 0,
    Value ''QMD_RESERVED_V1_T_TRUE'' 1,
    Field ''QMD_RESERVED_V1_U'' (MW 371 371),
    Value ''QMD_RESERVED_V1_U_FALSE'' 0,
    Value ''QMD_RESERVED_V1_U_TRUE'' 1,
    Field ''THROTTLED'' (MW 372 372),
    Value ''THROTTLED_FALSE'' 0,
    Value ''THROTTLED_TRUE'' 1,
    Field ''QMD_RESERVED_E2_A'' (MW 376 376),
    Field ''QMD_RESERVED_E2_B'' (MW 377 377),
    Field ''API_VISIBLE_CALL_LIMIT'' (MW 378 378),
    Value ''API_VISIBLE_CALL_LIMIT__32'' 0,
    Value ''API_VISIBLE_CALL_LIMIT_NO_CHECK'' 1,
    Field ''SHARED_MEMORY_BANK_MAPPING'' (MW 379 379),
    Value ''SHARED_MEMORY_BANK_MAPPING_FOUR_BYTES_PER_BANK'' 0,
    Value ''SHARED_MEMORY_BANK_MAPPING_EIGHT_BYTES_PER_BANK'' 1,
    Field ''SAMPLER_INDEX'' (MW 382 382),
    Value ''SAMPLER_INDEX_INDEPENDENTLY'' 0,
    Value ''SAMPLER_INDEX_VIA_HEADER_INDEX'' 1,
    Field ''QMD_RESERVED_E3_A'' (MW 383 383),
    Field ''CTA_RASTER_WIDTH'' (MW 415 384),
    Field ''CTA_RASTER_HEIGHT'' (MW 431 416),
    Field ''CTA_RASTER_DEPTH'' (MW 447 432),
    Field ''CTA_RASTER_WIDTH_RESUME'' (MW 479 448),
    Field ''CTA_RASTER_HEIGHT_RESUME'' (MW 495 480),
    Field ''CTA_RASTER_DEPTH_RESUME'' (MW 511 496),
    Field ''QMD_RESERVED_V1_V'' (MW 535 512),
    Field ''QMD_RESERVED_F'' (MW 542 536),
    Field ''QMD_RESERVED_V1_W'' (MW 543 543),
    Value ''QMD_RESERVED_V1_W_FALSE'' 0,
    Value ''QMD_RESERVED_V1_W_TRUE'' 1,
    Field ''SHARED_MEMORY_SIZE'' (MW 561 544),
    Field ''QMD_RESERVED_G'' (MW 575 562),
    Field ''QMD_VERSION'' (MW 579 576),
    Field ''QMD_MAJOR_VERSION'' (MW 583 580),
    Field ''QMD_RESERVED_H'' (MW 591 584),
    Field ''CTA_THREAD_DIMENSION0'' (MW 607 592),
    Field ''CTA_THREAD_DIMENSION1'' (MW 623 608),
    Field ''CTA_THREAD_DIMENSION2'' (MW 639 624),
    Fields ''CONSTANT_BUFFER_VALID'' 640 640 1,
    Value ''CONSTANT_BUFFER_VALID_FALSE'' 0,
    Value ''CONSTANT_BUFFER_VALID_TRUE'' 1,
    Field ''QMD_RESERVED_I'' (MW 668 648),
    Field ''L1_CONFIGURATION'' (MW 671 669),
    Value ''L1_CONFIGURATION_DIRECTLY_ADDRESSABLE_MEMORY_SIZE_16KB'' 1,
    Value ''L1_CONFIGURATION_DIRECTLY_ADDRESSABLE_MEMORY_SIZE_32KB'' 2,
    Value ''L1_CONFIGURATION_DIRECTLY_ADDRESSABLE_MEMORY_SIZE_48KB'' 3,
    Field ''QMD_RESERVED_V1_X'' (MW 703 672),
    Field ''QMD_RESERVED_V1_Y'' (MW 735 704),
    Field ''RELEASE0_ADDRESS_LOWER'' (MW 767 736),
    Field ''RELEASE0_ADDRESS_UPPER'' (MW 775 768),
    Field ''QMD_RESERVED_J'' (MW 783 776),
    Field ''RELEASE0_REDUCTION_OP'' (MW 790 788),
    Value ''RELEASE0_REDUCTION_OP_RED_ADD'' 0,
    Value ''RELEASE0_REDUCTION_OP_RED_MIN'' 1,
    Value ''RELEASE0_REDUCTION_OP_RED_MAX'' 2,
    Value ''RELEASE0_REDUCTION_OP_RED_INC'' 3,
    Value ''RELEASE0_REDUCTION_OP_RED_DEC'' 4,
    Value ''RELEASE0_REDUCTION_OP_RED_AND'' 5,
    Value ''RELEASE0_REDUCTION_OP_RED_OR'' 6,
    Value ''RELEASE0_REDUCTION_OP_RED_XOR'' 7,
    Field ''QMD_RESERVED_K'' (MW 791 791),
    Field ''RELEASE0_REDUCTION_FORMAT'' (MW 793 792),
    Value ''RELEASE0_REDUCTION_FORMAT_UNSIGNED_32'' 0,
    Value ''RELEASE0_REDUCTION_FORMAT_SIGNED_32'' 1,
    Field ''RELEASE0_REDUCTION_ENABLE'' (MW 794 794),
    Value ''RELEASE0_REDUCTION_ENABLE_FALSE'' 0,
    Value ''RELEASE0_REDUCTION_ENABLE_TRUE'' 1,
    Field ''RELEASE0_STRUCTURE_SIZE'' (MW 799 799),
    Value ''RELEASE0_STRUCTURE_SIZE_FOUR_WORDS'' 0,
    Value ''RELEASE0_STRUCTURE_SIZE_ONE_WORD'' 1,
    Field ''RELEASE0_PAYLOAD'' (MW 831 800),
    Field ''RELEASE1_ADDRESS_LOWER'' (MW 863 832),
    Field ''RELEASE1_ADDRESS_UPPER'' (MW 871 864),
    Field ''QMD_RESERVED_L'' (MW 879 872),
    Field ''RELEASE1_REDUCTION_OP'' (MW 886 884)]"

definition A0C0_QMDV00_06_b :: "qmd_item list" where
  "A0C0_QMDV00_06_b =
   [Value ''RELEASE1_REDUCTION_OP_RED_ADD'' 0,
    Value ''RELEASE1_REDUCTION_OP_RED_MIN'' 1,
    Value ''RELEASE1_REDUCTION_OP_RED_MAX'' 2,
    Value ''RELEASE1_REDUCTION_OP_RED_INC'' 3,
    Value ''RELEASE1_REDUCTION_OP_RED_DEC'' 4,
    Value ''RELEASE1_REDUCTION_OP_RED_AND'' 5,
    Value ''RELEASE1_REDUCTION_OP_RED_OR'' 6,
    Value ''RELEASE1_REDUCTION_OP_RED_XOR'' 7,
    Field ''QMD_RESERVED_M'' (MW 887 887),
    Field ''RELEASE1_REDUCTION_FORMAT'' (MW 889 888),
    Value ''RELEASE1_REDUCTION_FORMAT_UNSIGNED_32'' 0,
    Value ''RELEASE1_REDUCTION_FORMAT_SIGNED_32'' 1,
    Field ''RELEASE1_REDUCTION_ENABLE'' (MW 890 890),
    Value ''RELEASE1_REDUCTION_ENABLE_FALSE'' 0,
    Value ''RELEASE1_REDUCTION_ENABLE_TRUE'' 1,
    Field ''RELEASE1_STRUCTURE_SIZE'' (MW 895 895),
    Value ''RELEASE1_STRUCTURE_SIZE_FOUR_WORDS'' 0,
    Value ''RELEASE1_STRUCTURE_SIZE_ONE_WORD'' 1,
    Field ''RELEASE1_PAYLOAD'' (MW 927 896),
    Fields ''CONSTANT_BUFFER_ADDR_LOWER'' 959 928 64,
    Fields ''CONSTANT_BUFFER_ADDR_UPPER'' 967 960 64,
    Fields ''CONSTANT_BUFFER_RESERVED_ADDR'' 973 968 64,
    Fields ''CONSTANT_BUFFER_INVALIDATE'' 974 974 64,
    Value ''CONSTANT_BUFFER_INVALIDATE_FALSE'' 0,
    Value ''CONSTANT_BUFFER_INVALIDATE_TRUE'' 1,
    Fields ''CONSTANT_BUFFER_SIZE'' 991 975 64,
    Field ''SHADER_LOCAL_MEMORY_LOW_SIZE'' (MW 1463 1440),
    Field ''QMD_RESERVED_N'' (MW 1466 1464),
    Field ''BARRIER_COUNT'' (MW 1471 1467),
    Field ''SHADER_LOCAL_MEMORY_HIGH_SIZE'' (MW 1495 1472),
    Field ''REGISTER_COUNT'' (MW 1503 1496),
    Field ''SHADER_LOCAL_MEMORY_CRS_SIZE'' (MW 1527 1504),
    Field ''SASS_VERSION'' (MW 1535 1528),
    Field ''QMD_SPARE_A'' (MW 1567 1536),
    Field ''QMD_SPARE_B'' (MW 1599 1568),
    Field ''QMD_SPARE_C'' (MW 1631 1600),
    Field ''QMD_SPARE_D'' (MW 1663 1632),
    Field ''QMD_SPARE_E'' (MW 1695 1664),
    Field ''QMD_SPARE_F'' (MW 1727 1696),
    Field ''QMD_SPARE_G'' (MW 1759 1728),
    Field ''QMD_SPARE_H'' (MW 1791 1760),
    Field ''QMD_SPARE_I'' (MW 1823 1792),
    Field ''QMD_SPARE_J'' (MW 1855 1824),
    Field ''QMD_SPARE_K'' (MW 1887 1856),
    Field ''QMD_SPARE_L'' (MW 1919 1888),
    Field ''QMD_SPARE_M'' (MW 1951 1920),
    Field ''QMD_SPARE_N'' (MW 1983 1952),
    Field ''DEBUG_ID_UPPER'' (MW 2015 1984),
    Field ''DEBUG_ID_LOWER'' (MW 2047 2016)]"

definition A0C0_QMDV01_06_a :: "qmd_item list" where
  "A0C0_QMDV01_06_a =
   [Field ''OUTER_PUT'' (MW 30 0),
    Field ''OUTER_OVERFLOW'' (MW 31 31),
    Field ''OUTER_GET'' (MW 62 32),
    Field ''OUTER_STICKY_OVERFLOW'' (MW 63 63),
    Field ''INNER_GET'' (MW 94 64),
    Field ''INNER_OVERFLOW'' (MW 95 95),
    Field ''INNER_PUT'' (MW 126 96),
    Field ''INNER_STICKY_OVERFLOW'' (MW 127 127),
    Field ''QMD_RESERVED_A_A'' (MW 159 128),
    Field ''SCHEDULER_NEXT_QMD_POINTER'' (MW 191 160),
    Field ''QMD_GROUP_ID'' (MW 197 192),
    Field ''QMD_RESERVED_A'' (MW 199 198),
    Field ''SCHEDULE_ON_PUT_UPDATE_ENABLE'' (MW 200 200),
    Value ''SCHEDULE_ON_PUT_UPDATE_ENABLE_FALSE'' 0,
    Value ''SCHEDULE_ON_PUT_UPDATE_ENABLE_TRUE'' 1,
    Field ''ADD_TO_HEAD_OF_QMD_GROUP_LINKED_LIST'' (MW 201 201),
    Value ''ADD_TO_HEAD_OF_QMD_GROUP_LINKED_LIST_FALSE'' 0,
    Value ''ADD_TO_HEAD_OF_QMD_GROUP_LINKED_LIST_TRUE'' 1,
    Field ''SEMAPHORE_RELEASE_ENABLE0'' (MW 202 202),
    Value ''SEMAPHORE_RELEASE_ENABLE0_FALSE'' 0,
    Value ''SEMAPHORE_RELEASE_ENABLE0_TRUE'' 1,
    Field ''SEMAPHORE_RELEASE_ENABLE1'' (MW 203 203),
    Value ''SEMAPHORE_RELEASE_ENABLE1_FALSE'' 0,
    Value ''SEMAPHORE_RELEASE_ENABLE1_TRUE'' 1,
    Field ''REQUIRE_SCHEDULING_PCAS'' (MW 204 204),
    Value ''REQUIRE_SCHEDULING_PCAS_FALSE'' 0,
    Value ''REQUIRE_SCHEDULING_PCAS_TRUE'' 1,
    Field ''QMD_RESERVED_B'' (MW 207 205),
    Field ''SKED_PRIVATE_LIST_ADDR'' (MW 222 208),
    Field ''SKED_PRIVATE_LIST_VALID'' (MW 223 223),
    Value ''SKED_PRIVATE_LIST_VALID_FALSE'' 0,
    Value ''SKED_PRIVATE_LIST_VALID_TRUE'' 1,
    Field ''CIRCULAR_QUEUE_SIZE'' (MW 248 224),
    Field ''QMD_RESERVED_C'' (MW 249 249),
    Field ''INVALIDATE_TEXTURE_HEADER_CACHE'' (MW 250 250),
    Value ''INVALIDATE_TEXTURE_HEADER_CACHE_FALSE'' 0,
    Value ''INVALIDATE_TEXTURE_HEADER_CACHE_TRUE'' 1,
    Field ''INVALIDATE_TEXTURE_SAMPLER_CACHE'' (MW 251 251),
    Value ''INVALIDATE_TEXTURE_SAMPLER_CACHE_FALSE'' 0,
    Value ''INVALIDATE_TEXTURE_SAMPLER_CACHE_TRUE'' 1,
    Field ''INVALIDATE_TEXTURE_DATA_CACHE'' (MW 252 252),
    Value ''INVALIDATE_TEXTURE_DATA_CACHE_FALSE'' 0,
    Value ''INVALIDATE_TEXTURE_DATA_CACHE_TRUE'' 1,
    Field ''INVALIDATE_SHADER_DATA_CACHE'' (MW 253 253),
    Value ''INVALIDATE_SHADER_DATA_CACHE_FALSE'' 0,
    Value ''INVALIDATE_SHADER_DATA_CACHE_TRUE'' 1,
    Field ''INVALIDATE_INSTRUCTION_CACHE'' (MW 254 254),
    Value ''INVALIDATE_INSTRUCTION_CACHE_FALSE'' 0,
    Value ''INVALIDATE_INSTRUCTION_CACHE_TRUE'' 1,
    Field ''INVALIDATE_SHADER_CONSTANT_CACHE'' (MW 255 255),
    Value ''INVALIDATE_SHADER_CONSTANT_CACHE_FALSE'' 0,
    Value ''INVALIDATE_SHADER_CONSTANT_CACHE_TRUE'' 1,
    Field ''PROGRAM_OFFSET'' (MW 287 256),
    Field ''CIRCULAR_QUEUE_ADDR_LOWER'' (MW 319 288),
    Field ''CIRCULAR_QUEUE_ADDR_UPPER'' (MW 327 320),
    Field ''QMD_RESERVED_D'' (MW 335 328),
    Field ''CIRCULAR_QUEUE_ENTRY_SIZE'' (MW 351 336),
    Field ''CWD_REFERENCE_COUNT_ID'' (MW 357 352),
    Field ''CWD_REFERENCE_COUNT_DELTA_MINUS_ONE'' (MW 365 358),
    Field ''RELEASE_MEMBAR_TYPE'' (MW 366 366),
    Value ''RELEASE_MEMBAR_TYPE_FE_NONE'' 0,
    Value ''RELEASE_MEMBAR_TYPE_FE_SYSMEMBAR'' 1,
    Field ''CWD_REFERENCE_COUNT_INCR_ENABLE'' (MW 367 367),
    Value ''CWD_REFERENCE_COUNT_INCR_ENABLE_FALSE'' 0,
    Value ''CWD_REFERENCE_COUNT_INCR_ENABLE_TRUE'' 1,
    Field ''CWD_MEMBAR_TYPE'' (MW 369 368),
    Value ''CWD_MEMBAR_TYPE_L1_NONE'' 0,
    Value ''CWD_MEMBAR_TYPE_L1_SYSMEMBAR'' 1,
    Value ''CWD_MEMBAR_TYPE_L1_MEMBAR'' 3,
    Field ''SEQUENTIALLY_RUN_CTAS'' (MW 370 370),
    Value ''SEQUENTIALLY_RUN_CTAS_FALSE'' 0,
    Value ''SEQUENTIALLY_RUN_CTAS_TRUE'' 1,
    Field ''CWD_REFERENCE_COUNT_DECR_ENABLE'' (MW 371 371),
    Value ''CWD_REFERENCE_COUNT_DECR_ENABLE_FALSE'' 0,
    Value ''CWD_REFERENCE_COUNT_DECR_ENABLE_TRUE'' 1,
    Field ''THROTTLED'' (MW 372 372),
    Value ''THROTTLED_FALSE'' 0,
    Value ''THROTTLED_TRUE'' 1,
    Field ''FP32_NAN_BEHAVIOR'' (MW 376 376),
    Value ''FP32_NAN_BEHAVIOR_LEGACY'' 0,
    Value ''FP32_NAN_BEHAVIOR_FP64_COMPATIBLE'' 1,
    Field ''FP32_F2I_NAN_BEHAVIOR'' (MW 377 377),
    Value ''FP32_F2I_NAN_BEHAVIOR_PASS_ZERO'' 0,
    Value ''FP32_F2I_NAN_BEHAVIOR_PASS_INDEFINITE'' 1,
    Field ''API_VISIBLE_CALL_LIMIT'' (MW 378 378),
    Value ''API_VISIBLE_CALL_LIMIT__32'' 0,
    Value ''API_VISIBLE_CALL_LIMIT_NO_CHECK'' 1,
    Field ''SHARED_MEMORY_BANK_MAPPING'' (MW 379 379),
    Value ''SHARED_MEMORY_BANK_MAPPING_FOUR_BYTES_PER_BANK'' 0,
    Value ''SHARED_MEMORY_BANK_MAPPING_EIGHT_BYTES_PER_BANK'' 1,
    Field ''SAMPLER_INDEX'' (MW 382 382),
    Value ''SAMPLER_INDEX_INDEPENDENTLY'' 0,
    Value ''SAMPLER_INDEX_VIA_HEADER_INDEX'' 1,
    Field ''FP32_NARROW_INSTRUCTION'' (MW 383 383),
    Value ''FP32_NARROW_INSTRUCTION_KEEP_DENORMS'' 0,
    Value ''FP32_NARROW_INSTRUCTION_FLUSH_DENORMS'' 1,
    Field ''CTA_RASTER_WIDTH'' (MW 415 384),
    Field ''CTA_RASTER_HEIGHT'' (MW 431 416),
    Field ''CTA_RASTER_DEPTH'' (MW 447 432),
    Field ''CTA_RASTER_WIDTH_RESUME'' (MW 479 448),
    Field ''CTA_RASTER_HEIGHT_RESUME'' (MW 495 480),
    Field ''CTA_RASTER_DEPTH_RESUME'' (MW 511 496),
    Field ''LAUNCH_QUOTA'' (MW 535 512),
    Field ''QMD_RESERVED_F'' (MW 542 536),
    Field ''LAUNCH_QUOTA_ENABLE'' (MW 543 543),
    Value ''LAUNCH_QUOTA_ENABLE_FALSE'' 0,
    Value ''LAUNCH_QUOTA_ENABLE_TRUE'' 1,
    Field ''SHARED_MEMORY_SIZE'' (MW 561 544),
    Field ''QMD_RESERVED_G'' (MW 575 562),
    Field ''QMD_VERSION'' (MW 579 576),
    Field ''QMD_MAJOR_VERSION'' (MW 583 580),
    Field ''QMD_RESERVED_H'' (MW 591 584),
    Field ''CTA_THREAD_DIMENSION0'' (MW 607 592),
    Field ''CTA_THREAD_DIMENSION1'' (MW 623 608),
    Field ''CTA_THREAD_DIMENSION2'' (MW 639 624),
    Fields ''CONSTANT_BUFFER_VALID'' 640 640 1,
    Value ''CONSTANT_BUFFER_VALID_FALSE'' 0,
    Value ''CONSTANT_BUFFER_VALID_TRUE'' 1,
    Field ''QMD_RESERVED_I'' (MW 668 648),
    Field ''L1_CONFIGURATION'' (MW 671 669),
    Value ''L1_CONFIGURATION_DIRECTLY_ADDRESSABLE_MEMORY_SIZE_16KB'' 1,
    Value ''L1_CONFIGURATION_DIRECTLY_ADDRESSABLE_MEMORY_SIZE_32KB'' 2,
    Value ''L1_CONFIGURATION_DIRECTLY_ADDRESSABLE_MEMORY_SIZE_48KB'' 3,
    Field ''SM_DISABLE_MASK_LOWER'' (MW 703 672),
    Field ''SM_DISABLE_MASK_UPPER'' (MW 735 704),
    Field ''RELEASE0_ADDRESS_LOWER'' (MW 767 736),
    Field ''RELEASE0_ADDRESS_UPPER'' (MW 775 768),
    Field ''QMD_RESERVED_J'' (MW 783 776),
    Field ''RELEASE0_REDUCTION_OP'' (MW 790 788),
    Value ''RELEASE0_REDUCTION_OP_RED_ADD'' 0,
    Value ''RELEASE0_REDUCTION_OP_RED_MIN'' 1,
    Value ''RELEASE0_REDUCTION_OP_RED_MAX'' 2,
    Value ''RELEASE0_REDUCTION_OP_RED_INC'' 3,
    Value ''RELEASE0_REDUCTION_OP_RED_DEC'' 4,
    Value ''RELEASE0_REDUCTION_OP_RED_AND'' 5,
    Value ''RELEASE0_REDUCTION_OP_RED_OR'' 6,
    Value ''RELEASE0_REDUCTION_OP_RED_XOR'' 7,
    Field ''QMD_RESERVED_K'' (MW 791 791),
    Field ''RELEASE0_REDUCTION_FORMAT'' (MW 793 792),
    Value ''RELEASE0_REDUCTION_FORMAT_UNSIGNED_32'' 0]"

definition A0C0_QMDV01_06_b :: "qmd_item list" where
  "A0C0_QMDV01_06_b =
   [Value ''RELEASE0_REDUCTION_FORMAT_SIGNED_32'' 1,
    Field ''RELEASE0_REDUCTION_ENABLE'' (MW 794 794),
    Value ''RELEASE0_REDUCTION_ENABLE_FALSE'' 0,
    Value ''RELEASE0_REDUCTION_ENABLE_TRUE'' 1,
    Field ''RELEASE0_STRUCTURE_SIZE'' (MW 799 799),
    Value ''RELEASE0_STRUCTURE_SIZE_FOUR_WORDS'' 0,
    Value ''RELEASE0_STRUCTURE_SIZE_ONE_WORD'' 1,
    Field ''RELEASE0_PAYLOAD'' (MW 831 800),
    Field ''RELEASE1_ADDRESS_LOWER'' (MW 863 832),
    Field ''RELEASE1_ADDRESS_UPPER'' (MW 871 864),
    Field ''QMD_RESERVED_L'' (MW 879 872),
    Field ''RELEASE1_REDUCTION_OP'' (MW 886 884),
    Value ''RELEASE1_REDUCTION_OP_RED_ADD'' 0,
    Value ''RELEASE1_REDUCTION_OP_RED_MIN'' 1,
    Value ''RELEASE1_REDUCTION_OP_RED_MAX'' 2,
    Value ''RELEASE1_REDUCTION_OP_RED_INC'' 3,
    Value ''RELEASE1_REDUCTION_OP_RED_DEC'' 4,
    Value ''RELEASE1_REDUCTION_OP_RED_AND'' 5,
    Value ''RELEASE1_REDUCTION_OP_RED_OR'' 6,
    Value ''RELEASE1_REDUCTION_OP_RED_XOR'' 7,
    Field ''QMD_RESERVED_M'' (MW 887 887),
    Field ''RELEASE1_REDUCTION_FORMAT'' (MW 889 888),
    Value ''RELEASE1_REDUCTION_FORMAT_UNSIGNED_32'' 0,
    Value ''RELEASE1_REDUCTION_FORMAT_SIGNED_32'' 1,
    Field ''RELEASE1_REDUCTION_ENABLE'' (MW 890 890),
    Value ''RELEASE1_REDUCTION_ENABLE_FALSE'' 0,
    Value ''RELEASE1_REDUCTION_ENABLE_TRUE'' 1,
    Field ''RELEASE1_STRUCTURE_SIZE'' (MW 895 895),
    Value ''RELEASE1_STRUCTURE_SIZE_FOUR_WORDS'' 0,
    Value ''RELEASE1_STRUCTURE_SIZE_ONE_WORD'' 1,
    Field ''RELEASE1_PAYLOAD'' (MW 927 896),
    Fields ''CONSTANT_BUFFER_ADDR_LOWER'' 959 928 64,
    Fields ''CONSTANT_BUFFER_ADDR_UPPER'' 967 960 64,
    Fields ''CONSTANT_BUFFER_RESERVED_ADDR'' 973 968 64,
    Fields ''CONSTANT_BUFFER_INVALIDATE'' 974 974 64,
    Value ''CONSTANT_BUFFER_INVALIDATE_FALSE'' 0,
    Value ''CONSTANT_BUFFER_INVALIDATE_TRUE'' 1,
    Fields ''CONSTANT_BUFFER_SIZE'' 991 975 64,
    Field ''SHADER_LOCAL_MEMORY_LOW_SIZE'' (MW 1463 1440),
    Field ''QMD_RESERVED_N'' (MW 1466 1464),
    Field ''BARRIER_COUNT'' (MW 1471 1467),
    Field ''SHADER_LOCAL_MEMORY_HIGH_SIZE'' (MW 1495 1472),
    Field ''REGISTER_COUNT'' (MW 1503 1496),
    Field ''SHADER_LOCAL_MEMORY_CRS_SIZE'' (MW 1527 1504),
    Field ''SASS_VERSION'' (MW 1535 1528),
    Field ''HW_ONLY_INNER_GET'' (MW 1566 1536),
    Field ''HW_ONLY_REQUIRE_SCHEDULING_PCAS'' (MW 1567 1567),
    Field ''HW_ONLY_INNER_PUT'' (MW 1598 1568),
    Field ''HW_ONLY_SCHEDULE_ON_PUT_UPDATE_ENABLE'' (MW 1599 1599),
    Field ''QUEUE_ENTRIES_PER_CTA_MINUS_ONE'' (MW 1606 1600),
    Field ''QMD_RESERVED_Q'' (MW 1609 1607),
    Field ''COALESCE_WAITING_PERIOD'' (MW 1617 1610),
    Field ''QMD_RESERVED_R'' (MW 1631 1618),
    Field ''QMD_SPARE_D'' (MW 1663 1632),
    Field ''QMD_SPARE_E'' (MW 1695 1664),
    Field ''QMD_SPARE_F'' (MW 1727 1696),
    Field ''QMD_SPARE_G'' (MW 1759 1728),
    Field ''QMD_SPARE_H'' (MW 1791 1760),
    Field ''QMD_SPARE_I'' (MW 1823 1792),
    Field ''QMD_SPARE_J'' (MW 1855 1824),
    Field ''QMD_SPARE_K'' (MW 1887 1856),
    Field ''QMD_SPARE_L'' (MW 1919 1888),
    Field ''QMD_SPARE_M'' (MW 1951 1920),
    Field ''QMD_SPARE_N'' (MW 1983 1952),
    Field ''DEBUG_ID_UPPER'' (MW 2015 1984),
    Field ''DEBUG_ID_LOWER'' (MW 2047 2016)]"

definition A0C0_QMDV01_07_a :: "qmd_item list" where
  "A0C0_QMDV01_07_a =
   [Field ''OUTER_PUT'' (MW 30 0),
    Field ''OUTER_OVERFLOW'' (MW 31 31),
    Field ''OUTER_GET'' (MW 62 32),
    Field ''OUTER_STICKY_OVERFLOW'' (MW 63 63),
    Field ''INNER_GET'' (MW 94 64),
    Field ''INNER_OVERFLOW'' (MW 95 95),
    Field ''INNER_PUT'' (MW 126 96),
    Field ''INNER_STICKY_OVERFLOW'' (MW 127 127),
    Field ''QMD_RESERVED_A_A'' (MW 159 128),
    Field ''DEPENDENT_QMD_POINTER'' (MW 191 160),
    Field ''QMD_GROUP_ID'' (MW 197 192),
    Field ''QMD_RESERVED_A'' (MW 200 198),
    Field ''ADD_TO_HEAD_OF_QMD_GROUP_LINKED_LIST'' (MW 201 201),
    Value ''ADD_TO_HEAD_OF_QMD_GROUP_LINKED_LIST_FALSE'' 0,
    Value ''ADD_TO_HEAD_OF_QMD_GROUP_LINKED_LIST_TRUE'' 1,
    Field ''SEMAPHORE_RELEASE_ENABLE0'' (MW 202 202),
    Value ''SEMAPHORE_RELEASE_ENABLE0_FALSE'' 0,
    Value ''SEMAPHORE_RELEASE_ENABLE0_TRUE'' 1,
    Field ''SEMAPHORE_RELEASE_ENABLE1'' (MW 203 203),
    Value ''SEMAPHORE_RELEASE_ENABLE1_FALSE'' 0,
    Value ''SEMAPHORE_RELEASE_ENABLE1_TRUE'' 1,
    Field ''REQUIRE_SCHEDULING_PCAS'' (MW 204 204),
    Value ''REQUIRE_SCHEDULING_PCAS_FALSE'' 0,
    Value ''REQUIRE_SCHEDULING_PCAS_TRUE'' 1,
    Field ''DEPENDENT_QMD_SCHEDULE_ENABLE'' (MW 205 205),
    Value ''DEPENDENT_QMD_SCHEDULE_ENABLE_FALSE'' 0,
    Value ''DEPENDENT_QMD_SCHEDULE_ENABLE_TRUE'' 1,
    Field ''DEPENDENT_QMD_TYPE'' (MW 206 206),
    Value ''DEPENDENT_QMD_TYPE_QUEUE'' 0,
    Value ''DEPENDENT_QMD_TYPE_GRID'' 1,
    Field ''DEPENDENT_QMD_FIELD_COPY'' (MW 207 207),
    Value ''DEPENDENT_QMD_FIELD_COPY_FALSE'' 0,
    Value ''DEPENDENT_QMD_FIELD_COPY_TRUE'' 1,
    Field ''QMD_RESERVED_B'' (MW 223 208),
    Field ''CIRCULAR_QUEUE_SIZE'' (MW 248 224),
    Field ''QMD_RESERVED_C'' (MW 249 249),
    Field ''INVALIDATE_TEXTURE_HEADER_CACHE'' (MW 250 250),
    Value ''INVALIDATE_TEXTURE_HEADER_CACHE_FALSE'' 0,
    Value ''INVALIDATE_TEXTURE_HEADER_CACHE_TRUE'' 1,
    Field ''INVALIDATE_TEXTURE_SAMPLER_CACHE'' (MW 251 251),
    Value ''INVALIDATE_TEXTURE_SAMPLER_CACHE_FALSE'' 0,
    Value ''INVALIDATE_TEXTURE_SAMPLER_CACHE_TRUE'' 1,
    Field ''INVALIDATE_TEXTURE_DATA_CACHE'' (MW 252 252),
    Value ''INVALIDATE_TEXTURE_DATA_CACHE_FALSE'' 0,
    Value ''INVALIDATE_TEXTURE_DATA_CACHE_TRUE'' 1,
    Field ''INVALIDATE_SHADER_DATA_CACHE'' (MW 253 253),
    Value ''INVALIDATE_SHADER_DATA_CACHE_FALSE'' 0,
    Value ''INVALIDATE_SHADER_DATA_CACHE_TRUE'' 1,
    Field ''INVALIDATE_INSTRUCTION_CACHE'' (MW 254 254),
    Value ''INVALIDATE_INSTRUCTION_CACHE_FALSE'' 0,
    Value ''INVALIDATE_INSTRUCTION_CACHE_TRUE'' 1,
    Field ''INVALIDATE_SHADER_CONSTANT_CACHE'' (MW 255 255),
    Value ''INVALIDATE_SHADER_CONSTANT_CACHE_FALSE'' 0,
    Value ''INVALIDATE_SHADER_CONSTANT_CACHE_TRUE'' 1,
    Field ''PROGRAM_OFFSET'' (MW 287 256),
    Field ''CIRCULAR_QUEUE_ADDR_LOWER'' (MW 319 288),
    Field ''CIRCULAR_QUEUE_ADDR_UPPER'' (MW 327 320),
    Field ''QMD_RESERVED_D'' (MW 335 328),
    Field ''CIRCULAR_QUEUE_ENTRY_SIZE'' (MW 351 336),
    Field ''CWD_REFERENCE_COUNT_ID'' (MW 357 352),
    Field ''CWD_REFERENCE_COUNT_DELTA_MINUS_ONE'' (MW 365 358),
    Field ''RELEASE_MEMBAR_TYPE'' (MW 366 366),
    Value ''RELEASE_MEMBAR_TYPE_FE_NONE'' 0,
    Value ''RELEASE_MEMBAR_TYPE_FE_SYSMEMBAR'' 1,
    Field ''CWD_REFERENCE_COUNT_INCR_ENABLE'' (MW 367 367),
    Value ''CWD_REFERENCE_COUNT_INCR_ENABLE_FALSE'' 0,
    Value ''CWD_REFERENCE_COUNT_INCR_ENABLE_TRUE'' 1,
    Field ''CWD_MEMBAR_TYPE'' (MW 369 368),
    Value ''CWD_MEMBAR_TYPE_L1_NONE'' 0,
    Value ''CWD_MEMBAR_TYPE_L1_SYSMEMBAR'' 1,
    Value ''CWD_MEMBAR_TYPE_L1_MEMBAR'' 3,
    Field ''SEQUENTIALLY_RUN_CTAS'' (MW 370 370),
    Value ''SEQUENTIALLY_RUN_CTAS_FALSE'' 0,
    Value ''SEQUENTIALLY_RUN_CTAS_TRUE'' 1,
    Field ''CWD_REFERENCE_COUNT_DECR_ENABLE'' (MW 371 371),
    Value ''CWD_REFERENCE_COUNT_DECR_ENABLE_FALSE'' 0,
    Value ''CWD_REFERENCE_COUNT_DECR_ENABLE_TRUE'' 1,
    Field ''THROTTLED'' (MW 372 372),
    Value ''THROTTLED_FALSE'' 0,
    Value ''THROTTLED_TRUE'' 1,
    Field ''FP32_NAN_BEHAVIOR'' (MW 376 376),
    Value ''FP32_NAN_BEHAVIOR_LEGACY'' 0,
    Value ''FP32_NAN_BEHAVIOR_FP64_COMPATIBLE'' 1,
    Field ''FP32_F2I_NAN_BEHAVIOR'' (MW 377 377),
    Value ''FP32_F2I_NAN_BEHAVIOR_PASS_ZERO'' 0,
    Value ''FP32_F2I_NAN_BEHAVIOR_PASS_INDEFINITE'' 1,
    Field ''API_VISIBLE_CALL_LIMIT'' (MW 378 378),
    Value ''API_VISIBLE_CALL_LIMIT__32'' 0,
    Value ''API_VISIBLE_CALL_LIMIT_NO_CHECK'' 1,
    Field ''SHARED_MEMORY_BANK_MAPPING'' (MW 379 379),
    Value ''SHARED_MEMORY_BANK_MAPPING_FOUR_BYTES_PER_BANK'' 0,
    Value ''SHARED_MEMORY_BANK_MAPPING_EIGHT_BYTES_PER_BANK'' 1,
    Field ''SAMPLER_INDEX'' (MW 382 382),
    Value ''SAMPLER_INDEX_INDEPENDENTLY'' 0,
    Value ''SAMPLER_INDEX_VIA_HEADER_INDEX'' 1,
    Field ''FP32_NARROW_INSTRUCTION'' (MW 383 383),
    Value ''FP32_NARROW_INSTRUCTION_KEEP_DENORMS'' 0,
    Value ''FP32_NARROW_INSTRUCTION_FLUSH_DENORMS'' 1,
    Field ''CTA_RASTER_WIDTH'' (MW 415 384),
    Field ''CTA_RASTER_HEIGHT'' (MW 431 416),
    Field ''CTA_RASTER_DEPTH'' (MW 447 432),
    Field ''CTA_RASTER_WIDTH_RESUME'' (MW 479 448),
    Field ''CTA_RASTER_HEIGHT_RESUME'' (MW 495 480),
    Field ''CTA_RASTER_DEPTH_RESUME'' (MW 511 496),
    Field ''QUEUE_ENTRIES_PER_CTA_MINUS_ONE'' (MW 518 512),
    Field ''COALESCE_WAITING_PERIOD'' (MW 529 522),
    Field ''SHARED_MEMORY_SIZE'' (MW 561 544),
    Field ''QMD_RESERVED_G'' (MW 575 562),
    Field ''QMD_VERSION'' (MW 579 576),
    Field ''QMD_MAJOR_VERSION'' (MW 583 580),
    Field ''QMD_RESERVED_H'' (MW 591 584),
    Field ''CTA_THREAD_DIMENSION0'' (MW 607 592),
    Field ''CTA_THREAD_DIMENSION1'' (MW 623 608),
    Field ''CTA_THREAD_DIMENSION2'' (MW 639 624),
    Fields ''CONSTANT_BUFFER_VALID'' 640 640 1,
    Value ''CONSTANT_BUFFER_VALID_FALSE'' 0,
    Value ''CONSTANT_BUFFER_VALID_TRUE'' 1,
    Field ''QMD_RESERVED_I'' (MW 668 648),
    Field ''L1_CONFIGURATION'' (MW 671 669),
    Value ''L1_CONFIGURATION_DIRECTLY_ADDRESSABLE_MEMORY_SIZE_16KB'' 1,
    Value ''L1_CONFIGURATION_DIRECTLY_ADDRESSABLE_MEMORY_SIZE_32KB'' 2,
    Value ''L1_CONFIGURATION_DIRECTLY_ADDRESSABLE_MEMORY_SIZE_48KB'' 3,
    Field ''SM_DISABLE_MASK_LOWER'' (MW 703 672),
    Field ''SM_DISABLE_MASK_UPPER'' (MW 735 704),
    Field ''RELEASE0_ADDRESS_LOWER'' (MW 767 736),
    Field ''RELEASE0_ADDRESS_UPPER'' (MW 775 768),
    Field ''QMD_RESERVED_J'' (MW 783 776),
    Field ''RELEASE0_REDUCTION_OP'' (MW 790 788),
    Value ''RELEASE0_REDUCTION_OP_RED_ADD'' 0,
    Value ''RELEASE0_REDUCTION_OP_RED_MIN'' 1,
    Value ''RELEASE0_REDUCTION_OP_RED_MAX'' 2,
    Value ''RELEASE0_REDUCTION_OP_RED_INC'' 3,
    Value ''RELEASE0_REDUCTION_OP_RED_DEC'' 4,
    Value ''RELEASE0_REDUCTION_OP_RED_AND'' 5,
    Value ''RELEASE0_REDUCTION_OP_RED_OR'' 6,
    Value ''RELEASE0_REDUCTION_OP_RED_XOR'' 7,
    Field ''QMD_RESERVED_K'' (MW 791 791),
    Field ''RELEASE0_REDUCTION_FORMAT'' (MW 793 792),
    Value ''RELEASE0_REDUCTION_FORMAT_UNSIGNED_32'' 0,
    Value ''RELEASE0_REDUCTION_FORMAT_SIGNED_32'' 1]"

definition A0C0_QMDV01_07_b :: "qmd_item list" where
  "A0C0_QMDV01_07_b =
   [Field ''RELEASE0_REDUCTION_ENABLE'' (MW 794 794),
    Value ''RELEASE0_REDUCTION_ENABLE_FALSE'' 0,
    Value ''RELEASE0_REDUCTION_ENABLE_TRUE'' 1,
    Field ''RELEASE0_STRUCTURE_SIZE'' (MW 799 799),
    Value ''RELEASE0_STRUCTURE_SIZE_FOUR_WORDS'' 0,
    Value ''RELEASE0_STRUCTURE_SIZE_ONE_WORD'' 1,
    Field ''RELEASE0_PAYLOAD'' (MW 831 800),
    Field ''RELEASE1_ADDRESS_LOWER'' (MW 863 832),
    Field ''RELEASE1_ADDRESS_UPPER'' (MW 871 864),
    Field ''QMD_RESERVED_L'' (MW 879 872),
    Field ''RELEASE1_REDUCTION_OP'' (MW 886 884),
    Value ''RELEASE1_REDUCTION_OP_RED_ADD'' 0,
    Value ''RELEASE1_REDUCTION_OP_RED_MIN'' 1,
    Value ''RELEASE1_REDUCTION_OP_RED_MAX'' 2,
    Value ''RELEASE1_REDUCTION_OP_RED_INC'' 3,
    Value ''RELEASE1_REDUCTION_OP_RED_DEC'' 4,
    Value ''RELEASE1_REDUCTION_OP_RED_AND'' 5,
    Value ''RELEASE1_REDUCTION_OP_RED_OR'' 6,
    Value ''RELEASE1_REDUCTION_OP_RED_XOR'' 7,
    Field ''QMD_RESERVED_M'' (MW 887 887),
    Field ''RELEASE1_REDUCTION_FORMAT'' (MW 889 888),
    Value ''RELEASE1_REDUCTION_FORMAT_UNSIGNED_32'' 0,
    Value ''RELEASE1_REDUCTION_FORMAT_SIGNED_32'' 1,
    Field ''RELEASE1_REDUCTION_ENABLE'' (MW 890 890),
    Value ''RELEASE1_REDUCTION_ENABLE_FALSE'' 0,
    Value ''RELEASE1_REDUCTION_ENABLE_TRUE'' 1,
    Field ''RELEASE1_STRUCTURE_SIZE'' (MW 895 895),
    Value ''RELEASE1_STRUCTURE_SIZE_FOUR_WORDS'' 0,
    Value ''RELEASE1_STRUCTURE_SIZE_ONE_WORD'' 1,
    Field ''RELEASE1_PAYLOAD'' (MW 927 896),
    Fields ''CONSTANT_BUFFER_ADDR_LOWER'' 959 928 64,
    Fields ''CONSTANT_BUFFER_ADDR_UPPER'' 967 960 64,
    Fields ''CONSTANT_BUFFER_RESERVED_ADDR'' 973 968 64,
    Fields ''CONSTANT_BUFFER_INVALIDATE'' 974 974 64,
    Value ''CONSTANT_BUFFER_INVALIDATE_FALSE'' 0,
    Value ''CONSTANT_BUFFER_INVALIDATE_TRUE'' 1,
    Fields ''CONSTANT_BUFFER_SIZE'' 991 975 64,
    Field ''SHADER_LOCAL_MEMORY_LOW_SIZE'' (MW 1463 1440),
    Field ''QMD_RESERVED_N'' (MW 1466 1464),
    Field ''BARRIER_COUNT'' (MW 1471 1467),
    Field ''SHADER_LOCAL_MEMORY_HIGH_SIZE'' (MW 1495 1472),
    Field ''REGISTER_COUNT'' (MW 1503 1496),
    Field ''SHADER_LOCAL_MEMORY_CRS_SIZE'' (MW 1527 1504),
    Field ''SASS_VERSION'' (MW 1535 1528),
    Field ''HW_ONLY_INNER_GET'' (MW 1566 1536),
    Field ''HW_ONLY_REQUIRE_SCHEDULING_PCAS'' (MW 1567 1567),
    Field ''HW_ONLY_INNER_PUT'' (MW 1598 1568),
    Field ''QMD_RESERVED_P'' (MW 1599 1599),
    Field ''HW_ONLY_SPAN_LIST_HEAD_INDEX'' (MW 1629 1600),
    Field ''QMD_RESERVED_Q'' (MW 1630 1630),
    Field ''HW_ONLY_SPAN_LIST_HEAD_INDEX_VALID'' (MW 1631 1631),
    Value ''HW_ONLY_SPAN_LIST_HEAD_INDEX_VALID_FALSE'' 0,
    Value ''HW_ONLY_SPAN_LIST_HEAD_INDEX_VALID_TRUE'' 1,
    Field ''HW_ONLY_SKED_NEXT_QMD_POINTER'' (MW 1663 1632),
    Field ''QMD_SPARE_E'' (MW 1695 1664),
    Field ''QMD_SPARE_F'' (MW 1727 1696),
    Field ''QMD_SPARE_G'' (MW 1759 1728),
    Field ''QMD_SPARE_H'' (MW 1791 1760),
    Field ''QMD_SPARE_I'' (MW 1823 1792),
    Field ''QMD_SPARE_J'' (MW 1855 1824),
    Field ''QMD_SPARE_K'' (MW 1887 1856),
    Field ''QMD_SPARE_L'' (MW 1919 1888),
    Field ''QMD_SPARE_M'' (MW 1951 1920),
    Field ''QMD_SPARE_N'' (MW 1983 1952),
    Field ''DEBUG_ID_UPPER'' (MW 2015 1984),
    Field ''DEBUG_ID_LOWER'' (MW 2047 2016)]"

definition C3C0_QMDV02_02_a :: "qmd_item list" where
  "C3C0_QMDV02_02_a =
   [Field ''OUTER_PUT'' (MW 30 0),
    Field ''OUTER_OVERFLOW'' (MW 31 31),
    Field ''OUTER_GET'' (MW 62 32),
    Field ''OUTER_STICKY_OVERFLOW'' (MW 63 63),
    Field ''INNER_GET'' (MW 94 64),
    Field ''INNER_OVERFLOW'' (MW 95 95),
    Field ''INNER_PUT'' (MW 126 96),
    Field ''INNER_STICKY_OVERFLOW'' (MW 127 127),
    Field ''QMD_GROUP_ID'' (MW 133 128),
    Field ''SM_GLOBAL_CACHING_ENABLE'' (MW 134 134),
    Field ''RUN_CTA_IN_ONE_SM_PARTITION'' (MW 135 135),
    Value ''RUN_CTA_IN_ONE_SM_PARTITION_FALSE'' 0,
    Value ''RUN_CTA_IN_ONE_SM_PARTITION_TRUE'' 1,
    Field ''IS_QUEUE'' (MW 136 136),
    Value ''IS_QUEUE_FALSE'' 0,
    Value ''IS_QUEUE_TRUE'' 1,
    Field ''ADD_TO_HEAD_OF_QMD_GROUP_LINKED_LIST'' (MW 137 137),
    Value ''ADD_TO_HEAD_OF_QMD_GROUP_LINKED_LIST_FALSE'' 0,
    Value ''ADD_TO_HEAD_OF_QMD_GROUP_LINKED_LIST_TRUE'' 1,
    Field ''SEMAPHORE_RELEASE_ENABLE0'' (MW 138 138),
    Value ''SEMAPHORE_RELEASE_ENABLE0_FALSE'' 0,
    Value ''SEMAPHORE_RELEASE_ENABLE0_TRUE'' 1,
    Field ''SEMAPHORE_RELEASE_ENABLE1'' (MW 139 139),
    Value ''SEMAPHORE_RELEASE_ENABLE1_FALSE'' 0,
    Value ''SEMAPHORE_RELEASE_ENABLE1_TRUE'' 1,
    Field ''REQUIRE_SCHEDULING_PCAS'' (MW 140 140),
    Value ''REQUIRE_SCHEDULING_PCAS_FALSE'' 0,
    Value ''REQUIRE_SCHEDULING_PCAS_TRUE'' 1,
    Field ''DEPENDENT_QMD_SCHEDULE_ENABLE'' (MW 141 141),
    Value ''DEPENDENT_QMD_SCHEDULE_ENABLE_FALSE'' 0,
    Value ''DEPENDENT_QMD_SCHEDULE_ENABLE_TRUE'' 1,
    Field ''DEPENDENT_QMD_TYPE'' (MW 142 142),
    Value ''DEPENDENT_QMD_TYPE_QUEUE'' 0,
    Value ''DEPENDENT_QMD_TYPE_GRID'' 1,
    Field ''DEPENDENT_QMD_FIELD_COPY'' (MW 143 143),
    Value ''DEPENDENT_QMD_FIELD_COPY_FALSE'' 0,
    Value ''DEPENDENT_QMD_FIELD_COPY_TRUE'' 1,
    Field ''QMD_RESERVED_B'' (MW 159 144),
    Field ''CIRCULAR_QUEUE_SIZE'' (MW 184 160),
    Field ''QMD_RESERVED_C'' (MW 185 185),
    Field ''INVALIDATE_TEXTURE_HEADER_CACHE'' (MW 186 186),
    Value ''INVALIDATE_TEXTURE_HEADER_CACHE_FALSE'' 0,
    Value ''INVALIDATE_TEXTURE_HEADER_CACHE_TRUE'' 1,
    Field ''INVALIDATE_TEXTURE_SAMPLER_CACHE'' (MW 187 187),
    Value ''INVALIDATE_TEXTURE_SAMPLER_CACHE_FALSE'' 0,
    Value ''INVALIDATE_TEXTURE_SAMPLER_CACHE_TRUE'' 1,
    Field ''INVALIDATE_TEXTURE_DATA_CACHE'' (MW 188 188),
    Value ''INVALIDATE_TEXTURE_DATA_CACHE_FALSE'' 0,
    Value ''INVALIDATE_TEXTURE_DATA_CACHE_TRUE'' 1,
    Field ''INVALIDATE_SHADER_DATA_CACHE'' (MW 189 189),
    Value ''INVALIDATE_SHADER_DATA_CACHE_FALSE'' 0,
    Value ''INVALIDATE_SHADER_DATA_CACHE_TRUE'' 1,
    Field ''INVALIDATE_INSTRUCTION_CACHE'' (MW 190 190),
    Value ''INVALIDATE_INSTRUCTION_CACHE_FALSE'' 0,
    Value ''INVALIDATE_INSTRUCTION_CACHE_TRUE'' 1,
    Field ''INVALIDATE_SHADER_CONSTANT_CACHE'' (MW 191 191),
    Value ''INVALIDATE_SHADER_CONSTANT_CACHE_FALSE'' 0,
    Value ''INVALIDATE_SHADER_CONSTANT_CACHE_TRUE'' 1,
    Field ''CTA_RASTER_WIDTH_RESUME'' (MW 223 192),
    Field ''CTA_RASTER_HEIGHT_RESUME'' (MW 239 224),
    Field ''CTA_RASTER_DEPTH_RESUME'' (MW 255 240),
    Field ''PROGRAM_OFFSET'' (MW 287 256),
    Field ''CIRCULAR_QUEUE_ADDR_LOWER'' (MW 319 288),
    Field ''CIRCULAR_QUEUE_ADDR_UPPER'' (MW 327 320),
    Field ''QMD_RESERVED_D'' (MW 335 328),
    Field ''CIRCULAR_QUEUE_ENTRY_SIZE'' (MW 351 336),
    Field ''CWD_REFERENCE_COUNT_ID'' (MW 357 352),
    Field ''CWD_REFERENCE_COUNT_DELTA_MINUS_ONE'' (MW 365 358),
    Field ''RELEASE_MEMBAR_TYPE'' (MW 366 366),
    Value ''RELEASE_MEMBAR_TYPE_FE_NONE'' 0,
    Value ''RELEASE_MEMBAR_TYPE_FE_SYSMEMBAR'' 1,
    Field ''CWD_REFERENCE_COUNT_INCR_ENABLE'' (MW 367 367),
    Value ''CWD_REFERENCE_COUNT_INCR_ENABLE_FALSE'' 0,
    Value ''CWD_REFERENCE_COUNT_INCR_ENABLE_TRUE'' 1,
    Field ''CWD_MEMBAR_TYPE'' (MW 369 368),
    Value ''CWD_MEMBAR_TYPE_L1_NONE'' 0,
    Value ''CWD_MEMBAR_TYPE_L1_SYSMEMBAR'' 1,
    Value ''CWD_MEMBAR_TYPE_L1_MEMBAR'' 3,
    Field ''SEQUENTIALLY_RUN_CTAS'' (MW 370 370),
    Value ''SEQUENTIALLY_RUN_CTAS_FALSE'' 0,
    Value ''SEQUENTIALLY_RUN_CTAS_TRUE'' 1,
    Field ''CWD_REFERENCE_COUNT_DECR_ENABLE'' (MW 371 371),
    Value ''CWD_REFERENCE_COUNT_DECR_ENABLE_FALSE'' 0,
    Value ''CWD_REFERENCE_COUNT_DECR_ENABLE_TRUE'' 1,
    Field ''API_VISIBLE_CALL_LIMIT'' (MW 378 378),
    Value ''API_VISIBLE_CALL_LIMIT__32'' 0,
    Value ''API_VISIBLE_CALL_LIMIT_NO_CHECK'' 1,
    Field ''SAMPLER_INDEX'' (MW 382 382),
    Value ''SAMPLER_INDEX_INDEPENDENTLY'' 0,
    Value ''SAMPLER_INDEX_VIA_HEADER_INDEX'' 1,
    Field ''CTA_RASTER_WIDTH'' (MW 415 384),
    Field ''CTA_RASTER_HEIGHT'' (MW 431 416),
    Field ''QMD_RESERVED13A'' (MW 447 432),
    Field ''CTA_RASTER_DEPTH'' (MW 463 448),
    Field ''QMD_RESERVED14A'' (MW 479 464),
    Field ''DEPENDENT_QMD_POINTER'' (MW 511 480),
    Field ''QUEUE_ENTRIES_PER_CTA_MINUS_ONE'' (MW 518 512),
    Field ''COALESCE_WAITING_PERIOD'' (MW 529 522),
    Field ''SHARED_MEMORY_SIZE'' (MW 561 544),
    Field ''MIN_SM_CONFIG_SHARED_MEM_SIZE'' (MW 568 562),
    Field ''MAX_SM_CONFIG_SHARED_MEM_SIZE'' (MW 575 569),
    Field ''QMD_VERSION'' (MW 579 576),
    Field ''QMD_MAJOR_VERSION'' (MW 583 580),
    Field ''QMD_RESERVED_H'' (MW 591 584),
    Field ''CTA_THREAD_DIMENSION0'' (MW 607 592),
    Field ''CTA_THREAD_DIMENSION1'' (MW 623 608),
    Field ''CTA_THREAD_DIMENSION2'' (MW 639 624),
    Fields ''CONSTANT_BUFFER_VALID'' 640 640 1,
    Value ''CONSTANT_BUFFER_VALID_FALSE'' 0,
    Value ''CONSTANT_BUFFER_VALID_TRUE'' 1,
    Field ''REGISTER_COUNT_V'' (MW 656 648),
    Field ''TARGET_SM_CONFIG_SHARED_MEM_SIZE'' (MW 663 657),
    Field ''FREE_CTA_SLOTS_EMPTY_SM'' (MW 671 664),
    Field ''SM_DISABLE_MASK_LOWER'' (MW 703 672),
    Field ''SM_DISABLE_MASK_UPPER'' (MW 735 704),
    Field ''RELEASE0_ADDRESS_LOWER'' (MW 767 736),
    Field ''RELEASE0_ADDRESS_UPPER'' (MW 775 768),
    Field ''QMD_RESERVED_J'' (MW 783 776),
    Field ''RELEASE0_REDUCTION_OP'' (MW 790 788),
    Value ''RELEASE0_REDUCTION_OP_RED_ADD'' 0,
    Value ''RELEASE0_REDUCTION_OP_RED_MIN'' 1,
    Value ''RELEASE0_REDUCTION_OP_RED_MAX'' 2,
    Value ''RELEASE0_REDUCTION_OP_RED_INC'' 3,
    Value ''RELEASE0_REDUCTION_OP_RED_DEC'' 4,
    Value ''RELEASE0_REDUCTION_OP_RED_AND'' 5,
    Value ''RELEASE0_REDUCTION_OP_RED_OR'' 6,
    Value ''RELEASE0_REDUCTION_OP_RED_XOR'' 7,
    Field ''QMD_RESERVED_K'' (MW 791 791),
    Field ''RELEASE0_REDUCTION_FORMAT'' (MW 793 792),
    Value ''RELEASE0_REDUCTION_FORMAT_UNSIGNED_32'' 0,
    Value ''RELEASE0_REDUCTION_FORMAT_SIGNED_32'' 1,
    Field ''RELEASE0_REDUCTION_ENABLE'' (MW 794 794),
    Value ''RELEASE0_REDUCTION_ENABLE_FALSE'' 0,
    Value ''RELEASE0_REDUCTION_ENABLE_TRUE'' 1,
    Field ''RELEASE0_STRUCTURE_SIZE'' (MW 799 799),
    Value ''RELEASE0_STRUCTURE_SIZE_FOUR_WORDS'' 0,
    Value ''RELEASE0_STRUCTURE_SIZE_ONE_WORD'' 1,
    Field ''RELEASE0_PAYLOAD'' (MW 831 800),
    Field ''RELEASE1_ADDRESS_LOWER'' (MW 863 832),
    Field ''RELEASE1_ADDRESS_UPPER'' (MW 871 864)]"

definition C3C0_QMDV02_02_b :: "qmd_item list" where
  "C3C0_QMDV02_02_b =
   [Field ''QMD_RESERVED_L'' (MW 879 872),
    Field ''RELEASE1_REDUCTION_OP'' (MW 886 884),
    Value ''RELEASE1_REDUCTION_OP_RED_ADD'' 0,
    Value ''RELEASE1_REDUCTION_OP_RED_MIN'' 1,
    Value ''RELEASE1_REDUCTION_OP_RED_MAX'' 2,
    Value ''RELEASE1_REDUCTION_OP_RED_INC'' 3,
    Value ''RELEASE1_REDUCTION_OP_RED_DEC'' 4,
    Value ''RELEASE1_REDUCTION_OP_RED_AND'' 5,
    Value ''RELEASE1_REDUCTION_OP_RED_OR'' 6,
    Value ''RELEASE1_REDUCTION_OP_RED_XOR'' 7,
    Field ''QMD_RESERVED_M'' (MW 887 887),
    Field ''RELEASE1_REDUCTION_FORMAT'' (MW 889 888),
    Value ''RELEASE1_REDUCTION_FORMAT_UNSIGNED_32'' 0,
    Value ''RELEASE1_REDUCTION_FORMAT_SIGNED_32'' 1,
    Field ''RELEASE1_REDUCTION_ENABLE'' (MW 890 890),
    Value ''RELEASE1_REDUCTION_ENABLE_FALSE'' 0,
    Value ''RELEASE1_REDUCTION_ENABLE_TRUE'' 1,
    Field ''RELEASE1_STRUCTURE_SIZE'' (MW 895 895),
    Value ''RELEASE1_STRUCTURE_SIZE_FOUR_WORDS'' 0,
    Value ''RELEASE1_STRUCTURE_SIZE_ONE_WORD'' 1,
    Field ''RELEASE1_PAYLOAD'' (MW 927 896),
    Field ''SHADER_LOCAL_MEMORY_LOW_SIZE'' (MW 951 928),
    Field ''QMD_RESERVED_N'' (MW 954 952),
    Field ''BARRIER_COUNT'' (MW 959 955),
    Field ''SHADER_LOCAL_MEMORY_HIGH_SIZE'' (MW 983 960),
    Field ''REGISTER_COUNT'' (MW 991 984),
    Field ''SHADER_LOCAL_MEMORY_CRS_SIZE'' (MW 1015 992),
    Field ''SASS_VERSION'' (MW 1023 1016),
    Fields ''CONSTANT_BUFFER_ADDR_LOWER'' 1055 1024 64,
    Fields ''CONSTANT_BUFFER_ADDR_UPPER'' 1072 1056 64,
    Fields ''CONSTANT_BUFFER_RESERVED_ADDR'' 1073 1073 64,
    Fields ''CONSTANT_BUFFER_INVALIDATE'' 1074 1074 64,
    Value ''CONSTANT_BUFFER_INVALIDATE_FALSE'' 0,
    Value ''CONSTANT_BUFFER_INVALIDATE_TRUE'' 1,
    Fields ''CONSTANT_BUFFER_SIZE_SHIFTED4'' 1087 1075 64,
    Field ''PROGRAM_ADDRESS_LOWER'' (MW 1567 1536),
    Field ''PROGRAM_ADDRESS_UPPER'' (MW 1584 1568),
    Field ''QMD_RESERVED_S'' (MW 1599 1585),
    Field ''HW_ONLY_INNER_GET'' (MW 1630 1600),
    Field ''HW_ONLY_REQUIRE_SCHEDULING_PCAS'' (MW 1631 1631),
    Field ''HW_ONLY_INNER_PUT'' (MW 1662 1632),
    Field ''HW_ONLY_SCG_TYPE'' (MW 1663 1663),
    Field ''HW_ONLY_SPAN_LIST_HEAD_INDEX'' (MW 1693 1664),
    Field ''QMD_RESERVED_Q'' (MW 1694 1694),
    Field ''HW_ONLY_SPAN_LIST_HEAD_INDEX_VALID'' (MW 1695 1695),
    Value ''HW_ONLY_SPAN_LIST_HEAD_INDEX_VALID_FALSE'' 0,
    Value ''HW_ONLY_SPAN_LIST_HEAD_INDEX_VALID_TRUE'' 1,
    Field ''HW_ONLY_SKED_NEXT_QMD_POINTER'' (MW 1727 1696),
    Field ''QMD_SPARE_G'' (MW 1759 1728),
    Field ''QMD_SPARE_H'' (MW 1791 1760),
    Field ''QMD_SPARE_I'' (MW 1823 1792),
    Field ''QMD_SPARE_J'' (MW 1855 1824),
    Field ''QMD_SPARE_K'' (MW 1887 1856),
    Field ''QMD_SPARE_L'' (MW 1919 1888),
    Field ''QMD_SPARE_M'' (MW 1951 1920),
    Field ''QMD_SPARE_N'' (MW 1983 1952),
    Field ''DEBUG_ID_UPPER'' (MW 2015 1984),
    Field ''DEBUG_ID_LOWER'' (MW 2047 2016)]"

definition C5C0_QMDV02_03_a :: "qmd_item list" where
  "C5C0_QMDV02_03_a =
   [Field ''OUTER_PUT'' (MW 30 0),
    Field ''OUTER_OVERFLOW'' (MW 31 31),
    Field ''OUTER_GET'' (MW 62 32),
    Field ''OUTER_STICKY_OVERFLOW'' (MW 63 63),
    Field ''INNER_GET'' (MW 94 64),
    Field ''INNER_OVERFLOW'' (MW 95 95),
    Field ''INNER_PUT'' (MW 126 96),
    Field ''INNER_STICKY_OVERFLOW'' (MW 127 127),
    Field ''QMD_GROUP_ID'' (MW 133 128),
    Field ''SM_GLOBAL_CACHING_ENABLE'' (MW 134 134),
    Field ''RUN_CTA_IN_ONE_SM_PARTITION'' (MW 135 135),
    Value ''RUN_CTA_IN_ONE_SM_PARTITION_FALSE'' 0,
    Value ''RUN_CTA_IN_ONE_SM_PARTITION_TRUE'' 1,
    Field ''IS_QUEUE'' (MW 136 136),
    Value ''IS_QUEUE_FALSE'' 0,
    Value ''IS_QUEUE_TRUE'' 1,
    Field ''ADD_TO_HEAD_OF_QMD_GROUP_LINKED_LIST'' (MW 137 137),
    Value ''ADD_TO_HEAD_OF_QMD_GROUP_LINKED_LIST_FALSE'' 0,
    Value ''ADD_TO_HEAD_OF_QMD_GROUP_LINKED_LIST_TRUE'' 1,
    Field ''SEMAPHORE_RELEASE_ENABLE0'' (MW 138 138),
    Value ''SEMAPHORE_RELEASE_ENABLE0_FALSE'' 0,
    Value ''SEMAPHORE_RELEASE_ENABLE0_TRUE'' 1,
    Field ''SEMAPHORE_RELEASE_ENABLE1'' (MW 139 139),
    Value ''SEMAPHORE_RELEASE_ENABLE1_FALSE'' 0,
    Value ''SEMAPHORE_RELEASE_ENABLE1_TRUE'' 1,
    Field ''REQUIRE_SCHEDULING_PCAS'' (MW 140 140),
    Value ''REQUIRE_SCHEDULING_PCAS_FALSE'' 0,
    Value ''REQUIRE_SCHEDULING_PCAS_TRUE'' 1,
    Field ''DEPENDENT_QMD_SCHEDULE_ENABLE'' (MW 141 141),
    Value ''DEPENDENT_QMD_SCHEDULE_ENABLE_FALSE'' 0,
    Value ''DEPENDENT_QMD_SCHEDULE_ENABLE_TRUE'' 1,
    Field ''DEPENDENT_QMD_TYPE'' (MW 142 142),
    Value ''DEPENDENT_QMD_TYPE_QUEUE'' 0,
    Value ''DEPENDENT_QMD_TYPE_GRID'' 1,
    Field ''DEPENDENT_QMD_FIELD_COPY'' (MW 143 143),
    Value ''DEPENDENT_QMD_FIELD_COPY_FALSE'' 0,
    Value ''DEPENDENT_QMD_FIELD_COPY_TRUE'' 1,
    Field ''QMD_RESERVED_B'' (MW 159 144),
    Field ''CIRCULAR_QUEUE_SIZE'' (MW 184 160),
    Field ''QMD_RESERVED_C'' (MW 185 185),
    Field ''INVALIDATE_TEXTURE_HEADER_CACHE'' (MW 186 186),
    Value ''INVALIDATE_TEXTURE_HEADER_CACHE_FALSE'' 0,
    Value ''INVALIDATE_TEXTURE_HEADER_CACHE_TRUE'' 1,
    Field ''INVALIDATE_TEXTURE_SAMPLER_CACHE'' (MW 187 187),
    Value ''INVALIDATE_TEXTURE_SAMPLER_CACHE_FALSE'' 0,
    Value ''INVALIDATE_TEXTURE_SAMPLER_CACHE_TRUE'' 1,
    Field ''INVALIDATE_TEXTURE_DATA_CACHE'' (MW 188 188),
    Value ''INVALIDATE_TEXTURE_DATA_CACHE_FALSE'' 0,
    Value ''INVALIDATE_TEXTURE_DATA_CACHE_TRUE'' 1,
    Field ''INVALIDATE_SHADER_DATA_CACHE'' (MW 189 189),
    Value ''INVALIDATE_SHADER_DATA_CACHE_FALSE'' 0,
    Value ''INVALIDATE_SHADER_DATA_CACHE_TRUE'' 1,
    Field ''INVALIDATE_INSTRUCTION_CACHE'' (MW 190 190),
    Value ''INVALIDATE_INSTRUCTION_CACHE_FALSE'' 0,
    Value ''INVALIDATE_INSTRUCTION_CACHE_TRUE'' 1,
    Field ''INVALIDATE_SHADER_CONSTANT_CACHE'' (MW 191 191),
    Value ''INVALIDATE_SHADER_CONSTANT_CACHE_FALSE'' 0,
    Value ''INVALIDATE_SHADER_CONSTANT_CACHE_TRUE'' 1,
    Field ''CTA_RASTER_WIDTH_RESUME'' (MW 223 192),
    Field ''CTA_RASTER_HEIGHT_RESUME'' (MW 239 224),
    Field ''CTA_RASTER_DEPTH_RESUME'' (MW 255 240),
    Field ''PROGRAM_PREFETCH_ADDR_LOWER_SHIFTED'' (MW 287 256),
    Field ''CIRCULAR_QUEUE_ADDR_LOWER'' (MW 319 288),
    Field ''CIRCULAR_QUEUE_ADDR_UPPER'' (MW 327 320),
    Field ''QMD_RESERVED_D'' (MW 335 328),
    Field ''CIRCULAR_QUEUE_ENTRY_SIZE'' (MW 351 336),
    Field ''CWD_REFERENCE_COUNT_ID'' (MW 357 352),
    Field ''CWD_REFERENCE_COUNT_DELTA_MINUS_ONE'' (MW 365 358),
    Field ''RELEASE_MEMBAR_TYPE'' (MW 366 366),
    Value ''RELEASE_MEMBAR_TYPE_FE_NONE'' 0,
    Value ''RELEASE_MEMBAR_TYPE_FE_SYSMEMBAR'' 1,
    Field ''CWD_REFERENCE_COUNT_INCR_ENABLE'' (MW 367 367),
    Value ''CWD_REFERENCE_COUNT_INCR_ENABLE_FALSE'' 0,
    Value ''CWD_REFERENCE_COUNT_INCR_ENABLE_TRUE'' 1,
    Field ''CWD_MEMBAR_TYPE'' (MW 369 368),
    Value ''CWD_MEMBAR_TYPE_L1_NONE'' 0,
    Value ''CWD_MEMBAR_TYPE_L1_SYSMEMBAR'' 1,
    Value ''CWD_MEMBAR_TYPE_L1_MEMBAR'' 3,
    Field ''SEQUENTIALLY_RUN_CTAS'' (MW 370 370),
    Value ''SEQUENTIALLY_RUN_CTAS_FALSE'' 0,
    Value ''SEQUENTIALLY_RUN_CTAS_TRUE'' 1,
    Field ''CWD_REFERENCE_COUNT_DECR_ENABLE'' (MW 371 371),
    Value ''CWD_REFERENCE_COUNT_DECR_ENABLE_FALSE'' 0,
    Value ''CWD_REFERENCE_COUNT_DECR_ENABLE_TRUE'' 1,
    Field ''API_VISIBLE_CALL_LIMIT'' (MW 378 378),
    Value ''API_VISIBLE_CALL_LIMIT__32'' 0,
    Value ''API_VISIBLE_CALL_LIMIT_NO_CHECK'' 1,
    Field ''SAMPLER_INDEX'' (MW 382 382),
    Value ''SAMPLER_INDEX_INDEPENDENTLY'' 0,
    Value ''SAMPLER_INDEX_VIA_HEADER_INDEX'' 1,
    Field ''CTA_RASTER_WIDTH'' (MW 415 384),
    Field ''CTA_RASTER_HEIGHT'' (MW 431 416),
    Field ''QMD_RESERVED13A'' (MW 447 432),
    Field ''CTA_RASTER_DEPTH'' (MW 463 448),
    Field ''QMD_RESERVED14A'' (MW 479 464),
    Field ''DEPENDENT_QMD_POINTER'' (MW 511 480),
    Field ''COALESCE_WAITING_PERIOD'' (MW 529 522),
    Field ''QUEUE_ENTRIES_PER_CTA_LOG2'' (MW 534 530),
    Field ''SHARED_MEMORY_SIZE'' (MW 561 544),
    Field ''MIN_SM_CONFIG_SHARED_MEM_SIZE'' (MW 568 562),
    Field ''MAX_SM_CONFIG_SHARED_MEM_SIZE'' (MW 575 569),
    Field ''QMD_VERSION'' (MW 579 576),
    Field ''QMD_MAJOR_VERSION'' (MW 583 580),
    Field ''QMD_RESERVED_H'' (MW 591 584),
    Field ''CTA_THREAD_DIMENSION0'' (MW 607 592),
    Field ''CTA_THREAD_DIMENSION1'' (MW 623 608),
    Field ''CTA_THREAD_DIMENSION2'' (MW 639 624),
    Fields ''CONSTANT_BUFFER_VALID'' 640 640 1,
    Value ''CONSTANT_BUFFER_VALID_FALSE'' 0,
    Value ''CONSTANT_BUFFER_VALID_TRUE'' 1,
    Field ''REGISTER_COUNT_V'' (MW 656 648),
    Field ''TARGET_SM_CONFIG_SHARED_MEM_SIZE'' (MW 663 657),
    Field ''FREE_CTA_SLOTS_EMPTY_SM'' (MW 671 664),
    Field ''SM_DISABLE_MASK_LOWER'' (MW 703 672),
    Field ''SM_DISABLE_MASK_UPPER'' (MW 735 704),
    Field ''RELEASE0_ADDRESS_LOWER'' (MW 767 736),
    Field ''RELEASE0_ADDRESS_UPPER'' (MW 775 768),
    Field ''QMD_RESERVED_J'' (MW 783 776),
    Field ''RELEASE0_REDUCTION_OP'' (MW 790 788),
    Value ''RELEASE0_REDUCTION_OP_RED_ADD'' 0,
    Value ''RELEASE0_REDUCTION_OP_RED_MIN'' 1,
    Value ''RELEASE0_REDUCTION_OP_RED_MAX'' 2,
    Value ''RELEASE0_REDUCTION_OP_RED_INC'' 3,
    Value ''RELEASE0_REDUCTION_OP_RED_DEC'' 4,
    Value ''RELEASE0_REDUCTION_OP_RED_AND'' 5,
    Value ''RELEASE0_REDUCTION_OP_RED_OR'' 6,
    Value ''RELEASE0_REDUCTION_OP_RED_XOR'' 7,
    Field ''QMD_RESERVED_K'' (MW 791 791),
    Field ''RELEASE0_REDUCTION_FORMAT'' (MW 793 792),
    Value ''RELEASE0_REDUCTION_FORMAT_UNSIGNED_32'' 0,
    Value ''RELEASE0_REDUCTION_FORMAT_SIGNED_32'' 1,
    Field ''RELEASE0_REDUCTION_ENABLE'' (MW 794 794),
    Value ''RELEASE0_REDUCTION_ENABLE_FALSE'' 0,
    Value ''RELEASE0_REDUCTION_ENABLE_TRUE'' 1,
    Field ''RELEASE0_STRUCTURE_SIZE'' (MW 799 799),
    Value ''RELEASE0_STRUCTURE_SIZE_FOUR_WORDS'' 0,
    Value ''RELEASE0_STRUCTURE_SIZE_ONE_WORD'' 1,
    Field ''RELEASE0_PAYLOAD'' (MW 831 800),
    Field ''RELEASE1_ADDRESS_LOWER'' (MW 863 832),
    Field ''RELEASE1_ADDRESS_UPPER'' (MW 871 864)]"

definition C5C0_QMDV02_03_b :: "qmd_item list" where
  "C5C0_QMDV02_03_b =
   [Field ''QMD_RESERVED_L'' (MW 879 872),
    Field ''RELEASE1_REDUCTION_OP'' (MW 886 884),
    Value ''RELEASE1_REDUCTION_OP_RED_ADD'' 0,
    Value ''RELEASE1_REDUCTION_OP_RED_MIN'' 1,
    Value ''RELEASE1_REDUCTION_OP_RED_MAX'' 2,
    Value ''RELEASE1_REDUCTION_OP_RED_INC'' 3,
    Value ''RELEASE1_REDUCTION_OP_RED_DEC'' 4,
    Value ''RELEASE1_REDUCTION_OP_RED_AND'' 5,
    Value ''RELEASE1_REDUCTION_OP_RED_OR'' 6,
    Value ''RELEASE1_REDUCTION_OP_RED_XOR'' 7,
    Field ''QMD_RESERVED_M'' (MW 887 887),
    Field ''RELEASE1_REDUCTION_FORMAT'' (MW 889 888),
    Value ''RELEASE1_REDUCTION_FORMAT_UNSIGNED_32'' 0,
    Value ''RELEASE1_REDUCTION_FORMAT_SIGNED_32'' 1,
    Field ''RELEASE1_REDUCTION_ENABLE'' (MW 890 890),
    Value ''RELEASE1_REDUCTION_ENABLE_FALSE'' 0,
    Value ''RELEASE1_REDUCTION_ENABLE_TRUE'' 1,
    Field ''RELEASE1_STRUCTURE_SIZE'' (MW 895 895),
    Value ''RELEASE1_STRUCTURE_SIZE_FOUR_WORDS'' 0,
    Value ''RELEASE1_STRUCTURE_SIZE_ONE_WORD'' 1,
    Field ''RELEASE1_PAYLOAD'' (MW 927 896),
    Field ''SHADER_LOCAL_MEMORY_LOW_SIZE'' (MW 951 928),
    Field ''QMD_RESERVED_N'' (MW 954 952),
    Field ''BARRIER_COUNT'' (MW 959 955),
    Field ''SHADER_LOCAL_MEMORY_HIGH_SIZE'' (MW 983 960),
    Field ''REGISTER_COUNT'' (MW 991 984),
    Field ''PROGRAM_PREFETCH_ADDR_UPPER_SHIFTED'' (MW 1000 992),
    Field ''PROGRAM_PREFETCH_SIZE'' (MW 1009 1001),
    Field ''QMD_RESERVED_A'' (MW 1015 1010),
    Field ''SASS_VERSION'' (MW 1023 1016),
    Fields ''CONSTANT_BUFFER_ADDR_LOWER'' 1055 1024 64,
    Fields ''CONSTANT_BUFFER_ADDR_UPPER'' 1072 1056 64,
    Fields ''CONSTANT_BUFFER_RESERVED_ADDR'' 1073 1073 64,
    Fields ''CONSTANT_BUFFER_INVALIDATE'' 1074 1074 64,
    Value ''CONSTANT_BUFFER_INVALIDATE_FALSE'' 0,
    Value ''CONSTANT_BUFFER_INVALIDATE_TRUE'' 1,
    Fields ''CONSTANT_BUFFER_SIZE_SHIFTED4'' 1087 1075 64,
    Field ''PROGRAM_ADDRESS_LOWER'' (MW 1567 1536),
    Field ''PROGRAM_ADDRESS_UPPER'' (MW 1584 1568),
    Field ''QMD_RESERVED_S'' (MW 1599 1585),
    Field ''HW_ONLY_INNER_GET'' (MW 1630 1600),
    Field ''HW_ONLY_REQUIRE_SCHEDULING_PCAS'' (MW 1631 1631),
    Field ''HW_ONLY_INNER_PUT'' (MW 1662 1632),
    Field ''HW_ONLY_SCG_TYPE'' (MW 1663 1663),
    Field ''HW_ONLY_SPAN_LIST_HEAD_INDEX'' (MW 1693 1664),
    Field ''QMD_RESERVED_Q'' (MW 1694 1694),
    Field ''HW_ONLY_SPAN_LIST_HEAD_INDEX_VALID'' (MW 1695 1695),
    Value ''HW_ONLY_SPAN_LIST_HEAD_INDEX_VALID_FALSE'' 0,
    Value ''HW_ONLY_SPAN_LIST_HEAD_INDEX_VALID_TRUE'' 1,
    Field ''HW_ONLY_SKED_NEXT_QMD_POINTER'' (MW 1727 1696),
    Field ''QMD_SPARE_G'' (MW 1759 1728),
    Field ''QMD_SPARE_H'' (MW 1791 1760),
    Field ''QMD_SPARE_I'' (MW 1823 1792),
    Field ''QMD_SPARE_J'' (MW 1855 1824),
    Field ''QMD_SPARE_K'' (MW 1887 1856),
    Field ''QMD_SPARE_L'' (MW 1919 1888),
    Field ''QMD_SPARE_M'' (MW 1951 1920),
    Field ''QMD_SPARE_N'' (MW 1983 1952),
    Field ''DEBUG_ID_UPPER'' (MW 2015 1984),
    Field ''DEBUG_ID_LOWER'' (MW 2047 2016)]"

definition C6C0_QMDV02_03_a :: "qmd_item list" where
  "C6C0_QMDV02_03_a =
   [Field ''OUTER_PUT'' (MW 30 0),
    Field ''OUTER_OVERFLOW'' (MW 31 31),
    Field ''OUTER_GET'' (MW 62 32),
    Field ''OUTER_STICKY_OVERFLOW'' (MW 63 63),
    Field ''INNER_GET'' (MW 94 64),
    Field ''INNER_OVERFLOW'' (MW 95 95),
    Field ''INNER_PUT'' (MW 126 96),
    Field ''INNER_STICKY_OVERFLOW'' (MW 127 127),
    Field ''QMD_GROUP_ID'' (MW 133 128),
    Field ''SM_GLOBAL_CACHING_ENABLE'' (MW 134 134),
    Field ''RUN_CTA_IN_ONE_SM_PARTITION'' (MW 135 135),
    Value ''RUN_CTA_IN_ONE_SM_PARTITION_FALSE'' 0,
    Value ''RUN_CTA_IN_ONE_SM_PARTITION_TRUE'' 1,
    Field ''IS_QUEUE'' (MW 136 136),
    Value ''IS_QUEUE_FALSE'' 0,
    Value ''IS_QUEUE_TRUE'' 1,
    Field ''ADD_TO_HEAD_OF_QMD_GROUP_LINKED_LIST'' (MW 137 137),
    Value ''ADD_TO_HEAD_OF_QMD_GROUP_LINKED_LIST_FALSE'' 0,
    Value ''ADD_TO_HEAD_OF_QMD_GROUP_LINKED_LIST_TRUE'' 1,
    Field ''SEMAPHORE_RELEASE_ENABLE0'' (MW 138 138),
    Value ''SEMAPHORE_RELEASE_ENABLE0_FALSE'' 0,
    Value ''SEMAPHORE_RELEASE_ENABLE0_TRUE'' 1,
    Field ''SEMAPHORE_RELEASE_ENABLE1'' (MW 139 139),
    Value ''SEMAPHORE_RELEASE_ENABLE1_FALSE'' 0,
    Value ''SEMAPHORE_RELEASE_ENABLE1_TRUE'' 1,
    Field ''REQUIRE_SCHEDULING_PCAS'' (MW 140 140),
    Value ''REQUIRE_SCHEDULING_PCAS_FALSE'' 0,
    Value ''REQUIRE_SCHEDULING_PCAS_TRUE'' 1,
    Field ''DEPENDENT_QMD_SCHEDULE_ENABLE'' (MW 141 141),
    Value ''DEPENDENT_QMD_SCHEDULE_ENABLE_FALSE'' 0,
    Value ''DEPENDENT_QMD_SCHEDULE_ENABLE_TRUE'' 1,
    Field ''DEPENDENT_QMD_TYPE'' (MW 142 142),
    Value ''DEPENDENT_QMD_TYPE_QUEUE'' 0,
    Value ''DEPENDENT_QMD_TYPE_GRID'' 1,
    Field ''DEPENDENT_QMD_FIELD_COPY'' (MW 143 143),
    Value ''DEPENDENT_QMD_FIELD_COPY_FALSE'' 0,
    Value ''DEPENDENT_QMD_FIELD_COPY_TRUE'' 1,
    Field ''QMD_RESERVED_B'' (MW 159 144),
    Field ''CIRCULAR_QUEUE_SIZE'' (MW 184 160),
    Field ''QMD_RESERVED_C'' (MW 185 185),
    Field ''INVALIDATE_TEXTURE_HEADER_CACHE'' (MW 186 186),
    Value ''INVALIDATE_TEXTURE_HEADER_CACHE_FALSE'' 0,
    Value ''INVALIDATE_TEXTURE_HEADER_CACHE_TRUE'' 1,
    Field ''INVALIDATE_TEXTURE_SAMPLER_CACHE'' (MW 187 187),
    Value ''INVALIDATE_TEXTURE_SAMPLER_CACHE_FALSE'' 0,
    Value ''INVALIDATE_TEXTURE_SAMPLER_CACHE_TRUE'' 1,
    Field ''INVALIDATE_TEXTURE_DATA_CACHE'' (MW 188 188),
    Value ''INVALIDATE_TEXTURE_DATA_CACHE_FALSE'' 0,
    Value ''INVALIDATE_TEXTURE_DATA_CACHE_TRUE'' 1,
    Field ''INVALIDATE_SHADER_DATA_CACHE'' (MW 189 189),
    Value ''INVALIDATE_SHADER_DATA_CACHE_FALSE'' 0,
    Value ''INVALIDATE_SHADER_DATA_CACHE_TRUE'' 1,
    Field ''INVALIDATE_INSTRUCTION_CACHE'' (MW 190 190),
    Value ''INVALIDATE_INSTRUCTION_CACHE_FALSE'' 0,
    Value ''INVALIDATE_INSTRUCTION_CACHE_TRUE'' 1,
    Field ''INVALIDATE_SHADER_CONSTANT_CACHE'' (MW 191 191),
    Value ''INVALIDATE_SHADER_CONSTANT_CACHE_FALSE'' 0,
    Value ''INVALIDATE_SHADER_CONSTANT_CACHE_TRUE'' 1,
    Field ''CTA_RASTER_WIDTH_RESUME'' (MW 223 192),
    Field ''CTA_RASTER_HEIGHT_RESUME'' (MW 239 224),
    Field ''CTA_RASTER_DEPTH_RESUME'' (MW 255 240),
    Field ''PROGRAM_PREFETCH_ADDR_LOWER_SHIFTED'' (MW 287 256),
    Field ''CIRCULAR_QUEUE_ADDR_LOWER'' (MW 319 288),
    Field ''CIRCULAR_QUEUE_ADDR_UPPER'' (MW 327 320),
    Field ''QMD_RESERVED_D'' (MW 335 328),
    Field ''CIRCULAR_QUEUE_ENTRY_SIZE'' (MW 351 336),
    Field ''CWD_REFERENCE_COUNT_ID'' (MW 357 352),
    Field ''CWD_REFERENCE_COUNT_DELTA_MINUS_ONE'' (MW 365 358),
    Field ''RELEASE_MEMBAR_TYPE'' (MW 366 366),
    Value ''RELEASE_MEMBAR_TYPE_FE_NONE'' 0,
    Value ''RELEASE_MEMBAR_TYPE_FE_SYSMEMBAR'' 1,
    Field ''CWD_REFERENCE_COUNT_INCR_ENABLE'' (MW 367 367),
    Value ''CWD_REFERENCE_COUNT_INCR_ENABLE_FALSE'' 0,
    Value ''CWD_REFERENCE_COUNT_INCR_ENABLE_TRUE'' 1,
    Field ''CWD_MEMBAR_TYPE'' (MW 369 368),
    Value ''CWD_MEMBAR_TYPE_L1_NONE'' 0,
    Value ''CWD_MEMBAR_TYPE_L1_SYSMEMBAR'' 1,
    Value ''CWD_MEMBAR_TYPE_L1_MEMBAR'' 3,
    Field ''SEQUENTIALLY_RUN_CTAS'' (MW 370 370),
    Value ''SEQUENTIALLY_RUN_CTAS_FALSE'' 0,
    Value ''SEQUENTIALLY_RUN_CTAS_TRUE'' 1,
    Field ''CWD_REFERENCE_COUNT_DECR_ENABLE'' (MW 371 371),
    Value ''CWD_REFERENCE_COUNT_DECR_ENABLE_FALSE'' 0,
    Value ''CWD_REFERENCE_COUNT_DECR_ENABLE_TRUE'' 1,
    Field ''API_VISIBLE_CALL_LIMIT'' (MW 378 378),
    Value ''API_VISIBLE_CALL_LIMIT__32'' 0,
    Value ''API_VISIBLE_CALL_LIMIT_NO_CHECK'' 1,
    Field ''SAMPLER_INDEX'' (MW 382 382),
    Value ''SAMPLER_INDEX_INDEPENDENTLY'' 0,
    Value ''SAMPLER_INDEX_VIA_HEADER_INDEX'' 1,
    Field ''CTA_RASTER_WIDTH'' (MW 415 384),
    Field ''CTA_RASTER_HEIGHT'' (MW 431 416),
    Field ''QMD_RESERVED13A'' (MW 447 432),
    Field ''CTA_RASTER_DEPTH'' (MW 463 448),
    Field ''QMD_RESERVED14A'' (MW 479 464),
    Field ''DEPENDENT_QMD_POINTER'' (MW 511 480),
    Field ''COALESCE_WAITING_PERIOD'' (MW 529 522),
    Field ''QUEUE_ENTRIES_PER_CTA_LOG2'' (MW 534 530),
    Field ''SHARED_MEMORY_SIZE'' (MW 561 544),
    Field ''MIN_SM_CONFIG_SHARED_MEM_SIZE'' (MW 568 562),
    Field ''MAX_SM_CONFIG_SHARED_MEM_SIZE'' (MW 575 569),
    Field ''QMD_VERSION'' (MW 579 576),
    Field ''QMD_MAJOR_VERSION'' (MW 583 580),
    Field ''QMD_RESERVED_H'' (MW 591 584),
    Field ''CTA_THREAD_DIMENSION0'' (MW 607 592),
    Field ''CTA_THREAD_DIMENSION1'' (MW 623 608),
    Field ''CTA_THREAD_DIMENSION2'' (MW 639 624),
    Fields ''CONSTANT_BUFFER_VALID'' 640 640 1,
    Value ''CONSTANT_BUFFER_VALID_FALSE'' 0,
    Value ''CONSTANT_BUFFER_VALID_TRUE'' 1,
    Field ''REGISTER_COUNT_V'' (MW 656 648),
    Field ''TARGET_SM_CONFIG_SHARED_MEM_SIZE'' (MW 663 657),
    Field ''FREE_CTA_SLOTS_EMPTY_SM'' (MW 671 664),
    Field ''SM_DISABLE_MASK_LOWER'' (MW 703 672),
    Field ''SM_DISABLE_MASK_UPPER'' (MW 735 704),
    Field ''RELEASE0_ADDRESS_LOWER'' (MW 767 736),
    Field ''RELEASE0_ADDRESS_UPPER'' (MW 775 768),
    Field ''QMD_RESERVED_J'' (MW 783 776),
    Field ''RELEASE0_REDUCTION_OP'' (MW 790 788),
    Value ''RELEASE0_REDUCTION_OP_RED_ADD'' 0,
    Value ''RELEASE0_REDUCTION_OP_RED_MIN'' 1,
    Value ''RELEASE0_REDUCTION_OP_RED_MAX'' 2,
    Value ''RELEASE0_REDUCTION_OP_RED_INC'' 3,
    Value ''RELEASE0_REDUCTION_OP_RED_DEC'' 4,
    Value ''RELEASE0_REDUCTION_OP_RED_AND'' 5,
    Value ''RELEASE0_REDUCTION_OP_RED_OR'' 6,
    Value ''RELEASE0_REDUCTION_OP_RED_XOR'' 7,
    Field ''QMD_RESERVED_K'' (MW 791 791),
    Field ''RELEASE0_REDUCTION_FORMAT'' (MW 793 792),
    Value ''RELEASE0_REDUCTION_FORMAT_UNSIGNED_32'' 0,
    Value ''RELEASE0_REDUCTION_FORMAT_SIGNED_32'' 1,
    Field ''RELEASE0_REDUCTION_ENABLE'' (MW 794 794),
    Value ''RELEASE0_REDUCTION_ENABLE_FALSE'' 0,
    Value ''RELEASE0_REDUCTION_ENABLE_TRUE'' 1,
    Field ''RELEASE0_STRUCTURE_SIZE'' (MW 799 799),
    Value ''RELEASE0_STRUCTURE_SIZE_FOUR_WORDS'' 0,
    Value ''RELEASE0_STRUCTURE_SIZE_ONE_WORD'' 1,
    Field ''RELEASE0_PAYLOAD'' (MW 831 800),
    Field ''RELEASE1_ADDRESS_LOWER'' (MW 863 832),
    Field ''RELEASE1_ADDRESS_UPPER'' (MW 871 864)]"

definition C6C0_QMDV02_03_b :: "qmd_item list" where
  "C6C0_QMDV02_03_b =
   [Field ''QMD_RESERVED_L'' (MW 879 872),
    Field ''RELEASE1_REDUCTION_OP'' (MW 886 884),
    Value ''RELEASE1_REDUCTION_OP_RED_ADD'' 0,
    Value ''RELEASE1_REDUCTION_OP_RED_MIN'' 1,
    Value ''RELEASE1_REDUCTION_OP_RED_MAX'' 2,
    Value ''RELEASE1_REDUCTION_OP_RED_INC'' 3,
    Value ''RELEASE1_REDUCTION_OP_RED_DEC'' 4,
    Value ''RELEASE1_REDUCTION_OP_RED_AND'' 5,
    Value ''RELEASE1_REDUCTION_OP_RED_OR'' 6,
    Value ''RELEASE1_REDUCTION_OP_RED_XOR'' 7,
    Field ''QMD_RESERVED_M'' (MW 887 887),
    Field ''RELEASE1_REDUCTION_FORMAT'' (MW 889 888),
    Value ''RELEASE1_REDUCTION_FORMAT_UNSIGNED_32'' 0,
    Value ''RELEASE1_REDUCTION_FORMAT_SIGNED_32'' 1,
    Field ''RELEASE1_REDUCTION_ENABLE'' (MW 890 890),
    Value ''RELEASE1_REDUCTION_ENABLE_FALSE'' 0,
    Value ''RELEASE1_REDUCTION_ENABLE_TRUE'' 1,
    Field ''RELEASE1_STRUCTURE_SIZE'' (MW 895 895),
    Value ''RELEASE1_STRUCTURE_SIZE_FOUR_WORDS'' 0,
    Value ''RELEASE1_STRUCTURE_SIZE_ONE_WORD'' 1,
    Field ''RELEASE1_PAYLOAD'' (MW 927 896),
    Field ''SHADER_LOCAL_MEMORY_LOW_SIZE'' (MW 951 928),
    Field ''QMD_RESERVED_N'' (MW 954 952),
    Field ''BARRIER_COUNT'' (MW 959 955),
    Field ''SHADER_LOCAL_MEMORY_HIGH_SIZE'' (MW 983 960),
    Field ''REGISTER_COUNT'' (MW 991 984),
    Field ''PROGRAM_PREFETCH_ADDR_UPPER_SHIFTED'' (MW 1000 992),
    Field ''PROGRAM_PREFETCH_SIZE'' (MW 1009 1001),
    Field ''QMD_RESERVED_A'' (MW 1015 1010),
    Field ''SASS_VERSION'' (MW 1023 1016),
    Fields ''CONSTANT_BUFFER_ADDR_LOWER'' 1055 1024 64,
    Fields ''CONSTANT_BUFFER_ADDR_UPPER'' 1072 1056 64,
    Fields ''CONSTANT_BUFFER_PREFETCH_POST'' 1073 1073 64,
    Value ''CONSTANT_BUFFER_PREFETCH_POST_FALSE'' 0,
    Value ''CONSTANT_BUFFER_PREFETCH_POST_TRUE'' 1,
    Fields ''CONSTANT_BUFFER_INVALIDATE'' 1074 1074 64,
    Value ''CONSTANT_BUFFER_INVALIDATE_FALSE'' 0,
    Value ''CONSTANT_BUFFER_INVALIDATE_TRUE'' 1,
    Fields ''CONSTANT_BUFFER_SIZE_SHIFTED4'' 1087 1075 64,
    Field ''PROGRAM_ADDRESS_LOWER'' (MW 1567 1536),
    Field ''PROGRAM_ADDRESS_UPPER'' (MW 1584 1568),
    Field ''QMD_RESERVED_S'' (MW 1599 1585),
    Field ''HW_ONLY_INNER_GET'' (MW 1630 1600),
    Field ''HW_ONLY_REQUIRE_SCHEDULING_PCAS'' (MW 1631 1631),
    Field ''HW_ONLY_INNER_PUT'' (MW 1662 1632),
    Field ''HW_ONLY_SCG_TYPE'' (MW 1663 1663),
    Field ''HW_ONLY_SPAN_LIST_HEAD_INDEX'' (MW 1693 1664),
    Field ''QMD_RESERVED_Q'' (MW 1694 1694),
    Field ''HW_ONLY_SPAN_LIST_HEAD_INDEX_VALID'' (MW 1695 1695),
    Value ''HW_ONLY_SPAN_LIST_HEAD_INDEX_VALID_FALSE'' 0,
    Value ''HW_ONLY_SPAN_LIST_HEAD_INDEX_VALID_TRUE'' 1,
    Field ''HW_ONLY_SKED_NEXT_QMD_POINTER'' (MW 1727 1696),
    Field ''QMD_SPARE_G'' (MW 1759 1728),
    Field ''QMD_SPARE_H'' (MW 1791 1760),
    Field ''QMD_SPARE_I'' (MW 1823 1792),
    Field ''QMD_SPARE_J'' (MW 1855 1824),
    Field ''QMD_SPARE_K'' (MW 1887 1856),
    Field ''QMD_SPARE_L'' (MW 1919 1888),
    Field ''QMD_SPARE_M'' (MW 1951 1920),
    Field ''QMD_SPARE_N'' (MW 1983 1952),
    Field ''DEBUG_ID_UPPER'' (MW 2015 1984),
    Field ''DEBUG_ID_LOWER'' (MW 2047 2016)]"

definition C6C0_QMDV02_04_a :: "qmd_item list" where
  "C6C0_QMDV02_04_a =
   [Field ''OUTER_PUT'' (MW 30 0),
    Field ''OUTER_OVERFLOW'' (MW 31 31),
    Field ''OUTER_GET'' (MW 62 32),
    Field ''OUTER_STICKY_OVERFLOW'' (MW 63 63),
    Field ''INNER_GET'' (MW 94 64),
    Field ''INNER_OVERFLOW'' (MW 95 95),
    Field ''INNER_PUT'' (MW 126 96),
    Field ''INNER_STICKY_OVERFLOW'' (MW 127 127),
    Field ''QMD_GROUP_ID'' (MW 133 128),
    Field ''SM_GLOBAL_CACHING_ENABLE'' (MW 134 134),
    Field ''RUN_CTA_IN_ONE_SM_PARTITION'' (MW 135 135),
    Value ''RUN_CTA_IN_ONE_SM_PARTITION_FALSE'' 0,
    Value ''RUN_CTA_IN_ONE_SM_PARTITION_TRUE'' 1,
    Field ''IS_QUEUE'' (MW 136 136),
    Value ''IS_QUEUE_FALSE'' 0,
    Value ''IS_QUEUE_TRUE'' 1,
    Field ''ADD_TO_HEAD_OF_QMD_GROUP_LINKED_LIST'' (MW 137 137),
    Value ''ADD_TO_HEAD_OF_QMD_GROUP_LINKED_LIST_FALSE'' 0,
    Value ''ADD_TO_HEAD_OF_QMD_GROUP_LINKED_LIST_TRUE'' 1,
    Field ''SEMAPHORE_RELEASE_ENABLE0'' (MW 138 138),
    Value ''SEMAPHORE_RELEASE_ENABLE0_FALSE'' 0,
    Value ''SEMAPHORE_RELEASE_ENABLE0_TRUE'' 1,
    Field ''SEMAPHORE_RELEASE_ENABLE1'' (MW 139 139),
    Value ''SEMAPHORE_RELEASE_ENABLE1_FALSE'' 0,
    Value ''SEMAPHORE_RELEASE_ENABLE1_TRUE'' 1,
    Field ''REQUIRE_SCHEDULING_PCAS'' (MW 140 140),
    Value ''REQUIRE_SCHEDULING_PCAS_FALSE'' 0,
    Value ''REQUIRE_SCHEDULING_PCAS_TRUE'' 1,
    Field ''DEPENDENT_QMD0_ENABLE'' (MW 141 141),
    Value ''DEPENDENT_QMD0_ENABLE_FALSE'' 0,
    Value ''DEPENDENT_QMD0_ENABLE_TRUE'' 1,
    Field ''DEPENDENT_QMD0_ACTION'' (MW 144 142),
    Value ''DEPENDENT_QMD0_ACTION_QMD_INCREMENT_PUT'' 0,
    Value ''DEPENDENT_QMD0_ACTION_QMD_SCHEDULE'' 1,
    Value ''DEPENDENT_QMD0_ACTION_QMD_INVALIDATE_COPY_SCHEDULE'' 3,
    Value ''DEPENDENT_QMD0_ACTION_QMD_DECREMENT_DEPENDENCE'' 4,
    Field ''DEPENDENT_QMD0_PREFETCH'' (MW 145 145),
    Value ''DEPENDENT_QMD0_PREFETCH_FALSE'' 0,
    Value ''DEPENDENT_QMD0_PREFETCH_TRUE'' 1,
    Field ''DEPENDENT_QMD1_ENABLE'' (MW 146 146),
    Value ''DEPENDENT_QMD1_ENABLE_FALSE'' 0,
    Value ''DEPENDENT_QMD1_ENABLE_TRUE'' 1,
    Field ''DEPENDENT_QMD1_ACTION'' (MW 149 147),
    Value ''DEPENDENT_QMD1_ACTION_QMD_INCREMENT_PUT'' 0,
    Value ''DEPENDENT_QMD1_ACTION_QMD_SCHEDULE'' 1,
    Value ''DEPENDENT_QMD1_ACTION_QMD_INVALIDATE_COPY_SCHEDULE'' 3,
    Value ''DEPENDENT_QMD1_ACTION_QMD_DECREMENT_DEPENDENCE'' 4,
    Field ''DEPENDENT_QMD1_PREFETCH'' (MW 150 150),
    Value ''DEPENDENT_QMD1_PREFETCH_FALSE'' 0,
    Value ''DEPENDENT_QMD1_PREFETCH_TRUE'' 1,
    Field ''DEPENDENCE_COUNTER'' (MW 157 151),
    Field ''SELF_COPY_ON_COMPLETION'' (MW 158 158),
    Value ''SELF_COPY_ON_COMPLETION_FALSE'' 0,
    Value ''SELF_COPY_ON_COMPLETION_TRUE'' 1,
    Field ''QMD_RESERVED_B'' (MW 159 159),
    Field ''CIRCULAR_QUEUE_SIZE'' (MW 184 160),
    Field ''DEMOTE_L2_EVICT_LAST'' (MW 185 185),
    Field ''INVALIDATE_TEXTURE_HEADER_CACHE'' (MW 186 186),
    Value ''INVALIDATE_TEXTURE_HEADER_CACHE_FALSE'' 0,
    Value ''INVALIDATE_TEXTURE_HEADER_CACHE_TRUE'' 1,
    Field ''INVALIDATE_TEXTURE_SAMPLER_CACHE'' (MW 187 187),
    Value ''INVALIDATE_TEXTURE_SAMPLER_CACHE_FALSE'' 0,
    Value ''INVALIDATE_TEXTURE_SAMPLER_CACHE_TRUE'' 1,
    Field ''INVALIDATE_TEXTURE_DATA_CACHE'' (MW 188 188),
    Value ''INVALIDATE_TEXTURE_DATA_CACHE_FALSE'' 0,
    Value ''INVALIDATE_TEXTURE_DATA_CACHE_TRUE'' 1,
    Field ''INVALIDATE_SHADER_DATA_CACHE'' (MW 189 189),
    Value ''INVALIDATE_SHADER_DATA_CACHE_FALSE'' 0,
    Value ''INVALIDATE_SHADER_DATA_CACHE_TRUE'' 1,
    Field ''INVALIDATE_INSTRUCTION_CACHE'' (MW 190 190),
    Value ''INVALIDATE_INSTRUCTION_CACHE_FALSE'' 0,
    Value ''INVALIDATE_INSTRUCTION_CACHE_TRUE'' 1,
    Field ''INVALIDATE_SHADER_CONSTANT_CACHE'' (MW 191 191),
    Value ''INVALIDATE_SHADER_CONSTANT_CACHE_FALSE'' 0,
    Value ''INVALIDATE_SHADER_CONSTANT_CACHE_TRUE'' 1,
    Field ''CTA_RASTER_WIDTH_RESUME'' (MW 223 192),
    Field ''CTA_RASTER_HEIGHT_RESUME'' (MW 239 224),
    Field ''CTA_RASTER_DEPTH_RESUME'' (MW 255 240),
    Field ''PROGRAM_PREFETCH_ADDR_LOWER_SHIFTED'' (MW 287 256),
    Field ''CIRCULAR_QUEUE_ADDR_LOWER'' (MW 319 288),
    Field ''CIRCULAR_QUEUE_ADDR_UPPER'' (MW 327 320),
    Field ''QMD_RESERVED_D'' (MW 335 328),
    Field ''CIRCULAR_QUEUE_ENTRY_SIZE'' (MW 351 336),
    Field ''CWD_REFERENCE_COUNT_ID'' (MW 357 352),
    Field ''CWD_REFERENCE_COUNT_DELTA_MINUS_ONE'' (MW 365 358),
    Field ''RELEASE_MEMBAR_TYPE'' (MW 366 366),
    Value ''RELEASE_MEMBAR_TYPE_FE_NONE'' 0,
    Value ''RELEASE_MEMBAR_TYPE_FE_SYSMEMBAR'' 1,
    Field ''CWD_REFERENCE_COUNT_INCR_ENABLE'' (MW 367 367),
    Value ''CWD_REFERENCE_COUNT_INCR_ENABLE_FALSE'' 0,
    Value ''CWD_REFERENCE_COUNT_INCR_ENABLE_TRUE'' 1,
    Field ''CWD_MEMBAR_TYPE'' (MW 369 368),
    Value ''CWD_MEMBAR_TYPE_L1_NONE'' 0,
    Value ''CWD_MEMBAR_TYPE_L1_SYSMEMBAR'' 1,
    Value ''CWD_MEMBAR_TYPE_L1_MEMBAR'' 3,
    Field ''SEQUENTIALLY_RUN_CTAS'' (MW 370 370),
    Value ''SEQUENTIALLY_RUN_CTAS_FALSE'' 0,
    Value ''SEQUENTIALLY_RUN_CTAS_TRUE'' 1,
    Field ''CWD_REFERENCE_COUNT_DECR_ENABLE'' (MW 371 371),
    Value ''CWD_REFERENCE_COUNT_DECR_ENABLE_FALSE'' 0,
    Value ''CWD_REFERENCE_COUNT_DECR_ENABLE_TRUE'' 1,
    Field ''API_VISIBLE_CALL_LIMIT'' (MW 378 378),
    Value ''API_VISIBLE_CALL_LIMIT__32'' 0,
    Value ''API_VISIBLE_CALL_LIMIT_NO_CHECK'' 1,
    Field ''SAMPLER_INDEX'' (MW 382 382),
    Value ''SAMPLER_INDEX_INDEPENDENTLY'' 0,
    Value ''SAMPLER_INDEX_VIA_HEADER_INDEX'' 1,
    Field ''DISABLE_AUTO_INVALIDATE'' (MW 383 383),
    Value ''DISABLE_AUTO_INVALIDATE_FALSE'' 0,
    Value ''DISABLE_AUTO_INVALIDATE_TRUE'' 1,
    Field ''CTA_RASTER_WIDTH'' (MW 415 384),
    Field ''CTA_RASTER_HEIGHT'' (MW 431 416),
    Field ''QMD_RESERVED13A'' (MW 447 432),
    Field ''CTA_RASTER_DEPTH'' (MW 463 448),
    Field ''QMD_RESERVED14A'' (MW 479 464),
    Field ''DEPENDENT_QMD0_POINTER'' (MW 511 480),
    Field ''COALESCE_WAITING_PERIOD'' (MW 529 522),
    Field ''QUEUE_ENTRIES_PER_CTA_LOG2'' (MW 534 530),
    Field ''SHARED_MEMORY_SIZE'' (MW 561 544),
    Field ''MIN_SM_CONFIG_SHARED_MEM_SIZE'' (MW 568 562),
    Field ''MAX_SM_CONFIG_SHARED_MEM_SIZE'' (MW 575 569),
    Field ''QMD_VERSION'' (MW 579 576),
    Field ''QMD_MAJOR_VERSION'' (MW 583 580),
    Field ''QMD_RESERVED_H'' (MW 591 584),
    Field ''CTA_THREAD_DIMENSION0'' (MW 607 592),
    Field ''CTA_THREAD_DIMENSION1'' (MW 623 608),
    Field ''CTA_THREAD_DIMENSION2'' (MW 639 624),
    Fields ''CONSTANT_BUFFER_VALID'' 640 640 1,
    Value ''CONSTANT_BUFFER_VALID_FALSE'' 0,
    Value ''CONSTANT_BUFFER_VALID_TRUE'' 1,
    Field ''REGISTER_COUNT_V'' (MW 656 648),
    Field ''TARGET_SM_CONFIG_SHARED_MEM_SIZE'' (MW 663 657),
    Field ''FREE_CTA_SLOTS_EMPTY_SM'' (MW 671 664),
    Field ''SM_DISABLE_MASK_LOWER'' (MW 703 672),
    Field ''SM_DISABLE_MASK_UPPER'' (MW 735 704),
    Field ''RELEASE0_ADDRESS_LOWER'' (MW 767 736),
    Field ''RELEASE0_ADDRESS_UPPER'' (MW 775 768),
    Field ''QMD_RESERVED_J'' (MW 783 776),
    Field ''RELEASE0_REDUCTION_OP'' (MW 790 788),
    Value ''RELEASE0_REDUCTION_OP_RED_ADD'' 0]"

definition C6C0_QMDV02_04_b :: "qmd_item list" where
  "C6C0_QMDV02_04_b =
   [Value ''RELEASE0_REDUCTION_OP_RED_MIN'' 1,
    Value ''RELEASE0_REDUCTION_OP_RED_MAX'' 2,
    Value ''RELEASE0_REDUCTION_OP_RED_INC'' 3,
    Value ''RELEASE0_REDUCTION_OP_RED_DEC'' 4,
    Value ''RELEASE0_REDUCTION_OP_RED_AND'' 5,
    Value ''RELEASE0_REDUCTION_OP_RED_OR'' 6,
    Value ''RELEASE0_REDUCTION_OP_RED_XOR'' 7,
    Field ''QMD_RESERVED_K'' (MW 791 791),
    Field ''RELEASE0_REDUCTION_FORMAT'' (MW 793 792),
    Value ''RELEASE0_REDUCTION_FORMAT_UNSIGNED_32'' 0,
    Value ''RELEASE0_REDUCTION_FORMAT_SIGNED_32'' 1,
    Field ''RELEASE0_REDUCTION_ENABLE'' (MW 794 794),
    Value ''RELEASE0_REDUCTION_ENABLE_FALSE'' 0,
    Value ''RELEASE0_REDUCTION_ENABLE_TRUE'' 1,
    Field ''RELEASE0_STRUCTURE_SIZE'' (MW 799 799),
    Value ''RELEASE0_STRUCTURE_SIZE_FOUR_WORDS'' 0,
    Value ''RELEASE0_STRUCTURE_SIZE_ONE_WORD'' 1,
    Field ''RELEASE0_PAYLOAD'' (MW 831 800),
    Field ''RELEASE1_ADDRESS_LOWER'' (MW 863 832),
    Field ''RELEASE1_ADDRESS_UPPER'' (MW 871 864),
    Field ''QMD_RESERVED_L'' (MW 879 872),
    Field ''RELEASE1_REDUCTION_OP'' (MW 886 884),
    Value ''RELEASE1_REDUCTION_OP_RED_ADD'' 0,
    Value ''RELEASE1_REDUCTION_OP_RED_MIN'' 1,
    Value ''RELEASE1_REDUCTION_OP_RED_MAX'' 2,
    Value ''RELEASE1_REDUCTION_OP_RED_INC'' 3,
    Value ''RELEASE1_REDUCTION_OP_RED_DEC'' 4,
    Value ''RELEASE1_REDUCTION_OP_RED_AND'' 5,
    Value ''RELEASE1_REDUCTION_OP_RED_OR'' 6,
    Value ''RELEASE1_REDUCTION_OP_RED_XOR'' 7,
    Field ''QMD_RESERVED_M'' (MW 887 887),
    Field ''RELEASE1_REDUCTION_FORMAT'' (MW 889 888),
    Value ''RELEASE1_REDUCTION_FORMAT_UNSIGNED_32'' 0,
    Value ''RELEASE1_REDUCTION_FORMAT_SIGNED_32'' 1,
    Field ''RELEASE1_REDUCTION_ENABLE'' (MW 890 890),
    Value ''RELEASE1_REDUCTION_ENABLE_FALSE'' 0,
    Value ''RELEASE1_REDUCTION_ENABLE_TRUE'' 1,
    Field ''RELEASE1_STRUCTURE_SIZE'' (MW 895 895),
    Value ''RELEASE1_STRUCTURE_SIZE_FOUR_WORDS'' 0,
    Value ''RELEASE1_STRUCTURE_SIZE_ONE_WORD'' 1,
    Field ''RELEASE1_PAYLOAD'' (MW 927 896),
    Field ''SHADER_LOCAL_MEMORY_LOW_SIZE'' (MW 951 928),
    Field ''QMD_RESERVED_N'' (MW 954 952),
    Field ''BARRIER_COUNT'' (MW 959 955),
    Field ''SHADER_LOCAL_MEMORY_HIGH_SIZE'' (MW 983 960),
    Field ''QMD_RESERVED_G'' (MW 991 984),
    Field ''PROGRAM_PREFETCH_ADDR_UPPER_SHIFTED'' (MW 1000 992),
    Field ''PROGRAM_PREFETCH_SIZE'' (MW 1009 1001),
    Field ''PROGRAM_PREFETCH_TYPE'' (MW 1011 1010),
    Value ''PROGRAM_PREFETCH_TYPE_PREFETCH_LAUNCH'' 0,
    Value ''PROGRAM_PREFETCH_TYPE_PREFTECH_POST'' 1,
    Field ''QMD_RESERVED_A'' (MW 1015 1012),
    Field ''SASS_VERSION'' (MW 1023 1016),
    Fields ''CONSTANT_BUFFER_ADDR_LOWER'' 1055 1024 64,
    Fields ''CONSTANT_BUFFER_ADDR_UPPER'' 1072 1056 64,
    Fields ''CONSTANT_BUFFER_PREFETCH_POST'' 1073 1073 64,
    Value ''CONSTANT_BUFFER_PREFETCH_POST_FALSE'' 0,
    Value ''CONSTANT_BUFFER_PREFETCH_POST_TRUE'' 1,
    Fields ''CONSTANT_BUFFER_INVALIDATE'' 1074 1074 64,
    Value ''CONSTANT_BUFFER_INVALIDATE_FALSE'' 0,
    Value ''CONSTANT_BUFFER_INVALIDATE_TRUE'' 1,
    Fields ''CONSTANT_BUFFER_SIZE_SHIFTED4'' 1087 1075 64,
    Field ''PROGRAM_ADDRESS_LOWER'' (MW 1567 1536),
    Field ''PROGRAM_ADDRESS_UPPER'' (MW 1584 1568),
    Field ''QMD_RESERVED_S'' (MW 1599 1585),
    Field ''HW_ONLY_INNER_GET'' (MW 1630 1600),
    Field ''HW_ONLY_REQUIRE_SCHEDULING_PCAS'' (MW 1631 1631),
    Field ''HW_ONLY_INNER_PUT'' (MW 1662 1632),
    Field ''HW_ONLY_SCG_TYPE'' (MW 1663 1663),
    Field ''HW_ONLY_SPAN_LIST_HEAD_INDEX'' (MW 1693 1664),
    Field ''QMD_RESERVED_Q'' (MW 1694 1694),
    Field ''HW_ONLY_SPAN_LIST_HEAD_INDEX_VALID'' (MW 1695 1695),
    Value ''HW_ONLY_SPAN_LIST_HEAD_INDEX_VALID_FALSE'' 0,
    Value ''HW_ONLY_SPAN_LIST_HEAD_INDEX_VALID_TRUE'' 1,
    Field ''HW_ONLY_SKED_NEXT_QMD_POINTER'' (MW 1727 1696),
    Field ''HW_ONLY_DEPENDENCE_COUNTER'' (MW 1734 1728),
    Field ''QMD_RESERVED_I'' (MW 1759 1735),
    Field ''QMD_SPARE_H'' (MW 1791 1760),
    Field ''QMD_SPARE_I'' (MW 1823 1792),
    Field ''QMD_SPARE_J'' (MW 1855 1824),
    Field ''QMD_SPARE_K'' (MW 1887 1856),
    Field ''QMD_SPARE_L'' (MW 1919 1888),
    Field ''QMD_SPARE_M'' (MW 1951 1920),
    Field ''QMD_SPARE_N'' (MW 1983 1952),
    Field ''DEBUG_ID_UPPER'' (MW 2015 1984),
    Field ''DEBUG_ID_LOWER'' (MW 2047 2016)]"

definition C6C0_QMDV03_00_a :: "qmd_item list" where
  "C6C0_QMDV03_00_a =
   [Field ''OUTER_PUT'' (MW 30 0),
    Field ''OUTER_OVERFLOW'' (MW 31 31),
    Field ''OUTER_GET'' (MW 62 32),
    Field ''OUTER_STICKY_OVERFLOW'' (MW 63 63),
    Field ''INNER_GET'' (MW 94 64),
    Field ''INNER_OVERFLOW'' (MW 95 95),
    Field ''INNER_PUT'' (MW 126 96),
    Field ''INNER_STICKY_OVERFLOW'' (MW 127 127),
    Field ''QMD_GROUP_ID'' (MW 133 128),
    Field ''SM_GLOBAL_CACHING_ENABLE'' (MW 134 134),
    Field ''RUN_CTA_IN_ONE_SM_PARTITION'' (MW 135 135),
    Value ''RUN_CTA_IN_ONE_SM_PARTITION_FALSE'' 0,
    Value ''RUN_CTA_IN_ONE_SM_PARTITION_TRUE'' 1,
    Field ''IS_QUEUE'' (MW 136 136),
    Value ''IS_QUEUE_FALSE'' 0,
    Value ''IS_QUEUE_TRUE'' 1,
    Field ''ADD_TO_HEAD_OF_QMD_GROUP_LINKED_LIST'' (MW 137 137),
    Value ''ADD_TO_HEAD_OF_QMD_GROUP_LINKED_LIST_FALSE'' 0,
    Value ''ADD_TO_HEAD_OF_QMD_GROUP_LINKED_LIST_TRUE'' 1,
    Field ''QMD_RESERVED04A'' (MW 139 138),
    Field ''REQUIRE_SCHEDULING_PCAS'' (MW 140 140),
    Value ''REQUIRE_SCHEDULING_PCAS_FALSE'' 0,
    Value ''REQUIRE_SCHEDULING_PCAS_TRUE'' 1,
    Field ''QMD_RESERVED04B'' (MW 141 141),
    Field ''DEPENDENCE_COUNTER'' (MW 157 142),
    Field ''SELF_COPY_ON_COMPLETION'' (MW 158 158),
    Value ''SELF_COPY_ON_COMPLETION_FALSE'' 0,
    Value ''SELF_COPY_ON_COMPLETION_TRUE'' 1,
    Field ''QMD_RESERVED04C'' (MW 159 159),
    Field ''CIRCULAR_QUEUE_SIZE'' (MW 184 160),
    Field ''DEMOTE_L2_EVICT_LAST'' (MW 185 185),
    Field ''INVALIDATE_TEXTURE_HEADER_CACHE'' (MW 186 186),
    Value ''INVALIDATE_TEXTURE_HEADER_CACHE_FALSE'' 0,
    Value ''INVALIDATE_TEXTURE_HEADER_CACHE_TRUE'' 1,
    Field ''INVALIDATE_TEXTURE_SAMPLER_CACHE'' (MW 187 187),
    Value ''INVALIDATE_TEXTURE_SAMPLER_CACHE_FALSE'' 0,
    Value ''INVALIDATE_TEXTURE_SAMPLER_CACHE_TRUE'' 1,
    Field ''INVALIDATE_TEXTURE_DATA_CACHE'' (MW 188 188),
    Value ''INVALIDATE_TEXTURE_DATA_CACHE_FALSE'' 0,
    Value ''INVALIDATE_TEXTURE_DATA_CACHE_TRUE'' 1,
    Field ''INVALIDATE_SHADER_DATA_CACHE'' (MW 189 189),
    Value ''INVALIDATE_SHADER_DATA_CACHE_FALSE'' 0,
    Value ''INVALIDATE_SHADER_DATA_CACHE_TRUE'' 1,
    Field ''INVALIDATE_INSTRUCTION_CACHE'' (MW 190 190),
    Value ''INVALIDATE_INSTRUCTION_CACHE_FALSE'' 0,
    Value ''INVALIDATE_INSTRUCTION_CACHE_TRUE'' 1,
    Field ''INVALIDATE_SHADER_CONSTANT_CACHE'' (MW 191 191),
    Value ''INVALIDATE_SHADER_CONSTANT_CACHE_FALSE'' 0,
    Value ''INVALIDATE_SHADER_CONSTANT_CACHE_TRUE'' 1,
    Field ''CTA_RASTER_WIDTH_RESUME'' (MW 223 192),
    Field ''CTA_RASTER_HEIGHT_RESUME'' (MW 239 224),
    Field ''CTA_RASTER_DEPTH_RESUME'' (MW 255 240),
    Field ''PROGRAM_PREFETCH_ADDR_LOWER_SHIFTED'' (MW 287 256),
    Field ''CIRCULAR_QUEUE_ADDR_LOWER'' (MW 319 288),
    Field ''CIRCULAR_QUEUE_ADDR_UPPER'' (MW 327 320),
    Field ''QMD_RESERVED_D'' (MW 335 328),
    Field ''CIRCULAR_QUEUE_ENTRY_SIZE'' (MW 351 336),
    Field ''CWD_REFERENCE_COUNT_ID'' (MW 357 352),
    Field ''CWD_REFERENCE_COUNT_DELTA_MINUS_ONE'' (MW 365 358),
    Field ''QMD_RESERVED11A'' (MW 366 366),
    Field ''CWD_REFERENCE_COUNT_INCR_ENABLE'' (MW 367 367),
    Value ''CWD_REFERENCE_COUNT_INCR_ENABLE_FALSE'' 0,
    Value ''CWD_REFERENCE_COUNT_INCR_ENABLE_TRUE'' 1,
    Field ''CWD_MEMBAR_TYPE'' (MW 369 368),
    Value ''CWD_MEMBAR_TYPE_L1_NONE'' 0,
    Value ''CWD_MEMBAR_TYPE_L1_SYSMEMBAR'' 1,
    Value ''CWD_MEMBAR_TYPE_L1_MEMBAR'' 3,
    Field ''SEQUENTIALLY_RUN_CTAS'' (MW 370 370),
    Value ''SEQUENTIALLY_RUN_CTAS_FALSE'' 0,
    Value ''SEQUENTIALLY_RUN_CTAS_TRUE'' 1,
    Field ''CWD_REFERENCE_COUNT_DECR_ENABLE'' (MW 371 371),
    Value ''CWD_REFERENCE_COUNT_DECR_ENABLE_FALSE'' 0,
    Value ''CWD_REFERENCE_COUNT_DECR_ENABLE_TRUE'' 1,
    Field ''QMD_RESERVED11B'' (MW 377 372),
    Field ''API_VISIBLE_CALL_LIMIT'' (MW 378 378),
    Value ''API_VISIBLE_CALL_LIMIT__32'' 0,
    Value ''API_VISIBLE_CALL_LIMIT_NO_CHECK'' 1,
    Field ''QMD_RESERVED11C'' (MW 381 379),
    Field ''SAMPLER_INDEX'' (MW 382 382),
    Value ''SAMPLER_INDEX_INDEPENDENTLY'' 0,
    Value ''SAMPLER_INDEX_VIA_HEADER_INDEX'' 1,
    Field ''DISABLE_AUTO_INVALIDATE'' (MW 383 383),
    Value ''DISABLE_AUTO_INVALIDATE_FALSE'' 0,
    Value ''DISABLE_AUTO_INVALIDATE_TRUE'' 1,
    Field ''CTA_RASTER_WIDTH'' (MW 415 384),
    Field ''CTA_RASTER_HEIGHT'' (MW 431 416),
    Field ''CTA_RASTER_DEPTH'' (MW 463 448),
    Field ''DEPENDENT_QMD0_POINTER'' (MW 511 480),
    Field ''DEPENDENT_QMD0_ENABLE'' (MW 512 512),
    Value ''DEPENDENT_QMD0_ENABLE_FALSE'' 0,
    Value ''DEPENDENT_QMD0_ENABLE_TRUE'' 1,
    Field ''DEPENDENT_QMD0_ACTION'' (MW 515 513),
    Value ''DEPENDENT_QMD0_ACTION_QMD_INCREMENT_PUT'' 0,
    Value ''DEPENDENT_QMD0_ACTION_QMD_SCHEDULE'' 1,
    Value ''DEPENDENT_QMD0_ACTION_QMD_INVALIDATE_COPY_SCHEDULE'' 3,
    Value ''DEPENDENT_QMD0_ACTION_QMD_DECREMENT_DEPENDENCE'' 4,
    Field ''DEPENDENT_QMD0_PREFETCH'' (MW 516 516),
    Value ''DEPENDENT_QMD0_PREFETCH_FALSE'' 0,
    Value ''DEPENDENT_QMD0_PREFETCH_TRUE'' 1,
    Field ''DEPENDENT_QMD1_ENABLE'' (MW 517 517),
    Value ''DEPENDENT_QMD1_ENABLE_FALSE'' 0,
    Value ''DEPENDENT_QMD1_ENABLE_TRUE'' 1,
    Field ''DEPENDENT_QMD1_ACTION'' (MW 520 518),
    Value ''DEPENDENT_QMD1_ACTION_QMD_INCREMENT_PUT'' 0,
    Value ''DEPENDENT_QMD1_ACTION_QMD_SCHEDULE'' 1,
    Value ''DEPENDENT_QMD1_ACTION_QMD_INVALIDATE_COPY_SCHEDULE'' 3,
    Value ''DEPENDENT_QMD1_ACTION_QMD_DECREMENT_DEPENDENCE'' 4,
    Field ''DEPENDENT_QMD1_PREFETCH'' (MW 521 521),
    Value ''DEPENDENT_QMD1_PREFETCH_FALSE'' 0,
    Value ''DEPENDENT_QMD1_PREFETCH_TRUE'' 1,
    Field ''COALESCE_WAITING_PERIOD'' (MW 529 522),
    Field ''QUEUE_ENTRIES_PER_CTA_LOG2'' (MW 534 530),
    Field ''SHARED_MEMORY_SIZE'' (MW 561 544),
    Field ''MIN_SM_CONFIG_SHARED_MEM_SIZE'' (MW 567 562),
    Field ''QMD_RESERVED17A'' (MW 568 568),
    Field ''MAX_SM_CONFIG_SHARED_MEM_SIZE'' (MW 574 569),
    Field ''QMD_RESERVED17B'' (MW 575 575),
    Field ''QMD_VERSION'' (MW 579 576),
    Field ''QMD_MAJOR_VERSION'' (MW 583 580),
    Field ''CTA_THREAD_DIMENSION0'' (MW 607 592),
    Field ''CTA_THREAD_DIMENSION1'' (MW 623 608),
    Field ''CTA_THREAD_DIMENSION2'' (MW 639 624),
    Fields ''CONSTANT_BUFFER_VALID'' 640 640 1,
    Value ''CONSTANT_BUFFER_VALID_FALSE'' 0,
    Value ''CONSTANT_BUFFER_VALID_TRUE'' 1,
    Field ''REGISTER_COUNT_V'' (MW 656 648),
    Field ''TARGET_SM_CONFIG_SHARED_MEM_SIZE'' (MW 662 657),
    Field ''SHARED_ALLOCATION_ENABLE'' (MW 663 663),
    Value ''SHARED_ALLOCATION_ENABLE_FALSE'' 0,
    Value ''SHARED_ALLOCATION_ENABLE_TRUE'' 1,
    Field ''FREE_CTA_SLOTS_EMPTY_SM'' (MW 671 664),
    Field ''SM_DISABLE_MASK_LOWER'' (MW 703 672),
    Field ''SM_DISABLE_MASK_UPPER'' (MW 735 704),
    Field ''SHADER_LOCAL_MEMORY_LOW_SIZE'' (MW 759 736),
    Field ''BARRIER_COUNT'' (MW 767 763),
    Field ''RELEASE0_ADDRESS_LOWER'' (MW 799 768),
    Field ''RELEASE0_ADDRESS_UPPER'' (MW 807 800),
    Field ''SEMAPHORE_RESERVED25A'' (MW 818 808),
    Field ''RELEASE0_MEMBAR_TYPE'' (MW 819 819),
    Value ''RELEASE0_MEMBAR_TYPE_FE_NONE'' 0]"

definition C6C0_QMDV03_00_b :: "qmd_item list" where
  "C6C0_QMDV03_00_b =
   [Value ''RELEASE0_MEMBAR_TYPE_FE_SYSMEMBAR'' 1,
    Field ''RELEASE0_REDUCTION_OP'' (MW 822 820),
    Value ''RELEASE0_REDUCTION_OP_RED_ADD'' 0,
    Value ''RELEASE0_REDUCTION_OP_RED_MIN'' 1,
    Value ''RELEASE0_REDUCTION_OP_RED_MAX'' 2,
    Value ''RELEASE0_REDUCTION_OP_RED_INC'' 3,
    Value ''RELEASE0_REDUCTION_OP_RED_DEC'' 4,
    Value ''RELEASE0_REDUCTION_OP_RED_AND'' 5,
    Value ''RELEASE0_REDUCTION_OP_RED_OR'' 6,
    Value ''RELEASE0_REDUCTION_OP_RED_XOR'' 7,
    Field ''RELEASE0_ENABLE'' (MW 823 823),
    Value ''RELEASE0_ENABLE_FALSE'' 0,
    Value ''RELEASE0_ENABLE_TRUE'' 1,
    Field ''RELEASE0_REDUCTION_FORMAT'' (MW 825 824),
    Value ''RELEASE0_REDUCTION_FORMAT_UNSIGNED_32'' 0,
    Value ''RELEASE0_REDUCTION_FORMAT_SIGNED_32'' 1,
    Field ''RELEASE0_REDUCTION_ENABLE'' (MW 826 826),
    Value ''RELEASE0_REDUCTION_ENABLE_FALSE'' 0,
    Value ''RELEASE0_REDUCTION_ENABLE_TRUE'' 1,
    Field ''RELEASE0_NON_BLOCKING_INTR_TYPE'' (MW 828 827),
    Value ''RELEASE0_NON_BLOCKING_INTR_TYPE_NONE'' 0,
    Value ''RELEASE0_NON_BLOCKING_INTR_TYPE_TRAP'' 1,
    Value ''RELEASE0_NON_BLOCKING_INTR_TYPE_CONDITIONAL_TRAP'' 2,
    Field ''RELEASE0_PAYLOAD64B'' (MW 829 829),
    Value ''RELEASE0_PAYLOAD64B_FALSE'' 0,
    Value ''RELEASE0_PAYLOAD64B_TRUE'' 1,
    Field ''RELEASE0_STRUCTURE_SIZE'' (MW 831 830),
    Value ''RELEASE0_STRUCTURE_SIZE_SEMAPHORE_FOUR_WORDS'' 0,
    Value ''RELEASE0_STRUCTURE_SIZE_SEMAPHORE_ONE_WORD'' 1,
    Value ''RELEASE0_STRUCTURE_SIZE_SEMAPHORE_TWO_WORDS'' 2,
    Field ''RELEASE0_PAYLOAD_LOWER'' (MW 863 832),
    Field ''RELEASE0_PAYLOAD_UPPER'' (MW 895 864),
    Field ''RELEASE1_ADDRESS_LOWER'' (MW 927 896),
    Field ''RELEASE1_ADDRESS_UPPER'' (MW 935 928),
    Field ''SEMAPHORE_RESERVED29A'' (MW 946 936),
    Field ''RELEASE1_MEMBAR_TYPE'' (MW 947 947),
    Value ''RELEASE1_MEMBAR_TYPE_FE_NONE'' 0,
    Value ''RELEASE1_MEMBAR_TYPE_FE_SYSMEMBAR'' 1,
    Field ''RELEASE1_REDUCTION_OP'' (MW 950 948),
    Value ''RELEASE1_REDUCTION_OP_RED_ADD'' 0,
    Value ''RELEASE1_REDUCTION_OP_RED_MIN'' 1,
    Value ''RELEASE1_REDUCTION_OP_RED_MAX'' 2,
    Value ''RELEASE1_REDUCTION_OP_RED_INC'' 3,
    Value ''RELEASE1_REDUCTION_OP_RED_DEC'' 4,
    Value ''RELEASE1_REDUCTION_OP_RED_AND'' 5,
    Value ''RELEASE1_REDUCTION_OP_RED_OR'' 6,
    Value ''RELEASE1_REDUCTION_OP_RED_XOR'' 7,
    Field ''RELEASE1_ENABLE'' (MW 951 951),
    Value ''RELEASE1_ENABLE_FALSE'' 0,
    Value ''RELEASE1_ENABLE_TRUE'' 1,
    Field ''RELEASE1_REDUCTION_FORMAT'' (MW 953 952),
    Value ''RELEASE1_REDUCTION_FORMAT_UNSIGNED_32'' 0,
    Value ''RELEASE1_REDUCTION_FORMAT_SIGNED_32'' 1,
    Field ''RELEASE1_REDUCTION_ENABLE'' (MW 954 954),
    Value ''RELEASE1_REDUCTION_ENABLE_FALSE'' 0,
    Value ''RELEASE1_REDUCTION_ENABLE_TRUE'' 1,
    Field ''RELEASE1_NON_BLOCKING_INTR_TYPE'' (MW 956 955),
    Value ''RELEASE1_NON_BLOCKING_INTR_TYPE_NONE'' 0,
    Value ''RELEASE1_NON_BLOCKING_INTR_TYPE_TRAP'' 1,
    Value ''RELEASE1_NON_BLOCKING_INTR_TYPE_CONDITIONAL_TRAP'' 2,
    Field ''RELEASE1_PAYLOAD64B'' (MW 957 957),
    Value ''RELEASE1_PAYLOAD64B_FALSE'' 0,
    Value ''RELEASE1_PAYLOAD64B_TRUE'' 1,
    Field ''RELEASE1_STRUCTURE_SIZE'' (MW 959 958),
    Value ''RELEASE1_STRUCTURE_SIZE_SEMAPHORE_FOUR_WORDS'' 0,
    Value ''RELEASE1_STRUCTURE_SIZE_SEMAPHORE_ONE_WORD'' 1,
    Value ''RELEASE1_STRUCTURE_SIZE_SEMAPHORE_TWO_WORDS'' 2,
    Field ''RELEASE1_PAYLOAD_LOWER'' (MW 991 960),
    Field ''RELEASE1_PAYLOAD_UPPER'' (MW 1023 992),
    Fields ''CONSTANT_BUFFER_ADDR_LOWER'' 1055 1024 64,
    Fields ''CONSTANT_BUFFER_ADDR_UPPER'' 1072 1056 64,
    Fields ''CONSTANT_BUFFER_PREFETCH_POST'' 1073 1073 64,
    Value ''CONSTANT_BUFFER_PREFETCH_POST_FALSE'' 0,
    Value ''CONSTANT_BUFFER_PREFETCH_POST_TRUE'' 1,
    Fields ''CONSTANT_BUFFER_INVALIDATE'' 1074 1074 64,
    Value ''CONSTANT_BUFFER_INVALIDATE_FALSE'' 0,
    Value ''CONSTANT_BUFFER_INVALIDATE_TRUE'' 1,
    Fields ''CONSTANT_BUFFER_SIZE_SHIFTED4'' 1087 1075 64,
    Field ''PROGRAM_ADDRESS_LOWER'' (MW 1567 1536),
    Field ''PROGRAM_ADDRESS_UPPER'' (MW 1584 1568),
    Field ''SHADER_LOCAL_MEMORY_HIGH_SIZE'' (MW 1623 1600),
    Field ''PROGRAM_PREFETCH_ADDR_UPPER_SHIFTED'' (MW 1640 1632),
    Field ''PROGRAM_PREFETCH_SIZE'' (MW 1649 1641),
    Field ''PROGRAM_PREFETCH_TYPE'' (MW 1651 1650),
    Value ''PROGRAM_PREFETCH_TYPE_PREFETCH_LAUNCH'' 0,
    Value ''PROGRAM_PREFETCH_TYPE_PREFTECH_POST'' 1,
    Field ''SASS_VERSION'' (MW 1663 1656),
    Field ''RELEASE2_ADDRESS_LOWER'' (MW 1695 1664),
    Field ''RELEASE2_ADDRESS_UPPER'' (MW 1703 1696),
    Field ''SEMAPHORE_RESERVED53A'' (MW 1714 1704),
    Field ''RELEASE2_MEMBAR_TYPE'' (MW 1715 1715),
    Value ''RELEASE2_MEMBAR_TYPE_FE_NONE'' 0,
    Value ''RELEASE2_MEMBAR_TYPE_FE_SYSMEMBAR'' 1,
    Field ''RELEASE2_REDUCTION_OP'' (MW 1718 1716),
    Value ''RELEASE2_REDUCTION_OP_RED_ADD'' 0,
    Value ''RELEASE2_REDUCTION_OP_RED_MIN'' 1,
    Value ''RELEASE2_REDUCTION_OP_RED_MAX'' 2,
    Value ''RELEASE2_REDUCTION_OP_RED_INC'' 3,
    Value ''RELEASE2_REDUCTION_OP_RED_DEC'' 4,
    Value ''RELEASE2_REDUCTION_OP_RED_AND'' 5,
    Value ''RELEASE2_REDUCTION_OP_RED_OR'' 6,
    Value ''RELEASE2_REDUCTION_OP_RED_XOR'' 7,
    Field ''RELEASE2_ENABLE'' (MW 1719 1719),
    Value ''RELEASE2_ENABLE_FALSE'' 0,
    Value ''RELEASE2_ENABLE_TRUE'' 1,
    Field ''RELEASE2_REDUCTION_FORMAT'' (MW 1721 1720),
    Value ''RELEASE2_REDUCTION_FORMAT_UNSIGNED_32'' 0,
    Value ''RELEASE2_REDUCTION_FORMAT_SIGNED_32'' 1,
    Field ''RELEASE2_REDUCTION_ENABLE'' (MW 1722 1722),
    Value ''RELEASE2_REDUCTION_ENABLE_FALSE'' 0,
    Value ''RELEASE2_REDUCTION_ENABLE_TRUE'' 1,
    Field ''RELEASE2_NON_BLOCKING_INTR_TYPE'' (MW 1724 1723),
    Value ''RELEASE2_NON_BLOCKING_INTR_TYPE_NONE'' 0,
    Value ''RELEASE2_NON_BLOCKING_INTR_TYPE_TRAP'' 1,
    Value ''RELEASE2_NON_BLOCKING_INTR_TYPE_CONDITIONAL_TRAP'' 2,
    Field ''RELEASE2_PAYLOAD64B'' (MW 1725 1725),
    Value ''RELEASE2_PAYLOAD64B_FALSE'' 0,
    Value ''RELEASE2_PAYLOAD64B_TRUE'' 1,
    Field ''RELEASE2_STRUCTURE_SIZE'' (MW 1727 1726),
    Value ''RELEASE2_STRUCTURE_SIZE_SEMAPHORE_FOUR_WORDS'' 0,
    Value ''RELEASE2_STRUCTURE_SIZE_SEMAPHORE_ONE_WORD'' 1,
    Value ''RELEASE2_STRUCTURE_SIZE_SEMAPHORE_TWO_WORDS'' 2,
    Field ''RELEASE2_PAYLOAD_LOWER'' (MW 1759 1728),
    Field ''RELEASE2_PAYLOAD_UPPER'' (MW 1791 1760),
    Field ''QMD_SPARE_I'' (MW 1823 1792),
    Field ''HW_ONLY_INNER_GET'' (MW 1854 1824),
    Field ''HW_ONLY_REQUIRE_SCHEDULING_PCAS'' (MW 1855 1855),
    Field ''HW_ONLY_INNER_PUT'' (MW 1886 1856),
    Field ''HW_ONLY_SPAN_LIST_HEAD_INDEX'' (MW 1917 1888),
    Field ''HW_ONLY_SPAN_LIST_HEAD_INDEX_VALID'' (MW 1919 1919),
    Value ''HW_ONLY_SPAN_LIST_HEAD_INDEX_VALID_FALSE'' 0,
    Value ''HW_ONLY_SPAN_LIST_HEAD_INDEX_VALID_TRUE'' 1,
    Field ''HW_ONLY_SKED_NEXT_QMD_POINTER'' (MW 1951 1920),
    Field ''HW_ONLY_DEPENDENCE_COUNTER'' (MW 1958 1952),
    Field ''DEBUG_ID_UPPER'' (MW 2015 1984),
    Field ''DEBUG_ID_LOWER'' (MW 2047 2016)]"

definition A0C0_QMDV00_06 :: "qmd_item list" where
  "A0C0_QMDV00_06 = A0C0_QMDV00_06_a @ A0C0_QMDV00_06_b"

definition A0C0_QMDV01_06 :: "qmd_item list" where
  "A0C0_QMDV01_06 = A0C0_QMDV01_06_a @ A0C0_QMDV01_06_b"

definition A0C0_QMDV01_07 :: "qmd_item list" where
  "A0C0_QMDV01_07 = A0C0_QMDV01_07_a @ A0C0_QMDV01_07_b"

definition C3C0_QMDV02_02 :: "qmd_item list" where
  "C3C0_QMDV02_02 = C3C0_QMDV02_02_a @ C3C0_QMDV02_02_b"

definition C5C0_QMDV02_03 :: "qmd_item list" where
  "C5C0_QMDV02_03 = C5C0_QMDV02_03_a @ C5C0_QMDV02_03_b"

definition C6C0_QMDV02_03 :: "qmd_item list" where
  "C6C0_QMDV02_03 = C6C0_QMDV02_03_a @ C6C0_QMDV02_03_b"

definition C6C0_QMDV02_04 :: "qmd_item list" where
  "C6C0_QMDV02_04 = C6C0_QMDV02_04_a @ C6C0_QMDV02_04_b"

definition C6C0_QMDV03_00 :: "qmd_item list" where
  "C6C0_QMDV03_00 = C6C0_QMDV03_00_a @ C6C0_QMDV03_00_b"

section \<open>The layouts fit their descriptor\<close>

lemmas layout_eval = layout_fields_def

lemma A0C0_QMDV00_06_ok: "layout_ok (layout_fields A0C0_QMDV00_06)"
  by (rule layout_okI) (simp add: layout_eval A0C0_QMDV00_06_def A0C0_QMDV00_06_a_def A0C0_QMDV00_06_b_def)

lemma A0C0_QMDV01_06_ok: "layout_ok (layout_fields A0C0_QMDV01_06)"
  by (rule layout_okI) (simp add: layout_eval A0C0_QMDV01_06_def A0C0_QMDV01_06_a_def A0C0_QMDV01_06_b_def)

lemma A0C0_QMDV01_07_ok: "layout_ok (layout_fields A0C0_QMDV01_07)"
  by (rule layout_okI) (simp add: layout_eval A0C0_QMDV01_07_def A0C0_QMDV01_07_a_def A0C0_QMDV01_07_b_def)

lemma C3C0_QMDV02_02_ok: "layout_ok (layout_fields C3C0_QMDV02_02)"
  by (rule layout_okI) (simp add: layout_eval C3C0_QMDV02_02_def C3C0_QMDV02_02_a_def C3C0_QMDV02_02_b_def)

lemma C5C0_QMDV02_03_ok: "layout_ok (layout_fields C5C0_QMDV02_03)"
  by (rule layout_okI) (simp add: layout_eval C5C0_QMDV02_03_def C5C0_QMDV02_03_a_def C5C0_QMDV02_03_b_def)

lemma C6C0_QMDV02_03_ok: "layout_ok (layout_fields C6C0_QMDV02_03)"
  by (rule layout_okI) (simp add: layout_eval C6C0_QMDV02_03_def C6C0_QMDV02_03_a_def C6C0_QMDV02_03_b_def)

lemma C6C0_QMDV02_04_ok: "layout_ok (layout_fields C6C0_QMDV02_04)"
  by (rule layout_okI) (simp add: layout_eval C6C0_QMDV02_04_def C6C0_QMDV02_04_a_def C6C0_QMDV02_04_b_def)

lemma C6C0_QMDV03_00_ok: "layout_ok (layout_fields C6C0_QMDV03_00)"
  by (rule layout_okI) (simp add: layout_eval C6C0_QMDV03_00_def C6C0_QMDV03_00_a_def C6C0_QMDV03_00_b_def)

section \<open>The fields of a descriptor are independent\<close>

definition qmd_layouts :: "qmd_item list list" where
  "qmd_layouts = [A0C0_QMDV00_06, A0C0_QMDV01_06, A0C0_QMDV01_07, C3C0_QMDV02_02, C5C0_QMDV02_03, C6C0_QMDV02_03,
     C6C0_QMDV02_04, C6C0_QMDV03_00]"

lemma qmd_layouts_ok: "t \<in> set qmd_layouts \<Longrightarrow> layout_ok (layout_fields t)"
  using A0C0_QMDV00_06_ok A0C0_QMDV01_06_ok A0C0_QMDV01_07_ok C3C0_QMDV02_02_ok C5C0_QMDV02_03_ok C6C0_QMDV02_03_ok
    C6C0_QMDV02_04_ok C6C0_QMDV03_00_ok
  by (auto simp: qmd_layouts_def)

lemma layout_fields_disj:
  assumes "layout_ok fs" "f \<in> set fs" "g \<in> set fs"
  shows "g = f \<or> drf_disj f g"
proof -
  obtain i j where "i < length fs" "fs ! i = f" "j < length fs" "fs ! j = g" using assms(2,3) by (metis in_set_conv_nth)
  then show ?thesis using layout_okD [OF assms(1), of i j] layout_okD [OF assms(1), of j i] drf_disj_sym
    by (cases i j rule: linorder_cases) auto
qed

text \<open>
  C15: the eight descriptor layouts are well formed: in a descriptor of 64 words, whatever sequence of
  fields of one layout is written, each field of that layout reads back the last value written to it,
  cut to its width, and an unwritten field reads as before.
\<close>

theorem qmd_fields_independent:
  assumes "t \<in> set qmd_layouts" "length v = 64" "f \<in> set (layout_fields t)" "fst ` set ws \<subseteq> set (layout_fields t)"
  shows "DRF_VAL_MW f (FLD_SET_all ws v) = (case map_of (rev ws) f of None \<Rightarrow> DRF_VAL_MW f v | Some n \<Rightarrow> drf_cut f n)"
proof (rule drf_read_written)
  note ok = qmd_layouts_ok [OF assms(1)]
  show "drf_ok (length v) f" using ok assms(2,3) by (auto simp: layout_ok_def list_all_iff)
  fix g n assume "(g, n) \<in> set ws"
  then have "g \<in> set (layout_fields t)" using assms(4) by force
  then show "drf_ok (length v) g \<and> (g = f \<or> drf_disj f g)"
    using ok assms(2) layout_fields_disj [OF ok assms(3)] by (auto simp: layout_ok_def list_all_iff)
qed

theorem qmd_fields_independent_witness:
  "DRF_VAL_MW (MW 30 0) (FLD_SET_all [(MW 30 0, 5), (MW 31 31, 1)] (replicate 64 0)) = 5"
proof -
  have "MW 30 0 \<in> set (layout_fields A0C0_QMDV00_06)" "MW 31 31 \<in> set (layout_fields A0C0_QMDV00_06)"
    by (simp_all add: layout_eval A0C0_QMDV00_06_def A0C0_QMDV00_06_a_def)
  then show ?thesis
    using qmd_fields_independent [of A0C0_QMDV00_06 "replicate 64 0" "MW 30 0" "[(MW 30 0, 5), (MW 31 31, 1)]"]
    by (simp add: qmd_layouts_def take_bit_eq_mod)
qed

end
