(* ===== verification/Kernel_Interface.thy ===== *)
theory Kernel_Interface
  imports Prelude
begin

text \<open>
  The calls by which the driver reaches the operating system: \<open>open\<close>, \<open>close\<close>, \<open>mmap\<close> and the
  \<open>ioctl\<close>s of the resource manager and of the unified memory module
  (\<open>driverapi/internal/librecuda_internal.h\<close>). The kernel itself is not part of the repository: it
  is a parameter \<open>K\<close> that answers each call, given the calls made before it. The state keeps the
  calls in a log, so that a theorem can speak of what the driver asked for and in which order.
\<close>

section \<open>Calls and answers\<close>

text \<open>The parameter structure of an \<open>ioctl\<close>: the fields the code sets, with their values.\<close>

type_synonym params = "(string \<times> NvU64) list"

datatype kcall =
    KOpen string
  | KClose int
  | KIowr int NvU32 params         \<comment> \<open>descriptor, number and parameters of an \<open>NV_IOWR\<close>\<close>
  | KUvm int NvU32 params          \<comment> \<open>the same of a \<open>UVM_IOCTL\<close>\<close>
  | KMmap NvU64 NvU64 bool int   \<comment> \<open>address, length, \<open>MAP_FIXED\<close>, descriptor\<close>

record kreply =
  kret :: int         \<comment> \<open>the call's return value\<close>
  kstatus :: NvU32    \<comment> \<open>the structure's \<open>status\<close> or \<open>rmStatus\<close> field after the call\<close>
  khandle :: NvU32    \<comment> \<open>its \<open>hObjectNew\<close> field\<close>
  kaddr :: NvU64      \<comment> \<open>the address \<open>mmap\<close> returned\<close>
  kdata :: "NvU32 list"  \<comment> \<open>its other output fields\<close>

type_synonym kern = "kcall list \<Rightarrow> kcall \<Rightarrow> kreply"

record os =
  root :: NvU32
  fd_ctl :: int
  fd_uvm :: int
  klog :: "kcall list"  \<comment> \<open>the calls made so far, in order\<close>

definition kernel_call :: "kern \<Rightarrow> kcall \<Rightarrow> ('a os_scheme, kreply) prog" where
  "kernel_call K c = (\<lambda>s. (Inr (K (klog s) c), s\<lparr>klog := klog s @ [c]\<rparr>))"

section \<open>The wrappers\<close>

text \<open>
  \<open>NV_IOWR\<close> looks at the return value of the call, \<open>UVM_IOCTL\<close> at the \<open>rmStatus\<close> field only:
  every caller passes a structure, and then the macro does not look at the return value.
\<close>

definition NV_IOWR :: "kern \<Rightarrow> int \<Rightarrow> NvU32 \<Rightarrow> params \<Rightarrow> ('a os_scheme, kreply) prog" where
  "NV_IOWR K fd nr params =
     bind (kernel_call K (KIowr fd nr params)) (\<lambda>r.
     bind (validate (kret r = 0) LIBRECUDA_ERROR_UNKNOWN) (\<lambda>_.
     ret r))"

definition UVM_IOCTL :: "kern \<Rightarrow> int \<Rightarrow> NvU32 \<Rightarrow> params \<Rightarrow> ('a os_scheme, unit) prog" where
  "UVM_IOCTL K fd nr params =
     bind (kernel_call K (KUvm fd nr params)) (\<lambda>r.
     validate (kstatus r = 0) LIBRECUDA_ERROR_UNKNOWN)"

definition NV_ESC_RM_FREE :: NvU32 where "NV_ESC_RM_FREE = 0x29"
definition NV_ESC_RM_CONTROL :: NvU32 where "NV_ESC_RM_CONTROL = 0x2A"
definition NV_ESC_RM_ALLOC :: NvU32 where "NV_ESC_RM_ALLOC = 0x2B"
definition NV_ESC_RM_MAP_MEMORY :: NvU32 where "NV_ESC_RM_MAP_MEMORY = 0x4E"
definition NV_ESC_CARD_INFO :: NvU32 where "NV_ESC_CARD_INFO = 200 + 0"
definition NV_ESC_REGISTER_FD :: NvU32 where "NV_ESC_REGISTER_FD = 200 + 1"

text \<open>\<open>rm_alloc\<close>, and the macro \<open>RM_ALLOC\<close>, which turns every failure of it into one status.\<close>

definition rm_alloc ::
  "kern \<Rightarrow> int \<Rightarrow> NvU32 \<Rightarrow> NvU32 \<Rightarrow> NvU32 \<Rightarrow> NvU32 \<Rightarrow> params \<Rightarrow> ('a os_scheme, NvU32) prog" where
  "rm_alloc K fd clss client parent object params =
     bind (validate (fd > 0) LIBRECUDA_ERROR_INVALID_VALUE) (\<lambda>_.
     bind (NV_IOWR K fd NV_ESC_RM_ALLOC
       ([(''hRoot'', ucast client), (''hObjectParent'', ucast parent),
         (''hObjectNew'', ucast object), (''hClass'', ucast clss)] @ params)) (\<lambda>r.
     bind (validate (kstatus r = 0) LIBRECUDA_ERROR_UNKNOWN) (\<lambda>_.
     ret (khandle r))))"

definition as_unknown :: "('s, 'a) prog \<Rightarrow> ('s, 'a) prog" where
  "as_unknown m = (\<lambda>s. case m s of
       (Inl (Fail st), s') \<Rightarrow> (Inl (Fail LIBRECUDA_ERROR_UNKNOWN), s')
     | r \<Rightarrow> r)"

definition RM_ALLOC ::
  "kern \<Rightarrow> int \<Rightarrow> NvU32 \<Rightarrow> NvU32 \<Rightarrow> NvU32 \<Rightarrow> NvU32 \<Rightarrow> params \<Rightarrow> ('a os_scheme, NvU32) prog" where
  "RM_ALLOC K fd clss client parent object params =
     as_unknown (rm_alloc K fd clss client parent object params)"

text \<open>\<open>rm_ctrl\<close> with the macro \<open>RM_CTRL\<close>; its callers pass a structure.\<close>

definition rm_ctrl ::
  "kern \<Rightarrow> int \<Rightarrow> NvU32 \<Rightarrow> NvU32 \<Rightarrow> NvU32 \<Rightarrow> params \<Rightarrow> ('a os_scheme, kreply) prog" where
  "rm_ctrl K fd cmd client object params =
     bind (NV_IOWR K fd NV_ESC_RM_CONTROL
       ([(''hClient'', ucast client), (''hObject'', ucast object), (''cmd'', ucast cmd)] @ params)) (\<lambda>r.
     bind (validate (kstatus r = 0) LIBRECUDA_ERROR_UNKNOWN) (\<lambda>_.
     ret r))"

definition RM_CTRL ::
  "kern \<Rightarrow> int \<Rightarrow> NvU32 \<Rightarrow> NvU32 \<Rightarrow> NvU32 \<Rightarrow> params \<Rightarrow> ('a os_scheme, kreply) prog" where
  "RM_CTRL K fd cmd client object params = as_unknown (rm_ctrl K fd cmd client object params)"

section \<open>What a call leaves alone\<close>

text \<open>
  \<open>ignores_log I\<close>: the predicate does not depend on the call log. Every wrapper keeps such a
  predicate, whatever the kernel answers.
\<close>

definition ignores_log :: "('a os_scheme \<Rightarrow> bool) \<Rightarrow> bool" where
  "ignores_log I \<longleftrightarrow> (\<forall>s l. I (s\<lparr>klog := l\<rparr>) = I s)"

lemma preserves_kernel_call [presI]: "ignores_log I \<Longrightarrow> preserves I (kernel_call K c)"
  by (simp add: preserves_def kernel_call_def ignores_log_def)

lemma preserves_as_unknown [presI]: "preserves I m \<Longrightarrow> preserves I (as_unknown m)"
  by (fastforce simp: preserves_def as_unknown_def split: prod.splits sum.splits error.splits)

lemma preserves_NV_IOWR [presI]: "ignores_log I \<Longrightarrow> preserves I (NV_IOWR K fd nr ps)"
  unfolding NV_IOWR_def by (intro presI)

lemma preserves_UVM_IOCTL [presI]: "ignores_log I \<Longrightarrow> preserves I (UVM_IOCTL K fd nr ps)"
  unfolding UVM_IOCTL_def by (intro presI)

lemma preserves_RM_ALLOC [presI]: "ignores_log I \<Longrightarrow> preserves I (RM_ALLOC K fd c cl p ob ps)"
  unfolding RM_ALLOC_def rm_alloc_def by (intro presI)

lemma preserves_RM_CTRL [presI]: "ignores_log I \<Longrightarrow> preserves I (RM_CTRL K fd c cl ob ps)"
  unfolding RM_CTRL_def rm_ctrl_def by (intro presI)

text \<open>The state after a wrapper differs from the state before in the log only.\<close>

definition same_but_log :: "'a os_scheme \<Rightarrow> 'a os_scheme \<Rightarrow> bool" where
  "same_but_log s s' \<longleftrightarrow> (\<exists>l. s' = s\<lparr>klog := l\<rparr>)"

lemma same_but_log_klog: "same_but_log s (s'\<lparr>klog := l\<rparr>) = same_but_log s s'"
proof -
  have "s' = s\<lparr>klog := l'\<rparr>" if "s'\<lparr>klog := l\<rparr> = s\<lparr>klog := k\<rparr>" "l' = klog s'" for k l'
  proof -
    have "s'\<lparr>klog := l\<rparr>\<lparr>klog := l'\<rparr> = s\<lparr>klog := k\<rparr>\<lparr>klog := l'\<rparr>" using that(1) by simp
    then show ?thesis using that(2) by simp
  qed
  then show ?thesis unfolding same_but_log_def by (metis os.update_convs(4) os.surjective os.fold_congs(4))
qed

lemma ignores_log_same: "ignores_log (same_but_log s)"
  by (simp add: ignores_log_def same_but_log_klog)

lemma same_but_log_refl: "same_but_log s s"
  unfolding same_but_log_def by (rule exI [of _ "klog s"]) simp

lemma same_but_log_frame:
  assumes "m s = (r, s')" "preserves (same_but_log s) m"
  shows "\<exists>l. s' = s\<lparr>klog := l\<rparr>"
  using preservesD [OF assms(2) same_but_log_refl assms(1)] by (simp add: same_but_log_def)

lemma kernel_call_frame: "kernel_call K c s = (r, s') \<Longrightarrow> \<exists>l. s' = s\<lparr>klog := l\<rparr>"
  by (auto simp: kernel_call_def)

lemma NV_IOWR_frame: "NV_IOWR K fd nr ps s = (r, s') \<Longrightarrow> \<exists>l. s' = s\<lparr>klog := l\<rparr>"
  by (erule same_but_log_frame) (intro presI ignores_log_same)

lemma UVM_IOCTL_frame: "UVM_IOCTL K fd nr ps s = (r, s') \<Longrightarrow> \<exists>l. s' = s\<lparr>klog := l\<rparr>"
  by (erule same_but_log_frame) (intro presI ignores_log_same)

lemma RM_ALLOC_frame: "RM_ALLOC K fd c cl p ob ps s = (r, s') \<Longrightarrow> \<exists>l. s' = s\<lparr>klog := l\<rparr>"
  by (erule same_but_log_frame) (intro presI ignores_log_same)

lemma RM_CTRL_frame: "RM_CTRL K fd c cl ob ps s = (r, s') \<Longrightarrow> \<exists>l. s' = s\<lparr>klog := l\<rparr>"
  by (erule same_but_log_frame) (intro presI ignores_log_same)

lemmas kernel_frames =
  kernel_call_frame NV_IOWR_frame UVM_IOCTL_frame RM_ALLOC_frame RM_CTRL_frame

end
