(* ===== verification/Va_Space.thy ===== *)
theory Va_Space
  imports Kernel_Interface
begin

text \<open>
  GPU memory management of \<open>driverapi/src/librecuda.cpp\<close>: contexts and devices, the bump
  allocator of virtual addresses (\<open>bump_alloc_virtual_addr\<close>), allocation and release
  (\<open>gpuAlloc\<close>, \<open>gpuSystemAlloc\<close>, \<open>gpuFree\<close>, \<open>libreCuMemAlloc\<close>, \<open>libreCuMemFree\<close>), mapping to the
  CPU and the GPU (\<open>memMapToCpu\<close>, \<open>memUVMMap\<close>) and the classification of pointers
  (\<open>isDevicePtr\<close>, \<open>isHostMappedPtr\<close>). A pointer to a context is a number, 0 for \<open>nullptr\<close>.
\<close>

section \<open>State\<close>

record device =
  ordinal :: int
  instance_nr :: NvU32
  uuid :: "NvU32 list"
  gpu_mmio :: NvU64
  compute_class :: NvU32
  device_info :: "(NvU32 \<times> NvU32) list"  \<comment> \<open>index and data of each \<open>NV2080_CTRL_GR_INFO\<close>\<close>

text \<open>
  The pointers \<open>ring\<close> and \<open>controls\<close> of a channel are kept as addresses, next to what they point to.
\<close>

record gpfifo =
  ring_va :: NvU64
  controls_va :: NvU64
  ring :: "NvU32 \<Rightarrow> NvU64"
  entries_count :: NvU32
  token :: NvU32
  GPGet :: NvU32       \<comment> \<open>\<open>controls->GPGet\<close>, advanced by the GPU\<close>
  GPPut :: NvU32       \<comment> \<open>\<open>controls->GPPut\<close>\<close>
  put_value :: NvU32

record cu_context =
  device_fd :: int
  ctx_flags :: NvU32
  ctx_device :: nat    \<comment> \<open>index into \<open>public_device_handles\<close>\<close>
  device_handle :: NvU32
  uvm_vaddr :: NvU64
  va_space_handle :: NvU32
  compute_gpfifo :: gpfifo
  dma_gpfifo :: gpfifo
  ctx_share :: NvU32
  channel_group :: NvU32

record vm = os +
  public_device_handles :: "device list"
  ctxs :: "nat \<Rightarrow> cu_context"
  current_ctx :: nat
  hostMappedPtrs :: "(NvU64 \<times> NvU64) list"
  va_to_mem_handle :: "NvU64 \<rightharpoonup> NvU32"

definition UVM_HEAP_START :: NvU64 where
  "UVM_HEAP_START = 0x1000000000"

definition modify_ctx :: "nat \<Rightarrow> (cu_context \<Rightarrow> cu_context) \<Rightarrow> ('a vm_scheme, unit) prog" where
  "modify_ctx c f = modify (\<lambda>s. s\<lparr>ctxs := (ctxs s)(c := f (ctxs s c))\<rparr>)"

text \<open>\<open>LIBRECUDA_ENSURE_CTX_VALID\<close>.\<close>

definition LIBRECUDA_ENSURE_CTX_VALID :: "('a vm_scheme, unit) prog" where
  "LIBRECUDA_ENSURE_CTX_VALID =
     bind (gets current_ctx) (\<lambda>c. validate (c \<noteq> 0) LIBRECUDA_ERROR_INVALID_CONTEXT)"

section \<open>Device files\<close>

text \<open>\<open>std::to_string\<close> of an unsigned number.\<close>

fun to_string :: "nat \<Rightarrow> string" where
  "to_string n = (if n < 10 then [char_of (48 + n)] else to_string (n div 10) @ [char_of (48 + n mod 10)])"

declare to_string.simps [simp del]

definition getDeviceFile :: "device \<Rightarrow> string" where
  "getDeviceFile d = ''/dev/nvidia'' @ to_string (unat (instance_nr d))"

section \<open>The virtual address bump allocator\<close>

definition bump_va :: "NvU64 \<Rightarrow> NvU32 \<Rightarrow> NvU64" where
  "bump_va va alignment =
     (let slack = va mod ucast alignment
      in if slack \<noteq> 0 then va + (ucast alignment - slack) else va)"

definition bump_alloc_virtual_addr ::
  "nat \<Rightarrow> NvU64 \<Rightarrow> NvU32 \<Rightarrow> ('a vm_scheme, NvU64) prog" where
  "bump_alloc_virtual_addr ctx sz alignment =
     bind (gets (\<lambda>s. bump_va (uvm_vaddr (ctxs s ctx)) alignment)) (\<lambda>va_address.
     bind (if va_address mod ucast alignment = 0 then succeed else stop (Throw ''assert'')) (\<lambda>_.
     bind (modify_ctx ctx (\<lambda>c. c\<lparr>uvm_vaddr := va_address + sz\<rparr>)) (\<lambda>_.
     ret va_address)))"

section \<open>Mapping\<close>

definition MAP_FAILED :: NvU64 where
  "MAP_FAILED = - 1"

text \<open>
  The descriptor \<open>memMapToCpu\<close> opens. The early returns of the failed calls leave it open.
\<close>

definition open_for_map :: "kern \<Rightarrow> nat \<Rightarrow> bool \<Rightarrow> ('a vm_scheme, int) prog" where
  "open_for_map K ctx isSystemAlloc =
     (if isSystemAlloc then
        bind (kernel_call K (KOpen ''/dev/nvidiactl'')) (\<lambda>r.
        bind (validate (kret r \<noteq> - 1) LIBRECUDA_ERROR_INVALID_DEVICE) (\<lambda>_.
        ret (kret r)))
      else
        bind (gets (\<lambda>s. getDeviceFile (public_device_handles s ! ctx_device (ctxs s ctx)))) (\<lambda>file.
        bind (kernel_call K (KOpen file)) (\<lambda>r.
        bind (validate (kret r \<noteq> - 1) LIBRECUDA_ERROR_INVALID_DEVICE) (\<lambda>_.
        bind (gets fd_ctl) (\<lambda>ctl.
        bind (NV_IOWR K (kret r) NV_ESC_REGISTER_FD [(''ctl_fd'', word_of_int ctl)]) (\<lambda>_.
        ret (kret r)))))))"

definition memMapToCpu ::
  "kern \<Rightarrow> nat \<Rightarrow> NvU32 \<Rightarrow> NvU64 \<Rightarrow> NvU64 \<Rightarrow> NvU32 \<Rightarrow> bool \<Rightarrow> ('a vm_scheme, NvU64) prog" where
  "memMapToCpu K ctx memoryHandle sz targetVa mapFlags isSystemAlloc =
     bind (validate (ctx \<noteq> 0) LIBRECUDA_ERROR_INVALID_VALUE) (\<lambda>_.
     bind (validate (memoryHandle \<noteq> 0) LIBRECUDA_ERROR_INVALID_VALUE) (\<lambda>_.
     bind (open_for_map K ctx isSystemAlloc) (\<lambda>device_fd.
     bind (gets (\<lambda>s. (fd_ctl s, root s, device_handle (ctxs s ctx)))) (\<lambda>(ctl, rt, dev).
     bind (NV_IOWR K ctl NV_ESC_RM_MAP_MEMORY
       [(''hClient'', ucast rt), (''hDevice'', ucast dev), (''hMemory'', ucast memoryHandle),
        (''length'', sz), (''flags'', ucast mapFlags), (''fd'', word_of_int device_fd)]) (\<lambda>_.
     bind (kernel_call K (KMmap targetVa sz (targetVa \<noteq> 0) device_fd)) (\<lambda>m.
     bind (validate (kaddr m \<noteq> MAP_FAILED) LIBRECUDA_ERROR_UNKNOWN) (\<lambda>_.
     bind (kernel_call K (KClose device_fd)) (\<lambda>_.
     ret (if targetVa = 0 then kaddr m else targetVa)))))))))"

definition UVM_CREATE_EXTERNAL_RANGE :: NvU32 where "UVM_CREATE_EXTERNAL_RANGE = 73"
definition UVM_MAP_EXTERNAL_ALLOCATION :: NvU32 where "UVM_MAP_EXTERNAL_ALLOCATION = 33"
definition UvmGpuMappingTypeReadWriteAtomic :: NvU64 where
  "UvmGpuMappingTypeReadWriteAtomic = 1"

definition memUVMMap ::
  "kern \<Rightarrow> nat \<Rightarrow> NvU32 \<Rightarrow> NvU64 \<Rightarrow> NvU64 \<Rightarrow> ('a vm_scheme, unit) prog" where
  "memUVMMap K ctx memoryHandle virtualAddress sz =
     bind (validate (ctx \<noteq> 0) LIBRECUDA_ERROR_INVALID_VALUE) (\<lambda>_.
     bind (validate (memoryHandle \<noteq> 0) LIBRECUDA_ERROR_INVALID_VALUE) (\<lambda>_.
     bind (validate (virtualAddress \<noteq> 0) LIBRECUDA_ERROR_INVALID_VALUE) (\<lambda>_.
     bind (gets (\<lambda>s. (fd_uvm s, fd_ctl s, root s,
       map ucast (uuid (public_device_handles s ! ctx_device (ctxs s ctx)))))) (\<lambda>(uvm, ctl, rt, id).
     bind (UVM_IOCTL K uvm UVM_CREATE_EXTERNAL_RANGE
       [(''base'', virtualAddress), (''length'', sz)]) (\<lambda>_.
     UVM_IOCTL K uvm UVM_MAP_EXTERNAL_ALLOCATION
       ([(''base'', virtualAddress), (''length'', sz)] @ map (Pair ''gpuUuid'') id @
        [(''gpuMappingType'', UvmGpuMappingTypeReadWriteAtomic), (''gpuAttributesCount'', 1),
         (''rmCtrlFd'', word_of_int ctl), (''hClient'', ucast rt),
         (''hMemory'', ucast memoryHandle)]))))))"

section \<open>Allocation\<close>

definition NV1_MEMORY_USER :: NvU32 where "NV1_MEMORY_USER = 0x40"
definition NV1_MEMORY_SYSTEM :: NvU32 where "NV1_MEMORY_SYSTEM = 0x3e"
definition NVOS32_ATTR_PAGE_SIZE_HUGE :: NvU32 where "NVOS32_ATTR_PAGE_SIZE_HUGE = 3"
definition NVOS32_ATTR_PHYSICALITY_CONTIGUOUS :: NvU32 where "NVOS32_ATTR_PHYSICALITY_CONTIGUOUS = 2"
definition NVOS32_ATTR_PHYSICALITY_ALLOW_NONCONTIGUOUS :: NvU32 where
  "NVOS32_ATTR_PHYSICALITY_ALLOW_NONCONTIGUOUS = 3"
definition NVOS32_ATTR_LOCATION_PCI :: NvU32 where "NVOS32_ATTR_LOCATION_PCI = 1"
definition NVOS32_ATTR2_ZBC_PREFER_NO_ZBC :: NvU32 where "NVOS32_ATTR2_ZBC_PREFER_NO_ZBC = 1"
definition NVOS32_ATTR2_GPU_CACHEABLE_YES :: NvU32 where "NVOS32_ATTR2_GPU_CACHEABLE_YES = 1"
definition NVOS32_ATTR2_GPU_CACHEABLE_NO :: NvU32 where "NVOS32_ATTR2_GPU_CACHEABLE_NO = 2"
definition NVOS32_ATTR2_PAGE_SIZE_HUGE_2MB :: NvU32 where "NVOS32_ATTR2_PAGE_SIZE_HUGE_2MB = 1"
definition NV_MMU_PTE_KIND_GENERIC_MEMORY :: NvU32 where "NV_MMU_PTE_KIND_GENERIC_MEMORY = 6"
definition NVOS32_TYPE_NOTIFIER :: NvU32 where "NVOS32_TYPE_NOTIFIER = 13"
definition NVOS32_ALLOC_FLAGS_IGNORE_BANK_PLACEMENT :: NvU32 where
  "NVOS32_ALLOC_FLAGS_IGNORE_BANK_PLACEMENT = 1"
definition NVOS32_ALLOC_FLAGS_MEMORY_HANDLE_PROVIDED :: NvU32 where
  "NVOS32_ALLOC_FLAGS_MEMORY_HANDLE_PROVIDED = 0x4000"
definition NVOS32_ALLOC_FLAGS_MAP_NOT_REQUIRED :: NvU32 where
  "NVOS32_ALLOC_FLAGS_MAP_NOT_REQUIRED = 0x8000"

definition page_alignment :: "bool \<Rightarrow> NvU64" where
  "page_alignment hugePages = (if hugePages then push_bit 20 2 else push_bit 10 4)"

definition gpuAlloc ::
  "kern \<Rightarrow> nat \<Rightarrow> NvU64 \<Rightarrow> bool \<Rightarrow> bool \<Rightarrow> bool \<Rightarrow> NvU32 \<Rightarrow> ('a vm_scheme, NvU64 \<times> NvU32) prog" where
  "gpuAlloc K ctx size0 physicalContiguity hugePages mapToCpu mapFlags =
     bind (validate (ctx \<noteq> 0) LIBRECUDA_ERROR_INVALID_VALUE) (\<lambda>_.
     let alignment = page_alignment hugePages;
         sz = ceilDiv64 size0 alignment * alignment;
         attr = (if hugePages then push_bit 23 NVOS32_ATTR_PAGE_SIZE_HUGE else 0) OR
                push_bit 27 (if physicalContiguity then NVOS32_ATTR_PHYSICALITY_CONTIGUOUS
                             else NVOS32_ATTR_PHYSICALITY_ALLOW_NONCONTIGUOUS);
         attr2 = NVOS32_ATTR2_ZBC_PREFER_NO_ZBC OR push_bit 2 NVOS32_ATTR2_GPU_CACHEABLE_YES OR
                (if hugePages then push_bit 20 NVOS32_ATTR2_PAGE_SIZE_HUGE_2MB else 0)
     in
     bind (gets (\<lambda>s. (fd_ctl s, root s, device_handle (ctxs s ctx)))) (\<lambda>(ctl, rt, dev).
     bind (RM_ALLOC K ctl NV1_MEMORY_USER rt dev 0
       [(''owner'', ucast rt), (''attr'', ucast attr), (''attr2'', ucast attr2),
        (''format'', ucast NV_MMU_PTE_KIND_GENERIC_MEMORY), (''size'', sz),
        (''alignment'', alignment), (''offset'', 0), (''limit'', sz - 1)]) (\<lambda>memory_handle.
     bind (bump_alloc_virtual_addr ctx sz (ucast alignment)) (\<lambda>va_address.
     bind (memUVMMap K ctx memory_handle va_address sz) (\<lambda>_.
     bind (if mapToCpu then
             bind (modify (\<lambda>s. s\<lparr>hostMappedPtrs := hostMappedPtrs s @ [(va_address, va_address + sz)]\<rparr>))
               (\<lambda>_. memMapToCpu K ctx memory_handle sz va_address mapFlags False)
           else ret va_address) (\<lambda>va.
     bind (modify (\<lambda>s. s\<lparr>va_to_mem_handle := (va_to_mem_handle s)(va \<mapsto> memory_handle)\<rparr>)) (\<lambda>_.
     ret (va, memory_handle))))))))"

definition gpuSystemAlloc ::
  "kern \<Rightarrow> nat \<Rightarrow> NvU64 \<Rightarrow> bool \<Rightarrow> NvU32 \<Rightarrow> ('a vm_scheme, NvU64 \<times> NvU32) prog" where
  "gpuSystemAlloc K ctx sz mapToCpu mapFlags =
     bind (validate (ctx \<noteq> 0) LIBRECUDA_ERROR_INVALID_VALUE) (\<lambda>_.
     bind (gets (\<lambda>s. (fd_ctl s, root s, device_handle (ctxs s ctx)))) (\<lambda>(ctl, rt, dev).
     bind (RM_ALLOC K ctl NV1_MEMORY_SYSTEM rt dev 0
       [(''owner'', ucast rt), (''type'', ucast NVOS32_TYPE_NOTIFIER),
        (''flags'', ucast (NVOS32_ALLOC_FLAGS_IGNORE_BANK_PLACEMENT OR
           NVOS32_ALLOC_FLAGS_MEMORY_HANDLE_PROVIDED OR NVOS32_ALLOC_FLAGS_MAP_NOT_REQUIRED)),
        (''attr'', ucast (push_bit 27 NVOS32_ATTR_PHYSICALITY_ALLOW_NONCONTIGUOUS OR
           push_bit 25 NVOS32_ATTR_LOCATION_PCI)),
        (''attr2'', ucast (NVOS32_ATTR2_ZBC_PREFER_NO_ZBC OR
           push_bit 2 NVOS32_ATTR2_GPU_CACHEABLE_NO)),
        (''format'', 6), (''size'', sz), (''alignment'', push_bit 10 4), (''offset'', 0),
        (''limit'', sz - 1)]) (\<lambda>memory_handle.
     bind (bump_alloc_virtual_addr ctx sz (push_bit 10 4)) (\<lambda>va_address.
     bind (if mapToCpu then memMapToCpu K ctx memory_handle sz va_address mapFlags True
           else ret va_address) (\<lambda>va.
     bind (memUVMMap K ctx memory_handle va sz) (\<lambda>_.
     ret (va, memory_handle)))))))"

text \<open>The API function; \<open>pDevicePointer\<close> says whether its output pointer is non-null.\<close>

definition libreCuMemAlloc ::
  "kern \<Rightarrow> bool \<Rightarrow> NvU64 \<Rightarrow> bool \<Rightarrow> ('a vm_scheme, NvU64) prog" where
  "libreCuMemAlloc K pDevicePointer bytesize mapToCpu =
     bind (validate pDevicePointer LIBRECUDA_ERROR_INVALID_VALUE) (\<lambda>_.
     bind (validate (bytesize > 0) LIBRECUDA_ERROR_INVALID_VALUE) (\<lambda>_.
     bind LIBRECUDA_ENSURE_CTX_VALID (\<lambda>_.
     let hugePages = bytesize > push_bit 20 16 in
     bind (gets current_ctx) (\<lambda>c.
     bind (gpuAlloc K c bytesize False hugePages mapToCpu 0) (\<lambda>(va_address, _).
     ret va_address)))))"

section \<open>Release\<close>

text \<open>The search of \<open>gpuFree\<close>, from the end of \<open>hostMappedPtrs\<close>: the first range found goes.\<close>

fun erase_range :: "NvU64 \<Rightarrow> (NvU64 \<times> NvU64) list \<Rightarrow> (NvU64 \<times> NvU64) list" where
  "erase_range va [] = []"
| "erase_range va ((lo, hi) # rs) = (if va < hi \<and> va \<ge> lo then rs else (lo, hi) # erase_range va rs)"

definition gpuFree :: "kern \<Rightarrow> nat \<Rightarrow> NvU64 \<Rightarrow> ('a vm_scheme, unit) prog" where
  "gpuFree K ctx virtualAddress =
     bind (gets (\<lambda>s. va_to_mem_handle s virtualAddress)) (\<lambda>it.
     case it of
       None \<Rightarrow> fail LIBRECUDA_ERROR_INVALID_VALUE
     | Some mem_handle \<Rightarrow>
         bind (gets (\<lambda>s. (fd_ctl s, root s, device_handle (ctxs s ctx)))) (\<lambda>(ctl, rt, dev).
         bind (NV_IOWR K ctl NV_ESC_RM_FREE
           [(''hRoot'', ucast rt), (''hObjectParent'', ucast dev), (''hObjectOld'', ucast mem_handle)])
           (\<lambda>_.
         modify (\<lambda>s. s\<lparr>va_to_mem_handle := (va_to_mem_handle s)(virtualAddress := None),
           hostMappedPtrs := rev (erase_range virtualAddress (rev (hostMappedPtrs s)))\<rparr>))))"

definition libreCuMemFree :: "kern \<Rightarrow> NvU64 \<Rightarrow> ('a vm_scheme, unit) prog" where
  "libreCuMemFree K devicePointer =
     bind (validate (devicePointer \<noteq> 0) LIBRECUDA_ERROR_INVALID_VALUE) (\<lambda>_.
     bind LIBRECUDA_ENSURE_CTX_VALID (\<lambda>_.
     bind (gets current_ctx) (\<lambda>c. gpuFree K c devicePointer)))"

section \<open>Classification of pointers\<close>

text \<open>
  Both functions return \<open>bool\<close>, and without a current context their first line returns the status
  \<open>LIBRECUDA_ERROR_INVALID_CONTEXT\<close> (201), which converts to true.
\<close>

definition isDevicePtr :: "'a vm_scheme \<Rightarrow> NvU64 \<Rightarrow> bool" where
  "isDevicePtr s va =
     (if current_ctx s = 0 then True
      else if va < UVM_HEAP_START then False
      else if va < uvm_vaddr (ctxs s (current_ctx s)) then True
      else False)"

fun host_search :: "NvU64 \<Rightarrow> (NvU64 \<times> NvU64) list \<Rightarrow> bool" where
  "host_search va [] = False"
| "host_search va ((lo, hi) # rs) =
     (if va < hi \<and> va \<ge> lo then True
      else if lo < va then False
      else host_search va rs)"

definition isHostMappedPtr :: "'a vm_scheme \<Rightarrow> NvU64 \<Rightarrow> bool" where
  "isHostMappedPtr s va =
     (if current_ctx s = 0 then True
      else if \<not> isDevicePtr s va then False
      else host_search va (rev (hostMappedPtrs s)))"

section \<open>The allocator's arithmetic\<close>

lemma unat_bump_va:
  assumes "al \<noteq> 0" "unat va + unat al < 2 ^ 64"
  shows "unat (bump_va va al) = round_up (unat va) (unat al)"
proof -
  let ?a = "unat al" and ?v = "unat va"
  have a: "unat (ucast al :: NvU64) = ?a"
    by (simp add:)
  have pos: "0 < ?a" using assms(1) by (simp add: unat_gt_0)
  have m: "unat (va mod ucast al) = ?v mod ?a" by (simp add: unat_mod a)
  have z: "(va mod ucast al = 0) = (?v mod ?a = 0)"
    by (metis m unat_0 unat_eq_zero)
  show ?thesis
  proof (cases "?v mod ?a = 0")
    case True
    then show ?thesis using z pos by (simp add: bump_va_def Let_def round_up_split)
  next
    case False
    have lt: "?v mod ?a < ?a" using pos by simp
    have s: "unat (ucast al - va mod ucast al) = ?a - ?v mod ?a"
      using unat_word_minus [of "va mod ucast al" "ucast al"] m a lt by simp
    have "unat (va + (ucast al - va mod ucast al)) = ?v + (?a - ?v mod ?a)"
      using unat_word_sum [of va "ucast al - va mod ucast al"] s assms(2) by simp
    then show ?thesis using False z pos by (simp add: bump_va_def Let_def round_up_split)
  qed
qed

lemma bump_va_aligned:
  assumes "al \<noteq> 0" "unat va + unat al < 2 ^ 64"
  shows "bump_va va al mod ucast al = 0"
proof -
  have "unat (bump_va va al mod ucast al) = round_up (unat va) (unat al) mod unat al"
    by (simp add: unat_mod unat_bump_va [OF assms])
  then show ?thesis by (simp add: round_up_def unat_eq_zero)
qed

lemma bump_alloc_run:
  assumes "al \<noteq> 0" "unat (uvm_vaddr (ctxs s c)) + unat al < 2 ^ 64"
  shows "bump_alloc_virtual_addr c sz al s =
    (let va = bump_va (uvm_vaddr (ctxs s c)) al
     in (Inr va, s\<lparr>ctxs := (ctxs s)(c := (ctxs s c)\<lparr>uvm_vaddr := va + sz\<rparr>)\<rparr>))"
  using bump_va_aligned [OF assms]
  by (simp add: bump_alloc_virtual_addr_def modify_ctx_def Let_def)

lemma page_alignment_values: "page_alignment h = (if h then 0x200000 else 0x1000)"
  by (simp add: page_alignment_def push_bit_eq_mult)

lemma page_alignment_32:
  "(ucast (page_alignment h) :: NvU32) \<noteq> 0"
  "unat (ucast (page_alignment h) :: NvU32) = unat (page_alignment h)"
  "unat (page_alignment h) \<le> 0x200000" "0 < unat (page_alignment h)"
  by (simp_all add: page_alignment_values)

section \<open>What the allocation functions do\<close>

lemma memUVMMap_frame: "memUVMMap K c h va sz s = (r, s') \<Longrightarrow> \<exists>l. s' = s\<lparr>klog := l\<rparr>"
  by (erule same_but_log_frame)
    (auto simp: memUVMMap_def intro!: presI ignores_log_same split: prod.splits)

lemma open_for_map_frame: "open_for_map K c b s = (r, s') \<Longrightarrow> \<exists>l. s' = s\<lparr>klog := l\<rparr>"
  by (erule same_but_log_frame)
    (auto simp: open_for_map_def intro!: presI ignores_log_same split: prod.splits)

lemma memMapToCpu_frame:
  "memMapToCpu K c h sz va fl b s = (r, s') \<Longrightarrow> \<exists>l. s' = s\<lparr>klog := l\<rparr>"
  by (erule same_but_log_frame)
    (auto simp: memMapToCpu_def open_for_map_def intro!: presI ignores_log_same split: prod.splits)

lemma memMapToCpu_fixed:
  "va \<noteq> 0 \<Longrightarrow> memMapToCpu K c h sz va fl b s = (Inr v, s') \<Longrightarrow> v = va"
  by (auto simp: memMapToCpu_def bind_eq_Inr)

text \<open>The effect of an allocation on the driver's tables, apart from the call log.\<close>

definition alloc_effect ::
  "nat \<Rightarrow> NvU64 \<Rightarrow> NvU64 \<Rightarrow> bool \<Rightarrow> NvU32 option \<Rightarrow> 'a vm_scheme \<Rightarrow> 'a vm_scheme" where
  "alloc_effect c va sz host h s = s\<lparr>
     ctxs := (ctxs s)(c := (ctxs s c)\<lparr>uvm_vaddr := va + sz\<rparr>),
     hostMappedPtrs := hostMappedPtrs s @ (if host then [(va, va + sz)] else []),
     va_to_mem_handle := (case h of None \<Rightarrow> va_to_mem_handle s
                          | Some m \<Rightarrow> (va_to_mem_handle s)(va \<mapsto> m))\<rparr>"

definition alloc_size :: "bool \<Rightarrow> NvU64 \<Rightarrow> NvU64" where
  "alloc_size hugePages sz = roundUp64 sz (page_alignment hugePages)"

definition alloc_base :: "nat \<Rightarrow> bool \<Rightarrow> 'a vm_scheme \<Rightarrow> NvU64" where
  "alloc_base c hugePages s = bump_va (uvm_vaddr (ctxs s c)) (ucast (page_alignment hugePages))"

text \<open>The part of \<open>gpuAlloc\<close> after the resource manager's allocation.\<close>

definition alloc_tail ::
  "kern \<Rightarrow> nat \<Rightarrow> NvU64 \<Rightarrow> bool \<Rightarrow> bool \<Rightarrow> NvU32 \<Rightarrow> NvU32 \<Rightarrow> ('a vm_scheme, NvU64 \<times> NvU32) prog" where
  "alloc_tail K c sz hp host fl h =
     bind (bump_alloc_virtual_addr c sz (ucast (page_alignment hp))) (\<lambda>va_address.
     bind (memUVMMap K c h va_address sz) (\<lambda>_.
     bind (if host then
             bind (modify (\<lambda>s. s\<lparr>hostMappedPtrs := hostMappedPtrs s @ [(va_address, va_address + sz)]\<rparr>))
               (\<lambda>_. memMapToCpu K c h sz va_address fl False)
           else ret va_address) (\<lambda>va.
     bind (modify (\<lambda>s. s\<lparr>va_to_mem_handle := (va_to_mem_handle s)(va \<mapsto> h)\<rparr>)) (\<lambda>_.
     ret (va, h)))))"

lemma alloc_tail_outcome:
  assumes run: "alloc_tail K c sz hp host fl h s = (r, s')"
    and fit: "unat (uvm_vaddr (ctxs s c)) + 0x200000 < 2 ^ 64"
    and nz: "alloc_base c hp s \<noteq> 0"
  shows "(\<exists>e b l. r = Inl e \<and> (b \<longrightarrow> host) \<and>
            s' = (alloc_effect c (alloc_base c hp s) sz b None s)\<lparr>klog := l\<rparr>) \<or>
         (\<exists>l. r = Inr (alloc_base c hp s, h) \<and>
            s' = (alloc_effect c (alloc_base c hp s) sz host (Some h) s)\<lparr>klog := l\<rparr>)"
proof -
  let ?al = "page_alignment hp" and ?va = "alloc_base c hp s"
  have fit': "unat (uvm_vaddr (ctxs s c)) + unat (ucast ?al :: NvU32) < 2 ^ 64"
    using fit page_alignment_32 [of hp] by linarith
  define s1 where "s1 = s\<lparr>ctxs := (ctxs s)(c := (ctxs s c)\<lparr>uvm_vaddr := ?va + sz\<rparr>)\<rparr>"
  have b: "bump_alloc_virtual_addr c sz (ucast ?al) s = (Inr ?va, s1)"
    using bump_alloc_run [OF page_alignment_32(1) fit', of sz]
    by (simp add: alloc_base_def Let_def s1_def)
  obtain r2 s2 where m: "memUVMMap K c h ?va sz s1 = (r2, s2)" by fastforce
  then obtain l2 where s2: "s2 = s1\<lparr>klog := l2\<rparr>" using memUVMMap_frame by blast
  note st = s2 s1_def alloc_effect_def
  note step = alloc_tail_def bind_def b m
  have fail: ?thesis if "r2 = Inl e" for e
  proof -
    have "(r, s') = (Inl e, s2)" unfolding run [symmetric] by (simp add: step that)
    moreover have "s2 = (alloc_effect c ?va sz False None s)\<lparr>klog := l2\<rparr>" by (simp add: st)
    ultimately show ?thesis by (intro disjI1 exI [of _ e] exI [of _ False] exI [of _ l2]) simp
  qed
  have ok: ?thesis if "r2 = Inr u" for u
  proof (cases host)
    case False
    have "(r, s') = (Inr (?va, h), s2\<lparr>va_to_mem_handle := (va_to_mem_handle s2)(?va \<mapsto> h)\<rparr>)"
      unfolding run [symmetric] by (simp add: step that False)
    moreover have "s2\<lparr>va_to_mem_handle := (va_to_mem_handle s2)(?va \<mapsto> h)\<rparr> =
        (alloc_effect c ?va sz host (Some h) s)\<lparr>klog := l2\<rparr>"
      using False by (simp add: st)
    ultimately show ?thesis by (intro disjI2 exI [of _ l2]) simp
  next
    case True
    define s3 where "s3 = s2\<lparr>hostMappedPtrs := hostMappedPtrs s2 @ [(?va, ?va + sz)]\<rparr>"
    obtain r4 s4 where m4: "memMapToCpu K c h sz ?va fl False s3 = (r4, s4)" by fastforce
    then obtain l4 where s4: "s4 = s3\<lparr>klog := l4\<rparr>" using memMapToCpu_frame by blast
    show ?thesis
    proof (cases r4)
      case (Inl e)
      have "(r, s') = (Inl e, s4)"
        using m4 Inl unfolding run [symmetric] by (simp add: step that True s3_def)
      moreover have "s4 = (alloc_effect c ?va sz True None s)\<lparr>klog := l4\<rparr>"
        by (simp add: s4 s3_def st)
      ultimately show ?thesis using True
        by (intro disjI1 exI [of _ e] exI [of _ True] exI [of _ l4]) simp
    next
      case (Inr v)
      then have v: "v = ?va" using m4 nz memMapToCpu_fixed by blast
      have "(r, s') = (Inr (?va, h), s4\<lparr>va_to_mem_handle := (va_to_mem_handle s4)(?va \<mapsto> h)\<rparr>)"
        using m4 Inr v unfolding run [symmetric] by (simp add: step that True s3_def)
      moreover have "s4\<lparr>va_to_mem_handle := (va_to_mem_handle s4)(?va \<mapsto> h)\<rparr> =
          (alloc_effect c ?va sz host (Some h) s)\<lparr>klog := l4\<rparr>"
        using True by (simp add: s4 s3_def st)
      ultimately show ?thesis by (intro disjI2 exI [of _ l4]) simp
    qed
  qed
  show ?thesis using fail ok by (cases r2) blast+
qed

text \<open>
  Every way a call of \<open>gpuAlloc\<close> ends: before the virtual address is taken, after it, or with
  success. A failure after the address was taken leaves the range in \<open>hostMappedPtrs\<close>.
\<close>

lemma gpuAlloc_outcome:
  assumes run: "gpuAlloc K c sz0 ph hp host fl s = (r, s')"
    and fit: "unat (uvm_vaddr (ctxs s c)) + 0x200000 < 2 ^ 64"
    and nz: "alloc_base c hp s \<noteq> 0"
  obtains (early) e l where "r = Inl e" "s' = s\<lparr>klog := l\<rparr>"
  | (late) e b l where "r = Inl e" "b \<longrightarrow> host"
      "s' = (alloc_effect c (alloc_base c hp s) (alloc_size hp sz0) b None s)\<lparr>klog := l\<rparr>"
  | (finished) h l where "r = Inr (alloc_base c hp s, h)" "c \<noteq> 0"
      "s' = (alloc_effect c (alloc_base c hp s) (alloc_size hp sz0) host (Some h) s)\<lparr>klog := l\<rparr>"
proof (cases "c = 0")
  case True
  then have "r = Inl (Fail LIBRECUDA_ERROR_INVALID_VALUE)" "s' = s\<lparr>klog := klog s\<rparr>"
    using run by (simp_all add: gpuAlloc_def)
  then show thesis by (rule early)
next
  case False
  obtain ps where ps: "gpuAlloc K c sz0 ph hp host fl s =
      bind (RM_ALLOC K (fd_ctl s) NV1_MEMORY_USER (root s) (device_handle (ctxs s c)) 0 ps)
        (alloc_tail K c (alloc_size hp sz0) hp host fl) s"
    using False
    by (simp add: gpuAlloc_def alloc_tail_def [abs_def] alloc_size_def roundUp64_def Let_def)
  obtain r1 s1 where m: "RM_ALLOC K (fd_ctl s) NV1_MEMORY_USER (root s) (device_handle (ctxs s c)) 0 ps s
      = (r1, s1)" by fastforce
  then obtain l1 where s1: "s1 = s\<lparr>klog := l1\<rparr>" using RM_ALLOC_frame by blast
  show thesis
  proof (cases r1)
    case (Inl e)
    then show thesis using run ps m s1 early [of e l1] by (auto simp: bind_def)
  next
    case (Inr h)
    then have t: "alloc_tail K c (alloc_size hp sz0) hp host fl h s1 = (r, s')"
      using run ps m by (simp add: bind_def)
    have same: "alloc_base c hp s1 = alloc_base c hp s" "uvm_vaddr (ctxs s1 c) = uvm_vaddr (ctxs s c)"
      "(alloc_effect c v z b m s1)\<lparr>klog := l\<rparr> = (alloc_effect c v z b m s)\<lparr>klog := l\<rparr>" for v z b m l
      by (simp_all add: s1 alloc_base_def alloc_effect_def split: option.split)
    show thesis
      using alloc_tail_outcome [OF t] fit nz late finished False unfolding same by blast
  qed
qed

text \<open>The same for \<open>gpuSystemAlloc\<close>: it never touches the two tables.\<close>

definition system_tail ::
  "kern \<Rightarrow> nat \<Rightarrow> NvU64 \<Rightarrow> bool \<Rightarrow> NvU32 \<Rightarrow> NvU32 \<Rightarrow> ('a vm_scheme, NvU64 \<times> NvU32) prog" where
  "system_tail K c sz mapToCpu fl h =
     bind (bump_alloc_virtual_addr c sz (push_bit 10 4)) (\<lambda>va_address.
     bind (if mapToCpu then memMapToCpu K c h sz va_address fl True
           else ret va_address) (\<lambda>va.
     bind (memUVMMap K c h va sz) (\<lambda>_.
     ret (va, h))))"

lemma small_page: "(push_bit 10 4 :: NvU32) = 0x1000"
  by (simp add: push_bit_eq_mult)

lemma alloc_base_small: "alloc_base c False s = bump_va (uvm_vaddr (ctxs s c)) (push_bit 10 4)"
  by (simp add: alloc_base_def page_alignment_values small_page)

lemma system_tail_outcome:
  assumes run: "system_tail K c sz host fl h s = (r, s')"
    and fit: "unat (uvm_vaddr (ctxs s c)) + 0x200000 < 2 ^ 64"
    and nz: "alloc_base c False s \<noteq> 0"
  shows "\<exists>l. s' = (alloc_effect c (alloc_base c False s) sz False None s)\<lparr>klog := l\<rparr> \<and>
             ((\<exists>e. r = Inl e) \<or> r = Inr (alloc_base c False s, h))"
proof -
  let ?va = "alloc_base c False s"
  define s1 where "s1 = s\<lparr>ctxs := (ctxs s)(c := (ctxs s c)\<lparr>uvm_vaddr := ?va + sz\<rparr>)\<rparr>"
  have b: "bump_alloc_virtual_addr c sz 0x1000 s = (Inr ?va, s1)"
    using bump_alloc_run [of "0x1000" s c sz] fit
    by (simp add: alloc_base_small Let_def s1_def small_page)
  have e: "(alloc_effect c ?va sz False None s)\<lparr>klog := l\<rparr> = s1\<lparr>klog := l\<rparr>" for l
    by (simp add: alloc_effect_def s1_def)
  obtain r2 s2 where m: "(if host then memMapToCpu K c h sz ?va fl True else ret ?va) s1 = (r2, s2)"
    by fastforce
  have v: "r2 = Inr w \<Longrightarrow> w = ?va" for w
    using m nz memMapToCpu_fixed by (auto split: if_splits)
  obtain l2 where s2: "s2 = s1\<lparr>klog := l2\<rparr>"
  proof (cases host)
    case True
    then show thesis using m that by (auto dest!: memMapToCpu_frame)
  next
    case False
    then show thesis using m that [of "klog s1"] by simp
  qed
  show ?thesis
  proof (cases r2)
    case (Inl x)
    have "(r, s') = (Inl x, s2)"
      unfolding run [symmetric] by (simp add: system_tail_def bind_def b m Inl)
    then show ?thesis unfolding e s2 by blast
  next
    case (Inr w)
    obtain r3 s3 where m3: "memUVMMap K c h ?va sz s2 = (r3, s3)" by fastforce
    then obtain l3 where s3: "s3 = s2\<lparr>klog := l3\<rparr>" using memUVMMap_frame by blast
    have "(r, s') = (case r3 of Inl x \<Rightarrow> Inl x | Inr _ \<Rightarrow> Inr (?va, h), s3)"
      unfolding run [symmetric] using v [OF Inr] Inr
      by (simp add: system_tail_def bind_def b m m3 split: sum.split)
    then show ?thesis by (auto simp: e s2 s3 split: sum.splits)
  qed
qed

lemma gpuSystemAlloc_outcome:
  assumes run: "gpuSystemAlloc K c sz host fl s = (r, s')"
    and fit: "unat (uvm_vaddr (ctxs s c)) + 0x200000 < 2 ^ 64"
    and nz: "alloc_base c False s \<noteq> 0"
  obtains (early) e l where "r = Inl e" "s' = s\<lparr>klog := l\<rparr>"
  | (late) e l where "r = Inl e"
      "s' = (alloc_effect c (alloc_base c False s) sz False None s)\<lparr>klog := l\<rparr>"
  | (finished) h l where "r = Inr (alloc_base c False s, h)" "c \<noteq> 0"
      "s' = (alloc_effect c (alloc_base c False s) sz False None s)\<lparr>klog := l\<rparr>"
proof (cases "c = 0")
  case True
  then have "r = Inl (Fail LIBRECUDA_ERROR_INVALID_VALUE)" "s' = s\<lparr>klog := klog s\<rparr>"
    using run by (simp_all add: gpuSystemAlloc_def)
  then show thesis by (rule early)
next
  case False
  obtain ps where ps: "gpuSystemAlloc K c sz host fl s =
      bind (RM_ALLOC K (fd_ctl s) NV1_MEMORY_SYSTEM (root s) (device_handle (ctxs s c)) 0 ps)
        (system_tail K c sz host fl) s"
    using False by (simp add: gpuSystemAlloc_def system_tail_def [abs_def])
  obtain r1 s1 where m: "RM_ALLOC K (fd_ctl s) NV1_MEMORY_SYSTEM (root s) (device_handle (ctxs s c)) 0 ps s
      = (r1, s1)" by fastforce
  then obtain l1 where s1: "s1 = s\<lparr>klog := l1\<rparr>" using RM_ALLOC_frame by blast
  show thesis
  proof (cases r1)
    case (Inl e)
    then show thesis using run ps m s1 early [of e l1] by (auto simp: bind_def)
  next
    case (Inr h)
    then have t: "system_tail K c sz host fl h s1 = (r, s')"
      using run ps m by (simp add: bind_def)
    have same: "alloc_base c False s1 = alloc_base c False s" "uvm_vaddr (ctxs s1 c) = uvm_vaddr (ctxs s c)"
      "(alloc_effect c v z b m s1)\<lparr>klog := l\<rparr> = (alloc_effect c v z b m s)\<lparr>klog := l\<rparr>" for v z b m l
      by (simp_all add: s1 alloc_base_def alloc_effect_def split: option.split)
    show thesis
      using system_tail_outcome [OF t] fit nz late finished False unfolding same by blast
  qed
qed

text \<open>\<open>gpuFree\<close> with an unknown address calls nothing and changes nothing.\<close>

lemma gpuFree_unknown:
  "va_to_mem_handle s va = None \<Longrightarrow> gpuFree K c va s = (Inl (Fail LIBRECUDA_ERROR_INVALID_VALUE), s)"
  by (simp add: gpuFree_def)

lemma gpuFree_outcome:
  assumes run: "gpuFree K c va s = (r, s')"
  obtains (failed) e l where "r = Inl e" "s' = s\<lparr>klog := l\<rparr>"
  | (freed) l where "r = Inr ()" "va \<in> dom (va_to_mem_handle s)"
      "s' = s\<lparr>va_to_mem_handle := (va_to_mem_handle s)(va := None),
              hostMappedPtrs := rev (erase_range va (rev (hostMappedPtrs s))), klog := l\<rparr>"
proof (cases "va_to_mem_handle s va")
  case None
  then show thesis
    using run failed [of "Fail LIBRECUDA_ERROR_INVALID_VALUE" "klog s"] by (auto simp: gpuFree_unknown)
next
  case (Some h)
  define ps where "ps = [(''hRoot'', ucast (root s)),
    (''hObjectParent'', ucast (device_handle (ctxs s c))), (''hObjectOld'', ucast h :: NvU64)]"
  obtain r1 s1 where m: "NV_IOWR K (fd_ctl s) NV_ESC_RM_FREE ps s = (r1, s1)" by fastforce
  then obtain l1 where s1: "s1 = s\<lparr>klog := l1\<rparr>" using NV_IOWR_frame by blast
  show thesis
  proof (cases r1)
    case (Inl e)
    then have "(r, s') = (Inl e, s1)"
      using m unfolding run [symmetric] by (simp add: gpuFree_def Some bind_def ps_def)
    then show thesis using failed s1 by simp
  next
    case (Inr x)
    then have "(r, s') = (Inr (), s1\<lparr>va_to_mem_handle := (va_to_mem_handle s1)(va := None),
        hostMappedPtrs := rev (erase_range va (rev (hostMappedPtrs s1)))\<rparr>)"
      using m unfolding run [symmetric] by (simp add: gpuFree_def Some bind_def ps_def)
    then show thesis using freed [of l1] s1 Some by auto
  qed
qed

section \<open>The invariant of the memory tables\<close>

text \<open>The request does not wrap the address space, alignment and rounding included.\<close>

definition va_fits :: "nat \<Rightarrow> NvU64 \<Rightarrow> 'a vm_scheme \<Rightarrow> bool" where
  "va_fits c sz s \<longleftrightarrow> uvm_vaddr (ctxs s c) \<noteq> 0 \<and>
     unat (uvm_vaddr (ctxs s c)) + unat sz + 0x400000 < 2 ^ 64"

lemma alloc_base_bounds:
  assumes "va_fits c sz s"
  shows "unat (uvm_vaddr (ctxs s c)) \<le> unat (alloc_base c hp s)"
    and "unat (alloc_base c hp s) < unat (uvm_vaddr (ctxs s c)) + 0x200000"
    and "unat (alloc_size hp sz) = round_up (unat sz) (unat (page_alignment hp))"
    and "unat sz \<le> unat (alloc_size hp sz)"
    and "unat (alloc_base c hp s + alloc_size hp sz) = unat (alloc_base c hp s) + unat (alloc_size hp sz)"
    and "unat (alloc_base c False s + sz) = unat (alloc_base c False s) + unat sz"
    and "alloc_base c hp s \<noteq> 0"
    and "unat (uvm_vaddr (ctxs s c)) + 0x200000 < 2 ^ 64"
proof -
  note al = page_alignment_32 [of hp]
  have fit: "unat (uvm_vaddr (ctxs s c)) + unat sz + 0x400000 < 2 ^ 64"
    and u: "unat (uvm_vaddr (ctxs s c)) \<noteq> 0"
    using assms by (simp_all add: va_fits_def unat_eq_zero)
  have b: "unat (alloc_base c h s) = round_up (unat (uvm_vaddr (ctxs s c))) (unat (page_alignment h))" for h
    using unat_bump_va [OF page_alignment_32(1) [of h], of "uvm_vaddr (ctxs s c)"] fit
      page_alignment_32(3) [of h]
    unfolding alloc_base_def page_alignment_32(2) by linarith
  show lo: "unat (uvm_vaddr (ctxs s c)) \<le> unat (alloc_base c hp s)"
    unfolding b by (rule round_up_ge [OF al(4)])
  have hi': "unat (alloc_base c h s) < unat (uvm_vaddr (ctxs s c)) + 0x200000" for h
    unfolding b using round_up_less [OF page_alignment_32(4) [of h]] page_alignment_32(3) [of h]
    by (meson add_left_mono less_le_trans)
  show hi: "unat (alloc_base c hp s) < unat (uvm_vaddr (ctxs s c)) + 0x200000" by (rule hi')
  show sz: "unat (alloc_size hp sz) = round_up (unat sz) (unat (page_alignment hp))"
    unfolding alloc_size_def by (rule unat_roundUp64) (use al fit in linarith)+
  show "unat sz \<le> unat (alloc_size hp sz)" unfolding sz by (rule round_up_ge [OF al(4)])
  have "unat (alloc_size hp sz) < unat sz + 0x200000"
    unfolding sz using round_up_less [OF al(4), of "unat sz"] al(3) by linarith
  then show "unat (alloc_base c hp s + alloc_size hp sz) = unat (alloc_base c hp s) + unat (alloc_size hp sz)"
    using fit hi by (intro unat_word_sum) simp
  show "unat (alloc_base c False s + sz) = unat (alloc_base c False s) + unat sz"
    using fit hi' [of False] by (intro unat_word_sum) simp
  show "alloc_base c hp s \<noteq> 0" using lo u by (auto simp: unat_eq_zero)
  show "unat (uvm_vaddr (ctxs s c)) + 0x200000 < 2 ^ 64" using fit by linarith
qed

text \<open>
  The tables of a driver with one context \<open>c\<close>: all addresses handed out lie between the start of the
  heap and the next address, and the host-mapped ranges stand in \<open>hostMappedPtrs\<close> in ascending
  order without overlap, as the reverse searches assume.
\<close>

definition before_range :: "NvU64 \<times> NvU64 \<Rightarrow> NvU64 \<times> NvU64 \<Rightarrow> bool" where
  "before_range r q \<longleftrightarrow> snd r \<le> fst q"

definition vm_inv :: "nat \<Rightarrow> 'a vm_scheme \<Rightarrow> bool" where
  "vm_inv c s \<longleftrightarrow> UVM_HEAP_START \<le> uvm_vaddr (ctxs s c) \<and>
     (\<forall>va \<in> dom (va_to_mem_handle s). UVM_HEAP_START \<le> va \<and> va < uvm_vaddr (ctxs s c)) \<and>
     (\<forall>(lo, hi) \<in> set (hostMappedPtrs s). UVM_HEAP_START \<le> lo \<and> lo < hi \<and> hi \<le> uvm_vaddr (ctxs s c)) \<and>
     sorted_wrt before_range (hostMappedPtrs s)"

lemma vm_inv_log: "vm_inv c (s\<lparr>klog := l\<rparr>) = vm_inv c s"
  by (simp add: vm_inv_def)

lemma vm_inv_alloc_effect:
  assumes inv: "vm_inv c s"
    and lo: "uvm_vaddr (ctxs s c) \<le> va"
    and sum: "unat (va + sz) = unat va + unat sz"
    and pos: "host \<or> h \<noteq> None \<Longrightarrow> sz \<noteq> 0"
  shows "vm_inv c (alloc_effect c va sz host h s)"
proof -
  have top: "va \<le> va + sz" using sum by (simp add: word_le_nat_alt)
  have up: "va < va + sz" if "host \<or> h \<noteq> None"
    using sum pos [OF that] by (simp add: word_less_nat_alt unat_gt_0)
  have "UVM_HEAP_START \<le> va" using inv lo by (auto simp: vm_inv_def)
  moreover have "UVM_HEAP_START \<le> va + sz" using calculation top by order
  moreover have "x < va + sz" if "x < uvm_vaddr (ctxs s c)" for x using that lo top by order
  moreover have "x \<le> va + sz" if "x \<le> uvm_vaddr (ctxs s c)" for x using that lo top by order
  moreover have "x \<le> va" if "x \<le> uvm_vaddr (ctxs s c)" for x using that lo by order
  ultimately show ?thesis
    using inv up unfolding vm_inv_def alloc_effect_def
    by (auto simp: sorted_wrt_append before_range_def split: option.split)
qed

lemma set_erase_range: "set (erase_range va rs) \<subseteq> set rs"
  by (induction va rs rule: erase_range.induct) auto

lemma erase_range_sorted: "sorted_wrt P rs \<Longrightarrow> sorted_wrt P (erase_range va rs)"
  by (induction va rs rule: erase_range.induct) (use set_erase_range in \<open>auto 4 3\<close>)

lemma vm_inv_gpuAlloc:
  assumes "vm_inv c s" "va_fits c sz s" "sz \<noteq> 0" "gpuAlloc K c sz ph hp host fl s = (r, s')"
  shows "vm_inv c s'"
proof -
  note b = alloc_base_bounds [OF assms(2)]
  have pos: "alloc_size hp sz \<noteq> 0" using b(4) [of hp] assms(3) by (auto simp: unat_eq_zero)
  have eff: "vm_inv c (alloc_effect c (alloc_base c hp s) (alloc_size hp sz) h m s)" for h m
    by (rule vm_inv_alloc_effect [OF assms(1)]) (use b pos in \<open>auto simp: word_le_nat_alt\<close>)
  show ?thesis
    using gpuAlloc_outcome [OF assms(4) b(8,7)] assms(1) eff by (metis vm_inv_log)
qed

lemma vm_inv_gpuSystemAlloc:
  assumes "vm_inv c s" "va_fits c sz s" "gpuSystemAlloc K c sz host fl s = (r, s')"
  shows "vm_inv c s'"
proof -
  note b = alloc_base_bounds [OF assms(2)]
  have eff: "vm_inv c (alloc_effect c (alloc_base c False s) sz False None s)"
    by (rule vm_inv_alloc_effect [OF assms(1)]) (use b in \<open>auto simp: word_le_nat_alt\<close>)
  show ?thesis
    using gpuSystemAlloc_outcome [OF assms(3) b(8,7)] assms(1) eff by (metis vm_inv_log)
qed

lemma vm_inv_gpuFree:
  assumes "vm_inv c s" "gpuFree K c' va s = (r, s')"
  shows "vm_inv c s'"
  using assms(2)
proof (cases rule: gpuFree_outcome)
  case (failed e l)
  then show ?thesis using assms(1) by (simp add: vm_inv_log)
next
  case (freed l)
  have "sorted_wrt before_range (rev (erase_range va (rev (hostMappedPtrs s))))"
    using assms(1) unfolding vm_inv_def sorted_wrt_rev
    by (intro erase_range_sorted) (simp add: sorted_wrt_rev)
  moreover have "set (erase_range va (rev (hostMappedPtrs s))) \<subseteq> set (hostMappedPtrs s)"
    using set_erase_range [of va "rev (hostMappedPtrs s)"] by simp
  ultimately show ?thesis
    using assms(1) unfolding vm_inv_def freed(3) by auto
qed

section \<open>Runs of the allocator\<close>

datatype vm_request =
    AllocReq NvU64 bool bool bool NvU32   \<comment> \<open>size, contiguity, huge pages, CPU mapping, flags\<close>
  | SystemReq NvU64 bool NvU32            \<comment> \<open>size, CPU mapping, flags\<close>
  | FreeReq NvU64

fun req_fits :: "nat \<Rightarrow> vm_request \<Rightarrow> 'a vm_scheme \<Rightarrow> bool" where
  "req_fits c (AllocReq sz _ _ _ _) s \<longleftrightarrow> va_fits c sz s"
| "req_fits c (SystemReq sz _ _) s \<longleftrightarrow> va_fits c sz s"
| "req_fits c (FreeReq _) s \<longleftrightarrow> True"

fun vm_step :: "kern \<Rightarrow> nat \<Rightarrow> vm_request \<Rightarrow> 'a vm_scheme \<Rightarrow> range option \<times> 'a vm_scheme" where
  "vm_step K c (AllocReq sz ph hp host fl) s =
     (case gpuAlloc K c sz ph hp host fl s of
        (Inr (va, _), s') \<Rightarrow> (Some (unat va, unat (alloc_size hp sz)), s')
      | (Inl _, s') \<Rightarrow> (None, s'))"
| "vm_step K c (SystemReq sz host fl) s =
     (case gpuSystemAlloc K c sz host fl s of
        (Inr (va, _), s') \<Rightarrow> (Some (unat va, unat sz), s')
      | (Inl _, s') \<Rightarrow> (None, s'))"
| "vm_step K c (FreeReq va) s = (None, snd (gpuFree K c va s))"

definition va_top :: "nat \<Rightarrow> 'a vm_scheme \<Rightarrow> nat" where
  "va_top c s = unat (uvm_vaddr (ctxs s c))"

lemma va_top_log [simp]: "va_top c (s\<lparr>klog := l\<rparr>) = va_top c s"
  by (simp add: va_top_def)

lemma va_top_effect [simp]: "va_top c (alloc_effect c va sz h m s) = unat (va + sz)"
  by (simp add: va_top_def alloc_effect_def)

lemma va_top_gpuFree: "va_top c (snd (gpuFree K c va s)) = va_top c s"
proof -
  obtain r s' where g: "gpuFree K c va s = (r, s')" by fastforce
  then show ?thesis by (cases rule: gpuFree_outcome) (simp_all add: va_top_def g)
qed

lemma vm_step_alloc:
  assumes "va_fits c sz s" "vm_step K c (AllocReq sz ph hp host fl) s = (b, s')"
  shows "va_top c s \<le> va_top c s' \<and> (\<forall>x n. b = Some (x, n) \<longrightarrow> va_top c s \<le> x \<and> va_top c s' = x + n)"
proof -
  obtain r t where g: "gpuAlloc K c sz ph hp host fl s = (r, t)" by fastforce
  note bd = alloc_base_bounds [OF assms(1)]
  have le: "va_top c s \<le> unat (alloc_base c hp s)" using bd(1) by (simp add: va_top_def)
  show ?thesis
    using gpuAlloc_outcome [OF g bd(8,7)] assms(2) g le bd(5) [of hp] by (fastforce split: sum.splits)
qed

lemma vm_step_system:
  assumes "va_fits c sz s" "vm_step K c (SystemReq sz host fl) s = (b, s')"
  shows "va_top c s \<le> va_top c s' \<and> (\<forall>x n. b = Some (x, n) \<longrightarrow> va_top c s \<le> x \<and> va_top c s' = x + n)"
proof -
  obtain r t where g: "gpuSystemAlloc K c sz host fl s = (r, t)" by fastforce
  note bd = alloc_base_bounds [OF assms(1)]
  have le: "va_top c s \<le> unat (alloc_base c False s)" using bd(1) by (simp add: va_top_def)
  show ?thesis
    using gpuSystemAlloc_outcome [OF g bd(8,7)] assms(2) g le bd(6) by (fastforce split: sum.splits)
qed

lemma vm_step_spec:
  assumes "req_fits c q s" "vm_step K c q s = (b, s')"
  shows "va_top c s \<le> va_top c s' \<and> (\<forall>x n. b = Some (x, n) \<longrightarrow> va_top c s \<le> x \<and> va_top c s' = x + n)"
proof (cases q)
  case (AllocReq sz ph hp host fl)
  then show ?thesis using assms vm_step_alloc by (simp del: vm_step.simps)
next
  case (SystemReq sz host fl)
  then show ?thesis using assms vm_step_system by (simp del: vm_step.simps)
next
  case (FreeReq va)
  then show ?thesis using assms by (auto simp: va_top_gpuFree)
qed

interpretation va: bump "vm_step K c" "req_fits c" "va_top c" for K c
proof unfold_locales
  fix q and s s' :: "'a vm_scheme"
  assume "req_fits c q s" "vm_step K c q s = (None, s')"
  then show "va_top c s \<le> va_top c s'" using vm_step_spec by blast
next
  fix q b n and s s' :: "'a vm_scheme"
  assume "req_fits c q s" "vm_step K c q s = (Some (b, n), s')"
  then show "va_top c s \<le> b \<and> va_top c s' = b + n" using vm_step_spec by blast
qed

section \<open>Looking addresses up\<close>

lemma vm_inv_fresh:
  assumes "vm_inv c s" "uvm_vaddr (ctxs s c) \<le> va"
  shows "va_to_mem_handle s va = None"
proof (rule ccontr)
  assume "va_to_mem_handle s va \<noteq> None"
  then have "va < uvm_vaddr (ctxs s c)" using assms(1) by (auto simp: vm_inv_def)
  with assms(2) show False by order
qed

lemma host_search_descending:
  assumes "sorted_wrt (\<lambda>r q. before_range q r) rs"
  shows "host_search va rs \<longleftrightarrow> (\<exists>(lo, hi) \<in> set rs. lo \<le> va \<and> va < hi)"
  using assms
proof (induction va rs rule: host_search.induct)
  case (1 va)
  then show ?case by simp
next
  case (2 va lo hi rs)
  have below: "b \<le> lo" if "(a, b) \<in> set rs" for a b
    using 2(2) that by (fastforce simp: before_range_def)
  show ?case
  proof (cases "lo \<le> va \<and> va < hi")
    case True
    then show ?thesis by auto
  next
    case False
    show ?thesis
    proof (cases "lo < va")
      case True
      then have "\<not> va < b" if "(a, b) \<in> set rs" for a b
        using below [OF that] by order
      then show ?thesis using True False by fastforce
    next
      case False': False
      then have "host_search va ((lo, hi) # rs) = host_search va rs" using False by auto
      then show ?thesis using 2 False False' by (auto simp: case_prod_beta)
    qed
  qed
qed

lemma isHostMappedPtr_iff:
  assumes "vm_inv (current_ctx s) s" "current_ctx s \<noteq> 0"
  shows "isHostMappedPtr s va \<longleftrightarrow> (\<exists>(lo, hi) \<in> set (hostMappedPtrs s). lo \<le> va \<and> va < hi)"
proof -
  have srt: "sorted_wrt (\<lambda>r q. before_range q r) (rev (hostMappedPtrs s))"
    using assms(1) by (simp add: vm_inv_def sorted_wrt_rev)
  have dev: "isDevicePtr s va" if "(lo, hi) \<in> set (hostMappedPtrs s)" "lo \<le> va" "va < hi" for lo hi
  proof -
    have "UVM_HEAP_START \<le> lo" "hi \<le> uvm_vaddr (ctxs s (current_ctx s))"
      using assms(1) that(1) by (auto simp: vm_inv_def)
    with that have "\<not> va < UVM_HEAP_START" "va < uvm_vaddr (ctxs s (current_ctx s))" by order+
    then show ?thesis by (simp add: isDevicePtr_def)
  qed
  show ?thesis
    using host_search_descending [OF srt, of va] dev assms(2) by (auto simp: isHostMappedPtr_def)
qed

lemma erase_range_first: "lo \<le> va \<Longrightarrow> va < hi \<Longrightarrow> erase_range va ((lo, hi) # rs) = rs"
  by simp

lemma erase_range_absent:
  "\<forall>(lo, hi) \<in> set rs. \<not> (lo \<le> va \<and> va < hi) \<Longrightarrow> erase_range va rs = rs"
  by (induction va rs rule: erase_range.induct) auto

section \<open>Properties\<close>

text \<open>A kernel that grants everything and a driver with one context, on which the witnesses run.\<close>

definition demo_kernel :: kern where
  "demo_kernel l c = \<lparr>kret = (case c of KOpen _ \<Rightarrow> 7 | _ \<Rightarrow> 0), kstatus = 0,
     khandle = 0x100 + of_nat (length l), kaddr = 0x7000, kdata = []\<rparr>"

definition demo_fifo :: gpfifo where
  "demo_fifo = \<lparr>ring_va = 0x2000000000, controls_va = 0x2000080000, ring = (\<lambda>_. 0), entries_count = 0x10000, token = 9, GPGet = 0, GPPut = 0, put_value = 0\<rparr>"

definition demo_context :: cu_context where
  "demo_context = \<lparr>device_fd = 5, ctx_flags = 0, ctx_device = 0, device_handle = 0x20,
     uvm_vaddr = UVM_HEAP_START, va_space_handle = 0x21, compute_gpfifo = demo_fifo,
     dma_gpfifo = demo_fifo, ctx_share = 0x22, channel_group = 0x23\<rparr>"

definition demo_device :: device where
  "demo_device = \<lparr>ordinal = 0, instance_nr = 0, uuid = [1, 2, 3, 4], gpu_mmio = 0x5000,
     compute_class = 0xc7c0, device_info = []\<rparr>"

definition demo_vm :: vm where
  "demo_vm = \<lparr>root = 0x10, fd_ctl = 3, fd_uvm = 4, klog = [], public_device_handles = [demo_device],
     ctxs = (\<lambda>_. demo_context), current_ctx = 1, hostMappedPtrs = [], va_to_mem_handle = Map.empty\<rparr>"

lemma demo_fits: "unat sz < 0x100000 \<Longrightarrow> va_fits 1 sz demo_vm"
  by (simp add: va_fits_def demo_vm_def demo_context_def UVM_HEAP_START_def)

lemma demo_vm_inv: "vm_inv 1 demo_vm"
  by (simp add: vm_inv_def demo_vm_def demo_context_def)

text \<open>
  C20: Whatever the kernel answers, and whichever of the calls fail, the device ranges returned by
  any sequence of \<open>gpuAlloc\<close>, \<open>gpuSystemAlloc\<close> and \<open>gpuFree\<close> calls on a context are pairwise
  disjoint and lie between the context's next address before and after, as long as no request
  wraps the address space. Addresses of freed memory are never handed out again.
\<close>

theorem alloc_run_disjoint:
  assumes "alloc_run (vm_step K c) (req_fits c) s rs s'"
  shows "sorted_wrt range_disj rs \<and> va_top c s \<le> va_top c s' \<and>
    (\<forall>(b, n) \<in> set rs. va_top c s \<le> b \<and> b + n \<le> va_top c s')"
  using va.run_disjoint [OF assms] va.run_bounds [OF assms] by blast

lemma alloc_run_single:
  "req_fits c q s \<Longrightarrow> fst (vm_step K c q s) = Some b \<Longrightarrow>
    alloc_run (vm_step K c) (req_fits c) s [b] (snd (vm_step K c q s))"
  by (rule run_some [OF run_nil, simplified]) (simp_all add: prod_eq_iff)

lemma demo_system_alloc:
  "fst (gpuSystemAlloc demo_kernel 1 0x1000 False 0 demo_vm) = Inr (0x1000000000, 0x100)"
  by code_simp

lemma demo_step:
  "fst (vm_step demo_kernel 1 (SystemReq 0x1000 False 0) demo_vm) = Some (0x1000000000, 0x1000)"
  using demo_system_alloc
  by (cases "gpuSystemAlloc demo_kernel 1 0x1000 False 0 demo_vm") simp

theorem alloc_run_disjoint_witness:
  "0x1000000000 + 0x1000 \<le> va_top 1 (snd (vm_step demo_kernel 1 (SystemReq 0x1000 False 0) demo_vm))"
  using alloc_run_disjoint [OF alloc_run_single [OF _ demo_step]]
  by (simp add: va_fits_def demo_vm_def demo_context_def UVM_HEAP_START_def)

fun req_nonempty :: "vm_request \<Rightarrow> bool" where
  "req_nonempty (AllocReq sz _ _ _ _) = (sz \<noteq> 0)"
| "req_nonempty _ = True"

lemma vm_step_inv:
  assumes "vm_inv c s" "req_fits c q s" "req_nonempty q"
  shows "vm_inv c (snd (vm_step K c q s))"
proof (cases q)
  case (AllocReq sz ph hp host fl)
  obtain r s' where "gpuAlloc K c sz ph hp host fl s = (r, s')" by fastforce
  then show ?thesis
    using AllocReq assms vm_inv_gpuAlloc by (cases r) (auto split: prod.splits)
next
  case (SystemReq sz host fl)
  obtain r s' where "gpuSystemAlloc K c sz host fl s = (r, s')" by fastforce
  then show ?thesis
    using SystemReq assms vm_inv_gpuSystemAlloc by (cases r) (auto split: prod.splits)
next
  case (FreeReq va)
  obtain r s' where "gpuFree K c va s = (r, s')" by fastforce
  then show ?thesis using FreeReq assms vm_inv_gpuFree by simp
qed



text \<open>
  C29: When the tables are consistent, the search of \<open>isHostMappedPtr\<close>, which starts at the newest
  range and gives up at the first range that begins below the address, still answers correctly:
  true exactly for the addresses inside some host-mapped range.
\<close>

theorem isHostMappedPtr_correct:
  assumes "vm_inv (current_ctx s) s" "current_ctx s \<noteq> 0"
  shows "isHostMappedPtr s va \<longleftrightarrow> (\<exists>(lo, hi) \<in> set (hostMappedPtrs s). lo \<le> va \<and> va < hi)"
  using isHostMappedPtr_iff [OF assms] .

theorem isHostMappedPtr_correct_witness:
  "isHostMappedPtr (demo_vm\<lparr>hostMappedPtrs := [(UVM_HEAP_START, UVM_HEAP_START + 0x1000)],
     ctxs := (\<lambda>_. demo_context\<lparr>uvm_vaddr := UVM_HEAP_START + 0x2000\<rparr>)\<rparr>) (UVM_HEAP_START + 8)"
  by (subst isHostMappedPtr_correct)
    (simp_all add: vm_inv_def demo_vm_def demo_context_def UVM_HEAP_START_def)

text \<open>
  A successful \<open>gpuAlloc\<close> takes the least address at or above the context's next address that
  has the page alignment (2 MiB for huge pages, 4 KiB otherwise), rounds the size up to the least
  multiple of the page, moves the next address to the end of the range, and records the handle and,
  for memory mapped to the CPU, the range; nothing else but the call log changes.
\<close>

theorem gpuAlloc_success:
  assumes "va_fits c sz s" "gpuAlloc K c sz ph hp host fl s = (Inr (va, h), s')"
  shows "\<exists>l. s' = s\<lparr>ctxs := (ctxs s)(c := (ctxs s c)\<lparr>uvm_vaddr := va + alloc_size hp sz\<rparr>),
            hostMappedPtrs := hostMappedPtrs s @ (if host then [(va, va + alloc_size hp sz)] else []),
            va_to_mem_handle := (va_to_mem_handle s)(va \<mapsto> h), klog := l\<rparr> \<and>
         unat va = round_up (unat (uvm_vaddr (ctxs s c))) (if hp then 0x200000 else 0x1000) \<and>
         unat (alloc_size hp sz) = round_up (unat sz) (if hp then 0x200000 else 0x1000)"
proof -
  note b = alloc_base_bounds [OF assms(1)]
  note al = page_alignment_32 [of hp]
  have "unat (alloc_base c hp s) = round_up (unat (uvm_vaddr (ctxs s c))) (unat (page_alignment hp))"
    using unat_bump_va [OF al(1), of "uvm_vaddr (ctxs s c)"] b(8) al(3)
    unfolding alloc_base_def al(2) by linarith
  moreover have "unat (page_alignment hp) = (if hp then 0x200000 else 0x1000)"
    by (simp add: page_alignment_values)
  ultimately show ?thesis
    using gpuAlloc_outcome [OF assms(2) b(8,7)] b(3) [of hp] by (fastforce simp: alloc_effect_def)
qed

theorem gpuAlloc_success_witness:
  "unat (0x1000000000 :: NvU64) = round_up (unat (uvm_vaddr (ctxs demo_vm 1))) 0x1000"
proof -
  have r: "fst (gpuAlloc demo_kernel 1 5000 False False False 0 demo_vm) = Inr (0x1000000000, 0x100)"
    by code_simp
  obtain s' where "gpuAlloc demo_kernel 1 5000 False False False 0 demo_vm = (Inr (0x1000000000, 0x100), s')"
    using r by (metis prod.collapse)
  from gpuAlloc_success [OF demo_fits this] show ?thesis by simp
qed



text \<open>
  Memory of \<open>gpuSystemAlloc\<close> cannot be released: its address is not entered in
  \<open>va_to_mem_handle\<close>, so a \<open>gpuFree\<close> of it right after always fails and calls nothing.
\<close>

theorem gpuFree_gpuSystemAlloc:
  assumes inv: "vm_inv c s" and fits: "va_fits c sz s"
    and alloc: "gpuSystemAlloc K c sz host fl s = (Inr (va, h), s1)"
  shows "gpuFree K c va s1 = (Inl (Fail LIBRECUDA_ERROR_INVALID_VALUE), s1)"
proof -
  note b = alloc_base_bounds [OF fits]
  have va: "va = alloc_base c False s" and t: "va_to_mem_handle s1 = va_to_mem_handle s"
    by (rule gpuSystemAlloc_outcome [OF alloc b(8,7)]; simp add: alloc_effect_def)+
  have "uvm_vaddr (ctxs s c) \<le> va" using b(1) [of False] by (simp add: va word_le_nat_alt)
  then have "va_to_mem_handle s va = None" using inv vm_inv_fresh by blast
  then show ?thesis by (simp add: gpuFree_unknown t)
qed

theorem gpuFree_gpuSystemAlloc_witness:
  "fst (gpuFree demo_kernel 1 0x1000000000 (snd (gpuSystemAlloc demo_kernel 1 0x1000 False 0 demo_vm)))
     = Inl (Fail LIBRECUDA_ERROR_INVALID_VALUE)"
proof -
  let ?s1 = "snd (gpuSystemAlloc demo_kernel 1 0x1000 False 0 demo_vm)"
  have a: "gpuSystemAlloc demo_kernel 1 0x1000 False 0 demo_vm = (Inr (0x1000000000, 0x100), ?s1)"
    using demo_system_alloc by (metis prod.collapse)
  have "gpuFree demo_kernel 1 0x1000000000 ?s1 = (Inl (Fail LIBRECUDA_ERROR_INVALID_VALUE), ?s1)"
    by (rule gpuFree_gpuSystemAlloc [OF demo_vm_inv demo_fits a]) simp
  then show ?thesis by (rule ssubst) simp
qed

end
