(* ===== verification/Channel.thy ===== *)
theory Channel
  imports Prelude
begin

text \<open>
  The two wire formats between the driver and the GPU: the method stream of a command buffer, whose
  headers \<open>makeNvMethod\<close> of \<open>cmdqueue.cpp\<close> builds, and the entries of the GP FIFO, which
  \<open>submitToFifo\<close> writes. The reading side is taken from the field declarations of the headers in
  \<open>driverapi/internal/nvidia\<close> (\<open>clc56f.h\<close>, \<open>clc6b5.h\<close>, \<open>clc6c0.h\<close>): the GPU splits a stream into
  calls, each of which writes consecutive registers, and some registers trigger an operation. The
  theorems of the command queue say which operations a stream stands for.
\<close>

section \<open>Method headers\<close>

definition makeNvMethod :: "NvU32 \<Rightarrow> NvU32 \<Rightarrow> NvU32 \<Rightarrow> NvU32 \<Rightarrow> NvU64" where
  "makeNvMethod subcommand meth sz typ =
     scast (push_bit 28 typ OR push_bit 16 sz OR push_bit 13 subcommand OR signed_drop_bit 2 meth)"

text \<open>A field \<open>hi:lo\<close> of a word.\<close>

definition field :: "nat \<Rightarrow> nat \<Rightarrow> 'a::len word \<Rightarrow> 'a word" where
  "field hi lo w = take_bit (hi - lo + 1) (drop_bit lo w)"

definition NVC56F_DMA_INCR_ADDRESS :: "NvU32 \<Rightarrow> NvU32" where
  "NVC56F_DMA_INCR_ADDRESS = field 11 0"
definition NVC56F_DMA_INCR_SUBCHANNEL :: "NvU32 \<Rightarrow> NvU32" where
  "NVC56F_DMA_INCR_SUBCHANNEL = field 15 13"
definition NVC56F_DMA_INCR_COUNT :: "NvU32 \<Rightarrow> NvU32" where
  "NVC56F_DMA_INCR_COUNT = field 28 16"
definition NVC56F_DMA_INCR_OPCODE :: "NvU32 \<Rightarrow> NvU32" where
  "NVC56F_DMA_INCR_OPCODE = field 31 29"
definition NVC56F_DMA_INCR_OPCODE_VALUE :: NvU32 where
  "NVC56F_DMA_INCR_OPCODE_VALUE = 1"

lemmas method_field_defs = NVC56F_DMA_INCR_ADDRESS_def NVC56F_DMA_INCR_SUBCHANNEL_def
  NVC56F_DMA_INCR_COUNT_def NVC56F_DMA_INCR_OPCODE_def NVC56F_DMA_INCR_OPCODE_VALUE_def field_def

text \<open>A call: subchannel, byte address of the first register, and the words written from there on.\<close>

datatype mcall = MCall (subchannel: NvU32) (reg: NvU32) (words: "NvU32 list")

fun decode_stream :: "NvU32 list \<Rightarrow> mcall list option" where
  "decode_stream [] = Some []"
| "decode_stream (h # ws) =
     (if NVC56F_DMA_INCR_OPCODE h \<noteq> NVC56F_DMA_INCR_OPCODE_VALUE then None
      else if length ws < unat (NVC56F_DMA_INCR_COUNT h) then None
      else case decode_stream (drop (unat (NVC56F_DMA_INCR_COUNT h)) ws) of
          None \<Rightarrow> None
        | Some cs \<Rightarrow> Some (MCall (NVC56F_DMA_INCR_SUBCHANNEL h)
            (push_bit 2 (NVC56F_DMA_INCR_ADDRESS h))
            (take (unat (NVC56F_DMA_INCR_COUNT h)) ws) # cs))"

lemma decode_append:
  "decode_stream xs = Some cs \<Longrightarrow>
    decode_stream (xs @ ys) = map_option (\<lambda>ds. cs @ ds) (decode_stream ys)"
proof (induction xs arbitrary: cs rule: decode_stream.induct)
  case 1
  then show ?case by (simp add: option.map_ident)
next
  case (2 h ws)
  let ?n = "unat (NVC56F_DMA_INCR_COUNT h)"
  from 2(2) have op: "NVC56F_DMA_INCR_OPCODE h = NVC56F_DMA_INCR_OPCODE_VALUE" and len: "?n \<le> length ws"
    by (auto split: if_splits)
  with 2(2) obtain ds where ds: "decode_stream (drop ?n ws) = Some ds"
    and cs: "cs = MCall (NVC56F_DMA_INCR_SUBCHANNEL h) (push_bit 2 (NVC56F_DMA_INCR_ADDRESS h)) (take ?n ws) # ds"
    by (auto split: option.splits)
  have "decode_stream (drop ?n ws @ ys) = map_option (\<lambda>es. ds @ es) (decode_stream ys)"
    using 2(1) [OF _ _ ds] op len by simp
  then show ?case using op len by (simp add: cs option.map_comp comp_def split: option.split)
qed

lemma bit_less_exp: "w < 2 ^ k \<Longrightarrow> bit (w :: 'a::len word) i \<Longrightarrow> k < LENGTH('a) \<Longrightarrow> i < k"
proof -
  assume w: "w < 2 ^ k" and b: "bit w i" and k: "k < LENGTH('a)"
  have "unat (of_nat (2 ^ k) :: 'a word) = 2 ^ k"
    unfolding unsigned_of_nat of_nat_id using k by (intro take_bit_nat_eq_self) simp
  then have "unat w < 2 ^ k" using w by (simp add: word_less_nat_alt)
  then have "take_bit k (unat w) = unat w" by (simp add: take_bit_nat_eq_self_iff)
  moreover have "bit (unat w) i" using b by (simp add: bit_unsigned_iff bit_imp_le_length)
  ultimately show "i < k" by (metis bit_take_bit_iff)
qed

definition method_ok :: "NvU32 \<Rightarrow> NvU32 \<Rightarrow> NvU32 \<Rightarrow> bool" where
  "method_ok subcommand meth sz \<longleftrightarrow>
     subcommand < 2 ^ 3 \<and> meth < 2 ^ 14 \<and> \<not> bit meth 0 \<and> \<not> bit meth 1 \<and> sz < 2 ^ 12"

lemma header_bit:
  assumes "method_ok subc meth sz"
  shows "bit (ucast (makeNvMethod subc meth sz 2) :: NvU32) i \<longleftrightarrow>
    i = 29 \<or> (16 \<le> i \<and> i < 28 \<and> bit sz (i - 16)) \<or> (13 \<le> i \<and> i < 16 \<and> bit subc (i - 13)) \<or>
    (i < 12 \<and> bit meth (i + 2))"
proof -
  have u: "(ucast (scast w :: NvU64) :: NvU32) = w" for w :: NvU32
    by (rule bit_word_eqI) (auto simp: bit_simps)
  have two: "bit (2 :: NvU32) j \<longleftrightarrow> j = 1" for j
    using bit_exp_iff [of 1 j, where 'a = NvU32] by auto
  have m: "bit meth j \<Longrightarrow> j < 14" and s: "bit sz j \<Longrightarrow> j < 12" and c: "bit subc j \<Longrightarrow> j < 3" for j
    using assms bit_less_exp [of meth 14 j] bit_less_exp [of sz 12 j] bit_less_exp [of subc 3 j]
    by (simp_all add: method_ok_def)
  have l: "LENGTH(32) - 1 = 31" by simp
  have "signed_drop_bit 2 meth = drop_bit 2 meth"
  proof (rule bit_word_eqI)
    fix n assume "n < LENGTH(32)"
    then show "bit (signed_drop_bit 2 meth) n = bit (drop_bit 2 meth) n"
      using m [of 31] m [of "2 + n"] unfolding bit_signed_drop_bit_iff bit_drop_bit_eq l by auto
  qed
  then have "bit (signed_drop_bit 2 meth) i \<longleftrightarrow> i < 12 \<and> bit meth (i + 2)"
    using m [of "i + 2"] by (auto simp: bit_simps add.commute)
  moreover have "bit (push_bit 28 (2 :: NvU32)) i \<longleftrightarrow> i = 29"
    unfolding bit_push_bit_iff two by auto
  moreover have "bit (push_bit 16 sz) i \<longleftrightarrow> 16 \<le> i \<and> i < 28 \<and> bit sz (i - 16)"
    unfolding bit_push_bit_iff using s [of "i - 16"] by auto
  moreover have "bit (push_bit 13 subc) i \<longleftrightarrow> 13 \<le> i \<and> i < 16 \<and> bit subc (i - 13)"
    unfolding bit_push_bit_iff using c [of "i - 13"] by auto
  ultimately show ?thesis
    unfolding makeNvMethod_def u bit_or_iff by blast
qed

lemma header_fields:
  assumes "method_ok subc meth sz"
  defines "h \<equiv> ucast (makeNvMethod subc meth sz 2)"
  shows "NVC56F_DMA_INCR_OPCODE h = NVC56F_DMA_INCR_OPCODE_VALUE"
    and "NVC56F_DMA_INCR_COUNT h = sz"
    and "NVC56F_DMA_INCR_SUBCHANNEL h = subc"
    and "push_bit 2 (NVC56F_DMA_INCR_ADDRESS h) = meth"
proof -
  note b = header_bit [OF assms(1), folded h_def]
  have one: "bit (1 :: NvU32) j \<longleftrightarrow> j = 0" for j by (simp add: bit_1_iff)
  have m0: "bit meth j \<Longrightarrow> j \<noteq> 0 \<and> j \<noteq> 1" for j
    using assms(1) by (metis method_ok_def)
  have m: "bit meth j \<Longrightarrow> j < 14" and s: "bit sz j \<Longrightarrow> j < 12"
    and c: "bit subc j \<Longrightarrow> j < 3" for j
    using assms(1) bit_less_exp [of meth 14 j] bit_less_exp [of sz 12 j] bit_less_exp [of subc 3 j]
    by (auto simp: method_ok_def)
  show "NVC56F_DMA_INCR_OPCODE h = NVC56F_DMA_INCR_OPCODE_VALUE"
    by (rule bit_word_eqI) (auto simp: method_field_defs bit_simps b one)
  show "NVC56F_DMA_INCR_COUNT h = sz"
  proof (rule bit_word_eqI)
    fix n show "bit (NVC56F_DMA_INCR_COUNT h) n = bit sz n"
      using s [of n] by (simp add: method_field_defs bit_take_bit_iff bit_drop_bit_eq b) linarith
  qed
  show "NVC56F_DMA_INCR_SUBCHANNEL h = subc"
  proof (rule bit_word_eqI)
    fix n show "bit (NVC56F_DMA_INCR_SUBCHANNEL h) n = bit subc n"
      using c [of n] by (simp add: method_field_defs bit_take_bit_iff bit_drop_bit_eq b) linarith
  qed
  show "push_bit 2 (NVC56F_DMA_INCR_ADDRESS h) = meth"
  proof (rule bit_word_eqI)
    fix n assume "n < LENGTH(32)"
    show "bit (push_bit 2 (NVC56F_DMA_INCR_ADDRESS h)) n = bit meth n"
    proof (cases "2 \<le> n")
      case True
      then obtain k where n: "n = k + 2" by (metis le_add_diff_inverse2)
      show ?thesis
        using m [of "k + 2"] \<open>n < LENGTH(32)\<close>
        by (auto simp: n method_field_defs bit_take_bit_iff bit_push_bit_iff b)
    next
      case False
      then have "n = 0 \<or> n = 1" by auto
      then show ?thesis using m0 [of n] by (auto simp: bit_push_bit_iff)
    qed
  qed
qed

lemma decode_call:
  assumes "method_ok subc meth sz" "length args = unat sz"
  shows "decode_stream (ucast (makeNvMethod subc meth sz 2) # args @ rest) =
    map_option (\<lambda>ds. MCall subc meth args # ds) (decode_stream rest)"
  using assms(2) by (simp add: header_fields [OF assms(1)] split: option.split)

text \<open>The argument count that \<open>enqueue\<close> reads from the method.\<close>

lemma method_count:
  assumes "method_ok subc meth sz"
  shows "drop_bit 16 (makeNvMethod subc meth sz 2) AND 0xFFF = ucast sz"
proof -
  have m: "(0xFFF :: NvU64) = mask 12" by (simp add: mask_eq_exp_minus_1)
  have s: "bit sz j \<Longrightarrow> j < 12" for j
    using assms bit_less_exp [of sz 12 j] by (simp add: method_ok_def)
  have h: "bit (makeNvMethod subc meth sz 2) (16 + i) \<longleftrightarrow> bit sz i" if "i < 12" for i
  proof -
    have "bit (makeNvMethod subc meth sz 2) (16 + i) \<longleftrightarrow>
        bit (ucast (makeNvMethod subc meth sz 2) :: NvU32) (16 + i)"
      using that by (simp add: bit_unsigned_iff)
    then show ?thesis using header_bit [OF assms, of "16 + i"] that by auto
  qed
  show ?thesis
  proof (rule bit_word_eqI)
    fix i show "bit (drop_bit 16 (makeNvMethod subc meth sz 2) AND 0xFFF) i = bit (ucast sz :: NvU64) i"
      using h [of i] s [of i] unfolding m bit_and_iff bit_mask_iff bit_drop_bit_eq o_apply bit_unsigned_iff
      by auto
  qed
qed

text \<open>
  C24: A method header built by \<open>makeNvMethod\<close> with its arguments behind it is read by the GPU as
  exactly that call: the same subchannel, register and words, with nothing else changed in the
  stream around it.
\<close>

theorem decode_makeNvMethod:
  assumes "method_ok subc meth sz" "length args = unat sz" "decode_stream before = Some cs"
  shows "decode_stream (before @ ucast (makeNvMethod subc meth sz 2) # args @ rest) =
    map_option (\<lambda>ds. cs @ MCall subc meth args # ds) (decode_stream rest)"
  by (simp only: decode_append [OF assms(3)] decode_call [OF assms(1,2)] option.map_comp comp_def)

theorem decode_makeNvMethod_witness:
  "decode_stream ([] @ ucast (makeNvMethod 4 0x400 4 2) # [1, 2, 3, 4] @ []) =
     Some [MCall 4 0x400 [1, 2, 3, 4]]"
  using decode_makeNvMethod [of 4 "0x400" 4 "[1, 2, 3, 4]" "[]" "[]" "[]"]
  by (simp add: method_ok_def bit_numeral_rec)

section \<open>GP FIFO entries\<close>

text \<open>The entry \<open>submitToFifo\<close> writes for a segment of \<open>n\<close> words at address \<open>a\<close>.\<close>

definition gp_entry :: "NvU64 \<Rightarrow> NvU64 \<Rightarrow> NvU64" where
  "gp_entry a n = push_bit 2 (a div 4) OR push_bit 42 n OR push_bit 41 1"

text \<open>The fields of an entry as \<open>NVC56F_GP_ENTRY0\<close> and \<open>NVC56F_GP_ENTRY1\<close> declare them.\<close>

definition NVC56F_GP_ENTRY0_GET :: "NvU64 \<Rightarrow> NvU32" where
  "NVC56F_GP_ENTRY0_GET e = field 31 2 (lo_32 e)"
definition NVC56F_GP_ENTRY1_GET_HI :: "NvU64 \<Rightarrow> NvU32" where
  "NVC56F_GP_ENTRY1_GET_HI e = field 7 0 (hi_32 e)"
definition NVC56F_GP_ENTRY1_LEVEL :: "NvU64 \<Rightarrow> NvU32" where
  "NVC56F_GP_ENTRY1_LEVEL e = field 9 9 (hi_32 e)"
definition NVC56F_GP_ENTRY1_LENGTH :: "NvU64 \<Rightarrow> NvU32" where
  "NVC56F_GP_ENTRY1_LENGTH e = field 30 10 (hi_32 e)"
definition NVC56F_GP_ENTRY1_SYNC :: "NvU64 \<Rightarrow> NvU32" where
  "NVC56F_GP_ENTRY1_SYNC e = field 31 31 (hi_32 e)"

lemmas gp_field_defs = NVC56F_GP_ENTRY0_GET_def NVC56F_GP_ENTRY1_GET_HI_def
  NVC56F_GP_ENTRY1_LEVEL_def NVC56F_GP_ENTRY1_LENGTH_def NVC56F_GP_ENTRY1_SYNC_def field_def

definition gp_address :: "NvU64 \<Rightarrow> NvU64" where
  "gp_address e = join_32 (NVC56F_GP_ENTRY1_GET_HI e) (push_bit 2 (NVC56F_GP_ENTRY0_GET e))"

lemma bit_gp_entry:
  "bit (gp_entry a n) i \<longleftrightarrow>
    (2 \<le> i \<and> i < 64 \<and> bit a i) \<or> i = 41 \<or> (42 \<le> i \<and> i < 64 \<and> bit n (i - 42))"
proof -
  have d: "a div 4 = drop_bit 2 a" by (simp add: drop_bit_eq_div)
  have "bit (push_bit 2 (a div 4)) i \<longleftrightarrow> 2 \<le> i \<and> i < 64 \<and> bit a i"
  proof (cases "2 \<le> i")
    case True
    then obtain k where "i = k + 2" by (metis le_add_diff_inverse2)
    then show ?thesis unfolding d by (auto simp: bit_simps)
  qed (simp add: bit_push_bit_iff)
  moreover have "bit (push_bit 42 n) i \<longleftrightarrow> 42 \<le> i \<and> i < 64 \<and> bit n (i - 42)"
    by (auto simp: bit_push_bit_iff)
  moreover have "bit (push_bit 41 (1 :: NvU64)) i \<longleftrightarrow> i = 41"
    unfolding bit_push_bit_iff bit_1_iff by auto
  ultimately show ?thesis unfolding gp_entry_def bit_or_iff by blast
qed

lemma gp_entry_fields:
  assumes "a < 2 ^ 40"
  shows "NVC56F_GP_ENTRY1_LEVEL (gp_entry a n) = 1"
    and "NVC56F_GP_ENTRY1_LENGTH (gp_entry a n) = ucast (take_bit 21 n)"
    and "NVC56F_GP_ENTRY1_SYNC (gp_entry a n) = (if bit n 21 then 1 else 0)"
    and "\<not> bit a 0 \<Longrightarrow> \<not> bit a 1 \<Longrightarrow> gp_address (gp_entry a n) = a"
proof -
  have a: "bit a i \<Longrightarrow> i < 40" for i using bit_less_exp [of a 40 i] assms by simp
  show "NVC56F_GP_ENTRY1_LEVEL (gp_entry a n) = 1"
    by (rule bit_word_eqI, unfold gp_field_defs bit_take_bit_iff bit_drop_bit_eq o_apply
      bit_hi_32 bit_gp_entry bit_1_iff) (use a [of 41] in auto)
  show "NVC56F_GP_ENTRY1_LENGTH (gp_entry a n) = ucast (take_bit 21 n)"
  proof (rule bit_word_eqI)
    fix i assume "i < LENGTH(32)"
    then show "bit (NVC56F_GP_ENTRY1_LENGTH (gp_entry a n)) i = bit (ucast (take_bit 21 n) :: NvU32) i"
      using a [of "42 + i"]
      by (auto simp: gp_field_defs bit_take_bit_iff bit_drop_bit_eq bit_hi_32 bit_gp_entry bit_unsigned_iff)
  qed
  show "NVC56F_GP_ENTRY1_SYNC (gp_entry a n) = (if bit n 21 then 1 else 0)"
    by (rule bit_word_eqI, unfold gp_field_defs bit_take_bit_iff bit_drop_bit_eq o_apply
      bit_hi_32 bit_gp_entry) (use a [of 63] in \<open>auto simp: bit_1_iff\<close>)
  show "gp_address (gp_entry a n) = a" if "\<not> bit a 0" "\<not> bit a 1"
  proof (rule bit_word_eqI)
    fix i assume i: "i < LENGTH(64)"
    have lo: "bit (push_bit 2 (NVC56F_GP_ENTRY0_GET (gp_entry a n))) i \<longleftrightarrow> 2 \<le> i \<and> i < 32 \<and> bit a i"
    proof (cases "2 \<le> i")
      case True
      then obtain k where "i = k + 2" by (metis le_add_diff_inverse2)
      then show ?thesis
        by (auto simp: gp_field_defs bit_take_bit_iff bit_drop_bit_eq bit_push_bit_iff bit_lo_32 bit_gp_entry)
    qed (simp add: bit_push_bit_iff)
    have hi: "bit (NVC56F_GP_ENTRY1_GET_HI (gp_entry a n)) (i - 32) \<longleftrightarrow> i - 32 < 8 \<and> bit a (32 + (i - 32))"
      using a [of "32 + (i - 32)"]
      by (auto simp: gp_field_defs bit_take_bit_iff bit_hi_32 bit_gp_entry)
    have small: "bit a i \<Longrightarrow> 2 \<le> i" using that by (metis less_2_cases not_le One_nat_def)
    show "bit (gp_address (gp_entry a n)) i = bit a i"
      using lo hi i small a [of i]
      by (cases "i < 32") (auto simp: gp_address_def join_32_def bit_or_iff bit_push_bit_iff bit_unsigned_iff
          dest: bit_imp_le_length)
  qed
qed

lemma gp_fields_back:
  assumes "a < 2 ^ 40" "\<not> bit a 0" "\<not> bit a 1" "n < 2 ^ 21"
  shows "gp_address (gp_entry a n) = a" "ucast (NVC56F_GP_ENTRY1_LENGTH (gp_entry a n)) = n"
    "NVC56F_GP_ENTRY1_SYNC (gp_entry a n) = 0"
proof -
  have n: "bit n i \<Longrightarrow> i < 21" for i using bit_less_exp [of n 21 i] assms(4) by simp
  have "(ucast (ucast (take_bit 21 n) :: NvU32) :: NvU64) = n"
    by (rule bit_word_eqI) (use n in \<open>force simp: bit_unsigned_iff bit_take_bit_iff\<close>)
  moreover have "\<not> bit n 21" using n by blast
  ultimately show "gp_address (gp_entry a n) = a" "ucast (NVC56F_GP_ENTRY1_LENGTH (gp_entry a n)) = n"
    "NVC56F_GP_ENTRY1_SYNC (gp_entry a n) = 0"
    using gp_entry_fields [OF assms(1)] assms(2,3) by simp_all
qed

text \<open>
  The FIFO entry for a segment of fewer than \<open>2^21\<close> words at a word-aligned address below
  \<open>2^40\<close> names exactly this address and this length, as a subroutine entry that does not wait. (A
  segment that fills the page of \<open>MAX_CMD_QUEUE_PAGE_SIZE\<close> words does not fit: its length reads as 0
  and its top bit becomes the \<open>SYNC\<close> flag.)
\<close>

theorem gp_entry_reads_back:
  assumes "a < 2 ^ 40" "\<not> bit a 0" "\<not> bit a 1" "n < 2 ^ 21"
  shows "gp_address (gp_entry a n) = a \<and> ucast (NVC56F_GP_ENTRY1_LENGTH (gp_entry a n)) = n \<and>
    NVC56F_GP_ENTRY1_LEVEL (gp_entry a n) = 1 \<and> NVC56F_GP_ENTRY1_SYNC (gp_entry a n) = 0 \<and>
    NVC56F_GP_ENTRY1_LENGTH (gp_entry a 0x200000) = 0 \<and>
    NVC56F_GP_ENTRY1_SYNC (gp_entry a 0x200000) = 1"
proof -
  have "bit (0x200000 :: NvU64) 21" "take_bit 21 (0x200000 :: NvU64) = 0" by simp_all
  then show ?thesis using gp_entry_fields [OF assms(1)] gp_fields_back [OF assms] by simp
qed

theorem gp_entry_reads_back_witness:
  "gp_address (gp_entry 0x1000000100 22) = 0x1000000100"
  using gp_entry_reads_back [of "0x1000000100" 22] by (simp add: bit_numeral_rec)

section \<open>What a stream does\<close>

text \<open>
  The registers of the methods the driver sends, one file per subchannel. A call writes its words to
  consecutive registers; writing a trigger register starts the operation the registers describe.
\<close>

definition NVC56F_SEM_ADDR_LO :: NvU32 where "NVC56F_SEM_ADDR_LO = 0x5c"
definition NVC56F_SEM_ADDR_HI :: NvU32 where "NVC56F_SEM_ADDR_HI = 0x60"
definition NVC56F_SEM_PAYLOAD_LO :: NvU32 where "NVC56F_SEM_PAYLOAD_LO = 0x64"
definition NVC56F_SEM_PAYLOAD_HI :: NvU32 where "NVC56F_SEM_PAYLOAD_HI = 0x68"
definition NVC56F_SEM_EXECUTE :: NvU32 where "NVC56F_SEM_EXECUTE = 0x6c"
definition NVC56F_SEM_EXECUTE_OPERATION_ACQUIRE :: NvU32 where "NVC56F_SEM_EXECUTE_OPERATION_ACQUIRE = 0"
definition NVC56F_SEM_EXECUTE_OPERATION_RELEASE :: NvU32 where "NVC56F_SEM_EXECUTE_OPERATION_RELEASE = 1"
definition NVC56F_SEMAPHORED_RELEASE_WFI_DIS :: NvU32 where "NVC56F_SEMAPHORED_RELEASE_WFI_DIS = 1"
definition NVC56F_SEM_EXECUTE_PAYLOAD_SIZE_64BIT :: NvU32 where "NVC56F_SEM_EXECUTE_PAYLOAD_SIZE_64BIT = 1"
definition NVC56F_SEM_EXECUTE_RELEASE_TIMESTAMP_EN :: NvU32 where "NVC56F_SEM_EXECUTE_RELEASE_TIMESTAMP_EN = 1"
definition NVC56F_NON_STALL_INTERRUPT :: NvU32 where "NVC56F_NON_STALL_INTERRUPT = 0x20"
definition NVC6B5_SET_SEMAPHORE_A :: NvU32 where "NVC6B5_SET_SEMAPHORE_A = 0x240"
definition NVC6B5_SET_SEMAPHORE_B :: NvU32 where "NVC6B5_SET_SEMAPHORE_B = 0x244"
definition NVC6B5_SET_SEMAPHORE_PAYLOAD :: NvU32 where "NVC6B5_SET_SEMAPHORE_PAYLOAD = 0x248"
definition NVC6B5_LAUNCH_DMA :: NvU32 where "NVC6B5_LAUNCH_DMA = 0x300"
definition NVC6B5_OFFSET_IN_UPPER :: NvU32 where "NVC6B5_OFFSET_IN_UPPER = 0x400"
definition NVC6B5_OFFSET_IN_LOWER :: NvU32 where "NVC6B5_OFFSET_IN_LOWER = 0x404"
definition NVC6B5_OFFSET_OUT_UPPER :: NvU32 where "NVC6B5_OFFSET_OUT_UPPER = 0x408"
definition NVC6B5_OFFSET_OUT_LOWER :: NvU32 where "NVC6B5_OFFSET_OUT_LOWER = 0x40c"
definition NVC6B5_LINE_LENGTH_IN :: NvU32 where "NVC6B5_LINE_LENGTH_IN = 0x418"
definition NVC6B5_LAUNCH_DMA_DATA_TRANSFER_TYPE_NON_PIPELINED :: NvU32 where
  "NVC6B5_LAUNCH_DMA_DATA_TRANSFER_TYPE_NON_PIPELINED = 2"
definition NVC6B5_LAUNCH_DMA_SRC_MEMORY_LAYOUT_PITCH :: NvU32 where
  "NVC6B5_LAUNCH_DMA_SRC_MEMORY_LAYOUT_PITCH = 1"
definition NVC6B5_LAUNCH_DMA_DST_MEMORY_LAYOUT_PITCH :: NvU32 where
  "NVC6B5_LAUNCH_DMA_DST_MEMORY_LAYOUT_PITCH = 1"
definition NVC6C0_SET_OBJECT :: NvU32 where "NVC6C0_SET_OBJECT = 0"
definition NVC6C0_SET_SHADER_LOCAL_MEMORY_WINDOW_A :: NvU32 where
  "NVC6C0_SET_SHADER_LOCAL_MEMORY_WINDOW_A = 0x7b0"
definition NVC6C0_SET_SHADER_SHARED_MEMORY_WINDOW_A :: NvU32 where
  "NVC6C0_SET_SHADER_SHARED_MEMORY_WINDOW_A = 0x2a0"
definition NVC6C0_SET_SHADER_LOCAL_MEMORY_A :: NvU32 where "NVC6C0_SET_SHADER_LOCAL_MEMORY_A = 0x790"
definition NVC6C0_SET_SHADER_LOCAL_MEMORY_NON_THROTTLED_A :: NvU32 where
  "NVC6C0_SET_SHADER_LOCAL_MEMORY_NON_THROTTLED_A = 0x2e4"
definition NVC6C0_INVALIDATE_SHADER_CACHES_NO_WFI :: NvU32 where
  "NVC6C0_INVALIDATE_SHADER_CACHES_NO_WFI = 0x1698"
definition NVC6C0_SEND_PCAS_A :: NvU32 where "NVC6C0_SEND_PCAS_A = 0x2b4"
definition NVC6C0_SEND_SIGNALING_PCAS2_B :: NvU32 where "NVC6C0_SEND_SIGNALING_PCAS2_B = 0x2c0"

lemmas register_defs = NVC56F_SEM_ADDR_LO_def NVC56F_SEM_ADDR_HI_def NVC56F_SEM_PAYLOAD_LO_def
  NVC56F_SEM_PAYLOAD_HI_def NVC56F_SEM_EXECUTE_def NVC56F_SEM_EXECUTE_OPERATION_ACQUIRE_def
  NVC56F_SEM_EXECUTE_OPERATION_RELEASE_def NVC56F_SEMAPHORED_RELEASE_WFI_DIS_def
  NVC56F_SEM_EXECUTE_PAYLOAD_SIZE_64BIT_def NVC56F_SEM_EXECUTE_RELEASE_TIMESTAMP_EN_def
  NVC56F_NON_STALL_INTERRUPT_def NVC6B5_SET_SEMAPHORE_A_def NVC6B5_SET_SEMAPHORE_B_def
  NVC6B5_SET_SEMAPHORE_PAYLOAD_def NVC6B5_LAUNCH_DMA_def NVC6B5_OFFSET_IN_UPPER_def
  NVC6B5_OFFSET_IN_LOWER_def NVC6B5_OFFSET_OUT_UPPER_def NVC6B5_OFFSET_OUT_LOWER_def
  NVC6B5_LINE_LENGTH_IN_def NVC6B5_LAUNCH_DMA_DATA_TRANSFER_TYPE_NON_PIPELINED_def
  NVC6B5_LAUNCH_DMA_SRC_MEMORY_LAYOUT_PITCH_def NVC6B5_LAUNCH_DMA_DST_MEMORY_LAYOUT_PITCH_def
  NVC6C0_SET_OBJECT_def NVC6C0_SET_SHADER_LOCAL_MEMORY_WINDOW_A_def
  NVC6C0_SET_SHADER_SHARED_MEMORY_WINDOW_A_def NVC6C0_SET_SHADER_LOCAL_MEMORY_A_def
  NVC6C0_SET_SHADER_LOCAL_MEMORY_NON_THROTTLED_A_def NVC6C0_INVALIDATE_SHADER_CACHES_NO_WFI_def
  NVC6C0_SEND_PCAS_A_def NVC6C0_SEND_SIGNALING_PCAS2_B_def

type_synonym regs = "NvU32 \<Rightarrow> NvU32 \<Rightarrow> NvU32"

datatype gpu_op =
    Release NvU64 NvU64        \<comment> \<open>address and value of a semaphore release\<close>
  | Acquire NvU64 NvU64        \<comment> \<open>wait until the semaphore at the address has the value\<close>
  | CopyLine NvU64 NvU64 nat   \<comment> \<open>source, destination, bytes\<close>
  | LaunchQmd NvU64            \<comment> \<open>address of the launch descriptor\<close>

text \<open>
  The host methods (below \<open>0x100\<close>) are the same on every subchannel. Subchannel 1 carries the compute
  class, subchannel 4 the copy class.
\<close>

definition reg_file :: "NvU32 \<Rightarrow> NvU32 \<Rightarrow> NvU32" where
  "reg_file sub m = (if m < 0x100 then 0 else sub)"

definition trigger :: "regs \<Rightarrow> NvU32 \<Rightarrow> NvU32 \<Rightarrow> gpu_op list" where
  "trigger R sub m =
     (if m = NVC56F_SEM_EXECUTE then
        (let a = join_32 (R 0 NVC56F_SEM_ADDR_HI) (R 0 NVC56F_SEM_ADDR_LO);
             v = join_32 (R 0 NVC56F_SEM_PAYLOAD_HI) (R 0 NVC56F_SEM_PAYLOAD_LO);
             f = field 2 0 (R 0 NVC56F_SEM_EXECUTE)
         in if f = NVC56F_SEM_EXECUTE_OPERATION_RELEASE then [Release a v]
            else if f = NVC56F_SEM_EXECUTE_OPERATION_ACQUIRE then [Acquire a v] else [])
      else if sub = 4 \<and> m = NVC6B5_LAUNCH_DMA then
        (if field 1 0 (R 4 NVC6B5_LAUNCH_DMA) \<noteq> 0
         then [CopyLine (join_32 (R 4 NVC6B5_OFFSET_IN_UPPER) (R 4 NVC6B5_OFFSET_IN_LOWER))
                 (join_32 (R 4 NVC6B5_OFFSET_OUT_UPPER) (R 4 NVC6B5_OFFSET_OUT_LOWER))
                 (unat (R 4 NVC6B5_LINE_LENGTH_IN))] else []) @
        (if field 4 3 (R 4 NVC6B5_LAUNCH_DMA) \<noteq> 0
         then [Release (join_32 (R 4 NVC6B5_SET_SEMAPHORE_A) (R 4 NVC6B5_SET_SEMAPHORE_B))
                 (ucast (R 4 NVC6B5_SET_SEMAPHORE_PAYLOAD))] else [])
      else if sub = 1 \<and> m = NVC6C0_SEND_SIGNALING_PCAS2_B then
        [LaunchQmd (push_bit 8 (ucast (R 1 NVC6C0_SEND_PCAS_A)))]
      else [])"

fun write_regs :: "regs \<Rightarrow> NvU32 \<Rightarrow> NvU32 \<Rightarrow> NvU32 list \<Rightarrow> regs \<times> gpu_op list" where
  "write_regs R sub m [] = (R, [])"
| "write_regs R sub m (w # ws) =
     (let f = reg_file sub m;
          R1 = R(f := (R f)(m := w));
          r = write_regs R1 sub (m + 4) ws
      in (fst r, trigger R1 sub m @ snd r))"

fun run_calls :: "regs \<Rightarrow> mcall list \<Rightarrow> regs \<times> gpu_op list" where
  "run_calls R [] = (R, [])"
| "run_calls R (MCall sub m ws # cs) =
     (let a = write_regs R sub m ws; b = run_calls (fst a) cs in (fst b, snd a @ snd b))"

lemma run_calls_append:
  "run_calls R (cs @ ds) =
    (let a = run_calls R cs; b = run_calls (fst a) ds in (fst b, snd a @ snd b))"
  by (induction R cs rule: run_calls.induct) (simp_all add: Let_def)

text \<open>
  \<open>emits ws ops\<close>: the words are complete calls, and whatever the registers hold before, the GPU does
  the operations \<open>ops\<close>, in this order. The streams of two commands put together do the operations
  of both.
\<close>

definition emits :: "NvU32 list \<Rightarrow> gpu_op list \<Rightarrow> bool" where
  "emits ws ops \<longleftrightarrow> (\<exists>cs. decode_stream ws = Some cs \<and> (\<forall>R. snd (run_calls R cs) = ops))"

lemma emits_Nil [simp]: "emits [] []"
  by (simp add: emits_def)

lemma emits_append: "emits ws ops \<Longrightarrow> emits vs qs \<Longrightarrow> emits (ws @ vs) (ops @ qs)"
  by (auto simp: emits_def decode_append run_calls_append Let_def)

lemma emits_unique: "emits ws ops \<Longrightarrow> emits ws qs \<Longrightarrow> ops = qs"
  by (auto simp: emits_def)

text \<open>A complete command: its calls as data, and the words \<open>enqueue\<close> makes of them.\<close>

definition call_words :: "NvU32 \<Rightarrow> NvU32 \<Rightarrow> NvU32 list \<Rightarrow> NvU32 list" where
  "call_words subc meth args = ucast (makeNvMethod subc meth (of_nat (length args)) 2) # args"

definition call_ok :: "NvU32 \<Rightarrow> NvU32 \<Rightarrow> NvU32 list \<Rightarrow> bool" where
  "call_ok subc meth args \<longleftrightarrow> method_ok subc meth (of_nat (length args)) \<and> length args < 4096"

lemma decode_call_words:
  assumes "call_ok subc meth args"
  shows "decode_stream (call_words subc meth args @ rest) =
    map_option (\<lambda>ds. MCall subc meth args # ds) (decode_stream rest)"
proof -
  have "length args = unat (of_nat (length args) :: NvU32)"
    using assms unfolding call_ok_def unsigned_of_nat of_nat_id by (simp add: take_bit_nat_eq_self)
  then show ?thesis
    using decode_call [of subc meth "of_nat (length args)" args rest] assms
    by (simp add: call_words_def call_ok_def)
qed

lemma emits_calls:
  assumes "\<forall>(s, m, a) \<in> set cs. call_ok s m a"
    and "\<And>R. snd (run_calls R (map (\<lambda>(s, m, a). MCall s m a) cs)) = ops"
  shows "emits (concat (map (\<lambda>(s, m, a). call_words s m a) cs)) ops"
proof -
  have "decode_stream (concat (map (\<lambda>(s, m, a). call_words s m a) cs)) =
      Some (map (\<lambda>(s, m, a). MCall s m a) cs)"
    using assms(1) by (induction cs) (auto simp: decode_call_words)
  then show ?thesis using assms(2) by (auto simp: emits_def)
qed

end
