(* ===== verification/Cmd_Queue.thy ===== *)
theory Cmd_Queue
  imports Va_Space Channel
begin

text \<open>
  \<open>NvCommandQueue\<close> of \<open>driverapi/src/cmdqueue.cpp\<close>: command buffers, the signal pool, the timeline
  by which the CPU waits for the GPU, the backlog that serialises compute and copy commands, and
  the submission of a buffer to the GP FIFO of its channel. Launching a kernel is in \<open>Launch\<close>.
  A pointer to a queue, an event or a function is a number, 0 for \<open>nullptr\<close>; a \<open>NvSignal *\<close> is the
  device address of the signal.
\<close>

section \<open>State\<close>

datatype QueueType = COMPUTE | DMA

record cmd_page =
  commandQueueSpace :: NvU64
  commandWriteIdx :: NvU64

record cmd_split =
  commandBuffer :: "NvU32 list"
  queueType :: QueueType
  split_timelineCtr :: NvU32
  split_notifyPending :: bool

record cmdq =
  q_ctx :: nat
  initialized :: bool
  computeCommandBuffer :: "NvU32 list"
  dmaCommandBuffer :: "NvU32 list"
  computeQueuePage :: cmd_page
  dmaQueuePage :: cmd_page
  signalPool :: NvU64
  freeSignals :: "NvU32 list"
  timelineSignal :: NvU64
  timelineCtr :: NvU32
  timelineNotifyPending :: bool
  currentQueueType :: "QueueType option"  \<comment> \<open>\<open>None\<close>: a value that is no enumerator\<close>
  commandBufBacklog :: "cmd_split list"
  currentSlmPerThread :: NvU64
  kernArgsPageVa :: NvU64
  kernArgsWriteIdx :: NvU64
  submitted :: "(QueueType \<times> NvU32 list) list"
    \<comment> \<open>trace: the buffers handed to the GPU so far, in order\<close>

record cu_event =
  ev_stream :: nat
  computeSignal :: NvU64
  dmaSignal :: NvU64

record KernelConstantInfo =
  const_nr :: NvU32
  const_address :: NvU64
  const_size :: NvU64

record KernelParamInfo =
  param_index :: NvU16
  param_offset :: NvU16
  param_size :: NvU16

record func =
  func_name :: string
  func_va_addr :: NvU64
  shared_mem :: NvU32
  num_registers :: NvU32
  local_mem_req :: NvU32
  function_size :: NvU64
  constants :: "KernelConstantInfo list"
  param_info :: "KernelParamInfo list"
  shader_local_memory_va :: NvU64

record drv = vm +
  queues :: "nat \<Rightarrow> cmdq"
  events :: "nat \<Rightarrow> cu_event"
  funcs :: "nat \<Rightarrow> func"
  sig_value :: "NvU64 \<Rightarrow> NvU64"      \<comment> \<open>\<open>NvSignal::value\<close> by the address of the signal\<close>
  sig_time :: "NvU64 \<Rightarrow> NvU64"       \<comment> \<open>\<open>NvSignal::time_stamp\<close>\<close>
  wmem :: "NvU64 \<Rightarrow> NvU32"           \<comment> \<open>mapped GPU memory, by the address of a word\<close>
  doorbells :: "(NvU32 \<times> NvU32) list"  \<comment> \<open>writes to \<open>gpu_mmio\<close>: index and value\<close>

definition getq :: "nat \<Rightarrow> (cmdq \<Rightarrow> 'b) \<Rightarrow> ('a drv_scheme, 'b) prog" where
  "getq q f = gets (\<lambda>s. f (queues s q))"

definition modq :: "nat \<Rightarrow> (cmdq \<Rightarrow> cmdq) \<Rightarrow> ('a drv_scheme, unit) prog" where
  "modq q f = modify (\<lambda>s. s\<lparr>queues := (queues s)(q := f (queues s q))\<rparr>)"

definition MAX_CMD_QUEUE_PAGE_SIZE :: NvU64 where "MAX_CMD_QUEUE_PAGE_SIZE = 0x200000"
definition MAX_SIGNAL_POOL_SIZE :: nat where "MAX_SIGNAL_POOL_SIZE = 65536"
definition KERNARGS_PAGE_SIZE :: NvU64 where "KERNARGS_PAGE_SIZE = push_bit 20 16"
definition sizeof_NvSignal :: NvU64 where "sizeof_NvSignal = 16"
definition local_mem_window :: NvU64 where "local_mem_window = 0xff000000"
definition shared_mem_window :: NvU64 where "shared_mem_window = 0xfe000000"
definition AMPERE_DMA_COPY_B :: NvU32 where "AMPERE_DMA_COPY_B = 0xc7b5"
definition CU_CTX_SCHED_SPIN :: NvU32 where "CU_CTX_SCHED_SPIN = 1"
definition CU_CTX_SCHED_YIELD :: NvU32 where "CU_CTX_SCHED_YIELD = 2"
definition CU_CTX_SCHED_BLOCKING_SYNC :: NvU32 where "CU_CTX_SCHED_BLOCKING_SYNC = 4"

definition ENSURE_QUEUE_INITIALIZED :: "nat \<Rightarrow> ('a drv_scheme, unit) prog" where
  "ENSURE_QUEUE_INITIALIZED q =
     bind (getq q initialized) (\<lambda>b. validate b LIBRECUDA_ERROR_NOT_INITIALIZED)"

text \<open>The buffer, page and FIFO that \<open>queueType == COMPUTE ? ... : ...\<close> selects.\<close>

definition buf_of :: "QueueType \<Rightarrow> cmdq \<Rightarrow> NvU32 list" where
  "buf_of t = (case t of COMPUTE \<Rightarrow> computeCommandBuffer | DMA \<Rightarrow> dmaCommandBuffer)"

definition set_buf :: "QueueType \<Rightarrow> NvU32 list \<Rightarrow> cmdq \<Rightarrow> cmdq" where
  "set_buf t b c = (case t of COMPUTE \<Rightarrow> c\<lparr>computeCommandBuffer := b\<rparr> | DMA \<Rightarrow> c\<lparr>dmaCommandBuffer := b\<rparr>)"

definition page_of :: "QueueType \<Rightarrow> cmdq \<Rightarrow> cmd_page" where
  "page_of t = (case t of COMPUTE \<Rightarrow> computeQueuePage | DMA \<Rightarrow> dmaQueuePage)"

definition set_page :: "QueueType \<Rightarrow> cmd_page \<Rightarrow> cmdq \<Rightarrow> cmdq" where
  "set_page t p c = (case t of COMPUTE \<Rightarrow> c\<lparr>computeQueuePage := p\<rparr> | DMA \<Rightarrow> c\<lparr>dmaQueuePage := p\<rparr>)"

definition fifo_of :: "QueueType \<Rightarrow> cu_context \<Rightarrow> gpfifo" where
  "fifo_of t = (case t of COMPUTE \<Rightarrow> compute_gpfifo | DMA \<Rightarrow> dma_gpfifo)"

definition set_fifo :: "QueueType \<Rightarrow> gpfifo \<Rightarrow> cu_context \<Rightarrow> cu_context" where
  "set_fifo t f c = (case t of COMPUTE \<Rightarrow> c\<lparr>compute_gpfifo := f\<rparr> | DMA \<Rightarrow> c\<lparr>dma_gpfifo := f\<rparr>)"

definition enqueue :: "nat \<Rightarrow> NvU64 \<Rightarrow> NvU32 list \<Rightarrow> QueueType \<Rightarrow> ('a drv_scheme, unit) prog" where
  "enqueue q method arguments t =
     bind (modq q (\<lambda>c. set_buf t (buf_of t c @ [ucast method]) c)) (\<lambda>_.
     let n_arguments = unat (drop_bit 16 method AND 0xFFF) in
     bind (validate (n_arguments = length arguments) LIBRECUDA_ERROR_INVALID_VALUE) (\<lambda>_.
     modq q (\<lambda>c. set_buf t (buf_of t c @ arguments) c)))"

section \<open>Signals\<close>

definition obtainSignal :: "nat \<Rightarrow> ('a drv_scheme, NvU64) prog" where
  "obtainSignal q =
     bind (getq q signalPool) (\<lambda>pool.
     bind (validate (pool \<noteq> 0) LIBRECUDA_ERROR_NOT_INITIALIZED) (\<lambda>_.
     bind (getq q freeSignals) (\<lambda>free.
     case free of
       [] \<Rightarrow> fail LIBRECUDA_ERROR_UNKNOWN
     | signalIdx # rest \<Rightarrow>
         bind (modq q (\<lambda>c. c\<lparr>freeSignals := rest\<rparr>)) (\<lambda>_.
         ret (pool + ucast signalIdx * sizeof_NvSignal)))))"

text \<open>\<open>signal - signalPool\<close> is a signed difference of pointers, divided by the size of a signal.\<close>

definition signal_index :: "NvU64 \<Rightarrow> NvU64 \<Rightarrow> NvU32" where
  "signal_index signal pool = word_of_int (sint (signal - pool) div 16)"

definition releaseSignal :: "nat \<Rightarrow> NvU64 \<Rightarrow> ('a drv_scheme, unit) prog" where
  "releaseSignal q signal =
     bind (validate (signal \<noteq> 0) LIBRECUDA_ERROR_INVALID_VALUE) (\<lambda>_.
     bind (getq q signalPool) (\<lambda>pool.
     let signalIdx = signal_index signal pool in
     bind (validate (unat signalIdx < MAX_SIGNAL_POOL_SIZE) LIBRECUDA_ERROR_INVALID_VALUE) (\<lambda>_.
     bind (getq q freeSignals) (\<lambda>free.
     bind (validate (signalIdx \<notin> set free) LIBRECUDA_ERROR_INVALID_VALUE) (\<lambda>_.
     modq q (\<lambda>c. c\<lparr>freeSignals := freeSignals c @ [signalIdx]\<rparr>))))))"

definition sem_execute_release :: NvU32 where
  "sem_execute_release =
     NVC56F_SEM_EXECUTE_OPERATION_RELEASE OR push_bit 20 NVC56F_SEMAPHORED_RELEASE_WFI_DIS OR
     push_bit 24 NVC56F_SEM_EXECUTE_PAYLOAD_SIZE_64BIT OR
     push_bit 25 NVC56F_SEM_EXECUTE_RELEASE_TIMESTAMP_EN"

definition sem_execute_acquire :: NvU32 where
  "sem_execute_acquire =
     NVC56F_SEM_EXECUTE_OPERATION_ACQUIRE OR push_bit 24 NVC56F_SEM_EXECUTE_PAYLOAD_SIZE_64BIT"

definition signalNotify :: "nat \<Rightarrow> NvU64 \<Rightarrow> NvU32 \<Rightarrow> QueueType \<Rightarrow> ('a drv_scheme, unit) prog" where
  "signalNotify q pSignal signalTarget t =
     bind (validate (pSignal \<noteq> 0) LIBRECUDA_ERROR_INVALID_VALUE) (\<lambda>_.
     case t of
       COMPUTE \<Rightarrow>
         bind (enqueue q (makeNvMethod 0 NVC56F_SEM_ADDR_LO 5 2)
           [lo_32 pSignal, hi_32 pSignal, signalTarget, 0, sem_execute_release] COMPUTE) (\<lambda>_.
         enqueue q (makeNvMethod 4 NVC56F_NON_STALL_INTERRUPT 1 2) [0] COMPUTE)
     | DMA \<Rightarrow>
         bind (enqueue q (makeNvMethod 4 NVC6B5_SET_SEMAPHORE_A 3 2)
           [hi_32 pSignal, lo_32 pSignal, signalTarget] DMA) (\<lambda>_.
         enqueue q (makeNvMethod 4 NVC6B5_LAUNCH_DMA 1 2) [0x14] DMA))"

text \<open>
  The polling loop. \<open>G\<close> is what the GPU does to the state between two reads of the signal; the fuel
  bounds the number of reads, and a loop that is still waiting when it is used up has not returned.
\<close>

fun poll :: "('a drv_scheme \<Rightarrow> 'a drv_scheme) \<Rightarrow> nat \<Rightarrow> NvU64 \<Rightarrow> NvU32 \<Rightarrow> ('a drv_scheme, unit) prog" where
  "poll G n pSignal signalTarget s =
     (if sig_value s pSignal < ucast signalTarget then
        (case n of 0 \<Rightarrow> (Inl NoReturn, s) | Suc m \<Rightarrow> poll G m pSignal signalTarget (G s))
      else (Inr (), s))"

declare poll.simps [simp del]

definition signalWaitCpu ::
  "('a drv_scheme \<Rightarrow> 'a drv_scheme) \<Rightarrow> nat \<Rightarrow> nat \<Rightarrow> NvU64 \<Rightarrow> NvU32 \<Rightarrow> ('a drv_scheme, unit) prog" where
  "signalWaitCpu G n q pSignal signalTarget =
     bind (validate (pSignal \<noteq> 0) LIBRECUDA_ERROR_INVALID_VALUE) (\<lambda>_.
     bind (getq q q_ctx) (\<lambda>c.
     bind (gets (\<lambda>s. ctx_flags (ctxs s c))) (\<lambda>fl.
     bind (run_when (fl AND CU_CTX_SCHED_SPIN = 0 \<and> fl AND CU_CTX_SCHED_YIELD = 0 \<and>
                     fl AND CU_CTX_SCHED_BLOCKING_SYNC = 0)
             (modify_ctx c (\<lambda>x. x\<lparr>ctx_flags := ctx_flags x OR CU_CTX_SCHED_SPIN\<rparr>))) (\<lambda>_.
     bind (gets (\<lambda>s. ctx_flags (ctxs s c))) (\<lambda>fl.
     if fl AND CU_CTX_SCHED_SPIN \<noteq> 0 then poll G n pSignal signalTarget
     else if fl AND CU_CTX_SCHED_YIELD \<noteq> 0 then poll G n pSignal signalTarget
     else if fl AND CU_CTX_SCHED_BLOCKING_SYNC \<noteq> 0 then stop (Throw ''TODO: not yet implemented'')
     else succeed)))))"

definition signalWaitGpu :: "nat \<Rightarrow> NvU64 \<Rightarrow> NvU32 \<Rightarrow> ('a drv_scheme, unit) prog" where
  "signalWaitGpu q pSignal signalTarget =
     bind (gets (\<lambda>s. sig_value s pSignal)) (\<lambda>v.
     if v = ucast signalTarget then succeed
     else enqueue q (makeNvMethod 0 NVC56F_SEM_ADDR_LO 5 2)
            [lo_32 pSignal, hi_32 pSignal, signalTarget, 0, sem_execute_acquire] COMPUTE)"

section \<open>Submission\<close>

text \<open>\<open>memcpy\<close> of words.\<close>

fun store_words :: "NvU64 \<Rightarrow> NvU32 list \<Rightarrow> (NvU64 \<Rightarrow> NvU32) \<Rightarrow> NvU64 \<Rightarrow> NvU32" where
  "store_words a [] m = m"
| "store_words a (w # ws) m = store_words (a + 4) ws (m(a := w))"

definition write_words :: "NvU64 \<Rightarrow> NvU32 list \<Rightarrow> ('a drv_scheme, unit) prog" where
  "write_words a ws = modify (\<lambda>s. s\<lparr>wmem := store_words a ws (wmem s)\<rparr>)"

definition submitToFifo :: "nat \<Rightarrow> QueueType \<Rightarrow> ('a drv_scheme, unit) prog" where
  "submitToFifo q t =
     bind (getq q (buf_of t)) (\<lambda>buf.
     if buf = [] then succeed else
     let n = of_nat (length buf) :: NvU64 in
     bind (getq q q_ctx) (\<lambda>c.
     bind (gets (\<lambda>s. (page_of t (queues s q), fifo_of t (ctxs s c)))) (\<lambda>(page, fifo).
     bind (run_when (commandWriteIdx page + n > MAX_CMD_QUEUE_PAGE_SIZE)
       (bind (validate (ring fifo (GPGet fifo) AND 0xFFFFFFFFFC \<ge> commandQueueSpace page + n * 4 \<or>
                        GPGet fifo = GPPut fifo) LIBRECUDA_ERROR_UNKNOWN) (\<lambda>_.
        modq q (\<lambda>x. set_page t (page\<lparr>commandWriteIdx := 0\<rparr>) x)))) (\<lambda>_.
     bind (gets (\<lambda>s. page_of t (queues s q))) (\<lambda>page.
     let dest = commandQueueSpace page + commandWriteIdx page * 4 in
     bind (write_words dest buf) (\<lambda>_.
     bind (guard_ub (entries_count fifo \<noteq> 0) ''division by zero'') (\<lambda>_.
     bind (modify_ctx c (set_fifo t (fifo\<lparr>
             ring := (ring fifo)(put_value fifo mod entries_count fifo := gp_entry dest n),
             GPPut := (put_value fifo + 1) mod entries_count fifo,
             put_value := put_value fifo + 1\<rparr>))) (\<lambda>_.
     bind (modify (\<lambda>s. s\<lparr>doorbells := doorbells s @ [(0x90 div 4, token fifo)]\<rparr>)) (\<lambda>_.
     modq q (\<lambda>x. set_buf t [] (set_page t (page\<lparr>commandWriteIdx := commandWriteIdx page + n\<rparr>)
       (x\<lparr>submitted := submitted x @ [(t, buf)]\<rparr>))))))))))))"

definition startExecution1 :: "nat \<Rightarrow> QueueType \<Rightarrow> ('a drv_scheme, unit) prog" where
  "startExecution1 q t = submitToFifo q t"

definition awaitExecution ::
  "('a drv_scheme \<Rightarrow> 'a drv_scheme) \<Rightarrow> nat \<Rightarrow> nat \<Rightarrow> ('a drv_scheme, unit) prog" where
  "awaitExecution G n q =
     bind (getq q timelineSignal) (\<lambda>ts.
     bind (validate (ts \<noteq> 0) LIBRECUDA_ERROR_NOT_INITIALIZED) (\<lambda>_.
     bind (getq q timelineCtr) (\<lambda>ctr.
     bind (signalWaitCpu G n q ts ctr) (\<lambda>_.
     modq q (\<lambda>c. c\<lparr>kernArgsWriteIdx := 0\<rparr>)))))"

section \<open>The backlog\<close>

definition backlogCurrentCmdBuffer :: "nat \<Rightarrow> QueueType \<Rightarrow> ('a drv_scheme, unit) prog" where
  "backlogCurrentCmdBuffer q t =
     bind (getq q (buf_of t)) (\<lambda>buf.
     if buf = [] then succeed
     else modq q (\<lambda>c. set_buf t [] (c\<lparr>
            commandBufBacklog := commandBufBacklog c @ [\<lparr>commandBuffer = buf, queueType = t,
              split_timelineCtr = timelineCtr c, split_notifyPending = timelineNotifyPending c\<rparr>],
            timelineNotifyPending := False\<rparr>)))"

definition run_split ::
  "('a drv_scheme \<Rightarrow> 'a drv_scheme) \<Rightarrow> nat \<Rightarrow> nat \<Rightarrow> cmd_split \<Rightarrow> ('a drv_scheme, unit) prog" where
  "run_split G n q e =
     bind (modq q (set_buf (queueType e) (commandBuffer e))) (\<lambda>_.
     bind (getq q timelineSignal) (\<lambda>ts.
     bind (run_when (split_notifyPending e)
             (signalNotify q ts (split_timelineCtr e) (queueType e))) (\<lambda>_.
     bind (submitToFifo q (queueType e)) (\<lambda>_.
     signalWaitCpu G n q ts (split_timelineCtr e)))))"

text \<open>
  The branch of \<open>startExecution\<close> without a backlog, for one queue type: the other buffer must be
  empty, a pending notification is appended, and the buffer is submitted.
\<close>

definition start_current :: "nat \<Rightarrow> QueueType \<Rightarrow> QueueType \<Rightarrow> ('a drv_scheme, unit) prog" where
  "start_current q t other =
     bind (getq q (buf_of other)) (\<lambda>b.
     bind (validate (b = []) LIBRECUDA_ERROR_UNKNOWN) (\<lambda>_.
     bind (gets (\<lambda>s. queues s q)) (\<lambda>c.
     bind (run_when (timelineNotifyPending c)
             (signalNotify q (timelineSignal c) (timelineCtr c) t)) (\<lambda>_.
     startExecution1 q t))))"

definition startExecution ::
  "('a drv_scheme \<Rightarrow> 'a drv_scheme) \<Rightarrow> nat \<Rightarrow> nat \<Rightarrow> ('a drv_scheme, unit) prog" where
  "startExecution G n q =
     bind (getq q commandBufBacklog) (\<lambda>bl.
     if bl \<noteq> [] then
       bind (backlogCurrentCmdBuffer q COMPUTE) (\<lambda>_.
       bind (backlogCurrentCmdBuffer q DMA) (\<lambda>_.
       bind (getq q commandBufBacklog) (\<lambda>entries.
       bind (foreach entries (run_split G n q)) (\<lambda>_.
       modq q (\<lambda>c. c\<lparr>commandBufBacklog := []\<rparr>)))))
     else
       bind (getq q currentQueueType) (\<lambda>ty.
       bind (run_when (ty = Some COMPUTE) (start_current q COMPUTE DMA)) (\<lambda>_.
       bind (run_when (ty = Some DMA) (start_current q DMA COMPUTE)) (\<lambda>_.
       modq q (\<lambda>c. c\<lparr>timelineNotifyPending := False\<rparr>)))))"

section \<open>Copies, kernel arguments, events\<close>

definition switch_to :: "nat \<Rightarrow> QueueType \<Rightarrow> QueueType \<Rightarrow> ('a drv_scheme, unit) prog" where
  "switch_to q t other =
     bind (getq q (buf_of other)) (\<lambda>b.
     bind (run_when (b = []) (modq q (\<lambda>c. c\<lparr>currentQueueType := Some t\<rparr>))) (\<lambda>_.
     bind (getq q currentQueueType) (\<lambda>ty.
     run_when (ty = Some other)
       (bind (backlogCurrentCmdBuffer q other) (\<lambda>_.
        modq q (\<lambda>c. c\<lparr>currentQueueType := Some t\<rparr>))))))"

text \<open>The end of a launch and of a copy: notify at once, or leave it to \<open>startExecution\<close>.\<close>

definition finish_command :: "nat \<Rightarrow> QueueType \<Rightarrow> bool \<Rightarrow> ('a drv_scheme, unit) prog" where
  "finish_command q t async =
     bind (modq q (\<lambda>c. c\<lparr>timelineCtr := timelineCtr c + 1\<rparr>)) (\<lambda>_.
     if \<not> async then
       bind (gets (\<lambda>s. queues s q)) (\<lambda>c.
       bind (signalNotify q (timelineSignal c) (timelineCtr c) t) (\<lambda>_.
       modq q (\<lambda>c. c\<lparr>timelineNotifyPending := False\<rparr>)))
     else modq q (\<lambda>c. c\<lparr>timelineNotifyPending := True\<rparr>))"

definition launch_dma_copy :: NvU32 where
  "launch_dma_copy = push_bit 0 NVC6B5_LAUNCH_DMA_DATA_TRANSFER_TYPE_NON_PIPELINED OR
     push_bit 7 NVC6B5_LAUNCH_DMA_SRC_MEMORY_LAYOUT_PITCH OR
     push_bit 8 NVC6B5_LAUNCH_DMA_DST_MEMORY_LAYOUT_PITCH"

definition gpuMemcpy :: "nat \<Rightarrow> NvU64 \<Rightarrow> NvU64 \<Rightarrow> NvU64 \<Rightarrow> bool \<Rightarrow> ('a drv_scheme, unit) prog" where
  "gpuMemcpy q dst src numBytes async =
     bind (validate (dst \<noteq> 0) LIBRECUDA_ERROR_INVALID_VALUE) (\<lambda>_.
     bind (validate (src \<noteq> 0) LIBRECUDA_ERROR_INVALID_VALUE) (\<lambda>_.
     bind (validate (numBytes < 0xFFFFFFFF) LIBRECUDA_ERROR_INVALID_VALUE) (\<lambda>_.
     bind (switch_to q DMA COMPUTE) (\<lambda>_.
     bind (enqueue q (makeNvMethod 4 NVC6B5_OFFSET_IN_UPPER 4 2)
       [hi_32 src, lo_32 src, hi_32 dst, lo_32 dst] DMA) (\<lambda>_.
     bind (enqueue q (makeNvMethod 4 NVC6B5_LINE_LENGTH_IN 1 2) [ucast numBytes] DMA) (\<lambda>_.
     bind (enqueue q (makeNvMethod 4 NVC6B5_LAUNCH_DMA 1 2) [launch_dma_copy] DMA) (\<lambda>_.
     finish_command q DMA async)))))))"

text \<open>\<open>pMemOut\<close> is the address of a local variable at its only call.\<close>

definition allocKernArgs :: "nat \<Rightarrow> NvU64 \<Rightarrow> ('a drv_scheme, NvU64) prog" where
  "allocKernArgs q sz =
     bind (gets (\<lambda>s. queues s q)) (\<lambda>c.
     if kernArgsWriteIdx c + sz > KERNARGS_PAGE_SIZE
     then fail LIBRECUDA_ERROR_LAUNCH_OUT_OF_RESOURCES
     else let ptr = kernArgsPageVa c + kernArgsWriteIdx c in
       bind (modq q (\<lambda>c. c\<lparr>kernArgsWriteIdx := kernArgsWriteIdx c + sz\<rparr>)) (\<lambda>_.
       ret ptr))"

definition get_event :: "nat \<Rightarrow> (cu_event \<Rightarrow> 'b) \<Rightarrow> ('a drv_scheme, 'b) prog" where
  "get_event ev f = gets (\<lambda>s. f (events s ev))"

definition mod_event :: "nat \<Rightarrow> (cu_event \<Rightarrow> cu_event) \<Rightarrow> ('a drv_scheme, unit) prog" where
  "mod_event ev f = modify (\<lambda>s. s\<lparr>events := (events s)(ev := f (events s ev))\<rparr>)"

definition event_signal :: "QueueType \<Rightarrow> cu_event \<Rightarrow> NvU64" where
  "event_signal t = (case t of COMPUTE \<Rightarrow> computeSignal | DMA \<Rightarrow> dmaSignal)"

definition set_event_signal :: "QueueType \<Rightarrow> NvU64 \<Rightarrow> cu_event \<Rightarrow> cu_event" where
  "set_event_signal t p e = (case t of COMPUTE \<Rightarrow> e\<lparr>computeSignal := p\<rparr> | DMA \<Rightarrow> e\<lparr>dmaSignal := p\<rparr>)"

definition record_on :: "nat \<Rightarrow> nat \<Rightarrow> QueueType \<Rightarrow> ('a drv_scheme, unit) prog" where
  "record_on q ev t =
     bind (get_event ev (event_signal t)) (\<lambda>p.
     bind (run_when (p = 0)
       (bind (obtainSignal q) (\<lambda>p. mod_event ev (set_event_signal t p)))) (\<lambda>_.
     bind (get_event ev (event_signal t)) (\<lambda>p.
     signalNotify q p 1 t)))"

definition recordEvent :: "nat \<Rightarrow> nat \<Rightarrow> nat \<Rightarrow> ('a drv_scheme, unit) prog" where
  "recordEvent q ev pStream =
     bind (validate (ev \<noteq> 0) LIBRECUDA_ERROR_INVALID_VALUE) (\<lambda>_.
     bind (mod_event ev (\<lambda>e. e\<lparr>ev_stream := pStream\<rparr>)) (\<lambda>_.
     bind (getq q currentQueueType) (\<lambda>ty.
     case ty of
       Some COMPUTE \<Rightarrow> record_on q ev COMPUTE
     | Some DMA \<Rightarrow> record_on q ev DMA
     | None \<Rightarrow> bind (record_on q ev COMPUTE) (\<lambda>_.
         modq q (\<lambda>c. c\<lparr>currentQueueType := Some COMPUTE\<rparr>)))))"

text \<open>The status of \<open>signalWaitCpu\<close> is dropped here; an exception and a wait without end are not.\<close>

definition ignore_status :: "('s, unit) prog \<Rightarrow> ('s, unit) prog" where
  "ignore_status m = (\<lambda>s. case m s of (Inl (Fail st), s') \<Rightarrow> (Inr (), s') | r \<Rightarrow> r)"

definition waitForEvent ::
  "('a drv_scheme \<Rightarrow> 'a drv_scheme) \<Rightarrow> nat \<Rightarrow> nat \<Rightarrow> nat \<Rightarrow> ('a drv_scheme, unit) prog" where
  "waitForEvent G n q ev =
     bind (validate (ev \<noteq> 0) LIBRECUDA_ERROR_INVALID_VALUE) (\<lambda>_.
     bind (gets (\<lambda>s. events s ev)) (\<lambda>e.
     bind (validate (ev_stream e \<noteq> 0) LIBRECUDA_ERROR_INVALID_VALUE) (\<lambda>_.
     bind (validate (computeSignal e \<noteq> 0 \<or> dmaSignal e \<noteq> 0) LIBRECUDA_ERROR_INVALID_VALUE) (\<lambda>_.
     if computeSignal e \<noteq> 0 then ignore_status (signalWaitCpu G n q (computeSignal e) 1)
     else run_when (dmaSignal e \<noteq> 0) (ignore_status (signalWaitCpu G n q (dmaSignal e) 1))))))"

definition getEventTimestamp :: "nat \<Rightarrow> bool \<Rightarrow> ('a drv_scheme, NvU64) prog" where
  "getEventTimestamp ev pTimestampOut =
     bind (validate (ev \<noteq> 0) LIBRECUDA_ERROR_INVALID_VALUE) (\<lambda>_.
     bind (validate pTimestampOut LIBRECUDA_ERROR_INVALID_VALUE) (\<lambda>_.
     bind (gets (\<lambda>s. events s ev)) (\<lambda>e.
     bind (validate (ev_stream e \<noteq> 0) LIBRECUDA_ERROR_INVALID_VALUE) (\<lambda>_.
     bind (validate (computeSignal e \<noteq> 0 \<or> dmaSignal e \<noteq> 0) LIBRECUDA_ERROR_INVALID_VALUE) (\<lambda>_.
     let sig = if computeSignal e \<noteq> 0 then computeSignal e else dmaSignal e in
     bind (gets (\<lambda>s. sig_value s sig)) (\<lambda>v.
     bind (validate (v = 1) LIBRECUDA_ERROR_NOT_READY) (\<lambda>_.
     gets (\<lambda>s. sig_time s sig))))))))"

section \<open>Construction and destruction\<close>

text \<open>A queue as its constructor leaves it; \<open>ty\<close> is what the uninitialised \<open>currentQueueType\<close> holds.\<close>

definition new_queue :: "nat \<Rightarrow> QueueType option \<Rightarrow> NvU64 \<Rightarrow> cmdq" where
  "new_queue c ty kernargs = \<lparr>q_ctx = c, initialized = False, computeCommandBuffer = [],
     dmaCommandBuffer = [], computeQueuePage = \<lparr>commandQueueSpace = 0, commandWriteIdx = 0\<rparr>,
     dmaQueuePage = \<lparr>commandQueueSpace = 0, commandWriteIdx = 0\<rparr>, signalPool = 0, freeSignals = [],
     timelineSignal = 0, timelineCtr = 0, timelineNotifyPending = False, currentQueueType = ty,
     commandBufBacklog = [], currentSlmPerThread = 0, kernArgsPageVa = kernargs,
     kernArgsWriteIdx = 0, submitted = []\<rparr>"

definition alloc_queue_page :: "kern \<Rightarrow> nat \<Rightarrow> QueueType \<Rightarrow> ('a drv_scheme, unit) prog" where
  "alloc_queue_page K q t =
     bind (getq q q_ctx) (\<lambda>c.
     bind (gpuAlloc K c (MAX_CMD_QUEUE_PAGE_SIZE * 4) False False True 0) (\<lambda>(cmdq_va, _).
     modq q (\<lambda>x. set_page t ((page_of t x)\<lparr>commandQueueSpace := cmdq_va\<rparr>) x)))"

definition alloc_signal_pool :: "kern \<Rightarrow> nat \<Rightarrow> ('a drv_scheme, unit) prog" where
  "alloc_signal_pool K q =
     bind (getq q q_ctx) (\<lambda>c.
     bind (gpuSystemAlloc K c (sizeof_NvSignal * of_nat MAX_SIGNAL_POOL_SIZE) True 0) (\<lambda>(va, _).
     modq q (\<lambda>x. x\<lparr>signalPool := va,
       freeSignals := freeSignals x @ map of_nat [0 ..< MAX_SIGNAL_POOL_SIZE]\<rparr>)))"

definition bump_timeline :: "nat \<Rightarrow> QueueType \<Rightarrow> ('a drv_scheme, unit) prog" where
  "bump_timeline q t =
     bind (modq q (\<lambda>c. c\<lparr>timelineCtr := timelineCtr c + 1\<rparr>)) (\<lambda>_.
     bind (gets (\<lambda>s. queues s q)) (\<lambda>c.
     signalNotify q (timelineSignal c) (timelineCtr c) t))"

definition initializeQueue ::
  "kern \<Rightarrow> ('a drv_scheme \<Rightarrow> 'a drv_scheme) \<Rightarrow> nat \<Rightarrow> nat \<Rightarrow> ('a drv_scheme, unit) prog" where
  "initializeQueue K G n q = block [
     alloc_queue_page K q COMPUTE,
     alloc_queue_page K q DMA,
     alloc_signal_pool K q,
     bind (obtainSignal q) (\<lambda>p. modq q (\<lambda>c. c\<lparr>timelineSignal := p\<rparr>)),
     bind (gets (\<lambda>s. compute_class (public_device_handles s ! ctx_device (ctxs s (q_ctx (queues s q))))))
       (\<lambda>cls. enqueue q (makeNvMethod 1 NVC6C0_SET_OBJECT 1 2) [cls] COMPUTE),
     enqueue q (makeNvMethod 1 NVC6C0_SET_SHADER_LOCAL_MEMORY_WINDOW_A 2 2)
       [hi_32 local_mem_window, lo_32 local_mem_window] COMPUTE,
     enqueue q (makeNvMethod 1 NVC6C0_SET_SHADER_SHARED_MEMORY_WINDOW_A 2 2)
       [hi_32 shared_mem_window, lo_32 shared_mem_window] COMPUTE,
     bump_timeline q COMPUTE,
     startExecution1 q COMPUTE,
     awaitExecution G n q,
     enqueue q (makeNvMethod 4 NVC6C0_SET_OBJECT 1 2) [AMPERE_DMA_COPY_B] DMA,
     bump_timeline q DMA,
     startExecution1 q DMA,
     awaitExecution G n q,
     bind (getq q q_ctx) (\<lambda>c.
       bind (gpuAlloc K c KERNARGS_PAGE_SIZE False True True 0) (\<lambda>(va, _).
       modq q (\<lambda>x. x\<lparr>kernArgsPageVa := va\<rparr>))),
     modq q (\<lambda>c. c\<lparr>initialized := True\<rparr>)]"

text \<open>The destructor; it drops the statuses of its calls.\<close>

definition delete_queue :: "kern \<Rightarrow> nat \<Rightarrow> ('a drv_scheme, unit) prog" where
  "delete_queue K q =
     bind (gets (\<lambda>s. queues s q)) (\<lambda>c.
     if \<not> initialized c then succeed
     else block [
       ignore_status (releaseSignal q (timelineSignal c)),
       ignore_status (gpuFree K (q_ctx c) (signalPool c)),
       ignore_status (gpuFree K (q_ctx c) (commandQueueSpace (computeQueuePage c))),
       ignore_status (gpuFree K (q_ctx c) (commandQueueSpace (dmaQueuePage c))),
       ignore_status (gpuFree K (q_ctx c) (kernArgsPageVa c))])"

end
