(* ===== verification/Queue_Proofs.thy ===== *)
theory Queue_Proofs
  imports Cmd_Queue
begin

text \<open>
  The lemmas on the command queue: what each operation of \<open>Cmd_Queue\<close> does to the state when it runs,
  what the words it appends make the GPU do, the invariant of a queue (well-formed streams, one
  queue type at a time, every wait of the CPU covered by a release in the commands) and its
  preservation, and the effect of \<open>startExecution\<close>.
\<close>

section \<open>Running the operations\<close>

text \<open>The state after words were appended to a buffer of a queue.\<close>

definition upd_queue :: "nat \<Rightarrow> (cmdq \<Rightarrow> cmdq) \<Rightarrow> 'a drv_scheme \<Rightarrow> 'a drv_scheme" where
  "upd_queue q f s = s\<lparr>queues := (queues s)(q := f (queues s q))\<rparr>"

definition app_words :: "QueueType \<Rightarrow> NvU32 list \<Rightarrow> cmdq \<Rightarrow> cmdq" where
  "app_words t ws c = set_buf t (buf_of t c @ ws) c"

lemma modq_run [simp]: "modq q f s = (Inr (), upd_queue q f s)"
  by (simp add: modq_def upd_queue_def)

lemma getq_run [simp]: "getq q f s = (Inr (f (queues s q)), s)"
  by (simp add: getq_def)

lemma bind_modq [simp]: "bind (modq q g) f s = f () (upd_queue q g s)"
  and bind_getq [simp]: "bind (getq q h) k s = k (h (queues s q)) s"
  by (simp_all add: bind_def)

lemma queues_upd [simp]: "queues (upd_queue q f s) q = f (queues s q)"
  and queues_upd_other [simp]: "p \<noteq> q \<Longrightarrow> queues (upd_queue q f s) p = queues s p"
  by (simp_all add: upd_queue_def)

lemma upd_upd [simp]: "upd_queue q f (upd_queue q g s) = upd_queue q (\<lambda>c. f (g c)) s"
  by (simp add: upd_queue_def)

lemma upd_id [simp]: "upd_queue q (\<lambda>c. c) s = s"
  by (simp add: upd_queue_def)

lemma upd_queue_fields [simp]:
  "ctxs (upd_queue q f s) = ctxs s" "sig_value (upd_queue q f s) = sig_value s"
  "sig_time (upd_queue q f s) = sig_time s" "wmem (upd_queue q f s) = wmem s"
  "doorbells (upd_queue q f s) = doorbells s" "events (upd_queue q f s) = events s"
  "funcs (upd_queue q f s) = funcs s" "current_ctx (upd_queue q f s) = current_ctx s"
  "public_device_handles (upd_queue q f s) = public_device_handles s"
  "va_to_mem_handle (upd_queue q f s) = va_to_mem_handle s"
  "hostMappedPtrs (upd_queue q f s) = hostMappedPtrs s"
  "klog (upd_queue q f s) = klog s"
  by (simp_all add: upd_queue_def)

lemma buf_set_buf [simp]: "buf_of t (set_buf t b c) = b"
  and buf_set_other [simp]: "t \<noteq> t' \<Longrightarrow> buf_of t (set_buf t' b c) = buf_of t c"
  and set_set_buf [simp]: "set_buf t a (set_buf t b c) = set_buf t a c"
  and set_buf_same [simp]: "set_buf t (buf_of t c) c = c"
  by (cases t; cases t'; simp add: buf_of_def set_buf_def)+

lemma set_buf_bufs [simp]:
  "computeCommandBuffer (set_buf COMPUTE b c) = b" "dmaCommandBuffer (set_buf DMA b c) = b"
  "computeCommandBuffer (set_buf DMA b c) = computeCommandBuffer c"
  "dmaCommandBuffer (set_buf COMPUTE b c) = dmaCommandBuffer c"
  by (simp_all add: set_buf_def)

lemma buf_of_simps [simp]: "buf_of COMPUTE = computeCommandBuffer" "buf_of DMA = dmaCommandBuffer"
  by (simp_all add: buf_of_def)

lemma page_of_simps [simp]: "page_of COMPUTE = computeQueuePage" "page_of DMA = dmaQueuePage"
  by (simp_all add: page_of_def)

lemma set_buf_fields [simp]:
  "q_ctx (set_buf t b c) = q_ctx c" "timelineSignal (set_buf t b c) = timelineSignal c"
  "timelineCtr (set_buf t b c) = timelineCtr c" "submitted (set_buf t b c) = submitted c"
  "timelineNotifyPending (set_buf t b c) = timelineNotifyPending c"
  "commandBufBacklog (set_buf t b c) = commandBufBacklog c" "freeSignals (set_buf t b c) = freeSignals c"
  "signalPool (set_buf t b c) = signalPool c" "currentQueueType (set_buf t b c) = currentQueueType c"
  "page_of t' (set_buf t b c) = page_of t' c" "kernArgsPageVa (set_buf t b c) = kernArgsPageVa c"
  "kernArgsWriteIdx (set_buf t b c) = kernArgsWriteIdx c" "initialized (set_buf t b c) = initialized c"
  "currentSlmPerThread (set_buf t b c) = currentSlmPerThread c"
  by (cases t; cases t'; simp add: set_buf_def)+

lemma set_page_fields [simp]:
  "q_ctx (set_page t p c) = q_ctx c" "timelineSignal (set_page t p c) = timelineSignal c"
  "timelineCtr (set_page t p c) = timelineCtr c" "submitted (set_page t p c) = submitted c"
  "timelineNotifyPending (set_page t p c) = timelineNotifyPending c"
  "commandBufBacklog (set_page t p c) = commandBufBacklog c" "freeSignals (set_page t p c) = freeSignals c"
  "signalPool (set_page t p c) = signalPool c" "currentQueueType (set_page t p c) = currentQueueType c"
  "buf_of t' (set_page t p c) = buf_of t' c" "kernArgsPageVa (set_page t p c) = kernArgsPageVa c"
  "kernArgsWriteIdx (set_page t p c) = kernArgsWriteIdx c" "initialized (set_page t p c) = initialized c"
  "page_of t (set_page t p c) = p"
  by (cases t; cases t'; simp add: set_page_def)+

lemma app_words_app [simp]: "app_words t vs (app_words t ws c) = app_words t (ws @ vs) c"
  by (simp add: app_words_def)

lemma app_words_Nil [simp]: "app_words t [] = (\<lambda>c. c)"
  by (simp add: app_words_def fun_eq_iff)

lemma app_words_fields [simp]:
  "buf_of t (app_words t ws c) = buf_of t c @ ws"
  "t \<noteq> t' \<Longrightarrow> buf_of t (app_words t' ws c) = buf_of t c"
  "q_ctx (app_words t ws c) = q_ctx c" "timelineSignal (app_words t ws c) = timelineSignal c"
  "timelineCtr (app_words t ws c) = timelineCtr c" "submitted (app_words t ws c) = submitted c"
  "timelineNotifyPending (app_words t ws c) = timelineNotifyPending c"
  "commandBufBacklog (app_words t ws c) = commandBufBacklog c"
  "freeSignals (app_words t ws c) = freeSignals c" "signalPool (app_words t ws c) = signalPool c"
  "currentQueueType (app_words t ws c) = currentQueueType c"
  "page_of t' (app_words t ws c) = page_of t' c"
  "kernArgsWriteIdx (app_words t ws c) = kernArgsWriteIdx c"
  "kernArgsPageVa (app_words t ws c) = kernArgsPageVa c"
  "currentSlmPerThread (app_words t ws c) = currentSlmPerThread c"
  by (simp_all add: app_words_def)

lemma app_words_bufs [simp]:
  "computeCommandBuffer (app_words COMPUTE ws c) = computeCommandBuffer c @ ws"
  "dmaCommandBuffer (app_words DMA ws c) = dmaCommandBuffer c @ ws"
  "dmaCommandBuffer (app_words COMPUTE ws c) = dmaCommandBuffer c"
  "computeCommandBuffer (app_words DMA ws c) = computeCommandBuffer c"
  by (simp_all add: app_words_def set_buf_def)

lemma enqueue_run:
  assumes "call_ok subc m args" "sz = of_nat (length args)"
  shows "enqueue q (makeNvMethod subc m sz 2) args t s =
    (Inr (), upd_queue q (app_words t (call_words subc m args)) s)"
proof -
  have ok: "method_ok subc m (of_nat (length args))" and len: "length args < 4096"
    using assms(1) by (simp_all add: call_ok_def)
  have "unat (ucast (of_nat (length args) :: NvU32) :: NvU64) = length args"
    using len by (simp add: unsigned_of_nat take_bit_nat_eq_self)
  then show ?thesis
    unfolding assms(2) enqueue_def Let_def method_count [OF ok]
    by (simp add: app_words_def [abs_def] call_words_def)
qed

text \<open>The commands a queue appends, as words.\<close>

definition notify_words :: "QueueType \<Rightarrow> NvU64 \<Rightarrow> NvU32 \<Rightarrow> NvU32 list" where
  "notify_words t p v = (case t of
     COMPUTE \<Rightarrow> call_words 0 NVC56F_SEM_ADDR_LO [lo_32 p, hi_32 p, v, 0, sem_execute_release] @
       call_words 4 NVC56F_NON_STALL_INTERRUPT [0]
   | DMA \<Rightarrow> call_words 4 NVC6B5_SET_SEMAPHORE_A [hi_32 p, lo_32 p, v] @
       call_words 4 NVC6B5_LAUNCH_DMA [0x14])"

definition wait_words :: "NvU64 \<Rightarrow> NvU32 \<Rightarrow> NvU32 list" where
  "wait_words p v = call_words 0 NVC56F_SEM_ADDR_LO [lo_32 p, hi_32 p, v, 0, sem_execute_acquire]"

definition copy_words :: "NvU64 \<Rightarrow> NvU64 \<Rightarrow> NvU64 \<Rightarrow> NvU32 list" where
  "copy_words dst src n =
     call_words 4 NVC6B5_OFFSET_IN_UPPER [hi_32 src, lo_32 src, hi_32 dst, lo_32 dst] @
     call_words 4 NVC6B5_LINE_LENGTH_IN [ucast n] @
     call_words 4 NVC6B5_LAUNCH_DMA [launch_dma_copy]"

lemmas call_ok_defs = call_ok_def method_ok_def register_defs

lemma calls_ok:
  "call_ok 0 NVC56F_SEM_ADDR_LO [a, b, c, d, e]" "call_ok 4 NVC56F_NON_STALL_INTERRUPT [a]"
  "call_ok 4 NVC6B5_SET_SEMAPHORE_A [a, b, c]" "call_ok 4 NVC6B5_LAUNCH_DMA [a]"
  "call_ok 4 NVC6B5_OFFSET_IN_UPPER [a, b, c, d]" "call_ok 4 NVC6B5_LINE_LENGTH_IN [a]"
  "call_ok 1 NVC6C0_SET_OBJECT [a]" "call_ok 4 NVC6C0_SET_OBJECT [a]"
  "call_ok 1 NVC6C0_SET_SHADER_LOCAL_MEMORY_WINDOW_A [a, b]"
  "call_ok 1 NVC6C0_SET_SHADER_SHARED_MEMORY_WINDOW_A [a, b]"
  "call_ok 1 NVC6C0_SET_SHADER_LOCAL_MEMORY_A [a, b]"
  "call_ok 1 NVC6C0_SET_SHADER_LOCAL_MEMORY_NON_THROTTLED_A [a, b, c]"
  "call_ok 1 NVC6C0_INVALIDATE_SHADER_CACHES_NO_WFI [a]" "call_ok 1 NVC6C0_SEND_PCAS_A [a]"
  "call_ok 1 NVC6C0_SEND_SIGNALING_PCAS2_B [a]"
  by (simp_all add: call_ok_defs bit_numeral_rec)

lemma signalNotify_run:
  "signalNotify q p v t s =
    (if p = 0 then (Inl (Fail LIBRECUDA_ERROR_INVALID_VALUE), s)
     else (Inr (), upd_queue q (app_words t (notify_words t p v)) s))"
  by (cases t) (simp_all add: signalNotify_def bind_def enqueue_run calls_ok notify_words_def)

lemma signalWaitGpu_run:
  "signalWaitGpu q p v s =
    (Inr (), if sig_value s p = ucast v then s else upd_queue q (app_words COMPUTE (wait_words p v)) s)"
  by (simp add: signalWaitGpu_def enqueue_run calls_ok wait_words_def)

section \<open>What the commands make the GPU do\<close>

lemma join_lo_hi: "join_32 (hi_32 p) (lo_32 p) = p"
  by (rule join_32_hi_lo)

lemma join_zero: "join_32 0 v = ucast v"
  by (simp add: join_32_def)

lemma sem_ops: "field 2 0 sem_execute_release = 1" "field 2 0 sem_execute_acquire = 0"
  by (simp_all add: sem_execute_release_def sem_execute_acquire_def field_def register_defs push_bit_eq_mult
      take_bit_eq_mod)

lemma dma_ops: "field 1 0 (0x14 :: NvU32) = 0" "field 4 3 (0x14 :: NvU32) = 2"
  "field 1 0 launch_dma_copy = 2" "field 4 3 launch_dma_copy = 0"
  by (simp_all add: launch_dma_copy_def field_def register_defs push_bit_eq_mult take_bit_eq_mod
      drop_bit_eq_div)

lemma emits_notify: "emits (notify_words t p v) [Release p (ucast v)]"
proof (cases t)
  case COMPUTE
  have "notify_words t p v = concat (map (\<lambda>(s, m, a). call_words s m a)
      [(0, NVC56F_SEM_ADDR_LO, [lo_32 p, hi_32 p, v, 0, sem_execute_release]),
       (4, NVC56F_NON_STALL_INTERRUPT, [0])])"
    by (simp add: COMPUTE notify_words_def)
  then show ?thesis
    by (simp only:) (rule emits_calls,
      simp add: calls_ok, simp add: Let_def trigger_def reg_file_def register_defs sem_ops join_zero)
next
  case DMA
  have "notify_words t p v = concat (map (\<lambda>(s, m, a). call_words s m a)
      [(4, NVC6B5_SET_SEMAPHORE_A, [hi_32 p, lo_32 p, v]), (4, NVC6B5_LAUNCH_DMA, [0x14])])"
    by (simp add: DMA notify_words_def)
  then show ?thesis
    by (simp only:) (rule emits_calls,
      simp add: calls_ok, simp add: Let_def trigger_def reg_file_def register_defs dma_ops [unfolded One_nat_def])
qed

lemma emits_wait: "emits (wait_words p v) [Acquire p (ucast v)]"
proof -
  have "wait_words p v = concat (map (\<lambda>(s, m, a). call_words s m a)
      [(0, NVC56F_SEM_ADDR_LO, [lo_32 p, hi_32 p, v, 0, sem_execute_acquire])])"
    by (simp add: wait_words_def)
  then show ?thesis
    by (simp only:) (rule emits_calls,
      simp add: calls_ok, simp add: Let_def trigger_def reg_file_def register_defs sem_ops join_zero)
qed

lemma emits_copy:
  "emits (copy_words dst src n) [CopyLine src dst (unat (ucast n :: NvU32))]"
proof -
  have "copy_words dst src n = concat (map (\<lambda>(s, m, a). call_words s m a)
      [(4, NVC6B5_OFFSET_IN_UPPER, [hi_32 src, lo_32 src, hi_32 dst, lo_32 dst]),
       (4, NVC6B5_LINE_LENGTH_IN, [ucast n]), (4, NVC6B5_LAUNCH_DMA, [launch_dma_copy])])"
    by (simp add: copy_words_def)
  then show ?thesis
    by (simp only:) (rule emits_calls,
      simp add: calls_ok, simp add: Let_def trigger_def reg_file_def register_defs dma_ops [unfolded One_nat_def])
qed

section \<open>Runs of the larger operations\<close>

definition backlogged :: "QueueType \<Rightarrow> cmdq \<Rightarrow> cmdq" where
  "backlogged t c =
     (if buf_of t c = [] then c
      else set_buf t [] (c\<lparr>
        commandBufBacklog := commandBufBacklog c @ [\<lparr>commandBuffer = buf_of t c, queueType = t,
          split_timelineCtr = timelineCtr c, split_notifyPending = timelineNotifyPending c\<rparr>],
        timelineNotifyPending := False\<rparr>))"

lemma backlog_run: "backlogCurrentCmdBuffer q t s = (Inr (), upd_queue q (backlogged t) s)"
proof (cases "buf_of t (queues s q) = []")
  case True
  then have "upd_queue q (backlogged t) s = s" by (simp add: upd_queue_def backlogged_def)
  then show ?thesis using True by (simp add: backlogCurrentCmdBuffer_def)
next
  case False
  then show ?thesis
    by (simp add: backlogCurrentCmdBuffer_def upd_queue_def backlogged_def)
qed

definition switched :: "QueueType \<Rightarrow> QueueType \<Rightarrow> cmdq \<Rightarrow> cmdq" where
  "switched t other c =
     (if buf_of other c = [] then c\<lparr>currentQueueType := Some t\<rparr>
      else if currentQueueType c = Some other then (backlogged other c)\<lparr>currentQueueType := Some t\<rparr>
      else c)"

lemma bind_backlog [simp]:
  "bind (backlogCurrentCmdBuffer q t) f s = f () (upd_queue q (backlogged t) s)"
  by (simp add: bind_def backlog_run)

lemma switch_run: "t \<noteq> other \<Longrightarrow> switch_to q t other s = (Inr (), upd_queue q (switched t other) s)"
  by (auto simp: switch_to_def bind_def run_when_def backlog_run upd_queue_def switched_def)

definition finished :: "QueueType \<Rightarrow> bool \<Rightarrow> cmdq \<Rightarrow> cmdq" where
  "finished t async c =
     (let c' = c\<lparr>timelineCtr := timelineCtr c + 1\<rparr> in
      if async then c'\<lparr>timelineNotifyPending := True\<rparr>
      else (app_words t (notify_words t (timelineSignal c) (timelineCtr c + 1)) c')
             \<lparr>timelineNotifyPending := False\<rparr>)"

lemma finish_run:
  "timelineSignal (queues s q) \<noteq> 0 \<Longrightarrow>
    finish_command q t async s = (Inr (), upd_queue q (finished t async) s)"
  by (simp add: finish_command_def bind_def signalNotify_run finished_def upd_queue_def Let_def)

definition copied :: "NvU64 \<Rightarrow> NvU64 \<Rightarrow> NvU64 \<Rightarrow> bool \<Rightarrow> cmdq \<Rightarrow> cmdq" where
  "copied dst src n async c = finished DMA async (app_words DMA (copy_words dst src n) (switched DMA COMPUTE c))"

lemma switched_timeline [simp]: "timelineSignal (switched t u c) = timelineSignal c"
  "timelineCtr (switched t u c) = timelineCtr c" "submitted (switched t u c) = submitted c"
  by (simp_all add: switched_def backlogged_def)

lemma gpuMemcpy_run:
  assumes "dst \<noteq> 0" "src \<noteq> 0" "n < 0xFFFFFFFF" "timelineSignal (queues s q) \<noteq> 0"
  shows "gpuMemcpy q dst src n async s = (Inr (), upd_queue q (copied dst src n async) s)"
  using assms(1-3)
  by (simp add: gpuMemcpy_def bind_def switch_run enqueue_run calls_ok finish_run assms(4)
      copied_def [abs_def] copy_words_def)

lemma gpuMemcpy_invalid:
  assumes "dst = 0 \<or> src = 0 \<or> \<not> n < 0xFFFFFFFF"
  shows "gpuMemcpy q dst src n async s = (Inl (Fail LIBRECUDA_ERROR_INVALID_VALUE), s)"
  using assms by (auto simp: gpuMemcpy_def bind_def validate_def)

text \<open>Polling.\<close>

lemma poll_stop: "ucast v \<le> sig_value s p \<Longrightarrow> poll G n p v s = (Inr (), s)"
  by (subst poll.simps) (simp add: not_less [symmetric])

lemma poll_step:
  "sig_value s p < ucast v \<Longrightarrow>
    poll G n p v s = (case n of 0 \<Rightarrow> (Inl NoReturn, s) | Suc m \<Rightarrow> poll G m p v (G s))"
  by (subst poll.simps) simp

lemma poll_returns:
  "poll G n p v s = (Inr u, s') \<Longrightarrow> ucast v \<le> sig_value s' p \<and> (\<exists>k \<le> n. s' = (G ^^ k) s)"
proof (induction n arbitrary: s)
  case 0
  then show ?case by (cases "sig_value s p < ucast v") (auto simp: poll_stop poll_step not_less)
next
  case (Suc n)
  show ?case
  proof (cases "sig_value s p < ucast v")
    case True
    then have "poll G n p v (G s) = (Inr u, s')" using Suc.prems by (simp add: poll_step)
    from Suc.IH [OF this] obtain k where "ucast v \<le> sig_value s' p" "k \<le> n" "s' = (G ^^ k) (G s)"
      by blast
    then show ?thesis by (auto simp: funpow_swap1 intro!: exI [of _ "Suc k"])
  next
    case False
    then show ?thesis using Suc.prems by (auto simp: poll_stop not_less intro: exI [of _ 0])
  qed
qed

lemma poll_eventually:
  "ucast v \<le> sig_value ((G ^^ k) s) p \<Longrightarrow> k \<le> n \<Longrightarrow> \<exists>s'. poll G n p v s = (Inr (), s')"
proof (induction k arbitrary: s n)
  case 0
  then show ?case by (simp add: poll_stop)
next
  case (Suc k)
  show ?case
  proof (cases "sig_value s p < ucast v")
    case True
    obtain m where n: "n = Suc m" "k \<le> m" using Suc.prems(2) by (cases n) auto
    have "ucast v \<le> sig_value ((G ^^ k) (G s)) p" using Suc.prems(1) by (simp add: funpow_swap1)
    from Suc.IH [OF this n(2)] show ?thesis using True n by (simp add: poll_step)
  next
    case False
    then show ?thesis by (simp add: poll_stop not_less)
  qed
qed

lemma poll_status: "poll G n p v s = (Inl e, s') \<Longrightarrow> e = NoReturn"
proof (induction n arbitrary: s)
  case 0
  then show ?case by (cases "sig_value s p < ucast v") (auto simp: poll_stop poll_step not_less)
next
  case (Suc n)
  then show ?case by (cases "sig_value s p < ucast v") (auto simp: poll_stop poll_step not_less)
qed

text \<open>\<open>signalWaitCpu\<close> polls after making spinning the default.\<close>

definition spin_default :: "nat \<Rightarrow> 'a drv_scheme \<Rightarrow> 'a drv_scheme" where
  "spin_default c s =
     (if ctx_flags (ctxs s c) AND CU_CTX_SCHED_SPIN = 0 \<and> ctx_flags (ctxs s c) AND CU_CTX_SCHED_YIELD = 0 \<and>
         ctx_flags (ctxs s c) AND CU_CTX_SCHED_BLOCKING_SYNC = 0
      then s\<lparr>ctxs := (ctxs s)(c := (ctxs s c)\<lparr>ctx_flags := ctx_flags (ctxs s c) OR CU_CTX_SCHED_SPIN\<rparr>)\<rparr>
      else s)"

definition blocking_only :: "nat \<Rightarrow> 'a drv_scheme \<Rightarrow> bool" where
  "blocking_only c s \<longleftrightarrow> ctx_flags (ctxs s c) AND CU_CTX_SCHED_SPIN = 0 \<and>
     ctx_flags (ctxs s c) AND CU_CTX_SCHED_YIELD = 0 \<and> ctx_flags (ctxs s c) AND CU_CTX_SCHED_BLOCKING_SYNC \<noteq> 0"

lemma spin_nonzero [simp]: "CU_CTX_SCHED_SPIN \<noteq> 0"
  by (simp add: CU_CTX_SCHED_SPIN_def)

lemma or_spin: "(w OR CU_CTX_SCHED_SPIN) AND CU_CTX_SCHED_SPIN \<noteq> 0"
proof -
  have "(w OR 1) AND 1 = (1 :: NvU32)" by (rule bit_word_eqI) (auto simp: bit_simps)
  then show ?thesis by (simp add: CU_CTX_SCHED_SPIN_def)
qed

lemma signalWaitCpu_run:
  assumes "p \<noteq> 0" "\<not> blocking_only (q_ctx (queues s q)) s"
  shows "signalWaitCpu G n q p v s = poll G n p v (spin_default (q_ctx (queues s q)) s)"
proof -
  let ?c = "q_ctx (queues s q)"
  consider "ctx_flags (ctxs s ?c) AND CU_CTX_SCHED_SPIN = 0 \<and> ctx_flags (ctxs s ?c) AND CU_CTX_SCHED_YIELD = 0 \<and>
      ctx_flags (ctxs s ?c) AND CU_CTX_SCHED_BLOCKING_SYNC = 0"
    | "ctx_flags (ctxs s ?c) AND CU_CTX_SCHED_SPIN \<noteq> 0"
    | "ctx_flags (ctxs s ?c) AND CU_CTX_SCHED_SPIN = 0" "ctx_flags (ctxs s ?c) AND CU_CTX_SCHED_YIELD \<noteq> 0"
    using assms(2) by (auto simp: blocking_only_def)
  then show ?thesis
    using assms(1)
    by cases (simp_all add: signalWaitCpu_def bind_def spin_default_def modify_ctx_def or_spin)
qed

lemma spin_default_fields [simp]:
  "queues (spin_default c s) = queues s" "sig_value (spin_default c s) = sig_value s"
  "wmem (spin_default c s) = wmem s" "doorbells (spin_default c s) = doorbells s"
  by (simp_all add: spin_default_def)

section \<open>Submission of a segment\<close>

text \<open>The state after the buffer was written at word \<open>w\<close> of its page.\<close>

definition submit_effect :: "nat \<Rightarrow> QueueType \<Rightarrow> NvU64 \<Rightarrow> 'a drv_scheme \<Rightarrow> 'a drv_scheme" where
  "submit_effect q t w s =
     (let x = queues s q; buf = buf_of t x; n = of_nat (length buf); page = page_of t x;
          f = fifo_of t (ctxs s (q_ctx x)); dest = commandQueueSpace page + w * 4 in
      s\<lparr>wmem := store_words dest buf (wmem s),
        ctxs := (ctxs s)(q_ctx x := set_fifo t (f\<lparr>
          ring := (ring f)(put_value f mod entries_count f := gp_entry dest n),
          GPPut := (put_value f + 1) mod entries_count f,
          put_value := put_value f + 1\<rparr>) (ctxs s (q_ctx x))),
        doorbells := doorbells s @ [(0x90 div 4, token f)],
        queues := (queues s)(q := set_buf t [] (set_page t (page\<lparr>commandWriteIdx := w + n\<rparr>)
          (x\<lparr>submitted := submitted x @ [(t, buf)]\<rparr>)))\<rparr>)"

lemma submit_empty: "buf_of t (queues s q) = [] \<Longrightarrow> submitToFifo q t s = (Inr (), s)"
  by (simp add: submitToFifo_def)

definition page_full :: "nat \<Rightarrow> QueueType \<Rightarrow> 'a drv_scheme \<Rightarrow> bool" where
  "page_full q t s \<longleftrightarrow> commandWriteIdx (page_of t (queues s q)) + of_nat (length (buf_of t (queues s q)))
     > MAX_CMD_QUEUE_PAGE_SIZE"

definition page_reusable :: "nat \<Rightarrow> QueueType \<Rightarrow> 'a drv_scheme \<Rightarrow> bool" where
  "page_reusable q t s \<longleftrightarrow> (let x = queues s q; f = fifo_of t (ctxs s (q_ctx x)) in
     ring f (GPGet f) AND 0xFFFFFFFFFC \<ge>
       commandQueueSpace (page_of t x) + of_nat (length (buf_of t x)) * 4 \<or> GPGet f = GPPut f)"

lemma set_page_page [simp]: "set_page t p' (set_page t p x) = set_page t p' x"
  by (cases t) (simp_all add: set_page_def)

lemma set_page_submitted [simp]:
  "(set_page t p x)\<lparr>submitted := l\<rparr> = set_page t p (x\<lparr>submitted := l\<rparr>)"
  by (cases t) (simp_all add: set_page_def)

lemma submit_run:
  assumes "buf_of t (queues s q) \<noteq> []" "entries_count (fifo_of t (ctxs s (q_ctx (queues s q)))) \<noteq> 0"
  shows "submitToFifo q t s =
    (if page_full q t s \<and> \<not> page_reusable q t s then (Inl (Fail LIBRECUDA_ERROR_UNKNOWN), s)
     else (Inr (), submit_effect q t
       (if page_full q t s then 0 else commandWriteIdx (page_of t (queues s q))) s))"
proof -
  consider "page_full q t s" "page_reusable q t s" | "page_full q t s" "\<not> page_reusable q t s"
    | "\<not> page_full q t s" by blast
  then show ?thesis
  proof cases
    case 1
    then show ?thesis using assms
      by (simp add: submitToFifo_def bind_def page_full_def page_reusable_def submit_effect_def
          write_words_def modify_ctx_def Let_def upd_queue_def)
  next
    case 2
    then show ?thesis using assms
      by (simp add: submitToFifo_def bind_def page_full_def page_reusable_def Let_def)
  next
    case 3
    then show ?thesis using assms
      by (simp add: submitToFifo_def bind_def page_full_def submit_effect_def
          write_words_def modify_ctx_def Let_def upd_queue_def)
  qed
qed

lemma submit_effect_fields [simp]:
  "queues (submit_effect q t w s) q = (let x = queues s q in set_buf t []
     (set_page t ((page_of t x)\<lparr>commandWriteIdx := w + of_nat (length (buf_of t x))\<rparr>)
       (x\<lparr>submitted := submitted x @ [(t, buf_of t x)]\<rparr>)))"
  "sig_value (submit_effect q t w s) = sig_value s"
  "ctx_flags (ctxs (submit_effect q t w s) c) = ctx_flags (ctxs s c)"
  "entries_count (fifo_of t' (ctxs (submit_effect q t w s) c)) = entries_count (fifo_of t' (ctxs s c))"
  by (cases t; cases t'; simp add: submit_effect_def Let_def set_fifo_def fifo_of_def)+

text \<open>Reading words back.\<close>

fun load_words :: "NvU64 \<Rightarrow> nat \<Rightarrow> (NvU64 \<Rightarrow> NvU32) \<Rightarrow> NvU32 list" where
  "load_words a 0 m = []"
| "load_words a (Suc n) m = m a # load_words (a + 4) n m"

lemma store_words_other:
  "(\<And>i. i < length ws \<Longrightarrow> b \<noteq> a + of_nat i * 4) \<Longrightarrow> store_words a ws m b = m b"
proof (induction ws arbitrary: a m)
  case Nil
  then show ?case by simp
next
  case (Cons w ws)
  have "b \<noteq> a + 4 + of_nat i * 4" if "i < length ws" for i
    using Cons.prems [of "Suc i"] that by (simp add: algebra_simps)
  then have "store_words (a + 4) ws (m(a := w)) b = (m(a := w)) b" by (rule Cons.IH)
  moreover have "b \<noteq> a" using Cons.prems [of 0] by simp
  ultimately show ?case by simp
qed

text \<open>Word addresses of one object do not meet as long as it is smaller than the address space.\<close>

lemma word_addr_neq:
  assumes "j < 2 ^ 61" "i < j"
  shows "a + of_nat i * 4 \<noteq> (a + of_nat j * 4 :: NvU64)"
proof
  assume "a + of_nat i * 4 = (a + of_nat j * 4 :: NvU64)"
  then have "(of_nat (i * 4) :: NvU64) = of_nat (j * 4)" by simp
  then have "unat (of_nat (i * 4) :: NvU64) = unat (of_nat (j * 4) :: NvU64)" by (simp only:)
  moreover have "j * 4 < 2 ^ 64" "i * 4 < 2 ^ 64" using assms by simp_all
  ultimately have "i * 4 = j * 4"
    unfolding unsigned_of_nat of_nat_id by (simp add: take_bit_nat_eq_self del: of_nat_mult)
  then show False using assms by simp
qed

lemma load_store_words: "length ws < 2 ^ 61 \<Longrightarrow> load_words a (length ws) (store_words a ws m) = ws"
proof (induction ws arbitrary: a m)
  case Nil
  then show ?case by simp
next
  case (Cons w ws)
  have "a \<noteq> a + 4 + of_nat i * 4" if "i < length ws" for i
    using word_addr_neq [of "Suc i" 0 a] that Cons.prems by (simp add: algebra_simps)
  then have "store_words (a + 4) ws (m(a := w)) a = w" by (subst store_words_other) auto
  then show ?case using Cons by simp
qed

section \<open>The invariant of a queue\<close>

text \<open>The timeline values a stream releases to the signal \<open>p\<close>.\<close>

definition notifies :: "NvU64 \<Rightarrow> NvU32 list \<Rightarrow> NvU32 set" where
  "notifies p ws = {v. \<exists>ops. emits ws ops \<and> Release p (ucast v) \<in> set ops}"

definition well_formed :: "NvU32 list \<Rightarrow> bool" where
  "well_formed ws \<longleftrightarrow> (\<exists>ops. emits ws ops)"

lemma well_formed_append: "well_formed ws \<Longrightarrow> well_formed vs \<Longrightarrow> well_formed (ws @ vs)"
  unfolding well_formed_def using emits_append by blast

lemma well_formed_words [simp]:
  "well_formed []" "well_formed (notify_words t p v)" "well_formed (wait_words p v)"
  "well_formed (copy_words dst src n)"
  unfolding well_formed_def using emits_Nil emits_notify emits_wait emits_copy by blast+

lemma notifies_emits: "emits ws ops \<Longrightarrow> notifies p ws = {v. Release p (ucast v) \<in> set ops}"
  unfolding notifies_def using emits_unique by blast

lemma notifies_append:
  assumes "well_formed ws" "well_formed vs"
  shows "notifies p (ws @ vs) = notifies p ws \<union> notifies p vs"
proof -
  obtain o1 o2 where o: "emits ws o1" "emits vs o2" using assms by (auto simp: well_formed_def)
  then have "emits (ws @ vs) (o1 @ o2)" by (rule emits_append)
  then show ?thesis using o by (auto simp: notifies_emits)
qed

lemma notifies_Nil [simp]: "notifies p [] = {}"
  by (simp add: notifies_emits [OF emits_Nil])

lemma notifies_notify: "v \<in> notifies p (notify_words t p v)"
  by (simp add: notifies_emits [OF emits_notify])

definition entry_notifies :: "NvU64 \<Rightarrow> cmd_split \<Rightarrow> NvU32 set" where
  "entry_notifies p e = notifies p (commandBuffer e) \<union>
     (if split_notifyPending e then {split_timelineCtr e} else {})"

definition submitted_notifies :: "NvU64 \<Rightarrow> (QueueType \<times> NvU32 list) list \<Rightarrow> NvU32 set" where
  "submitted_notifies p subs = (\<Union>(t, ws) \<in> set subs. notifies p ws)"

text \<open>
  \<open>covered p D es\<close>: when the values \<open>D\<close> have been released, the CPU's wait after each entry of the
  backlog is for a value released by then.
\<close>

fun covered :: "NvU64 \<Rightarrow> NvU32 set \<Rightarrow> cmd_split list \<Rightarrow> bool" where
  "covered p D [] \<longleftrightarrow> True"
| "covered p D (e # es) \<longleftrightarrow>
     split_timelineCtr e \<in> D \<union> entry_notifies p e \<and> covered p (D \<union> entry_notifies p e) es"

lemma covered_append:
  "covered p D (es @ [e]) \<longleftrightarrow> covered p D es \<and>
     split_timelineCtr e \<in> D \<union> (\<Union>x \<in> set es. entry_notifies p x) \<union> entry_notifies p e"
  by (induction es arbitrary: D) (auto simp: Un_assoc)

definition queue_wf :: "cmdq \<Rightarrow> bool" where
  "queue_wf c \<longleftrightarrow> timelineSignal c \<noteq> 0 \<and>
     well_formed (computeCommandBuffer c) \<and> well_formed (dmaCommandBuffer c) \<and>
     (\<forall>e \<in> set (commandBufBacklog c). commandBuffer e \<noteq> [] \<and> well_formed (commandBuffer e)) \<and>
     (currentQueueType c \<noteq> Some COMPUTE \<longrightarrow> computeCommandBuffer c = []) \<and>
     (currentQueueType c \<noteq> Some DMA \<longrightarrow> dmaCommandBuffer c = []) \<and>
     (timelineNotifyPending c \<longrightarrow> computeCommandBuffer c \<noteq> [] \<or> dmaCommandBuffer c \<noteq> [])"

definition queue_covered :: "cmdq \<Rightarrow> bool" where
  "queue_covered c \<longleftrightarrow> (let p = timelineSignal c; D = submitted_notifies p (submitted c) in
     covered p D (commandBufBacklog c) \<and>
     timelineCtr c \<in> D \<union> (\<Union>e \<in> set (commandBufBacklog c). entry_notifies p e) \<union>
       notifies p (computeCommandBuffer c) \<union> notifies p (dmaCommandBuffer c) \<union>
       (if timelineNotifyPending c then {timelineCtr c} else {}))"

definition queue_inv :: "cmdq \<Rightarrow> bool" where
  "queue_inv c \<longleftrightarrow> queue_wf c \<and> queue_covered c"

text \<open>Appending a complete command of the current type.\<close>

lemma inv_app_words:
  assumes "queue_inv c" "currentQueueType c = Some t" "well_formed ws"
  shows "queue_inv (app_words t ws c)"
  using assms
  by (cases t) (auto simp: queue_inv_def queue_wf_def queue_covered_def Let_def app_words_def
      set_buf_def well_formed_append notifies_append)

lemma inv_backlogged:
  assumes "queue_inv c"
  shows "queue_inv (backlogged t c)"
  using assms
  by (cases t) (auto simp: queue_inv_def queue_wf_def queue_covered_def Let_def backlogged_def
      set_buf_def covered_append entry_notifies_def split: if_splits)

lemma inv_retype:
  assumes "queue_inv c" "t \<noteq> other" "buf_of other c = []"
  shows "queue_inv (c\<lparr>currentQueueType := Some t\<rparr>)"
  using assms
  by (cases t; cases other) (auto simp: queue_inv_def queue_wf_def queue_covered_def Let_def)

lemma backlogged_buf [simp]: "buf_of t (backlogged t c) = []"
  by (simp add: backlogged_def)

lemma inv_switched:
  assumes "queue_inv c" "t \<noteq> other"
  shows "queue_inv (switched t other c) \<and> currentQueueType (switched t other c) = Some t"
proof (cases "buf_of other c = []")
  case True
  then show ?thesis using inv_retype assms by (simp add: switched_def)
next
  case False
  then have ty: "currentQueueType c = Some other"
    using assms(1) by (cases other) (auto simp: queue_inv_def queue_wf_def)
  then show ?thesis
    using False inv_retype [OF inv_backlogged [OF assms(1), of other] assms(2)] by (simp add: switched_def)
qed

text \<open>The end of a command, whose words are already in the buffer of the current type.\<close>

lemma inv_finished:
  assumes inv: "queue_inv c" and ty: "currentQueueType c = Some t" and ne: "buf_of t c \<noteq> []"
  shows "queue_inv (finished t async c)"
proof -
  have n: "timelineCtr c + 1 \<in> notifies (timelineSignal c) (buf_of t c @
      notify_words t (timelineSignal c) (timelineCtr c + 1))"
    using inv notifies_notify
    by (cases t) (auto simp: notifies_append queue_inv_def queue_wf_def)
  show ?thesis
  proof (cases async)
    case True
    then show ?thesis using inv ne
      by (cases t) (auto simp: queue_inv_def queue_wf_def queue_covered_def finished_def Let_def)
  next
    case False
    then show ?thesis using inv ty ne n
      by (cases t) (auto simp: queue_inv_def queue_wf_def queue_covered_def finished_def Let_def
          app_words_def set_buf_def well_formed_append)
  qed
qed

lemma copy_words_nonempty [simp]: "copy_words dst src n \<noteq> []"
  by (simp add: copy_words_def call_words_def)

lemma inv_copied: "queue_inv c \<Longrightarrow> queue_inv (copied dst src n async c)"
  unfolding copied_def using inv_switched [of c DMA COMPUTE]
  by (intro inv_finished inv_app_words) auto

section \<open>Starting execution\<close>

text \<open>What the GPU does between two reads of a signal leaves the driver's own data alone.\<close>

definition gpu_frame :: "('a drv_scheme \<Rightarrow> 'a drv_scheme) \<Rightarrow> bool" where
  "gpu_frame G \<longleftrightarrow> (\<forall>s. queues (G s) = queues s)"

lemma gpu_frame_iter: "gpu_frame G \<Longrightarrow> queues ((G ^^ k) s) = queues s"
  by (induction k) (simp_all add: gpu_frame_def)

lemma signalWaitCpu_success:
  assumes "gpu_frame G" "signalWaitCpu G n q p v s = (Inr u, s')"
  shows "queues s' = queues s \<and> ucast v \<le> sig_value s' p"
proof -
  have p: "p \<noteq> 0" using assms(2) by (auto simp: signalWaitCpu_def bind_def)
  have nb: "\<not> blocking_only (q_ctx (queues s q)) s"
  proof
    assume "blocking_only (q_ctx (queues s q)) s"
    then have "fst (signalWaitCpu G n q p v s) = Inl (Throw ''TODO: not yet implemented'')"
      using p by (simp add: signalWaitCpu_def bind_def blocking_only_def)
    then show False using assms(2) by simp
  qed
  have "poll G n p v (spin_default (q_ctx (queues s q)) s) = (Inr u, s')"
    using assms(2) signalWaitCpu_run [OF p nb] by simp
  from poll_returns [OF this] show ?thesis using gpu_frame_iter [OF assms(1)] by auto
qed

lemma submit_success:
  assumes "submitToFifo q t s = (Inr u, s')" "buf_of t (queues s q) \<noteq> []"
  obtains w where "s' = submit_effect q t w s"
proof (cases "entries_count (fifo_of t (ctxs s (q_ctx (queues s q)))) = 0")
  case True
  have "\<exists>e. fst (submitToFifo q t s) = Inl e"
    using assms(2) True
    by (cases "page_full q t s \<and> \<not> page_reusable q t s")
      (auto simp: submitToFifo_def bind_def page_full_def page_reusable_def Let_def run_when_def
        validate_def write_words_def)
  then show thesis using assms(1) by auto
next
  case False
  then show thesis using assms that by (auto simp: submit_run split: if_splits)
qed

text \<open>The segment handed to the GPU for an entry, and the entries a call of \<open>startExecution\<close> runs.\<close>

definition seg_words :: "NvU64 \<Rightarrow> cmd_split \<Rightarrow> NvU32 list" where
  "seg_words p e = commandBuffer e @
     (if split_notifyPending e then notify_words (queueType e) p (split_timelineCtr e) else [])"

definition plan :: "cmdq \<Rightarrow> cmd_split list" where
  "plan c = commandBufBacklog (backlogged DMA (backlogged COMPUTE c))"

definition idle :: "cmdq \<Rightarrow> bool" where
  "idle c \<longleftrightarrow> computeCommandBuffer c = [] \<and> dmaCommandBuffer c = []"

text \<open>The part of a queue that running entries leaves alone.\<close>

definition same_queue :: "cmdq \<Rightarrow> cmdq \<Rightarrow> bool" where
  "same_queue c c' \<longleftrightarrow> timelineSignal c' = timelineSignal c \<and> timelineCtr c' = timelineCtr c \<and>
     currentQueueType c' = currentQueueType c \<and> freeSignals c' = freeSignals c \<and>
     signalPool c' = signalPool c \<and> kernArgsWriteIdx c' = kernArgsWriteIdx c \<and>
     kernArgsPageVa c' = kernArgsPageVa c \<and> q_ctx c' = q_ctx c \<and>
     commandBufBacklog c' = commandBufBacklog c \<and> timelineNotifyPending c' = timelineNotifyPending c"

lemma same_queue_refl: "same_queue c c"
  by (simp add: same_queue_def)

lemma same_queue_trans: "same_queue a b \<Longrightarrow> same_queue b c \<Longrightarrow> same_queue a c"
  by (simp add: same_queue_def)

lemma submit_queue:
  assumes "submitToFifo q t s = (Inr u, s')" "buf_of t (queues s q) \<noteq> []"
  shows "same_queue (queues s q) (queues s' q) \<and> buf_of t (queues s' q) = [] \<and>
    (\<forall>t'. t' \<noteq> t \<longrightarrow> buf_of t' (queues s' q) = buf_of t' (queues s q)) \<and>
    submitted (queues s' q) = submitted (queues s q) @ [(t, buf_of t (queues s q))]"
proof -
  obtain w where s': "s' = submit_effect q t w s" using submit_success [OF assms] by blast
  have "buf_of t' (x\<lparr>submitted := l\<rparr>) = buf_of t' x" for t' x l by (cases t') simp_all
  then show ?thesis by (simp add: s' Let_def same_queue_def)
qed

lemma run_split_success:
  assumes G: "gpu_frame G" and run: "run_split G n q e s = (Inr u, s')"
    and ne: "commandBuffer e \<noteq> []" and idle: "idle (queues s q)"
  shows "same_queue (queues s q) (queues s' q) \<and> idle (queues s' q) \<and>
    submitted (queues s' q) = submitted (queues s q) @ [(queueType e, seg_words (timelineSignal (queues s q)) e)] \<and>
    ucast (split_timelineCtr e) \<le> sig_value s' (timelineSignal (queues s q))"
proof -
  let ?c = "queues s q" and ?t = "queueType e"
  let ?p = "timelineSignal ?c"
  define s1 where "s1 = upd_queue q (set_buf ?t (seg_words ?p e)) s"
  have step: "\<exists>s2. submitToFifo q ?t s1 = (Inr (), s2) \<and>
      signalWaitCpu G n q ?p (split_timelineCtr e) s2 = (Inr u, s')"
    using run by (cases "split_notifyPending e"; cases "?p = 0")
      (auto simp: run_split_def bind_eq_Inr signalNotify_run s1_def seg_words_def app_words_def [abs_def])
  then obtain s2 where sub: "submitToFifo q ?t s1 = (Inr (), s2)"
    and w: "signalWaitCpu G n q ?p (split_timelineCtr e) s2 = (Inr u, s')" by blast
  have b: "buf_of ?t (queues s1 q) = seg_words ?p e" by (simp add: s1_def)
  then have "buf_of ?t (queues s1 q) \<noteq> []" using ne by (simp add: seg_words_def)
  from submit_queue [OF sub this] have s2:
    "same_queue (queues s1 q) (queues s2 q)" "buf_of ?t (queues s2 q) = []"
    "\<forall>t'. t' \<noteq> ?t \<longrightarrow> buf_of t' (queues s2 q) = buf_of t' (queues s1 q)"
    "submitted (queues s2 q) = submitted ?c @ [(?t, seg_words ?p e)]"
    using b by (simp_all add: s1_def)
  have i2: "idle (queues s2 q)"
    using s2(2,3) idle by (cases ?t) (auto simp: idle_def s1_def set_buf_def dest: spec [of _ COMPUTE] spec [of _ DMA])
  have "same_queue ?c (queues s1 q)" by (simp add: s1_def same_queue_def)
  then have "same_queue ?c (queues s2 q)" using s2(1) same_queue_trans by blast
  moreover have "queues s' = queues s2" "ucast (split_timelineCtr e) \<le> sig_value s' ?p"
    using signalWaitCpu_success [OF G w] by simp_all
  ultimately show ?thesis using s2(4) i2 by simp
qed

lemma run_splits_success:
  assumes G: "gpu_frame G" and "foreach es (run_split G n q) s = (Inr u, s')"
    and "\<forall>e \<in> set es. commandBuffer e \<noteq> []" and "idle (queues s q)"
  shows "same_queue (queues s q) (queues s' q) \<and> idle (queues s' q) \<and>
    submitted (queues s' q) = submitted (queues s q) @
      map (\<lambda>e. (queueType e, seg_words (timelineSignal (queues s q)) e)) es"
  using assms(2-)
proof (induction es arbitrary: s)
  case Nil
  then show ?case by (simp add: same_queue_refl)
next
  case (Cons e es)
  from Cons.prems(1) obtain v s1 where r: "run_split G n q e s = (Inr v, s1)"
    and rest: "foreach es (run_split G n q) s1 = (Inr u, s')" by (auto simp: bind_eq_Inr)
  have h: "same_queue (queues s q) (queues s1 q)" "idle (queues s1 q)"
    "submitted (queues s1 q) = submitted (queues s q) @ [(queueType e, seg_words (timelineSignal (queues s q)) e)]"
    using run_split_success [OF G r] Cons.prems(2,3) by auto
  have "timelineSignal (queues s1 q) = timelineSignal (queues s q)" using h(1) by (simp add: same_queue_def)
  then show ?case
    using Cons.IH [OF rest] Cons.prems(2) h same_queue_trans by fastforce
qed

lemma start_current_success:
  assumes "start_current q t other s = (Inr u, s')" "t \<noteq> other"
    "timelineNotifyPending (queues s q) \<longrightarrow> buf_of t (queues s q) \<noteq> []"
  shows "same_queue (queues s q) (queues s' q) \<and> idle (queues s' q) \<and>
    submitted (queues s' q) = submitted (queues s q) @
      (if buf_of t (queues s q) = [] then []
       else [(t, buf_of t (queues s q) @ (if timelineNotifyPending (queues s q)
         then notify_words t (timelineSignal (queues s q)) (timelineCtr (queues s q)) else []))])"
proof -
  let ?c = "queues s q"
  define ws where "ws = (if timelineNotifyPending ?c then notify_words t (timelineSignal ?c) (timelineCtr ?c) else [])"
  define s1 where "s1 = upd_queue q (app_words t ws) s"
  have o: "buf_of other ?c = []" and sub: "submitToFifo q t s1 = (Inr u, s')"
    using assms(1)
    by (auto simp: start_current_def bind_eq_Inr validate_eq_Inr run_when_def signalNotify_run
        startExecution1_def s1_def ws_def split: if_splits)
  have c1: "queues s1 q = app_words t ws ?c" by (simp add: s1_def)
  have both: "idle x \<longleftrightarrow> buf_of t x = [] \<and> buf_of other x = []" for x
    using assms(2) by (cases t; cases other) (auto simp: idle_def)
  show ?thesis
  proof (cases "buf_of t (queues s1 q) = []")
    case True
    then have "s' = s1" using sub submit_empty by fastforce
    moreover have "buf_of t ?c = []" "ws = []" using True by (simp_all add: c1)
    ultimately show ?thesis using o by (simp add: s1_def same_queue_refl both)
  next
    case False
    have "buf_of t ?c \<noteq> []" using False assms(3) by (auto simp: c1 ws_def split: if_splits)
    note sq = submit_queue [OF sub False]
    have "same_queue ?c (queues s1 q)" by (simp add: c1 same_queue_def)
    then have "same_queue ?c (queues s' q)" using sq same_queue_trans by blast
    moreover have "buf_of other (queues s' q) = []" using sq o assms(2) by (simp add: c1)
    ultimately show ?thesis
      using sq \<open>buf_of t ?c \<noteq> []\<close> by (simp add: both c1 ws_def)
  qed
qed

lemma backlogged_nonempty:
  "\<forall>e \<in> set (commandBufBacklog c). commandBuffer e \<noteq> [] \<Longrightarrow>
    \<forall>e \<in> set (commandBufBacklog (backlogged t c)). commandBuffer e \<noteq> []"
  by (simp add: backlogged_def)

lemma plan_nonempty: "queue_wf c \<Longrightarrow> \<forall>e \<in> set (plan c). commandBuffer e \<noteq> []"
  unfolding plan_def by (intro backlogged_nonempty) (simp add: queue_wf_def)

lemma startExecution_success:
  assumes G: "gpu_frame G" and inv: "queue_wf (queues s q)"
    and run: "startExecution G n q s = (Inr u, s')"
  shows "idle (queues s' q) \<and> commandBufBacklog (queues s' q) = [] \<and>
    \<not> timelineNotifyPending (queues s' q) \<and>
    timelineSignal (queues s' q) = timelineSignal (queues s q) \<and>
    timelineCtr (queues s' q) = timelineCtr (queues s q) \<and>
    currentQueueType (queues s' q) = currentQueueType (queues s q) \<and>
    q_ctx (queues s' q) = q_ctx (queues s q) \<and>
    freeSignals (queues s' q) = freeSignals (queues s q) \<and>
    signalPool (queues s' q) = signalPool (queues s q) \<and>
    submitted (queues s' q) = submitted (queues s q) @
      map (\<lambda>e. (queueType e, seg_words (timelineSignal (queues s q)) e)) (plan (queues s q))"
proof -
  let ?c = "queues s q"
  let ?seg = "\<lambda>e. (queueType e, seg_words (timelineSignal ?c) e)"
  show ?thesis
  proof (cases "commandBufBacklog ?c = []")
    case False
    define s1 where "s1 = upd_queue q (\<lambda>c. backlogged DMA (backlogged COMPUTE c)) s"
    have c1: "queues s1 q = backlogged DMA (backlogged COMPUTE ?c)" by (simp add: s1_def)
    have idle1: "idle (queues s1 q)" by (auto simp: c1 idle_def backlogged_def set_buf_def)
    have pend1: "\<not> timelineNotifyPending (queues s1 q)"
      using inv by (auto simp: c1 backlogged_def set_buf_def queue_wf_def)
    have keep: "timelineSignal (queues s1 q) = timelineSignal ?c"
      "timelineCtr (queues s1 q) = timelineCtr ?c" "submitted (queues s1 q) = submitted ?c"
      "currentQueueType (queues s1 q) = currentQueueType ?c" "q_ctx (queues s1 q) = q_ctx ?c"
      "freeSignals (queues s1 q) = freeSignals ?c" "signalPool (queues s1 q) = signalPool ?c"
      "commandBufBacklog (queues s1 q) = plan ?c"
      by (simp_all add: c1 backlogged_def plan_def)
    obtain s2 where loop: "foreach (plan ?c) (run_split G n q) s1 = (Inr (), s2)"
      and s': "s' = upd_queue q (\<lambda>c. c\<lparr>commandBufBacklog := []\<rparr>) s2"
      using run False keep(8) by (auto simp: startExecution_def bind_eq_Inr s1_def)
    have "same_queue (queues s1 q) (queues s2 q) \<and> idle (queues s2 q) \<and>
        submitted (queues s2 q) = submitted (queues s1 q) @
          map (\<lambda>e. (queueType e, seg_words (timelineSignal (queues s1 q)) e)) (plan ?c)"
      using run_splits_success [OF G loop plan_nonempty [OF inv] idle1] .
    then show ?thesis
      using keep pend1 by (simp add: s' same_queue_def idle_def)
  next
    case True
    have seg: "map ?seg (plan ?c) = (case currentQueueType ?c of None \<Rightarrow> [] | Some t \<Rightarrow>
        if buf_of t ?c = [] then [] else [(t, buf_of t ?c @ (if timelineNotifyPending ?c
          then notify_words t (timelineSignal ?c) (timelineCtr ?c) else []))])"
    proof (cases "currentQueueType ?c")
      case None
      then show ?thesis using inv True by (simp add: plan_def backlogged_def queue_wf_def)
    next
      case (Some t)
      then show ?thesis using inv True
        by (cases t) (simp_all add: plan_def backlogged_def set_buf_def queue_wf_def seg_words_def)
    qed
    obtain s2 where loop: "bind (run_when (currentQueueType ?c = Some COMPUTE) (start_current q COMPUTE DMA)) (\<lambda>_.
        run_when (currentQueueType ?c = Some DMA) (start_current q DMA COMPUTE)) s = (Inr (), s2)"
      and s': "s' = upd_queue q (\<lambda>c. c\<lparr>timelineNotifyPending := False\<rparr>) s2"
      using run True by (auto simp: startExecution_def bind_eq_Inr)
    have s2: "same_queue ?c (queues s2 q) \<and> idle (queues s2 q) \<and>
        submitted (queues s2 q) = submitted ?c @ map ?seg (plan ?c)"
    proof (cases "currentQueueType ?c")
      case None
      then show ?thesis
        using loop inv seg by (auto simp: same_queue_refl idle_def queue_wf_def)
    next
      case (Some t)
      have pend: "timelineNotifyPending ?c \<longrightarrow> buf_of t ?c \<noteq> []"
        using inv Some by (cases t) (auto simp: queue_wf_def)
      show ?thesis
      proof (cases t)
        case COMPUTE
        then have "start_current q COMPUTE DMA s = (Inr (), s2)"
          using loop Some by (auto simp: bind_eq_Inr)
        from start_current_success [OF this] show ?thesis using pend COMPUTE Some seg by simp
      next
        case DMA
        then have "start_current q DMA COMPUTE s = (Inr (), s2)" using loop Some by simp
        from start_current_success [OF this] show ?thesis using pend DMA Some seg by simp
      qed
    qed
    then show ?thesis using True by (simp add: s' same_queue_def idle_def)
  qed
qed

lemma notifies_seg:
  assumes "well_formed (commandBuffer e)"
  shows "entry_notifies p e \<subseteq> notifies p (seg_words p e)"
  using assms notifies_notify by (auto simp: entry_notifies_def seg_words_def notifies_append)

text \<open>After a successful start, every timeline value up to the counter was handed to the GPU.\<close>

lemma startExecution_inv:
  assumes G: "gpu_frame G" and inv: "queue_inv (queues s q)"
    and run: "startExecution G n q s = (Inr u, s')"
  shows "queue_inv (queues s' q) \<and> idle (queues s' q) \<and>
    timelineCtr (queues s' q) \<in> submitted_notifies (timelineSignal (queues s' q)) (submitted (queues s' q))"
proof -
  let ?c = "queues s q" and ?c' = "queues s' q"
  let ?p = "timelineSignal ?c"
  have wf: "queue_wf ?c" using inv by (simp add: queue_inv_def)
  note ok = startExecution_success [OF G wf run]
  have inv2: "queue_inv (backlogged DMA (backlogged COMPUTE ?c))" using inv by (intro inv_backlogged)
  have plan_wf: "\<forall>e \<in> set (plan ?c). well_formed (commandBuffer e)"
    using inv2 by (simp add: queue_inv_def queue_wf_def plan_def)
  have "timelineCtr ?c \<in> submitted_notifies ?p (submitted ?c) \<union> (\<Union>e \<in> set (plan ?c). entry_notifies ?p e)"
  proof -
    let ?d = "backlogged DMA (backlogged COMPUTE ?c)"
    have "computeCommandBuffer ?d = []" "dmaCommandBuffer ?d = []" "\<not> timelineNotifyPending ?d"
      using wf by (auto simp: backlogged_def set_buf_def queue_wf_def)
    moreover have "timelineSignal ?d = ?p" "timelineCtr ?d = timelineCtr ?c" "submitted ?d = submitted ?c"
      by (simp_all add: backlogged_def)
    ultimately show ?thesis
      using inv2 by (simp add: queue_inv_def queue_covered_def Let_def plan_def)
  qed
  then have sub: "timelineCtr ?c \<in> submitted_notifies ?p (submitted ?c')"
    using ok notifies_seg plan_wf by (fastforce simp: submitted_notifies_def)
  have "queue_inv ?c'"
    using ok sub wf by (auto simp: queue_inv_def queue_wf_def queue_covered_def Let_def idle_def)
  then show ?thesis using ok sub by simp
qed

lemma start_keeps_ctx:
  "gpu_frame G \<Longrightarrow> queue_wf (queues s q) \<Longrightarrow> startExecution G n q s = (Inr u, s') \<Longrightarrow>
    q_ctx (queues s' q) = q_ctx (queues s q)"
  using startExecution_success by blast

end
