(* ===== verification/Queue_Properties.thy ===== *)
theory Queue_Properties
  imports Queue_Proofs
begin

text \<open>
  The contracts of the command queue: the signal pool as a pool of unique identifiers, the kernel
  argument page as a bump allocator, and the properties of the command stream, of submission, of
  execution and waiting, and of events, with their witnesses on a small driver state.
\<close>

section \<open>Pools of identifiers\<close>

inductive pool_run ::
  "('s \<Rightarrow> ('i \<times> 's) option) \<Rightarrow> ('i \<Rightarrow> 's \<Rightarrow> 's option) \<Rightarrow> 's \<Rightarrow> 'i list \<Rightarrow> 's \<Rightarrow> bool"
  for take_id give_id s
where
  pool_nil: "pool_run take_id give_id s [] s"
| pool_take: "pool_run take_id give_id s out s' \<Longrightarrow> take_id s' = Some (i, s'') \<Longrightarrow>
    pool_run take_id give_id s (i # out) s''"
| pool_give: "pool_run take_id give_id s out s' \<Longrightarrow> i \<in> set out \<Longrightarrow> give_id i s' = Some s'' \<Longrightarrow>
    pool_run take_id give_id s (remove1 i out) s''"

locale id_pool =
  fixes take_id :: "'s \<Rightarrow> ('i \<times> 's) option"
    and give_id :: "'i \<Rightarrow> 's \<Rightarrow> 's option"
    and free :: "'s \<Rightarrow> 'i set"
    and ids :: "'s \<Rightarrow> 'i set"
    and inv :: "'s \<Rightarrow> bool"
  assumes take_some: "inv s \<Longrightarrow> take_id s = Some (i, s') \<Longrightarrow>
      i \<in> free s \<and> free s' = free s - {i} \<and> ids s' = ids s \<and> inv s'"
    and take_none: "inv s \<Longrightarrow> take_id s = None \<Longrightarrow> free s = {}"
    and give_some: "inv s \<Longrightarrow> i \<in> ids s \<Longrightarrow> give_id i s = Some s' \<Longrightarrow>
      i \<notin> free s \<and> free s' = insert i (free s) \<and> ids s' = ids s \<and> inv s'"
    and give_none: "inv s \<Longrightarrow> i \<in> ids s \<Longrightarrow> give_id i s = None \<Longrightarrow> i \<in> free s"
    and free_ids: "inv s \<Longrightarrow> free s \<subseteq> ids s"
begin

lemma run_keeps:
  assumes "pool_run take_id give_id s out s'" "inv s"
  shows "inv s' \<and> ids s' = ids s \<and> distinct out \<and> set out \<inter> free s' = {} \<and> set out \<union> free s' = free s"
  using assms
proof (induction rule: pool_run.induct)
  case pool_nil
  then show ?case by simp
next
  case (pool_take out s' i s'')
  then show ?case using take_some [of s' i s''] by auto
next
  case (pool_give out s' i s'')
  then have "i \<in> ids s'" using free_ids [of s] by blast
  then show ?case using give_some [of s' i s''] pool_give by auto
qed

text \<open>The pool only runs dry when everything is outstanding, and what is outstanding can be given back.\<close>

lemma run_progress:
  assumes "pool_run take_id give_id s out s'" "inv s"
  shows "(take_id s' = None \<longrightarrow> set out = free s) \<and> (i \<in> set out \<longrightarrow> give_id i s' \<noteq> None)"
proof -
  have k: "inv s'" "ids s' = ids s" "set out \<inter> free s' = {}" "set out \<union> free s' = free s"
    using run_keeps [OF assms] by simp_all
  have "set out = free s" if "take_id s' = None"
    using take_none [OF k(1) that] k(4) by simp
  moreover have "give_id i s' \<noteq> None" if i: "i \<in> set out"
  proof
    assume g: "give_id i s' = None"
    have "i \<in> free s" using i k(4) by (rule subsetD [OF equalityD1, OF _ UnI1, rotated])
    then have "i \<in> ids s'" using k(2) free_ids [OF assms(2)] by (simp add: subsetD)
    then have "i \<in> free s'" using give_none [OF k(1) _ g] by simp
    with i have "i \<in> set out \<inter> free s'" by (rule IntI)
    then show False by (simp only: k(3) empty_iff)
  qed
  ultimately show ?thesis by simp
qed

end

section \<open>The signal pool\<close>

definition signal_addr :: "cmdq \<Rightarrow> NvU32 \<Rightarrow> NvU64" where
  "signal_addr c i = signalPool c + ucast i * sizeof_NvSignal"

definition pool_ok :: "cmdq \<Rightarrow> bool" where
  "pool_ok c \<longleftrightarrow> signalPool c \<noteq> 0 \<and> distinct (freeSignals c) \<and>
     (\<forall>i \<in> set (freeSignals c). unat i < MAX_SIGNAL_POOL_SIZE) \<and>
     unat (signalPool c) + 16 * MAX_SIGNAL_POOL_SIZE < 2 ^ 64"

lemma signal_index_addr:
  assumes "unat i < MAX_SIGNAL_POOL_SIZE"
  shows "signal_index (signal_addr c i) (signalPool c) = i"
proof -
  have u: "uint i < 65536" using assms nat_less_iff [of "uint i" 65536]
    by (simp add: MAX_SIGNAL_POOL_SIZE_def)
  have "ucast i * sizeof_NvSignal = (word_of_int (uint i * 16) :: NvU64)"
    unfolding sizeof_NvSignal_def ucast_eq of_int_mult by (simp only: of_int_numeral)
  moreover have "sint (word_of_int (uint i * 16) :: NvU64) = uint i * 16"
    unfolding sint_sbintrunc'
  proof (rule signed_take_bit_int_eq_self)
    show "- (2 ^ (LENGTH(64) - 1)) \<le> uint i * 16" by (rule order_trans [of _ 0]) simp_all
    show "uint i * 16 < 2 ^ (LENGTH(64) - 1)" using u by simp
  qed
  ultimately have "sint (signal_addr c i - signalPool c) = uint i * 16"
    by (simp only: signal_addr_def add_diff_cancel_left')
  then show ?thesis unfolding signal_index_def by simp
qed

lemma signal_addr_inj:
  "unat i < MAX_SIGNAL_POOL_SIZE \<Longrightarrow> unat j < MAX_SIGNAL_POOL_SIZE \<Longrightarrow>
    signal_addr c i = signal_addr c j \<longleftrightarrow> i = j"
  using signal_index_addr by metis

lemma signal_addr_nonzero:
  assumes "pool_ok c" "unat i < MAX_SIGNAL_POOL_SIZE"
  shows "signal_addr c i \<noteq> 0"
proof -
  have p: "unat (signalPool c) + 16 * 65536 < 2 ^ 64" "signalPool c \<noteq> 0"
    and i: "unat i < 65536"
    using assms by (simp_all add: pool_ok_def MAX_SIGNAL_POOL_SIZE_def)
  have "unat (ucast i * 16 :: NvU64) = unat i * 16"
    using unat_word_prod [of "ucast i :: NvU64" 16] i by simp
  then have "unat (signal_addr c i) = unat (signalPool c) + unat i * 16"
    using unat_word_sum [of "signalPool c" "ucast i * 16"] p i
    by (simp add: signal_addr_def sizeof_NvSignal_def)
  then show ?thesis using p(2) by (auto simp: unat_eq_zero)
qed

definition pool_take_step :: "nat \<Rightarrow> 'a drv_scheme \<Rightarrow> (NvU64 \<times> 'a drv_scheme) option" where
  "pool_take_step q s = (case obtainSignal q s of (Inr p, s') \<Rightarrow> Some (p, s') | (Inl _, _) \<Rightarrow> None)"

definition pool_give_step :: "nat \<Rightarrow> NvU64 \<Rightarrow> 'a drv_scheme \<Rightarrow> 'a drv_scheme option" where
  "pool_give_step q p s = (case releaseSignal q p s of (Inr _, s') \<Rightarrow> Some s' | (Inl _, _) \<Rightarrow> None)"

definition free_addrs :: "nat \<Rightarrow> 'a drv_scheme \<Rightarrow> NvU64 set" where
  "free_addrs q s = signal_addr (queues s q) ` set (freeSignals (queues s q))"

definition pool_addrs :: "nat \<Rightarrow> 'a drv_scheme \<Rightarrow> NvU64 set" where
  "pool_addrs q s = signal_addr (queues s q) ` {i. unat i < MAX_SIGNAL_POOL_SIZE}"

lemma obtainSignal_run:
  assumes "pool_ok (queues s q)"
  shows "obtainSignal q s = (case freeSignals (queues s q) of [] \<Rightarrow> (Inl (Fail LIBRECUDA_ERROR_UNKNOWN), s)
    | i # is \<Rightarrow> (Inr (signal_addr (queues s q) i), upd_queue q (\<lambda>c. c\<lparr>freeSignals := is\<rparr>) s))"
  using assms by (simp add: obtainSignal_def pool_ok_def signal_addr_def split: list.split)

lemma releaseSignal_run:
  assumes "pool_ok (queues s q)" "unat i < MAX_SIGNAL_POOL_SIZE"
  shows "releaseSignal q (signal_addr (queues s q) i) s =
    (if i \<in> set (freeSignals (queues s q)) then (Inl (Fail LIBRECUDA_ERROR_INVALID_VALUE), s)
     else (Inr (), upd_queue q (\<lambda>c. c\<lparr>freeSignals := freeSignals c @ [i]\<rparr>) s))"
  using assms signal_addr_nonzero [OF assms] by (simp add: releaseSignal_def signal_index_addr)

lemma signal_addr_upd [simp]: "signal_addr (c\<lparr>freeSignals := l\<rparr>) = signal_addr c"
  by (simp add: signal_addr_def fun_eq_iff)

interpretation pool: id_pool "pool_take_step q" "pool_give_step q" "free_addrs q" "pool_addrs q"
  "\<lambda>s. pool_ok (queues s q)" for q
proof unfold_locales
  fix s s' :: "'a drv_scheme" and i
  assume ok: "pool_ok (queues s q)" and tk: "pool_take_step q s = Some (i, s')"
  then obtain x xs where l: "freeSignals (queues s q) = x # xs" "i = signal_addr (queues s q) x"
      "s' = upd_queue q (\<lambda>c. c\<lparr>freeSignals := xs\<rparr>) s"
    by (auto simp: pool_take_step_def obtainSignal_run split: list.splits)
  have x: "x \<notin> set xs" "unat x < MAX_SIGNAL_POOL_SIZE" "\<forall>y \<in> set xs. unat y < MAX_SIGNAL_POOL_SIZE"
    using ok l(1) by (auto simp: pool_ok_def)
  then have "signal_addr (queues s q) x \<notin> signal_addr (queues s q) ` set xs"
    using signal_addr_inj by blast
  then show "i \<in> free_addrs q s \<and> free_addrs q s' = free_addrs q s - {i} \<and>
      pool_addrs q s' = pool_addrs q s \<and> pool_ok (queues s' q)"
    using ok l by (auto simp: free_addrs_def pool_addrs_def pool_ok_def)
next
  fix s :: "'a drv_scheme"
  assume "pool_ok (queues s q)" "pool_take_step q s = None"
  then show "free_addrs q s = {}"
    by (auto simp: pool_take_step_def obtainSignal_run free_addrs_def split: list.splits)
next
  fix s s' :: "'a drv_scheme" and i
  assume ok: "pool_ok (queues s q)" and "i \<in> pool_addrs q s" and gv: "pool_give_step q i s = Some s'"
  then obtain x where x: "i = signal_addr (queues s q) x" "unat x < MAX_SIGNAL_POOL_SIZE"
    by (auto simp: pool_addrs_def)
  then have n: "x \<notin> set (freeSignals (queues s q))"
    and s': "s' = upd_queue q (\<lambda>c. c\<lparr>freeSignals := freeSignals c @ [x]\<rparr>) s"
    using gv ok by (auto simp: pool_give_step_def releaseSignal_run split: if_splits)
  have "\<forall>y \<in> set (freeSignals (queues s q)). unat y < MAX_SIGNAL_POOL_SIZE" using ok by (simp add: pool_ok_def)
  then have "i \<notin> free_addrs q s" using n x signal_addr_inj by (auto simp: free_addrs_def)
  then show "i \<notin> free_addrs q s \<and> free_addrs q s' = insert i (free_addrs q s) \<and>
      pool_addrs q s' = pool_addrs q s \<and> pool_ok (queues s' q)"
    using ok n x s' by (auto simp: free_addrs_def pool_addrs_def pool_ok_def)
next
  fix s :: "'a drv_scheme" and i
  assume ok: "pool_ok (queues s q)" and "i \<in> pool_addrs q s" "pool_give_step q i s = None"
  then show "i \<in> free_addrs q s"
    by (auto simp: pool_addrs_def pool_give_step_def releaseSignal_run free_addrs_def split: if_splits)
next
  fix s :: "'a drv_scheme"
  assume "pool_ok (queues s q)"
  then show "free_addrs q s \<subseteq> pool_addrs q s" by (auto simp: free_addrs_def pool_addrs_def pool_ok_def)
qed

section \<open>The kernel argument page\<close>

definition kernarg_step :: "nat \<Rightarrow> NvU64 \<Rightarrow> 'a drv_scheme \<Rightarrow> range option \<times> 'a drv_scheme" where
  "kernarg_step q sz s = (case allocKernArgs q sz s of
     (Inr va, s') \<Rightarrow> (Some (unat va, unat sz), s') | (Inl _, s') \<Rightarrow> (None, s'))"

definition kernarg_top :: "nat \<Rightarrow> 'a drv_scheme \<Rightarrow> nat" where
  "kernarg_top q s = unat (kernArgsPageVa (queues s q)) + unat (kernArgsWriteIdx (queues s q))"

definition kernarg_fits :: "nat \<Rightarrow> NvU64 \<Rightarrow> 'a drv_scheme \<Rightarrow> bool" where
  "kernarg_fits q sz s \<longleftrightarrow> kernarg_top q s + unat sz < 2 ^ 64"

lemma allocKernArgs_run:
  "allocKernArgs q sz s =
    (let c = queues s q in
     if kernArgsWriteIdx c + sz > KERNARGS_PAGE_SIZE
     then (Inl (Fail LIBRECUDA_ERROR_LAUNCH_OUT_OF_RESOURCES), s)
     else (Inr (kernArgsPageVa c + kernArgsWriteIdx c),
           upd_queue q (\<lambda>c. c\<lparr>kernArgsWriteIdx := kernArgsWriteIdx c + sz\<rparr>) s))"
  by (simp add: allocKernArgs_def Let_def)

lemma kernarg_step_some:
  assumes "kernarg_fits q sz s" "kernarg_step q sz s = (Some (b, n), s')"
  shows "b = kernarg_top q s \<and> n = unat sz \<and> kernarg_top q s' = b + n \<and>
    kernArgsPageVa (queues s' q) = kernArgsPageVa (queues s q) \<and>
    kernArgsWriteIdx (queues s' q) \<le> KERNARGS_PAGE_SIZE"
proof -
  let ?c = "queues s q"
  have le: "kernArgsWriteIdx ?c + sz \<le> KERNARGS_PAGE_SIZE" and b: "b = unat (kernArgsPageVa ?c + kernArgsWriteIdx ?c)"
    and n: "n = unat sz" and s': "s' = upd_queue q (\<lambda>c. c\<lparr>kernArgsWriteIdx := kernArgsWriteIdx c + sz\<rparr>) s"
    using assms(2) by (auto simp: kernarg_step_def allocKernArgs_run Let_def not_less split: if_splits)
  have "unat (kernArgsPageVa ?c + kernArgsWriteIdx ?c) = unat (kernArgsPageVa ?c) + unat (kernArgsWriteIdx ?c)"
    "unat (kernArgsWriteIdx ?c + sz) = unat (kernArgsWriteIdx ?c) + unat sz"
    by (rule unat_word_sum; use assms(1) in \<open>simp add: kernarg_fits_def kernarg_top_def\<close>)+
  then show ?thesis using le by (simp add: b n s' kernarg_top_def)
qed

lemma kernarg_step_none: "kernarg_step q sz s = (None, s') \<Longrightarrow> s' = s"
  by (auto simp: kernarg_step_def allocKernArgs_run Let_def split: if_splits)

interpretation kernargs: bump "kernarg_step q" "kernarg_fits q" "kernarg_top q" for q
  by unfold_locales (use kernarg_step_some kernarg_step_none in fastforce)+

section \<open>Demonstration state\<close>

text \<open>A small initialised queue, number 1, on which the witnesses run.\<close>

definition demo_queue :: cmdq where
  "demo_queue = (new_queue 1 (Some COMPUTE) 0x1300000000)\<lparr>initialized := True,
     computeQueuePage := \<lparr>commandQueueSpace = 0x1100000000, commandWriteIdx = 16\<rparr>,
     dmaQueuePage := \<lparr>commandQueueSpace = 0x1200000000, commandWriteIdx = 16\<rparr>,
     signalPool := 0x1400000000, freeSignals := [1, 2, 3], timelineSignal := 0x1400000000,
     timelineCtr := 2, submitted := [(DMA, notify_words DMA 0x1400000000 2)]\<rparr>"

definition demo_event :: cu_event where
  "demo_event = \<lparr>ev_stream = 0, computeSignal = 0, dmaSignal = 0\<rparr>"

definition demo_func :: func where
  "demo_func = \<lparr>func_name = ''k'', func_va_addr = 0x1500000000, shared_mem = 0, num_registers = 16,
     local_mem_req = 0, function_size = 0x400,
     constants = [\<lparr>const_nr = 0, const_address = 0x1500001000, const_size = 0x170\<rparr>],
     param_info = [\<lparr>param_index = 0, param_offset = 0, param_size = 8\<rparr>,
       \<lparr>param_index = 1, param_offset = 8, param_size = 4\<rparr>],
     shader_local_memory_va = 0\<rparr>"

definition demo_drv :: drv where
  "demo_drv = \<lparr>root = 0x10, fd_ctl = 3, fd_uvm = 4, klog = [], public_device_handles = [demo_device],
     ctxs = (\<lambda>_. demo_context), current_ctx = 1, hostMappedPtrs = [], va_to_mem_handle = Map.empty,
     queues = (\<lambda>_. demo_queue), events = (\<lambda>_. demo_event), funcs = (\<lambda>_. demo_func),
     sig_value = (\<lambda>_. 0), sig_time = (\<lambda>_. 0), wmem = (\<lambda>_. 0), doorbells = []\<rparr>"

text \<open>A GPU that has done everything submitted by queue 1 the next time the CPU looks.\<close>

definition ops_of :: "NvU32 list \<Rightarrow> gpu_op list" where
  "ops_of ws = (case decode_stream ws of None \<Rightarrow> [] | Some cs \<Rightarrow> snd (run_calls (\<lambda>_ _. 0) cs))"

fun apply_op :: "gpu_op \<Rightarrow> (NvU64 \<Rightarrow> NvU64) \<Rightarrow> NvU64 \<Rightarrow> NvU64" where
  "apply_op (Release p v) f = f(p := max (f p) v)"
| "apply_op _ f = f"

definition demo_gpu :: "'a drv_scheme \<Rightarrow> 'a drv_scheme" where
  "demo_gpu s = s\<lparr>sig_value := fold apply_op
     (concat (map (\<lambda>(t, ws). ops_of ws) (submitted (queues s 1)))) (sig_value s)\<rparr>"

lemma demo_queue_fields [simp]:
  "timelineSignal demo_queue = 0x1400000000" "timelineCtr demo_queue = 2"
  "computeCommandBuffer demo_queue = []" "dmaCommandBuffer demo_queue = []"
  "commandBufBacklog demo_queue = []" "timelineNotifyPending demo_queue = False"
  "currentQueueType demo_queue = Some COMPUTE" "freeSignals demo_queue = [1, 2, 3]"
  "signalPool demo_queue = 0x1400000000" "kernArgsPageVa demo_queue = 0x1300000000"
  "kernArgsWriteIdx demo_queue = 0" "q_ctx demo_queue = 1"
  "computeQueuePage demo_queue = \<lparr>commandQueueSpace = 0x1100000000, commandWriteIdx = 16\<rparr>"
  "dmaQueuePage demo_queue = \<lparr>commandQueueSpace = 0x1200000000, commandWriteIdx = 16\<rparr>"
  "submitted demo_queue = [(DMA, notify_words DMA 0x1400000000 2)]"
  by (simp_all add: demo_queue_def new_queue_def)

lemma demo_drv_fields [simp]:
  "queues demo_drv = (\<lambda>_. demo_queue)" "ctxs demo_drv = (\<lambda>_. demo_context)"
  "funcs demo_drv = (\<lambda>_. demo_func)" "events demo_drv = (\<lambda>_. demo_event)"
  "sig_value demo_drv = (\<lambda>_. 0)" "wmem demo_drv = (\<lambda>_. 0)"
  by (simp_all add: demo_drv_def)

lemma demo_queue_inv: "queue_inv demo_queue"
  by (simp add: queue_inv_def queue_wf_def queue_covered_def submitted_notifies_def notifies_notify)

lemma demo_pool_ok: "pool_ok demo_queue"
  by (simp add: pool_ok_def MAX_SIGNAL_POOL_SIZE_def)

section \<open>Properties of the pool and the argument page\<close>

text \<open>
  C25: In any sequence of \<open>obtainSignal\<close> and \<open>releaseSignal\<close> calls in which only obtained signals are
  released, the outstanding signals are pairwise different and none of them is free; obtaining fails
  only when all are outstanding, and releasing an outstanding signal never fails.
\<close>

theorem signal_pool_unique:
  assumes "pool_ok (queues s q)"
    and "pool_run (pool_take_step q) (pool_give_step q) s out s'"
  shows "distinct out \<and> set out \<inter> free_addrs q s' = {} \<and> set out \<union> free_addrs q s' = free_addrs q s \<and>
    (pool_take_step q s' = None \<longrightarrow> set out = free_addrs q s) \<and>
    (\<forall>p \<in> set out. pool_give_step q p s' \<noteq> None)"
  using pool.run_keeps [OF assms(2,1)] pool.run_progress [OF assms(2,1)] by simp

theorem signal_pool_unique_witness:
  "\<exists>s'. pool_run (pool_take_step 1) (pool_give_step 1) demo_drv [0x1400000020, 0x1400000010] s' \<and>
     distinct [0x1400000020, 0x1400000010 :: NvU64]"
proof -
  have ok: "pool_ok (queues demo_drv 1)" using demo_pool_ok by simp
  let ?s1 = "upd_queue 1 (\<lambda>c. c\<lparr>freeSignals := [2, 3]\<rparr>) demo_drv"
  have ok1: "pool_ok (queues ?s1 1)" using demo_pool_ok by (simp add: pool_ok_def)
  let ?s2 = "upd_queue 1 (\<lambda>c. c\<lparr>freeSignals := [3]\<rparr>) ?s1"
  have t1: "pool_take_step 1 demo_drv = Some (0x1400000010, ?s1)"
    unfolding pool_take_step_def obtainSignal_run [OF ok]
    by (simp add: signal_addr_def sizeof_NvSignal_def)
  have t2: "pool_take_step 1 ?s1 = Some (0x1400000020, ?s2)"
    unfolding pool_take_step_def obtainSignal_run [OF ok1]
    by (simp add: signal_addr_def sizeof_NvSignal_def)
  have "pool_run (pool_take_step 1) (pool_give_step 1) demo_drv [0x1400000010] ?s1"
    by (rule pool_take, rule pool_nil, rule t1)
  then have "pool_run (pool_take_step 1) (pool_give_step 1) demo_drv [0x1400000020, 0x1400000010] ?s2"
    using t2 by (rule pool_take)
  then show ?thesis using signal_pool_unique [OF ok] by blast
qed

lemma kernarg_run_page:
  assumes "alloc_run (kernarg_step q) (kernarg_fits q) s rs s'"
    and "kernArgsWriteIdx (queues s q) \<le> KERNARGS_PAGE_SIZE"
  shows "kernArgsPageVa (queues s' q) = kernArgsPageVa (queues s q) \<and>
    kernArgsWriteIdx (queues s' q) \<le> KERNARGS_PAGE_SIZE"
  using assms
proof (induction rule: alloc_run.induct)
  case run_nil
  then show ?case by simp
next
  case (run_none rs s' r s'')
  then show ?case using kernarg_step_none by blast
next
  case (run_some rs s' r b s'')
  then show ?case using kernarg_step_some [of q r s' "fst b" "snd b" s''] by simp
qed

text \<open>
  C33: Between two resets of the page, the argument blocks that \<open>allocKernArgs\<close> hands out are pairwise
  disjoint and lie inside the page, whatever calls in between are refused, so the arguments of a
  launch are not overwritten by a later one before the queue was awaited.
\<close>

theorem kernargs_disjoint:
  assumes "alloc_run (kernarg_step q) (kernarg_fits q) s rs s'"
    and "kernArgsWriteIdx (queues s q) \<le> KERNARGS_PAGE_SIZE"
  shows "sorted_wrt range_disj rs \<and>
    (\<forall>(b, n) \<in> set rs. unat (kernArgsPageVa (queues s q)) \<le> b \<and>
       b + n \<le> unat (kernArgsPageVa (queues s q)) + unat KERNARGS_PAGE_SIZE)"
proof -
  have "kernarg_top q s' \<le> unat (kernArgsPageVa (queues s q)) + unat KERNARGS_PAGE_SIZE"
    using kernarg_run_page [OF assms] by (simp add: kernarg_top_def word_le_nat_alt)
  moreover have "unat (kernArgsPageVa (queues s q)) \<le> kernarg_top q s" by (simp add: kernarg_top_def)
  ultimately show ?thesis
    using kernargs.run_bounds [OF assms(1)] kernargs.run_disjoint [OF assms(1)] by fastforce
qed

theorem kernargs_disjoint_witness:
  "\<exists>s'. alloc_run (kernarg_step 1) (kernarg_fits 1) demo_drv [(0x1300000000, 0x900)] s' \<and>
     (0x1300000000 :: nat) + 0x900 \<le> unat (kernArgsPageVa demo_queue) + unat KERNARGS_PAGE_SIZE"
proof -
  let ?s' = "upd_queue 1 (\<lambda>c. c\<lparr>kernArgsWriteIdx := kernArgsWriteIdx c + 0x900\<rparr>) demo_drv"
  have "kernarg_step 1 0x900 demo_drv = (Some (0x1300000000, 0x900), ?s')"
    by (simp add: kernarg_step_def allocKernArgs_run KERNARGS_PAGE_SIZE_def push_bit_eq_mult)
  then have r: "alloc_run (kernarg_step 1) (kernarg_fits 1) demo_drv ([] @ [(0x1300000000, 0x900)]) ?s'"
    by (intro run_some [OF run_nil]) (simp_all add: kernarg_fits_def kernarg_top_def)
  have "kernArgsWriteIdx (queues demo_drv 1) \<le> KERNARGS_PAGE_SIZE" by simp
  from kernargs_disjoint [OF r this] show ?thesis using r by auto
qed

section \<open>Properties of the command stream\<close>

text \<open>
  \<open>signalNotify\<close> appends to the buffer of the given type exactly one complete command: if the
  stream made the GPU do \<open>ops\<close> before, it now makes it do \<open>ops\<close> and then release the 64-bit value
  \<open>signalTarget\<close> at the signal's address; nothing else of the driver changes. The two types use
  different methods (a host semaphore, a copy engine semaphore) for the same effect.
\<close>

theorem signalNotify_releases:
  assumes "p \<noteq> 0" "emits (buf_of t (queues s q)) ops"
  shows "\<exists>ws. signalNotify q p v t s = (Inr (), upd_queue q (app_words t ws) s) \<and>
    emits (buf_of t (queues (upd_queue q (app_words t ws) s) q)) (ops @ [Release p (ucast v)])"
  using emits_append [OF assms(2) emits_notify] assms(1)
  by (intro exI [of _ "notify_words t p v"]) (simp add: signalNotify_run)

theorem signalNotify_releases_witness:
  "\<exists>ws. signalNotify 1 0x1400000010 7 DMA demo_drv = (Inr (), upd_queue 1 (app_words DMA ws) demo_drv) \<and>
     emits (buf_of DMA (queues (upd_queue 1 (app_words DMA ws) demo_drv) 1)) ([] @ [Release 0x1400000010 (ucast (7 :: NvU32))])"
  by (rule signalNotify_releases) simp_all

lemma switched_dma_buf: "dmaCommandBuffer (switched DMA COMPUTE c) = dmaCommandBuffer c"
  by (simp add: switched_def backlogged_def set_buf_def)

lemma copied_emits:
  assumes "emits (dmaCommandBuffer c) ops" "n < 0xFFFFFFFF"
  shows "emits (dmaCommandBuffer (copied dst src n async c)) (ops @ [CopyLine src dst (unat n)] @
    (if async then [] else [Release (timelineSignal c) (ucast (timelineCtr c + 1))]))"
proof -
  have "unat n < 2 ^ 32" using assms(2) by (simp add: word_less_nat_alt)
  then have u: "unat (ucast n :: NvU32) = unat n" by (simp add: unsigned_ucast_eq take_bit_nat_eq_self)
  have b: "emits (dmaCommandBuffer c @ copy_words dst src n) (ops @ [CopyLine src dst (unat n)])"
    using emits_append [OF assms(1) emits_copy [of dst src n]] by (simp add: u)
  show ?thesis
    using b emits_append [OF b emits_notify [of DMA "timelineSignal c" "timelineCtr c + 1"]]
    by (cases async)
      (simp_all add: copied_def finished_def Let_def switched_dma_buf app_words_def set_buf_def)
qed

lemma copied_backlog:
  assumes "queue_inv c"
  shows "commandBufBacklog (copied dst src n async c) = commandBufBacklog (backlogged COMPUTE c)"
  using assms
  by (cases async) (auto simp: copied_def finished_def Let_def switched_def backlogged_def
      queue_inv_def queue_wf_def)

text \<open>
  C22: \<open>gpuMemcpy\<close> with non-null addresses and a size below \<open>2^32 - 1\<close> succeeds and gives the copy
  queue exactly the copy of that many bytes from \<open>src\<close> to \<open>dst\<close>, followed, when it is synchronous, by
  the release of the next timeline value; compute commands still in the buffer are moved to the
  backlog first, so they keep their place before the copy. All other arguments are refused with
  \<open>LIBRECUDA_ERROR_INVALID_VALUE\<close> and change nothing.
\<close>

theorem gpuMemcpy_correct:
  assumes "queue_inv (queues s q)" "emits (dmaCommandBuffer (queues s q)) ops"
    and "dst \<noteq> 0" "src \<noteq> 0" "n < 0xFFFFFFFF"
  shows "\<exists>c'. gpuMemcpy q dst src n async s = (Inr (), upd_queue q (\<lambda>_. c') s) \<and>
    emits (dmaCommandBuffer c') (ops @ [CopyLine src dst (unat n)] @ (if async then []
      else [Release (timelineSignal (queues s q)) (ucast (timelineCtr (queues s q) + 1))])) \<and>
    commandBufBacklog c' = commandBufBacklog (backlogged COMPUTE (queues s q)) \<and>
    queue_inv c' \<and>
    (\<forall>d r m. d = 0 \<or> r = 0 \<or> \<not> m < 0xFFFFFFFF \<longrightarrow>
      gpuMemcpy q d r m async s = (Inl (Fail LIBRECUDA_ERROR_INVALID_VALUE), s))"
proof -
  have ts: "timelineSignal (queues s q) \<noteq> 0" using assms(1) by (simp add: queue_inv_def queue_wf_def)
  show ?thesis
    using gpuMemcpy_run [OF assms(3-5) ts] copied_emits [OF assms(2,5)] copied_backlog [OF assms(1)]
      inv_copied [OF assms(1)]
    by (intro exI [of _ "copied dst src n async (queues s q)"])
      (simp add: upd_queue_def gpuMemcpy_invalid del: imp_disjL)
qed

theorem gpuMemcpy_correct_witness:
  "\<exists>c'. gpuMemcpy 1 0x1600000000 0x1700000000 4096 False demo_drv = (Inr (), upd_queue 1 (\<lambda>_. c') demo_drv) \<and>
     emits (dmaCommandBuffer c') [CopyLine 0x1700000000 0x1600000000 4096, Release 0x1400000000 3]"
  using gpuMemcpy_correct [of demo_drv 1 "[]" "0x1600000000" "0x1700000000" 4096 False] demo_queue_inv
  by auto

lemma aligned4_bits: "take_bit 2 a = 0 \<Longrightarrow> \<not> bit (a :: NvU64) 0 \<and> \<not> bit a 1"
  by (metis bit_take_bit_iff bit_0_eq bot_apply bot_bool_def one_less_numeral_iff semiring_norm(76) zero_less_numeral)

lemma aligned4_unat: "take_bit 2 (x :: NvU64) = 0 \<longleftrightarrow> unat x mod 4 = 0"
proof -
  have "unat (take_bit 2 x) = unat x mod 4" by (simp add: take_bit_eq_mod unat_mod)
  then show ?thesis by (metis unat_eq_zero unat_0)
qed

lemma aligned4_add:
  assumes "take_bit 2 a = (0 :: NvU64)"
  shows "take_bit 2 (a + w * 4) = 0"
proof -
  have "unat (a + w * 4) = (unat a + unat (w * 4)) mod 2 ^ 64"
    unfolding unat_word_ariths(1) by simp
  moreover have "unat (w * 4) = (unat w * 4) mod 2 ^ 64"
    unfolding unat_word_ariths(2) by simp
  ultimately have u: "unat (a + w * 4) = (unat a + unat w * 4) mod 2 ^ 64"
    by (simp only: mod_add_right_eq)
  have "(unat a + unat w * 4) mod 2 ^ 64 mod 4 = (unat a + unat w * 4) mod 4"
    by (rule mod_mod_cancel) simp
  also have "\<dots> = unat a mod 4" by (rule mod_mult_self1)
  finally show ?thesis using assms unfolding aligned4_unat u by (simp only:)
qed

text \<open>
  C26: Submitting a buffer that still fits its page copies the words behind the segments written
  before, leaves the other words of mapped memory alone, names the segment in the next ring entry
  (address and length read back as the GPU reads them), rings the doorbell with the channel's token,
  advances the put index by one, and empties the buffer.
\<close>

theorem submitToFifo_segment:
  fixes s :: "'a drv_scheme"
  assumes "buf_of t (queues s q) \<noteq> []" "\<not> page_full q t s"
    and "entries_count (fifo_of t (ctxs s (q_ctx (queues s q)))) \<noteq> 0"
    and "length (buf_of t (queues s q)) < 0x200000"
    and "commandQueueSpace (page_of t (queues s q)) + commandWriteIdx (page_of t (queues s q)) * 4 < 2 ^ 40"
    and "take_bit 2 (commandQueueSpace (page_of t (queues s q))) = 0"
  shows "\<exists>s'. submitToFifo q t s = (Inr (), s') \<and>
    (let c = queues s q; buf = buf_of t c; f = fifo_of t (ctxs s (q_ctx c)); f' = fifo_of t (ctxs s' (q_ctx c));
         a = commandQueueSpace (page_of t c) + commandWriteIdx (page_of t c) * 4;
         e = ring f' (put_value f mod entries_count f) in
     gp_address e = a \<and> unat (NVC56F_GP_ENTRY1_LENGTH e) = length buf \<and>
     load_words a (length buf) (wmem s') = buf \<and>
     (\<forall>b. (\<forall>i < length buf. b \<noteq> a + of_nat i * 4) \<longrightarrow> wmem s' b = wmem s b) \<and>
     put_value f' = put_value f + 1 \<and> GPPut f' = (put_value f + 1) mod entries_count f \<and>
     doorbells s' = doorbells s @ [(0x24, token f)] \<and>
     buf_of t (queues s' q) = [] \<and> submitted (queues s' q) = submitted c @ [(t, buf)])"
proof -
  let ?c = "queues s q" and ?buf = "buf_of t (queues s q)"
  let ?a = "commandQueueSpace (page_of t ?c) + commandWriteIdx (page_of t ?c) * 4"
  let ?n = "of_nat (length ?buf) :: NvU64"
  define s' where "s' = submit_effect q t (commandWriteIdx (page_of t ?c)) s"
  have un: "unat ?n = length ?buf"
    using assms(4) unfolding unsigned_of_nat of_nat_id by (simp add: take_bit_nat_eq_self)
  then have n: "?n < 2 ^ 21" using assms(4) by (simp add: word_less_nat_alt)
  have al: "\<not> bit ?a 0" "\<not> bit ?a 1" using aligned4_bits [OF aligned4_add [OF assms(6)]] by blast+
  have e: "gp_address (gp_entry ?a ?n) = ?a" "unat (NVC56F_GP_ENTRY1_LENGTH (gp_entry ?a ?n)) = length ?buf"
    using gp_fields_back [OF assms(5) al n] un by (simp_all flip: unat_ucast32_64)
  have run: "submitToFifo q t s = (Inr (), s')"
    using submit_run [OF assms(1,3)] assms(2) by (simp add: s'_def)
  let ?f = "fifo_of t (ctxs s (q_ctx ?c))"
  have f': "fifo_of t (ctxs s' (q_ctx ?c)) = ?f\<lparr>
      ring := (ring ?f)(put_value ?f mod entries_count ?f := gp_entry ?a ?n),
      GPPut := (put_value ?f + 1) mod entries_count ?f, put_value := put_value ?f + 1\<rparr>"
    by (cases t) (simp_all add: s'_def submit_effect_def Let_def set_fifo_def fifo_of_def)
  have m: "wmem s' = store_words ?a ?buf (wmem s)" "doorbells s' = doorbells s @ [(0x24, token ?f)]"
    by (simp_all add: s'_def submit_effect_def Let_def)
  have "load_words ?a (length ?buf) (wmem s') = ?buf"
    unfolding m using assms(4) by (intro load_store_words) simp
  moreover have "\<forall>b. (\<forall>i < length ?buf. b \<noteq> ?a + of_nat i * 4) \<longrightarrow> wmem s' b = wmem s b"
    unfolding m using store_words_other by blast
  moreover have "buf_of t (queues s' q) = []" "submitted (queues s' q) = submitted ?c @ [(t, ?buf)]"
    by (simp_all add: s'_def Let_def)
  ultimately show ?thesis using run e m(2) by (intro exI [of _ s']) (simp add: f' Let_def)
qed

theorem submitToFifo_segment_witness:
  "\<exists>s'. submitToFifo 1 COMPUTE (upd_queue 1 (app_words COMPUTE [0x20010000, 0xc7c0]) demo_drv) = (Inr (), s') \<and>
     wmem s' 0x1100000040 = 0x20010000 \<and> wmem s' 0x1100000044 = 0xc7c0"
proof -
  let ?s = "upd_queue 1 (app_words COMPUTE [0x20010000, 0xc7c0]) demo_drv"
  have "\<not> page_full 1 COMPUTE ?s"
    by (simp add: page_full_def MAX_CMD_QUEUE_PAGE_SIZE_def app_words_def set_buf_def)
  from submitToFifo_segment [OF _ this] show ?thesis
    by (auto simp: Let_def fifo_of_def demo_context_def demo_fifo_def app_words_def set_buf_def
        take_bit_eq_mod)
qed

text \<open>A queue with one asynchronous copy enqueued.\<close>

definition demo_busy :: cmdq where
  "demo_busy = copied 0x1600000000 0x1700000000 4096 True demo_queue"

lemma demo_busy_fields [simp]:
  "commandBufBacklog demo_busy = []" "currentQueueType demo_busy = Some DMA"
  "computeCommandBuffer demo_busy = []" "timelineNotifyPending demo_busy = True"
  "dmaCommandBuffer demo_busy = copy_words 0x1600000000 0x1700000000 4096"
  "timelineSignal demo_busy = 0x1400000000" "timelineCtr demo_busy = 3" "q_ctx demo_busy = 1"
  "dmaQueuePage demo_busy = \<lparr>commandQueueSpace = 0x1200000000, commandWriteIdx = 16\<rparr>"
  "submitted demo_busy = submitted demo_queue"
  using page_of_simps(2)
  by (simp_all add: demo_busy_def copied_def finished_def Let_def switched_def app_words_def set_buf_def)

lemma demo_busy_inv: "queue_inv demo_busy"
  unfolding demo_busy_def by (rule inv_copied [OF demo_queue_inv])

definition demo_busy_drv :: drv where
  "demo_busy_drv = upd_queue 1 (\<lambda>_. demo_busy) demo_drv"

lemma demo_busy_drv_queue [simp]: "queues demo_busy_drv 1 = demo_busy" "queues demo_busy_drv (Suc 0) = demo_busy"
  "ctxs demo_busy_drv = (\<lambda>_. demo_context)" "sig_value demo_busy_drv = (\<lambda>_. 0)"
  by (simp_all add: demo_busy_drv_def upd_queue_def)

lemma demo_start:
  "\<exists>s'. startExecution G n 1 demo_busy_drv = (Inr (), s') \<and> ctx_flags (ctxs s' 1) = 0"
proof -
  let ?s = "upd_queue 1 (app_words DMA (notify_words DMA 0x1400000000 3)) demo_busy_drv"
  have buf: "buf_of DMA (queues ?s 1) \<noteq> []" by simp
  have full: "\<not> page_full 1 DMA ?s"
    by (simp add: page_full_def MAX_CMD_QUEUE_PAGE_SIZE_def copy_words_def notify_words_def call_words_def
        app_words_def set_buf_def)
  have "entries_count (fifo_of DMA (ctxs ?s (q_ctx (queues ?s 1)))) \<noteq> 0"
    by (simp add: fifo_of_def demo_context_def demo_fifo_def)
  from submit_run [OF buf this] full obtain w where "submitToFifo 1 DMA ?s = (Inr (), submit_effect 1 DMA w ?s)"
    by simp
  then show ?thesis
    by (simp add: startExecution_def bind_def start_current_def signalNotify_run startExecution1_def
        demo_context_def)
qed

section \<open>Properties of execution and waiting\<close>

text \<open>
  C2: When \<open>startExecution\<close> succeeds, what the GPU received is exactly the program of the queue in
  order: the backlog entries, then the commands still in the buffers, each as one segment of its own
  channel and each followed by the release of its timeline value where no command released it yet.
  Both buffers and the backlog are empty afterwards and no notification is pending, so nothing is
  submitted twice.
\<close>

theorem startExecution_plan:
  assumes "gpu_frame G" "queue_inv (queues s q)" "startExecution G n q s = (Inr (), s')"
  shows "submitted (queues s' q) = submitted (queues s q) @
      map (\<lambda>e. (queueType e, seg_words (timelineSignal (queues s q)) e)) (plan (queues s q)) \<and>
    idle (queues s' q) \<and> commandBufBacklog (queues s' q) = [] \<and>
    \<not> timelineNotifyPending (queues s' q) \<and> timelineCtr (queues s' q) = timelineCtr (queues s q) \<and>
    queue_inv (queues s' q)"
  using startExecution_success [OF assms(1) _ assms(3)] startExecution_inv [OF assms] assms(2)
  by (simp add: queue_inv_def)

lemma demo_gpu_frame: "gpu_frame demo_gpu"
  by (simp add: gpu_frame_def demo_gpu_def)

theorem startExecution_plan_witness:
  "\<exists>s'. startExecution demo_gpu 5 1 demo_busy_drv = (Inr (), s') \<and>
     submitted (queues s' 1) = submitted demo_queue @
       [(DMA, copy_words 0x1600000000 0x1700000000 4096 @ notify_words DMA 0x1400000000 3)]"
proof -
  obtain s' where r: "startExecution demo_gpu 5 1 demo_busy_drv = (Inr (), s')" using demo_start by blast
  have "queue_inv (queues demo_busy_drv 1)" using demo_busy_inv by simp
  from startExecution_plan [OF demo_gpu_frame this r] show ?thesis
    using r by (simp add: plan_def backlogged_def set_buf_def seg_words_def)
qed


definition demo_split :: cmd_split where
  "demo_split = \<lparr>commandBuffer = copy_words 0x1600000000 0x1700000000 64, queueType = DMA,
     split_timelineCtr = 3, split_notifyPending = True\<rparr>"

lemma fold_apply_mono: "f p \<le> fold apply_op ops f p"
proof (induction ops arbitrary: f)
  case (Cons x ops)
  have "f p \<le> apply_op x f p" by (cases x) auto
  then show ?case using Cons.IH [of "apply_op x f"] by simp
qed simp

lemma fold_apply_release: "Release p v \<in> set ops \<Longrightarrow> v \<le> fold apply_op ops f p"
proof (induction ops arbitrary: f)
  case (Cons x ops)
  show ?case
  proof (cases "x = Release p v")
    case True
    have "v \<le> apply_op x f p" by (simp add: True)
    then show ?thesis using fold_apply_mono [of "apply_op x f" p ops] by simp
  next
    case False
    then show ?thesis using Cons by simp
  qed
qed simp

lemma ops_of_emits: "emits ws ops \<Longrightarrow> ops_of ws = ops"
  by (auto simp: emits_def ops_of_def)

lemma demo_gpu_serves:
  assumes "v \<in> submitted_notifies p (submitted (queues s 1))"
  shows "ucast v \<le> sig_value (demo_gpu s) p"
proof -
  obtain t ws ops where "(t, ws) \<in> set (submitted (queues s 1))" "emits ws ops" "Release p (ucast v) \<in> set ops"
    using assms by (auto simp: submitted_notifies_def notifies_def)
  then have "Release p (ucast v) \<in> set (concat (map (\<lambda>(t, ws). ops_of ws) (submitted (queues s 1))))"
    using ops_of_emits by force
  then show ?thesis unfolding demo_gpu_def by (simp add: fold_apply_release)
qed

lemma demo_run_split: "\<exists>s'. run_split demo_gpu 1 1 demo_split demo_drv = (Inr (), s')"
proof -
  let ?ws = "copy_words 0x1600000000 0x1700000000 64 @ notify_words DMA 0x1400000000 3"
  let ?s = "upd_queue 1 (set_buf DMA ?ws) demo_drv"
  have buf: "buf_of DMA (queues ?s 1) \<noteq> []" by (simp add: set_buf_def)
  have full: "\<not> page_full 1 DMA ?s"
    by (simp add: page_full_def MAX_CMD_QUEUE_PAGE_SIZE_def copy_words_def notify_words_def call_words_def
        set_buf_def)
  have "entries_count (fifo_of DMA (ctxs ?s (q_ctx (queues ?s 1)))) \<noteq> 0"
    by (simp add: fifo_of_def demo_context_def demo_fifo_def)
  from submit_run [OF buf this] full obtain w where sub: "submitToFifo 1 DMA ?s = (Inr (), submit_effect 1 DMA w ?s)"
    by simp
  let ?s2 = "submit_effect 1 DMA w ?s"
  have nb: "\<not> blocking_only (q_ctx (queues ?s2 1)) ?s2"
    by (simp add: blocking_only_def demo_context_def)
  have sub2: "submitted (queues (spin_default (q_ctx (queues ?s2 1)) ?s2) 1) = submitted demo_queue @ [(DMA, ?ws)]"
    by (simp add: Let_def set_buf_def)
  have "(3 :: NvU32) \<in> notifies 0x1400000000 ?ws"
    by (simp add: notifies_append notifies_notify)
  then have "(3 :: NvU32) \<in> submitted_notifies 0x1400000000
      (submitted (queues (spin_default (q_ctx (queues ?s2 1)) ?s2) 1))"
    unfolding sub2 submitted_notifies_def by simp
  from demo_gpu_serves [OF this] have "ucast (3 :: NvU32) \<le>
      sig_value ((demo_gpu ^^ 1) (spin_default (q_ctx (queues ?s2 1)) ?s2)) 0x1400000000" by simp
  from poll_eventually [OF this] obtain s3 where
    "poll demo_gpu 1 0x1400000000 3 (spin_default (q_ctx (queues ?s2 1)) ?s2) = (Inr (), s3)" by blast
  then have "signalWaitCpu demo_gpu 1 1 0x1400000000 3 ?s2 = (Inr (), s3)"
    using signalWaitCpu_run [OF _ nb] by simp
  then show ?thesis using sub
    by (simp add: run_split_def demo_split_def signalNotify_run bind_def app_words_def [abs_def])
qed


lemma awaitExecution_lower:
  assumes "gpu_frame G" "awaitExecution G n q s = (Inr u, s')" "timelineSignal (queues s q) \<noteq> 0"
  shows "ucast (timelineCtr (queues s q)) \<le> sig_value s' (timelineSignal (queues s q)) \<and>
    queues s' q = (queues s q)\<lparr>kernArgsWriteIdx := 0\<rparr>"
proof -
  let ?c = "queues s q"
  obtain s1 where w: "signalWaitCpu G n q (timelineSignal ?c) (timelineCtr ?c) s = (Inr (), s1)"
    and s': "s' = upd_queue q (\<lambda>c. c\<lparr>kernArgsWriteIdx := 0\<rparr>) s1"
    using assms(2,3) by (auto simp: awaitExecution_def bind_eq_Inr)
  show ?thesis using signalWaitCpu_success [OF assms(1) w] by (simp add: s')
qed

text \<open>
  C19: \<open>awaitExecution\<close> never returns too early: when it returns with success, the timeline signal has
  reached the counter, and the argument page is free again; the queue is otherwise unchanged. The
  only ways not to return are a context that asks for blocking waits (an exception, as the code is
  not written) and a signal that is never released.
\<close>

theorem awaitExecution_safe:
  assumes "gpu_frame G" "awaitExecution G n q s = (r, s')" "timelineSignal (queues s q) \<noteq> 0"
  shows "(r = Inr () \<longrightarrow>
      ucast (timelineCtr (queues s q)) \<le> sig_value s' (timelineSignal (queues s q)) \<and>
      queues s' q = (queues s q)\<lparr>kernArgsWriteIdx := 0\<rparr>) \<and>
    (\<forall>e. r = Inl e \<longrightarrow> e = NoReturn \<or>
      e = Throw ''TODO: not yet implemented'' \<and> blocking_only (q_ctx (queues s q)) s)"
proof -
  let ?c = "queues s q"
  let ?p = "timelineSignal ?c" and ?v = "timelineCtr ?c"
  have aw: "awaitExecution G n q s =
      bind (signalWaitCpu G n q ?p ?v) (\<lambda>_. modq q (\<lambda>c. c\<lparr>kernArgsWriteIdx := 0\<rparr>)) s"
    using assms(3) by (simp add: awaitExecution_def)
  show ?thesis
  proof (cases "blocking_only (q_ctx ?c) s")
    case True
    then have "fst (signalWaitCpu G n q ?p ?v s) = Inl (Throw ''TODO: not yet implemented'')"
      using assms(3) by (simp add: signalWaitCpu_def bind_def blocking_only_def)
    then have "r = Inl (Throw ''TODO: not yet implemented'')"
      using assms(2) unfolding aw bind_def by (auto split: prod.splits sum.splits)
    then show ?thesis using True by simp
  next
    case False
    obtain r1 s1 where w: "signalWaitCpu G n q ?p ?v s = (r1, s1)" by fastforce
    show ?thesis
    proof (cases r1)
      case (Inl e)
      have "e = NoReturn"
        using w Inl poll_status unfolding signalWaitCpu_run [OF assms(3) False] by metis
      moreover have "r = Inl e" using assms(2) w Inl unfolding aw bind_def by simp
      ultimately show ?thesis by simp
    next
      case (Inr u)
      have "r = Inr ()" "s' = upd_queue q (\<lambda>c. c\<lparr>kernArgsWriteIdx := 0\<rparr>) s1"
        using assms(2) w Inr unfolding aw bind_def by simp_all
      then show ?thesis using signalWaitCpu_success [OF assms(1)] w Inr by simp
    qed
  qed
qed

text \<open>
  C18: A queue that was started can be awaited: if the GPU eventually performs every release in the
  segments submitted to it, then after a successful \<open>startExecution\<close> the polling loop of
  \<open>awaitExecution\<close> ends and the call succeeds, for every sufficient number of polls. The hypothesis
  on the GPU is the only one about the hardware.
\<close>

theorem await_after_start:
  assumes frame: "gpu_frame G"
    and serves: "\<And>s p v. v \<in> submitted_notifies p (submitted (queues s q)) \<Longrightarrow>
        \<exists>k. ucast v \<le> sig_value ((G ^^ k) s) p"
    and inv: "queue_inv (queues s q)" and start: "startExecution G m q s = (Inr (), s')"
    and spin: "\<not> blocking_only (q_ctx (queues s' q)) s'"
  shows "\<exists>n0. \<forall>n \<ge> n0. \<exists>s''. awaitExecution G n q s' = (Inr (), s'') \<and>
    ucast (timelineCtr (queues s q)) \<le> sig_value s'' (timelineSignal (queues s q))"
proof -
  let ?c = "queues s' q" and ?s = "spin_default (q_ctx (queues s' q)) s'"
  have st: "queue_inv ?c" "timelineCtr ?c \<in> submitted_notifies (timelineSignal ?c) (submitted ?c)"
    using startExecution_inv [OF frame inv start] by simp_all
  have same: "timelineCtr ?c = timelineCtr (queues s q)" "timelineSignal ?c = timelineSignal (queues s q)"
    using startExecution_success [OF frame _ start] inv by (simp_all add: queue_inv_def)
  have p: "timelineSignal ?c \<noteq> 0" using st(1) by (simp add: queue_inv_def queue_wf_def)
  have "timelineCtr ?c \<in> submitted_notifies (timelineSignal ?c) (submitted (queues ?s q))" using st(2) by simp
  from serves [OF this] obtain k where k: "ucast (timelineCtr ?c) \<le> sig_value ((G ^^ k) ?s) (timelineSignal ?c)"
    by blast
  have "\<exists>s''. awaitExecution G n q s' = (Inr (), s'') \<and>
      ucast (timelineCtr (queues s q)) \<le> sig_value s'' (timelineSignal (queues s q))" if n: "k \<le> n" for n
  proof -
    obtain s1 where "signalWaitCpu G n q (timelineSignal ?c) (timelineCtr ?c) s' = (Inr (), s1)"
      using poll_eventually [OF k n] signalWaitCpu_run [OF p spin] by metis
    then have "\<exists>s''. awaitExecution G n q s' = (Inr (), s'')"
      using p by (simp add: awaitExecution_def bind_def)
    then obtain s'' where aw: "awaitExecution G n q s' = (Inr (), s'')" by blast
    then have "ucast (timelineCtr ?c) \<le> sig_value s'' (timelineSignal ?c)"
      using awaitExecution_lower [OF frame aw p] by simp
    then show ?thesis using aw same by simp
  qed
  then show ?thesis by blast
qed

theorem await_after_start_witness:
  "\<exists>s' n s''. startExecution demo_gpu 5 1 demo_busy_drv = (Inr (), s') \<and>
     awaitExecution demo_gpu n 1 s' = (Inr (), s'')"
proof -
  obtain s' where r: "startExecution demo_gpu 5 1 demo_busy_drv = (Inr (), s')"
    and f: "ctx_flags (ctxs s' 1) = 0" using demo_start by blast
  have serves: "\<exists>k. ucast v \<le> sig_value ((demo_gpu ^^ k) s) p"
    if "v \<in> submitted_notifies p (submitted (queues s 1))" for s p v
    using demo_gpu_serves [OF that] by (intro exI [of _ 1]) simp
  have inv: "queue_inv (queues demo_busy_drv 1)" using demo_busy_inv by simp
  have "q_ctx (queues s' 1) = 1"
    using start_keeps_ctx [OF demo_gpu_frame _ r] inv by (simp add: queue_inv_def)
  then have "\<not> blocking_only (q_ctx (queues s' 1)) s'" using f by (simp add: blocking_only_def)
  from await_after_start [OF demo_gpu_frame serves inv r this] show ?thesis using r by blast
qed

theorem awaitExecution_safe_witness:
  "\<exists>s'. awaitExecution demo_gpu 3 1 demo_drv = (Inr (), s') \<and> 2 \<le> sig_value s' 0x1400000000"
proof -
  have nb: "\<not> blocking_only (q_ctx (queues demo_drv 1)) demo_drv"
    by (simp add: blocking_only_def demo_context_def)
  let ?s = "spin_default (q_ctx (queues demo_drv 1)) demo_drv"
  have "(2 :: NvU32) \<in> submitted_notifies 0x1400000000 (submitted (queues ?s 1))"
    by (simp add: submitted_notifies_def notifies_notify)
  from demo_gpu_serves [OF this] have "ucast (2 :: NvU32) \<le> sig_value ((demo_gpu ^^ 1) ?s) 0x1400000000" by simp
  from poll_eventually [OF this, of 3] obtain s1 where "poll demo_gpu 3 0x1400000000 2 ?s = (Inr (), s1)" by auto
  then have "signalWaitCpu demo_gpu 3 1 0x1400000000 2 demo_drv = (Inr (), s1)"
    using signalWaitCpu_run [OF _ nb] by simp
  then have r: "awaitExecution demo_gpu 3 1 demo_drv = (Inr (), upd_queue 1 (\<lambda>c. c\<lparr>kernArgsWriteIdx := 0\<rparr>) s1)"
    by (simp add: awaitExecution_def bind_def)
  from awaitExecution_safe [OF demo_gpu_frame r] show ?thesis using r by auto
qed

section \<open>Properties of events\<close>

definition record_type :: "cmdq \<Rightarrow> QueueType" where
  "record_type c = (case currentQueueType c of Some t \<Rightarrow> t | None \<Rightarrow> COMPUTE)"

text \<open>The queue after the release of \<open>p\<close> was appended, as \<open>recordEvent\<close> leaves it.\<close>

definition recorded :: "NvU64 \<Rightarrow> cmdq \<Rightarrow> cmdq" where
  "recorded p c = app_words (record_type c) (notify_words (record_type c) p 1)
     (if currentQueueType c = None then c\<lparr>currentQueueType := Some COMPUTE\<rparr> else c)"

lemma app_words_type: "(app_words t ws c)\<lparr>currentQueueType := x\<rparr> = app_words t ws (c\<lparr>currentQueueType := x\<rparr>)"
  by (cases c; cases t) (simp_all add: app_words_def set_buf_def)

lemma app_words_free [simp]:
  "app_words t ws (c\<lparr>freeSignals := l\<rparr>) = (app_words t ws c)\<lparr>freeSignals := l\<rparr>"
  by (cases c; cases t) (simp_all add: app_words_def set_buf_def)

lemma record_type_free [simp]: "record_type (c\<lparr>freeSignals := l\<rparr>) = record_type c"
  by (simp add: record_type_def)

lemma recorded_free [simp]:
  "recorded p (c\<lparr>freeSignals := l\<rparr>) = (recorded p c)\<lparr>freeSignals := l\<rparr>"
  by (cases c) (auto simp: recorded_def record_type_def app_words_def set_buf_def
      split: option.split QueueType.split)

lemma same_free: "\<exists>l. c = c\<lparr>freeSignals := l\<rparr>"
  by (rule exI [of _ "freeSignals c"]) simp

definition upd_event :: "nat \<Rightarrow> (cu_event \<Rightarrow> cu_event) \<Rightarrow> 'a drv_scheme \<Rightarrow> 'a drv_scheme" where
  "upd_event ev f s = s\<lparr>events := (events s)(ev := f (events s ev))\<rparr>"

lemma event_fields [simp]:
  "queues (upd_event ev f s) = queues s" "events (upd_event ev f s) ev = f (events s ev)"
  "sig_value (upd_event ev f s) = sig_value s" "upd_event ev f (upd_queue q g s) = upd_queue q g (upd_event ev f s)"
  "upd_event ev f (upd_event ev h s) = upd_event ev (\<lambda>e. f (h e)) s"
  by (simp_all add: upd_event_def upd_queue_def)

lemma mod_event_run [simp]: "mod_event ev f s = (Inr (), upd_event ev f s)"
  by (simp add: mod_event_def upd_event_def)

lemma get_event_run [simp]: "get_event ev f s = (Inr (f (events s ev)), s)"
  by (simp add: get_event_def)

lemma event_signal_simps [simp]:
  "event_signal t (e\<lparr>ev_stream := x\<rparr>) = event_signal t e"
  "event_signal t (set_event_signal t p e) = p"
  by (cases t; simp add: event_signal_def set_event_signal_def)+

text \<open>The signal the event will use, and the queue and event without the appended command.\<close>

definition record_prepare :: "nat \<Rightarrow> nat \<Rightarrow> QueueType \<Rightarrow> 'a drv_scheme \<Rightarrow> (NvU64 \<times> 'a drv_scheme) option" where
  "record_prepare q ev t s =
     (if event_signal t (events s ev) \<noteq> 0 then Some (event_signal t (events s ev), s)
      else case freeSignals (queues s q) of [] \<Rightarrow> None
        | i # is \<Rightarrow> Some (signal_addr (queues s q) i,
            upd_queue q (\<lambda>c. c\<lparr>freeSignals := is\<rparr>)
              (upd_event ev (set_event_signal t (signal_addr (queues s q) i)) s)))"

lemma record_prepare_some:
  assumes "pool_ok (queues s q)" "record_prepare q ev t s = Some (p, s1)"
  shows "p \<noteq> 0" "event_signal t (events s1 ev) = p"
    "\<exists>l. queues s1 q = (queues s q)\<lparr>freeSignals := l\<rparr>" "sig_value s1 = sig_value s"
proof -
  have nz: "signal_addr (queues s q) i \<noteq> 0" if "freeSignals (queues s q) = i # is" for i "is"
    using signal_addr_nonzero [OF assms(1), of i] assms(1) that by (simp add: pool_ok_def)
  show "p \<noteq> 0" "event_signal t (events s1 ev) = p" "sig_value s1 = sig_value s"
    using assms(2) nz by (auto simp: record_prepare_def split: if_splits list.splits)
  show "\<exists>l. queues s1 q = (queues s q)\<lparr>freeSignals := l\<rparr>"
    using assms(2) by (auto simp: record_prepare_def same_free split: if_splits list.splits)
qed

lemma record_on_run:
  assumes "pool_ok (queues s q)"
  shows "record_on q ev t s = (case record_prepare q ev t s of
      None \<Rightarrow> (Inl (Fail LIBRECUDA_ERROR_UNKNOWN), s)
    | Some (p, s1) \<Rightarrow> (Inr (), upd_queue q (app_words t (notify_words t p 1)) s1))"
proof (cases "event_signal t (events s ev) = 0")
  case False
  then show ?thesis by (simp add: record_on_def bind_def record_prepare_def signalNotify_run)
next
  case True
  show ?thesis
  proof (cases "freeSignals (queues s q)")
    case Nil
    then show ?thesis using True
      by (simp add: record_on_def bind_def record_prepare_def obtainSignal_run [OF assms])
  next
    case (Cons i "is")
    then have "signal_addr (queues s q) i \<noteq> 0"
      using signal_addr_nonzero [OF assms, of i] assms by (simp add: pool_ok_def)
    then show ?thesis using True Cons
      by (simp add: record_on_def bind_def record_prepare_def obtainSignal_run [OF assms] signalNotify_run)
  qed
qed

lemma recordEvent_run:
  assumes "pool_ok (queues s q)" "ev \<noteq> 0"
  shows "recordEvent q ev st s =
    (let s0 = upd_event ev (\<lambda>e. e\<lparr>ev_stream := st\<rparr>) s in
     case record_prepare q ev (record_type (queues s q)) s0 of
       None \<Rightarrow> (Inl (Fail LIBRECUDA_ERROR_UNKNOWN), s0)
     | Some (p, s1) \<Rightarrow> (Inr (), upd_queue q (recorded p) s1))"
proof -
  let ?s0 = "upd_event ev (\<lambda>e. e\<lparr>ev_stream := st\<rparr>) s"
  have ok: "pool_ok (queues ?s0 q)" using assms(1) by simp
  have ty: "currentQueueType (queues s1 q) = currentQueueType (queues s q)"
    if "record_prepare q ev (record_type (queues s q)) ?s0 = Some (p, s1)" for p s1
    using record_prepare_some(3) [OF ok that] by auto
  show ?thesis
  proof (cases "currentQueueType (queues s q)")
    case None
    have "recordEvent q ev st s = bind (record_on q ev COMPUTE)
        (\<lambda>_. modq q (\<lambda>c. c\<lparr>currentQueueType := Some COMPUTE\<rparr>)) ?s0"
      using assms(2) None by (simp add: recordEvent_def bind_def)
    moreover have "record_type (queues s q) = COMPUTE" using None by (simp add: record_type_def)
    ultimately show ?thesis
    proof (cases "record_prepare q ev COMPUTE ?s0")
      case (Some x)
      obtain p s1 where "x = (p, s1)" by fastforce
      with Some \<open>record_type (queues s q) = COMPUTE\<close> have
        x: "record_prepare q ev (record_type (queues s q)) ?s0 = Some (p, s1)" by simp
      have "upd_queue q (\<lambda>c. (app_words COMPUTE (notify_words COMPUTE p 1) c)\<lparr>currentQueueType := Some COMPUTE\<rparr>) s1
          = upd_queue q (recorded p) s1"
        using ty [OF x] None by (simp add: upd_queue_def recorded_def record_type_def app_words_type)
      then show ?thesis
        using Some \<open>x = (p, s1)\<close> \<open>record_type (queues s q) = COMPUTE\<close>
          \<open>recordEvent q ev st s = bind (record_on q ev COMPUTE)
            (\<lambda>_. modq q (\<lambda>c. c\<lparr>currentQueueType := Some COMPUTE\<rparr>)) ?s0\<close>
        by (simp add: record_on_run [OF ok] bind_def)
    qed (simp add: record_on_run [OF ok] bind_def)
  next
    case (Some t)
    have rt: "record_type (queues s q) = t" using Some by (simp add: record_type_def)
    have run: "recordEvent q ev st s = record_on q ev t ?s0"
      using assms(2) Some by (cases t) (simp_all add: recordEvent_def bind_def)
    show ?thesis
    proof (cases "record_prepare q ev t ?s0")
      case None
      then show ?thesis by (simp add: run rt record_on_run [OF ok])
    next
      case (Some x)
      obtain p s1 where x: "x = (p, s1)" by fastforce
      have ty1: "currentQueueType (queues s1 q) = Some t"
        using ty [of p s1] Some rt x \<open>currentQueueType (queues s q) = Some t\<close> by simp
      then have "upd_queue q (app_words t (notify_words t p 1)) s1 = upd_queue q (recorded p) s1"
        by (simp add: upd_queue_def recorded_def record_type_def)
      then show ?thesis using Some x by (simp add: run rt record_on_run [OF ok])
    qed
  qed
qed

lemma inv_freeSignals: "queue_inv (c\<lparr>freeSignals := l\<rparr>) = queue_inv c"
  by (simp add: queue_inv_def queue_wf_def queue_covered_def)

lemma inv_recorded: "queue_inv c \<Longrightarrow> queue_inv (recorded p c)"
proof (cases "currentQueueType c")
  case None
  assume inv: "queue_inv c"
  then have "computeCommandBuffer c = []" "dmaCommandBuffer c = []"
    using None by (simp_all add: queue_inv_def queue_wf_def)
  then have "queue_inv (c\<lparr>currentQueueType := Some COMPUTE\<rparr>)"
    using inv_retype [OF inv, of COMPUTE DMA] by simp
  from inv_app_words [OF this, of COMPUTE "notify_words COMPUTE p 1"] show ?thesis
    using None by (simp add: recorded_def record_type_def)
next
  case (Some t)
  assume "queue_inv c"
  then show ?thesis using inv_app_words Some by (simp add: recorded_def record_type_def)
qed


lemma demo_record:
  "\<exists>s'. recordEvent 1 5 1 demo_drv = (Inr (), s') \<and> event_signal COMPUTE (events s' 5) = 0x1400000010"
proof -
  have ok: "pool_ok (queues demo_drv 1)" using demo_pool_ok by simp
  have "(5 :: nat) \<noteq> 0" by simp
  show ?thesis
    unfolding recordEvent_run [OF ok \<open>5 \<noteq> 0\<close>]
    by (simp add: Let_def record_prepare_def record_type_def demo_event_def event_signal_def
        set_event_signal_def signal_addr_def sizeof_NvSignal_def)
qed


lemma signalWaitCpu_status:
  assumes "p \<noteq> 0" "signalWaitCpu G n q p v s = (Inl e, s')"
  shows "e = NoReturn \<or> e = Throw ''TODO: not yet implemented''"
proof (cases "blocking_only (q_ctx (queues s q)) s")
  case True
  then show ?thesis using assms by (simp add: signalWaitCpu_def bind_def blocking_only_def)
next
  case False
  then show ?thesis using assms poll_status signalWaitCpu_run [OF assms(1) False] by metis
qed

definition waited_signal :: "cu_event \<Rightarrow> NvU64" where
  "waited_signal e = (if computeSignal e \<noteq> 0 then computeSignal e else dmaSignal e)"

lemma waitForEvent_run:
  assumes "ev \<noteq> 0" "ev_stream (events s ev) \<noteq> 0" "waited_signal (events s ev) \<noteq> 0"
  shows "waitForEvent G n q ev s = ignore_status (signalWaitCpu G n q (waited_signal (events s ev)) 1) s"
  using assms by (auto simp: waitForEvent_def waited_signal_def bind_def run_when_def split: if_splits)

text \<open>
  C34: \<open>waitForEvent\<close> on a recorded event returns only after the event's signal has been released: it
  drops the status of its wait, but for a non-null signal that status is never an error. The
  timestamp is refused with \<open>LIBRECUDA_ERROR_NOT_READY\<close> until then, and read from the signal after.
\<close>

theorem waitForEvent_correct:
  assumes "ev \<noteq> 0" "ev_stream (events s ev) \<noteq> 0" "waited_signal (events s ev) \<noteq> 0" "gpu_frame G"
  shows "(waitForEvent G n q ev s = (Inr (), s') \<longrightarrow> 1 \<le> sig_value s' (waited_signal (events s ev))) \<and>
    getEventTimestamp ev True s =
      (if sig_value s (waited_signal (events s ev)) = 1
       then (Inr (sig_time s (waited_signal (events s ev))), s)
       else (Inl (Fail LIBRECUDA_ERROR_NOT_READY), s))"
proof -
  let ?p = "waited_signal (events s ev)"
  have "1 \<le> sig_value s' ?p" if w: "waitForEvent G n q ev s = (Inr (), s')"
  proof -
    obtain r s1 where r: "signalWaitCpu G n q ?p 1 s = (r, s1)" by fastforce
    show ?thesis
    proof (cases r)
      case (Inl e)
      then show ?thesis
        using signalWaitCpu_status [OF assms(3)] r w waitForEvent_run [OF assms(1-3)]
        by (fastforce simp: ignore_status_def)
    next
      case (Inr u)
      then have "s' = s1" using r w waitForEvent_run [OF assms(1-3)] by (simp add: ignore_status_def)
      then show ?thesis using signalWaitCpu_success [OF assms(4)] r Inr by force
    qed
  qed
  moreover have "getEventTimestamp ev True s = (if sig_value s ?p = 1 then (Inr (sig_time s ?p), s)
      else (Inl (Fail LIBRECUDA_ERROR_NOT_READY), s))"
    using assms(1-3) by (auto simp: getEventTimestamp_def bind_def waited_signal_def Let_def validate_def)
  ultimately show ?thesis by blast
qed

definition demo_recorded :: drv where
  "demo_recorded = demo_drv\<lparr>events := (\<lambda>_. \<lparr>ev_stream = 1, computeSignal = 0x1400000010, dmaSignal = 0\<rparr>),
     sig_value := (\<lambda>_. 1), sig_time := (\<lambda>_. 77)\<rparr>"

theorem waitForEvent_correct_witness:
  "getEventTimestamp 5 True demo_recorded = (Inr 77, demo_recorded)"
  using waitForEvent_correct [of 5 demo_recorded demo_gpu, OF _ _ _ demo_gpu_frame]
  by (simp add: demo_recorded_def waited_signal_def)

text \<open>
  Recording an event a second time does not reset its signal: when the first recording has
  completed, the event counts as reached right after the second \<open>recordEvent\<close>, although the new
  release has not even been submitted, and its timestamp is the old one.
\<close>

theorem rerecorded_event_is_stale:
  assumes "pool_ok (queues s q)" "ev \<noteq> 0" "st \<noteq> 0" "record_type (queues s q) = COMPUTE"
    and "computeSignal (events s ev) \<noteq> 0" "sig_value s (computeSignal (events s ev)) = 1"
  shows "\<exists>s'. recordEvent q ev st s = (Inr (), s') \<and> submitted (queues s' q) = submitted (queues s q) \<and>
    getEventTimestamp ev True s' = (Inr (sig_time s (computeSignal (events s ev))), s')"
proof -
  let ?s0 = "upd_event ev (\<lambda>e. e\<lparr>ev_stream := st\<rparr>) s" and ?p = "computeSignal (events s ev)"
  let ?s' = "upd_queue q (recorded ?p) ?s0"
  have "record_prepare q ev COMPUTE ?s0 = Some (?p, ?s0)"
    using assms(5) by (simp add: record_prepare_def event_signal_def)
  then have "recordEvent q ev st s = (Inr (), ?s')"
    using recordEvent_run [OF assms(1,2), of st] assms(4) by (simp add: Let_def)
  moreover have "submitted (queues ?s' q) = submitted (queues s q)" by (simp add: recorded_def)
  moreover have "getEventTimestamp ev True ?s' = (Inr (sig_time s ?p), ?s')"
    using assms by (simp add: getEventTimestamp_def bind_def Let_def upd_event_def)
  ultimately show ?thesis by blast
qed

theorem rerecorded_event_is_stale_witness:
  "\<exists>s'. recordEvent 1 5 1 demo_recorded = (Inr (), s') \<and> getEventTimestamp 5 True s' = (Inr 77, s')"
  using rerecorded_event_is_stale [of demo_recorded 1 5 1] demo_pool_ok
  by (auto simp: demo_recorded_def record_type_def)

end
