(* ===== verification/Launch.thy ===== *)
theory Launch
  imports Cmd_Queue Drf
begin

text \<open>
  Launching a kernel (\<open>ensureEnoughLocalMem\<close> and \<open>launchFunction\<close> of
  \<open>driverapi/src/cmdqueue.cpp\<close>): local memory, the constant bank 0 with the arguments behind it,
  the checks of the launch dimensions, the launch descriptor (QMD) and the commands that start it.
\<close>

section \<open>Local memory\<close>

text \<open>
  The overloads of \<open>ceilDiv\<close> take the argument types of each call: the second call has a 64-bit
  and a 32-bit argument, which selects the 32-bit version, so \<open>currentSlmPerThread * 32\<close> is cut.
\<close>

definition slm_per_thread :: "NvU32 \<Rightarrow> NvU64" where
  "slm_per_thread localMemReq = ucast (ceilDiv32 localMemReq 32 * 32)"

definition slm_bytes_per_warp :: "NvU64 \<Rightarrow> NvU64" where
  "slm_bytes_per_warp slm = ucast (ceilDiv32 (ucast (slm * 32)) 0x200 * 0x200)"

definition slm_bytes_per_tpc :: "NvU64 \<Rightarrow> NvU64" where
  "slm_bytes_per_tpc bytes_per_warp = ceilDiv64 (bytes_per_warp * 48 * 2) 0x8000 * 0x8000"

definition slm_bytes :: "NvU64 \<Rightarrow> NvU64" where
  "slm_bytes bytes_per_tpc = ceilDiv64 (bytes_per_tpc * 64) 0x20000 * 0x20000"

definition mod_func :: "nat \<Rightarrow> (func \<Rightarrow> func) \<Rightarrow> ('a drv_scheme, unit) prog" where
  "mod_func fp g = modify (\<lambda>s. s\<lparr>funcs := (funcs s)(fp := g (funcs s fp))\<rparr>)"

definition ensureEnoughLocalMem :: "kern \<Rightarrow> nat \<Rightarrow> nat \<Rightarrow> ('a drv_scheme, unit) prog" where
  "ensureEnoughLocalMem K q fp =
     bind (gets (\<lambda>s. (funcs s fp, queues s q))) (\<lambda>(f, c).
     if ucast (local_mem_req f) \<le> currentSlmPerThread c then succeed
     else
       bind (run_when (shader_local_memory_va f \<noteq> 0) (gpuFree K (q_ctx c) (shader_local_memory_va f))) (\<lambda>_.
       let slm = slm_per_thread (local_mem_req f);
           per_tpc = slm_bytes_per_tpc (slm_bytes_per_warp slm) in
       bind (modq q (\<lambda>c. c\<lparr>currentSlmPerThread := slm\<rparr>)) (\<lambda>_.
       bind (gpuAlloc K (q_ctx c) (slm_bytes per_tpc) True True False 0) (\<lambda>(va, _).
       bind (mod_func fp (\<lambda>f. f\<lparr>shader_local_memory_va := va\<rparr>)) (\<lambda>_.
       bind (enqueue q (makeNvMethod 1 NVC6C0_SET_SHADER_LOCAL_MEMORY_A 2 2)
         [hi_32 va, lo_32 va] COMPUTE) (\<lambda>_.
       enqueue q (makeNvMethod 1 NVC6C0_SET_SHADER_LOCAL_MEMORY_NON_THROTTLED_A 3 2)
         [hi_32 per_tpc, lo_32 per_tpc, 0x40] COMPUTE))))))"

section \<open>Arguments\<close>

text \<open>The first words of constant bank 0; the other 76 of the 88 are zero.\<close>

definition constbuf0 :: "NvU32 list \<Rightarrow> NvU32 list \<Rightarrow> NvU32 list" where
  "constbuf0 block_dim grid_dim = block_dim @ grid_dim @
     [lo_32 shared_mem_window, hi_32 shared_mem_window,
      lo_32 local_mem_window, hi_32 local_mem_window, 0xfffdc0, 0] @ replicate 76 0"

definition sizeof_constbuf0 :: NvU64 where "sizeof_constbuf0 = 352"

text \<open>Little-endian words read from the host memory of an argument.\<close>

definition le_word :: "NvU8 list \<Rightarrow> NvU32" where
  "le_word bs = (case bs of
      [] \<Rightarrow> 0
    | [a] \<Rightarrow> ucast a
    | [a, b] \<Rightarrow> ucast a OR push_bit 8 (ucast b)
    | [a, b, c] \<Rightarrow> ucast a OR push_bit 8 (ucast b) OR push_bit 16 (ucast c)
    | a # b # c # d # _ \<Rightarrow>
        ucast a OR push_bit 8 (ucast b) OR push_bit 16 (ucast c) OR push_bit 24 (ucast d))"

fun le_words :: "nat \<Rightarrow> NvU8 list \<Rightarrow> NvU32 list" where
  "le_words 0 bs = []"
| "le_words (Suc n) bs = le_word (take 4 bs) # le_words n (drop 4 bs)"

text \<open>
  The words one argument becomes: two for eight bytes, one for four, two or one byte, and one per
  four bytes for any other size, which must be a multiple of four.
\<close>

definition param_words :: "nat \<Rightarrow> NvU8 list \<Rightarrow> NvU32 list option" where
  "param_words sz bs =
     (if sz = 8 then Some (le_words 2 bs)
      else if sz = 4 then Some (le_words 1 bs)
      else if sz = 2 then Some [le_word (take 2 bs)]
      else if sz = 1 then Some [le_word (take 1 bs)]
      else if sz mod 4 \<noteq> 0 then None
      else Some (le_words (sz div 4) bs))"

fun write_params :: "NvU64 \<Rightarrow> (KernelParamInfo \<times> NvU8 list) list \<Rightarrow> ('a drv_scheme, unit) prog" where
  "write_params a [] = succeed"
| "write_params a ((p, bs) # ps) =
     (case param_words (unat (param_size p)) bs of
        None \<Rightarrow> fail LIBRECUDA_ERROR_INVALID_VALUE
      | Some ws \<Rightarrow>
          bind (guard_ub (unat (param_size p) \<le> length bs) ''argument shorter than its parameter'') (\<lambda>_.
          bind (write_words a ws) (\<lambda>_. write_params (a + of_nat (length ws) * 4) ps)))"

section \<open>The launch descriptor\<close>

definition QMD_GROUP_ID :: drf where "QMD_GROUP_ID = MW 133 128"
definition SM_GLOBAL_CACHING_ENABLE :: drf where "SM_GLOBAL_CACHING_ENABLE = MW 134 134"
definition INVALIDATE_TEXTURE_HEADER_CACHE :: drf where "INVALIDATE_TEXTURE_HEADER_CACHE = MW 186 186"
definition INVALIDATE_TEXTURE_SAMPLER_CACHE :: drf where "INVALIDATE_TEXTURE_SAMPLER_CACHE = MW 187 187"
definition INVALIDATE_TEXTURE_DATA_CACHE :: drf where "INVALIDATE_TEXTURE_DATA_CACHE = MW 188 188"
definition INVALIDATE_SHADER_DATA_CACHE :: drf where "INVALIDATE_SHADER_DATA_CACHE = MW 189 189"
definition API_VISIBLE_CALL_LIMIT :: drf where "API_VISIBLE_CALL_LIMIT = MW 378 378"
definition SAMPLER_INDEX :: drf where "SAMPLER_INDEX = MW 382 382"
definition CWD_MEMBAR_TYPE :: drf where "CWD_MEMBAR_TYPE = MW 369 368"
definition QMD_MAJOR_VERSION :: drf where "QMD_MAJOR_VERSION = MW 583 580"
definition CONSTANT_BUFFER_INVALIDATE :: "nat \<Rightarrow> drf" where
  "CONSTANT_BUFFER_INVALIDATE i = MW (1074 + i * 64) (1074 + i * 64)"
definition SHARED_MEMORY_SIZE :: drf where "SHARED_MEMORY_SIZE = MW 561 544"
definition MIN_SM_CONFIG_SHARED_MEM_SIZE :: drf where "MIN_SM_CONFIG_SHARED_MEM_SIZE = MW 567 562"
definition MAX_SM_CONFIG_SHARED_MEM_SIZE :: drf where "MAX_SM_CONFIG_SHARED_MEM_SIZE = MW 574 569"
definition REGISTER_COUNT_V :: drf where "REGISTER_COUNT_V = MW 656 648"
definition TARGET_SM_CONFIG_SHARED_MEM_SIZE :: drf where "TARGET_SM_CONFIG_SHARED_MEM_SIZE = MW 662 657"
definition BARRIER_COUNT :: drf where "BARRIER_COUNT = MW 767 763"
definition SHADER_LOCAL_MEMORY_HIGH_SIZE :: drf where "SHADER_LOCAL_MEMORY_HIGH_SIZE = MW 1623 1600"
definition PROGRAM_PREFETCH_SIZE :: drf where "PROGRAM_PREFETCH_SIZE = MW 1649 1641"
definition PROGRAM_ADDRESS_LOWER :: drf where "PROGRAM_ADDRESS_LOWER = MW 1567 1536"
definition PROGRAM_ADDRESS_UPPER :: drf where "PROGRAM_ADDRESS_UPPER = MW 1584 1568"
definition SASS_VERSION :: drf where "SASS_VERSION = MW 1663 1656"
definition PROGRAM_PREFETCH_ADDR_LOWER_SHIFTED :: drf where
  "PROGRAM_PREFETCH_ADDR_LOWER_SHIFTED = MW 287 256"
definition PROGRAM_PREFETCH_ADDR_UPPER_SHIFTED :: drf where
  "PROGRAM_PREFETCH_ADDR_UPPER_SHIFTED = MW 1640 1632"
definition CTA_RASTER_WIDTH :: drf where "CTA_RASTER_WIDTH = MW 415 384"
definition CTA_RASTER_HEIGHT :: drf where "CTA_RASTER_HEIGHT = MW 431 416"
definition CTA_RASTER_DEPTH :: drf where "CTA_RASTER_DEPTH = MW 463 448"
definition CTA_THREAD_DIMENSION0 :: drf where "CTA_THREAD_DIMENSION0 = MW 607 592"
definition CTA_THREAD_DIMENSION1 :: drf where "CTA_THREAD_DIMENSION1 = MW 623 608"
definition CTA_THREAD_DIMENSION2 :: drf where "CTA_THREAD_DIMENSION2 = MW 639 624"
definition CONSTANT_BUFFER_ADDR_UPPER :: "nat \<Rightarrow> drf" where
  "CONSTANT_BUFFER_ADDR_UPPER i = MW (1072 + i * 64) (1056 + i * 64)"
definition CONSTANT_BUFFER_ADDR_LOWER :: "nat \<Rightarrow> drf" where
  "CONSTANT_BUFFER_ADDR_LOWER i = MW (1055 + i * 64) (1024 + i * 64)"
definition CONSTANT_BUFFER_SIZE_SHIFTED4 :: "nat \<Rightarrow> drf" where
  "CONSTANT_BUFFER_SIZE_SHIFTED4 i = MW (1087 + i * 64) (1075 + i * 64)"
definition CONSTANT_BUFFER_VALID :: "nat \<Rightarrow> drf" where
  "CONSTANT_BUFFER_VALID i = MW (640 + i * 1) (640 + i * 1)"

lemmas qmd_field_defs = QMD_GROUP_ID_def SM_GLOBAL_CACHING_ENABLE_def
  INVALIDATE_TEXTURE_HEADER_CACHE_def INVALIDATE_TEXTURE_SAMPLER_CACHE_def
  INVALIDATE_TEXTURE_DATA_CACHE_def INVALIDATE_SHADER_DATA_CACHE_def API_VISIBLE_CALL_LIMIT_def
  SAMPLER_INDEX_def CWD_MEMBAR_TYPE_def QMD_MAJOR_VERSION_def CONSTANT_BUFFER_INVALIDATE_def
  SHARED_MEMORY_SIZE_def MIN_SM_CONFIG_SHARED_MEM_SIZE_def MAX_SM_CONFIG_SHARED_MEM_SIZE_def
  REGISTER_COUNT_V_def TARGET_SM_CONFIG_SHARED_MEM_SIZE_def BARRIER_COUNT_def
  SHADER_LOCAL_MEMORY_HIGH_SIZE_def PROGRAM_PREFETCH_SIZE_def PROGRAM_ADDRESS_LOWER_def
  PROGRAM_ADDRESS_UPPER_def SASS_VERSION_def PROGRAM_PREFETCH_ADDR_LOWER_SHIFTED_def
  PROGRAM_PREFETCH_ADDR_UPPER_SHIFTED_def CTA_RASTER_WIDTH_def CTA_RASTER_HEIGHT_def
  CTA_RASTER_DEPTH_def CTA_THREAD_DIMENSION0_def CTA_THREAD_DIMENSION1_def
  CTA_THREAD_DIMENSION2_def CONSTANT_BUFFER_ADDR_UPPER_def CONSTANT_BUFFER_ADDR_LOWER_def
  CONSTANT_BUFFER_SIZE_SHIFTED4_def CONSTANT_BUFFER_VALID_def

text \<open>The smallest of the shared memory configurations that is large enough.\<close>

definition smem_config :: "NvU32 \<Rightarrow> NvU32" where
  "smem_config shmem_usage =
     (let m = fold (\<lambda>conf m. if conf * 1024 \<ge> shmem_usage then minOf32 (conf * 1024) m else m)
          [32, 64, 100] 0xFFFFFFFF
      in m div 4096 + 1)"

definition constant_writes :: "KernelConstantInfo \<Rightarrow> (drf \<times> NvU64) list" where
  "constant_writes k = (let i = unat (const_nr k) in
     [(CONSTANT_BUFFER_ADDR_UPPER i, ucast (hi_32 (const_address k))),
      (CONSTANT_BUFFER_ADDR_LOWER i, ucast (lo_32 (const_address k))),
      (CONSTANT_BUFFER_SIZE_SHIFTED4 i, const_size k),
      (CONSTANT_BUFFER_VALID i, 1)])"

record launch_dims =
  gridDimX :: NvU32
  gridDimY :: NvU32
  gridDimZ :: NvU32
  blockDimX :: NvU32
  blockDimY :: NvU32
  blockDimZ :: NvU32

definition head_writes :: "func \<Rightarrow> launch_dims \<Rightarrow> NvU32 \<Rightarrow> NvU64 \<Rightarrow> (drf \<times> NvU64) list" where
  "head_writes f d shmem_usage slm = [
     (QMD_GROUP_ID, 0x3F), (SM_GLOBAL_CACHING_ENABLE, 1), (INVALIDATE_TEXTURE_HEADER_CACHE, 1),
     (INVALIDATE_TEXTURE_SAMPLER_CACHE, 1), (INVALIDATE_TEXTURE_DATA_CACHE, 1),
     (INVALIDATE_SHADER_DATA_CACHE, 1), (API_VISIBLE_CALL_LIMIT, 1), (SAMPLER_INDEX, 1),
     (CWD_MEMBAR_TYPE, 1), (QMD_MAJOR_VERSION, 3), (CONSTANT_BUFFER_INVALIDATE 0, 1),
     (SHARED_MEMORY_SIZE, ucast (maxOf32 0x400 (roundUp32 shmem_usage 0x100))),
     (MIN_SM_CONFIG_SHARED_MEM_SIZE, ucast (smem_config shmem_usage)),
     (MAX_SM_CONFIG_SHARED_MEM_SIZE, 0x1A),
     (REGISTER_COUNT_V, ucast (num_registers f)),
     (TARGET_SM_CONFIG_SHARED_MEM_SIZE, ucast (smem_config shmem_usage)),
     (BARRIER_COUNT, 1),
     (SHADER_LOCAL_MEMORY_HIGH_SIZE, slm),
     (PROGRAM_PREFETCH_SIZE, drop_bit 8 (function_size f)),
     (PROGRAM_ADDRESS_LOWER, ucast (lo_32 (func_va_addr f))),
     (PROGRAM_ADDRESS_UPPER, ucast (hi_32 (func_va_addr f))),
     (SASS_VERSION, 0x89),
     (PROGRAM_PREFETCH_ADDR_LOWER_SHIFTED, drop_bit 8 (func_va_addr f)),
     (PROGRAM_PREFETCH_ADDR_UPPER_SHIFTED, drop_bit 40 (func_va_addr f)),
     (CTA_RASTER_WIDTH, ucast (gridDimX d)), (CTA_RASTER_HEIGHT, ucast (gridDimY d)),
     (CTA_RASTER_DEPTH, ucast (gridDimZ d)), (CTA_THREAD_DIMENSION0, ucast (blockDimX d)),
     (CTA_THREAD_DIMENSION1, ucast (blockDimY d)), (CTA_THREAD_DIMENSION2, ucast (blockDimZ d))]"

definition qmd_writes :: "func \<Rightarrow> launch_dims \<Rightarrow> NvU32 \<Rightarrow> NvU64 \<Rightarrow> NvU64 \<Rightarrow> (drf \<times> NvU64) list" where
  "qmd_writes f d shmem_usage slm kernargs_pointer =
     head_writes f d shmem_usage slm @ concat (map constant_writes (constants f)) @
     [(CONSTANT_BUFFER_ADDR_UPPER 0, ucast (hi_32 kernargs_pointer)),
      (CONSTANT_BUFFER_ADDR_LOWER 0, ucast (lo_32 kernargs_pointer))]"

definition qmd_data :: "func \<Rightarrow> launch_dims \<Rightarrow> NvU32 \<Rightarrow> NvU64 \<Rightarrow> NvU64 \<Rightarrow> NvU32 list" where
  "qmd_data f d shmem_usage slm kernargs_pointer =
     FLD_SET_all (qmd_writes f d shmem_usage slm kernargs_pointer) (replicate 64 0)"

section \<open>The launch\<close>

definition max_threads :: "NvU32 \<Rightarrow> NvU32" where
  "max_threads num_regs = 65536 div roundUp32 (maxOf32 1 num_regs * 32) 256 div 4 * 4 * 32"

definition check_launch :: "func \<Rightarrow> launch_dims \<Rightarrow> NvU32 \<Rightarrow> ('s, unit) prog" where
  "check_launch f d sharedMemBytes = block [
     guard_ub (roundUp32 (maxOf32 1 (num_registers f) * 32) 256 \<noteq> 0) ''division by zero'',
     (let shmem_usage = maxOf32 (shared_mem f) sharedMemBytes;
          blockProd = blockDimX d * blockDimY d * blockDimZ d in
      validate (\<not> (shmem_usage > sharedMemBytes \<and>
                  (blockProd > 1024 \<or> max_threads (num_registers f) < blockProd)))
        LIBRECUDA_ERROR_LAUNCH_OUT_OF_RESOURCES),
     validate (blockDimX d < 1024) LIBRECUDA_ERROR_LAUNCH_OUT_OF_RESOURCES,
     validate (blockDimY d < 1024) LIBRECUDA_ERROR_LAUNCH_OUT_OF_RESOURCES,
     validate (blockDimZ d < 64) LIBRECUDA_ERROR_LAUNCH_OUT_OF_RESOURCES,
     validate (gridDimX d < 2147483647) LIBRECUDA_ERROR_LAUNCH_OUT_OF_RESOURCES,
     validate (gridDimY d < 65535) LIBRECUDA_ERROR_LAUNCH_OUT_OF_RESOURCES,
     validate (gridDimZ d < 65535) LIBRECUDA_ERROR_LAUNCH_OUT_OF_RESOURCES]"

definition invalidate_caches :: NvU32 where
  "invalidate_caches = push_bit 12 1 OR push_bit 4 1 OR push_bit 0 1"

text \<open>The local memory and the waits before the arguments are written.\<close>

definition launch_prepare :: "kern \<Rightarrow> nat \<Rightarrow> nat \<Rightarrow> bool \<Rightarrow> ('a drv_scheme, unit) prog" where
  "launch_prepare K q fp async =
     bind (switch_to q COMPUTE DMA) (\<lambda>_.
     bind (ensureEnoughLocalMem K q fp) (\<lambda>_.
     bind (gets (\<lambda>s. queues s q)) (\<lambda>c.
     bind (run_when (\<not> async \<and> timelineNotifyPending c)
       (bind (signalNotify q (timelineSignal c) (timelineCtr c) COMPUTE) (\<lambda>_.
        modq q (\<lambda>c. c\<lparr>timelineNotifyPending := False\<rparr>)))) (\<lambda>_.
     run_when (\<not> async) (signalWaitGpu q (timelineSignal c) (timelineCtr c))))))"

definition kernargs_size :: "func \<Rightarrow> NvU64" where
  "kernargs_size f = roundUp64 (const_size (constants f ! 0)) (push_bit 8 1) + push_bit 8 8"

text \<open>Constant bank 0 and the arguments; the address of the bank is the result.\<close>

definition launch_args ::
  "nat \<Rightarrow> func \<Rightarrow> launch_dims \<Rightarrow> NvU8 list list \<Rightarrow> NvU64 \<Rightarrow> ('a drv_scheme, NvU64) prog" where
  "launch_args q f d params numParams =
     bind (validate (constants f \<noteq> []) LIBRECUDA_ERROR_INVALID_IMAGE) (\<lambda>_.
     bind (allocKernArgs q (kernargs_size f)) (\<lambda>kernargs_pointer.
     bind (validate (sizeof_constbuf0 < kernargs_size f) LIBRECUDA_ERROR_INVALID_IMAGE) (\<lambda>_.
     bind (write_words kernargs_pointer
       (constbuf0 [blockDimX d, blockDimY d, blockDimZ d] [gridDimX d, gridDimY d, gridDimZ d])) (\<lambda>_.
     bind (validate (sizeof_constbuf0 + numParams * 2 * 4 < kernargs_size f)
       LIBRECUDA_ERROR_INVALID_IMAGE) (\<lambda>_.
     bind (guard_ub (length (param_info f) \<le> length params) ''params'') (\<lambda>_.
     bind (write_params (kernargs_pointer + sizeof_constbuf0) (zip (param_info f) params)) (\<lambda>_.
     ret kernargs_pointer)))))))"

text \<open>The descriptor behind the arguments and the commands that launch it.\<close>

definition launch_commands ::
  "nat \<Rightarrow> func \<Rightarrow> launch_dims \<Rightarrow> NvU32 \<Rightarrow> NvU64 \<Rightarrow> ('a drv_scheme, unit) prog" where
  "launch_commands q f d sharedMemBytes kernargs_pointer =
     bind (getq q currentSlmPerThread) (\<lambda>slm.
     let shmem_usage = maxOf32 (shared_mem f) sharedMemBytes;
         ws = qmd_writes f d shmem_usage slm kernargs_pointer in
     bind (guard_ub (list_all (\<lambda>(fld, _). DRF_WORD_MW fld < 64) ws) ''QMD index out of range'') (\<lambda>_.
     bind (enqueue q (makeNvMethod 1 NVC6C0_INVALIDATE_SHADER_CACHES_NO_WFI 1 2)
       [invalidate_caches] COMPUTE) (\<lambda>_.
     let qmd_addr = kernargs_pointer + roundUp64 (const_size (constants f ! 0)) (push_bit 8 1) in
     bind (write_words qmd_addr (qmd_data f d shmem_usage slm kernargs_pointer)) (\<lambda>_.
     bind (enqueue q (makeNvMethod 1 NVC6C0_SEND_PCAS_A 1 2) [ucast (drop_bit 8 qmd_addr)] COMPUTE) (\<lambda>_.
     enqueue q (makeNvMethod 1 NVC6C0_SEND_SIGNALING_PCAS2_B 1 2) [0x9] COMPUTE)))))"

definition launchFunction ::
  "kern \<Rightarrow> nat \<Rightarrow> nat \<Rightarrow> launch_dims \<Rightarrow> NvU32 \<Rightarrow> NvU8 list list \<Rightarrow> NvU64 \<Rightarrow> bool \<Rightarrow>
    ('a drv_scheme, unit) prog" where
  "launchFunction K q fp d sharedMemBytes params numParams async =
     bind (validate (fp \<noteq> 0) LIBRECUDA_ERROR_INVALID_VALUE) (\<lambda>_.
     bind (gets (\<lambda>s. funcs s fp)) (\<lambda>f0.
     bind (validate (numParams = of_nat (length (param_info f0))) LIBRECUDA_ERROR_INVALID_VALUE) (\<lambda>_.
     bind (launch_prepare K q fp async) (\<lambda>_.
     bind (gets (\<lambda>s. funcs s fp)) (\<lambda>f.
     bind (launch_args q f d params numParams) (\<lambda>kernargs_pointer.
     bind (check_launch f d sharedMemBytes) (\<lambda>_.
     bind (launch_commands q f d sharedMemBytes kernargs_pointer) (\<lambda>_.
     finish_command q COMPUTE async))))))))"

end
