(* ===== verification/Launch_Proofs.thy ===== *)
theory Launch_Proofs
  imports Launch Queue_Properties
begin

text \<open>
  The lemmas on \<open>Launch\<close>: what each stage of \<open>launchFunction\<close> does to the queue and to memory, for
  every answer of the kernel, and the commands it appends.
\<close>

section \<open>Local memory\<close>

text \<open>The memory functions leave the state of streams, events, functions and GPU memory alone.\<close>

definition same_drv :: "'a drv_scheme \<Rightarrow> 'a drv_scheme \<Rightarrow> bool" where
  "same_drv s s' \<longleftrightarrow> queues s' = queues s \<and> funcs s' = funcs s \<and> events s' = events s \<and>
     sig_value s' = sig_value s \<and> sig_time s' = sig_time s \<and> wmem s' = wmem s \<and> drv.more s' = drv.more s"

lemma same_drv_refl [simp]: "same_drv s s"
  by (simp add: same_drv_def)

lemma same_drv_trans: "same_drv a b \<Longrightarrow> same_drv b c \<Longrightarrow> same_drv a c"
  by (simp add: same_drv_def)

lemma ignores_log_same_drv [simp]: "ignores_log (same_drv s)"
  by (simp add: ignores_log_def same_drv_def)

lemma preserves_same_drv_vm:
  "preserves (same_drv s) (modify_ctx c f)"
  "preserves (same_drv s) (modify (\<lambda>s. s\<lparr>hostMappedPtrs := g s\<rparr>))"
  "preserves (same_drv s) (modify (\<lambda>s. s\<lparr>va_to_mem_handle := h s\<rparr>))"
  "preserves (same_drv s) (modify (\<lambda>s. s\<lparr>va_to_mem_handle := h s, hostMappedPtrs := g s\<rparr>))"
  by (auto simp: preserves_def modify_ctx_def same_drv_def)

lemma gpuAlloc_same_drv: "gpuAlloc K c sz ph hp host fl s = (r, s') \<Longrightarrow> same_drv s s'"
proof -
  have "preserves (same_drv s) (gpuAlloc K c sz ph hp host fl)"
    unfolding gpuAlloc_def memUVMMap_def memMapToCpu_def open_for_map_def bump_alloc_virtual_addr_def Let_def
    by (auto intro!: presI preserves_same_drv_vm split: prod.splits)
  then show "gpuAlloc K c sz ph hp host fl s = (r, s') \<Longrightarrow> same_drv s s'"
    using preservesD same_drv_refl by metis
qed

lemma gpuFree_same_drv: "gpuFree K c va s = (r, s') \<Longrightarrow> same_drv s s'"
proof -
  have "preserves (same_drv s) (gpuFree K c va)"
    unfolding gpuFree_def
    by (auto intro!: presI preserves_same_drv_vm split: prod.splits option.splits)
  then show "gpuFree K c va s = (r, s') \<Longrightarrow> same_drv s s'"
    using preservesD same_drv_refl by metis
qed

text \<open>The words that point the GPU to new local memory; they start nothing.\<close>

definition slm_words :: "NvU64 \<Rightarrow> NvU64 \<Rightarrow> NvU32 list" where
  "slm_words va per_tpc =
     call_words 1 NVC6C0_SET_SHADER_LOCAL_MEMORY_A [hi_32 va, lo_32 va] @
     call_words 1 NVC6C0_SET_SHADER_LOCAL_MEMORY_NON_THROTTLED_A [hi_32 per_tpc, lo_32 per_tpc, 0x40]"

lemma emits_slm: "emits (slm_words va n) []"
proof -
  have "slm_words va n = concat (map (\<lambda>(s, m, a). call_words s m a)
      [(1, NVC6C0_SET_SHADER_LOCAL_MEMORY_A, [hi_32 va, lo_32 va]),
       (1, NVC6C0_SET_SHADER_LOCAL_MEMORY_NON_THROTTLED_A, [hi_32 n, lo_32 n, 0x40])])"
    by (simp add: slm_words_def)
  then show ?thesis
    by (simp only:) (rule emits_calls,
      simp add: calls_ok, simp add: Let_def trigger_def reg_file_def register_defs)
qed

text \<open>
  The queue after \<open>ensureEnoughLocalMem\<close>, however it ends: only the size on record and words without
  an effect of their own can be new.
\<close>

definition slm_queue :: "NvU64 \<Rightarrow> NvU32 list \<Rightarrow> cmdq \<Rightarrow> cmdq" where
  "slm_queue x ws c = app_words COMPUTE ws (c\<lparr>currentSlmPerThread := x\<rparr>)"

definition slm_effect :: "nat \<Rightarrow> NvU64 \<Rightarrow> NvU32 list \<Rightarrow> 'a drv_scheme \<Rightarrow> 'a drv_scheme \<Rightarrow> bool" where
  "slm_effect q x ws s s' \<longleftrightarrow> emits ws [] \<and> queues s' = (queues s)(q := slm_queue x ws (queues s q)) \<and>
     (\<forall>p. \<exists>v. funcs s' p = (funcs s p)\<lparr>shader_local_memory_va := v\<rparr>) \<and>
     events s' = events s \<and> sig_value s' = sig_value s \<and> sig_time s' = sig_time s \<and> wmem s' = wmem s"

lemma same_func: "\<exists>v. f = f\<lparr>shader_local_memory_va := v\<rparr>"
  by (rule exI [of _ "shader_local_memory_va f"]) simp

lemma slm_queue_same [simp]: "slm_queue (currentSlmPerThread c) [] c = c"
  by (simp add: slm_queue_def)

lemma slm_queue_Nil: "c\<lparr>currentSlmPerThread := x\<rparr> = slm_queue x [] c"
  by (simp add: slm_queue_def)

lemma same_drv_slm:
  assumes "same_drv s s'"
  shows "slm_effect q (currentSlmPerThread (queues s q)) [] s s'"
  using assms same_func by (auto simp: same_drv_def slm_effect_def)

lemma ensure_alloc:
  assumes run: "bind (gpuAlloc K (q_ctx c) n True True False 0) (\<lambda>(va, _).
      bind (mod_func fp (\<lambda>f. f\<lparr>shader_local_memory_va := va\<rparr>)) (\<lambda>_.
      bind (enqueue q (makeNvMethod 1 NVC6C0_SET_SHADER_LOCAL_MEMORY_A 2 2)
        [hi_32 va, lo_32 va] COMPUTE) (\<lambda>_.
      enqueue q (makeNvMethod 1 NVC6C0_SET_SHADER_LOCAL_MEMORY_NON_THROTTLED_A 3 2)
        [hi_32 m, lo_32 m, 0x40] COMPUTE))) (upd_queue q (\<lambda>c. c\<lparr>currentSlmPerThread := x\<rparr>) s) = (r, s')"
  shows "\<exists>ws. slm_effect q x ws s s'"
proof -
  let ?s1 = "upd_queue q (\<lambda>c. c\<lparr>currentSlmPerThread := x\<rparr>) s"
  obtain r2 s2 where a: "gpuAlloc K (q_ctx c) n True True False 0 ?s1 = (r2, s2)" by fastforce
  then have same: "same_drv ?s1 s2" by (rule gpuAlloc_same_drv)
  have q2: "queues s2 = (queues s)(q := slm_queue x [] (queues s q))"
    using same by (auto simp: same_drv_def upd_queue_def slm_queue_def)
  show ?thesis
  proof (cases r2)
    case (Inl e)
    then have "s' = s2" using run a by (simp add: bind_def)
    then have "slm_effect q x [] s s'" using same q2 same_func by (auto simp: slm_effect_def same_drv_def)
    then show ?thesis by blast
  next
    case (Inr p)
    obtain va h where p: "p = (va, h)" by fastforce
    let ?s3 = "s2\<lparr>funcs := (funcs s2)(fp := (funcs s2 fp)\<lparr>shader_local_memory_va := va\<rparr>)\<rparr>"
    have s': "s' = upd_queue q (app_words COMPUTE (slm_words va m)) ?s3"
      using run a Inr p by (simp add: bind_def mod_func_def enqueue_run calls_ok slm_words_def)
    have "queues s' = (queues s)(q := slm_queue x (slm_words va m) (queues s q))"
      by (simp add: s' upd_queue_def q2 slm_queue_def)
    then have "slm_effect q x (slm_words va m) s s'"
      using same same_func emits_slm by (auto simp: slm_effect_def same_drv_def s')
    then show ?thesis by blast
  qed
qed

lemma slm_effect_same: "same_drv s s1 \<Longrightarrow> slm_effect q x ws s1 s' \<Longrightarrow> slm_effect q x ws s s'"
  by (simp add: same_drv_def slm_effect_def)

lemma ensure_outcome:
  assumes run: "ensureEnoughLocalMem K q fp s = (r, s')"
  shows "\<exists>x ws. slm_effect q x ws s s' \<and>
    (r = Inr () \<longrightarrow> x = (if ucast (local_mem_req (funcs s fp)) \<le> currentSlmPerThread (queues s q)
       then currentSlmPerThread (queues s q) else slm_per_thread (local_mem_req (funcs s fp))))"
proof (cases "ucast (local_mem_req (funcs s fp)) \<le> currentSlmPerThread (queues s q)")
  case True
  then have "s' = s" using run by (simp add: ensureEnoughLocalMem_def)
  then show ?thesis using True same_drv_slm [OF same_drv_refl, of q s] by auto
next
  case False
  let ?f = "funcs s fp" and ?c = "queues s q"
  obtain r1 s1 where f: "run_when (shader_local_memory_va ?f \<noteq> 0)
      (gpuFree K (q_ctx ?c) (shader_local_memory_va ?f)) s = (r1, s1)" by fastforce
  have same: "same_drv s s1"
    using f gpuFree_same_drv by (cases "shader_local_memory_va ?f = 0") (auto simp: run_when_def)
  show ?thesis
  proof (cases r1)
    case (Inl e)
    then have "s' = s1" "r = Inl e" using run f False by (simp_all add: ensureEnoughLocalMem_def bind_def)
    then show ?thesis using same_drv_slm [OF same] by blast
  next
    case (Inr u)
    have "\<exists>ws. slm_effect q (slm_per_thread (local_mem_req ?f)) ws s1 s'"
      by (rule ensure_alloc [of K ?c])
        (use run f False Inr in \<open>auto simp: ensureEnoughLocalMem_def bind_def Let_def\<close>)
    then obtain ws where "slm_effect q (slm_per_thread (local_mem_req ?f)) ws s s'"
      using slm_effect_same [OF same] by blast
    then show ?thesis using False by auto
  qed
qed

text \<open>The size on record is enough after a successful call, for requirements that do not wrap.\<close>

lemma slm_per_thread_enough:
  assumes "unat req + 32 < 2 ^ 32"
  shows "ucast req \<le> slm_per_thread req \<and> unat (slm_per_thread req) < unat req + 32"
proof -
  have "unat (ceilDiv32 req 32 * 32) = round_up (unat req) 32"
    using unat_roundUp32 [of 32 req] assms by (simp add: roundUp32_def)
  then show ?thesis
    using round_up_ge [of 32 "unat req"] round_up_less [of 32 "unat req"]
    by (simp add: slm_per_thread_def word_le_nat_alt)
qed

section \<open>The waits before a launch\<close>

definition sync_words :: "cmdq \<Rightarrow> bool \<Rightarrow> NvU64 \<Rightarrow> NvU32 list" where
  "sync_words c async v =
     (if async then [] else
        (if timelineNotifyPending c then notify_words COMPUTE (timelineSignal c) (timelineCtr c) else []) @
        (if v = ucast (timelineCtr c) then [] else wait_words (timelineSignal c) (timelineCtr c)))"

definition sync_ops :: "cmdq \<Rightarrow> bool \<Rightarrow> NvU64 \<Rightarrow> gpu_op list" where
  "sync_ops c async v =
     (if async then [] else
        (if timelineNotifyPending c then [Release (timelineSignal c) (ucast (timelineCtr c))] else []) @
        (if v = ucast (timelineCtr c) then [] else [Acquire (timelineSignal c) (ucast (timelineCtr c))]))"

lemma emits_sync: "emits (sync_words c async v) (sync_ops c async v)"
proof -
  have "emits (if b then ws else []) (if b then ops else [])" if "emits ws ops" for b ws ops
    using that by simp
  then show ?thesis
    unfolding sync_words_def sync_ops_def
    using emits_append [OF emits_notify emits_wait] emits_notify emits_wait by auto
qed

definition synced :: "bool \<Rightarrow> NvU64 \<Rightarrow> cmdq \<Rightarrow> cmdq" where
  "synced async v c = app_words COMPUTE (sync_words c async v)
     (c\<lparr>timelineNotifyPending := timelineNotifyPending c \<and> async\<rparr>)"

lemma app_words_pending: "(app_words t ws c)\<lparr>timelineNotifyPending := b\<rparr> =
    app_words t ws (c\<lparr>timelineNotifyPending := b\<rparr>)"
  by (cases c; cases t) (simp_all add: app_words_def set_buf_def)

lemma pending_off: "\<not> timelineNotifyPending c \<Longrightarrow> c\<lparr>timelineNotifyPending := False\<rparr> = (c :: cmdq)"
  by (cases c) simp

text \<open>The tail of \<open>launch_prepare\<close>, behind the local memory.\<close>

lemma sync_run:
  assumes "timelineSignal (queues s q) \<noteq> 0"
  shows "bind (run_when (\<not> async \<and> timelineNotifyPending (queues s q))
       (bind (signalNotify q (timelineSignal (queues s q)) (timelineCtr (queues s q)) COMPUTE) (\<lambda>_.
        modq q (\<lambda>c. c\<lparr>timelineNotifyPending := False\<rparr>))))
     (\<lambda>_. run_when (\<not> async) (signalWaitGpu q (timelineSignal (queues s q)) (timelineCtr (queues s q)))) s =
     (Inr (), upd_queue q (synced async (sig_value s (timelineSignal (queues s q)))) s)"
proof -
  have same: "c\<lparr>timelineNotifyPending := timelineNotifyPending c\<rparr> = c" for c :: cmdq by simp
  show ?thesis
  proof (cases async)
    case True
    have "upd_queue q (synced True v) s = s" for v
      by (simp add: upd_queue_def synced_def sync_words_def)
    then show ?thesis using True by simp
  next
    case False
    show ?thesis
    proof (cases "timelineNotifyPending (queues s q)")
      case True
      then show ?thesis using False assms
        by (simp add: bind_def signalNotify_run signalWaitGpu_run synced_def [abs_def] sync_words_def
            upd_queue_def app_words_pending)
    next
      case pend: False
      then show ?thesis using False assms
        by (simp add: signalWaitGpu_run synced_def sync_words_def upd_queue_def pending_off)
    qed
  qed
qed

lemma launch_prepare_outcome:
  assumes run: "launch_prepare K q fp async s = (r, s')" and p: "timelineSignal (queues s q) \<noteq> 0"
  defines "c1 \<equiv> switched COMPUTE DMA (queues s q)"
  shows "\<exists>x ws c'. emits ws [] \<and> queues s' = (queues s)(q := c') \<and> wmem s' = wmem s \<and>
    sig_value s' = sig_value s \<and> (\<forall>p. \<exists>v. funcs s' p = (funcs s p)\<lparr>shader_local_memory_va := v\<rparr>) \<and>
    ((\<exists>e. r = Inl e) \<and> c' = slm_queue x ws c1 \<or>
     r = Inr () \<and> c' = synced async (sig_value s (timelineSignal (queues s q))) (slm_queue x ws c1) \<and>
       x = (if ucast (local_mem_req (funcs s fp)) \<le> currentSlmPerThread c1 then currentSlmPerThread c1
            else slm_per_thread (local_mem_req (funcs s fp))))"
proof -
  let ?s1 = "upd_queue q (switched COMPUTE DMA) s"
  obtain r2 s2 where e: "ensureEnoughLocalMem K q fp ?s1 = (r2, s2)" by fastforce
  obtain x ws where sl: "slm_effect q x ws ?s1 s2"
    and x: "r2 = Inr () \<longrightarrow> x = (if ucast (local_mem_req (funcs s fp)) \<le> currentSlmPerThread c1 then currentSlmPerThread c1
            else slm_per_thread (local_mem_req (funcs s fp)))"
    using ensure_outcome [OF e] by (auto simp: c1_def)
  have q2: "queues s2 = (queues s)(q := slm_queue x ws c1)"
    using sl by (simp add: slm_effect_def upd_queue_def c1_def)
  have fr: "wmem s2 = wmem s" "sig_value s2 = sig_value s" "emits ws []"
    "\<forall>p. \<exists>v. funcs s2 p = (funcs s p)\<lparr>shader_local_memory_va := v\<rparr>"
    using sl by (simp_all add: slm_effect_def)
  have ts: "timelineSignal (queues s2 q) = timelineSignal (queues s q)"
    by (simp add: q2 slm_queue_def c1_def)
  show ?thesis
  proof (cases r2)
    case (Inl e)
    then have "s' = s2" "r = Inl e" using run assms(2) \<open>ensureEnoughLocalMem K q fp ?s1 = (r2, s2)\<close>
      by (simp_all add: launch_prepare_def bind_def switch_run)
    then show ?thesis using q2 fr by blast
  next
    case (Inr u)
    have "(r, s') = (Inr (), upd_queue q (synced async (sig_value s2 (timelineSignal (queues s2 q)))) s2)"
      using run Inr sync_run [of s2 q async] p ts \<open>ensureEnoughLocalMem K q fp ?s1 = (r2, s2)\<close>
      by (simp add: launch_prepare_def bind_run_Inr [where m = "switch_to q COMPUTE DMA", OF switch_run]
          bind_run_Inr [where m = "ensureEnoughLocalMem K q fp"])
    then have rs: "r = Inr ()" "s' = upd_queue q (synced async (sig_value s (timelineSignal (queues s q)))) s2"
      using fr ts by simp_all
    have "queues s' = (queues s)(q := synced async (sig_value s (timelineSignal (queues s q))) (slm_queue x ws c1))"
      by (simp add: rs(2) upd_queue_def q2)
    then show ?thesis using rs fr x Inr by auto
  qed
qed

section \<open>Arguments\<close>

text \<open>The words of all arguments, one behind the other.\<close>

fun args_words :: "(KernelParamInfo \<times> NvU8 list) list \<Rightarrow> NvU32 list option" where
  "args_words [] = Some []"
| "args_words ((p, bs) # ps) =
     (if unat (param_size p) \<le> length bs
      then (case (param_words (unat (param_size p)) bs, args_words ps) of
              (Some ws, Some vs) \<Rightarrow> Some (ws @ vs) | _ \<Rightarrow> None) else None)"

lemma store_words_append:
  "store_words a (xs @ ys) m = store_words (a + of_nat (length xs) * 4) ys (store_words a xs m)"
  by (induction xs arbitrary: a m) (simp_all add: algebra_simps)

lemma write_words_run [simp]: "write_words a ws s = (Inr (), s\<lparr>wmem := store_words a ws (wmem s)\<rparr>)"
  by (simp add: write_words_def)

lemma bind_write_words [simp]:
  "bind (write_words a ws) f s = f () (s\<lparr>wmem := store_words a ws (wmem s)\<rparr>)"
  by (simp add: write_words_def)

lemma write_params_success:
  "write_params a ps s = (Inr u, s') \<Longrightarrow>
    \<exists>ws. args_words ps = Some ws \<and> s' = s\<lparr>wmem := store_words a ws (wmem s)\<rparr>"
proof (induction a ps arbitrary: s rule: write_params.induct)
  case (1 a)
  then show ?case by simp
next
  case (2 a p bs ps)
  from 2(2) obtain ws where w: "param_words (unat (param_size p)) bs = Some ws"
    and l: "unat (param_size p) \<le> length bs"
    and rest: "write_params (a + of_nat (length ws) * 4) ps (s\<lparr>wmem := store_words a ws (wmem s)\<rparr>) = (Inr u, s')"
    by (cases "param_words (unat (param_size p)) bs") (auto simp: bind_eq_Inr guard_ub_eq_Inr)
  from 2(1) [OF w rest] w l show ?case by (auto simp: store_words_append)
qed

lemma write_params_ok:
  "args_words ps = Some ws \<Longrightarrow> write_params a ps s = (Inr (), s\<lparr>wmem := store_words a ws (wmem s)\<rparr>)"
proof (induction a ps arbitrary: s ws rule: write_params.induct)
  case (1 a)
  then show ?case by simp
next
  case (2 a p bs ps)
  then obtain w v where "unat (param_size p) \<le> length bs" "param_words (unat (param_size p)) bs = Some w"
    "args_words ps = Some v" "ws = w @ v"
    by (auto split: if_splits option.splits)
  then show ?case using 2(1) [of w] by (simp add: store_words_append)
qed

lemma write_params_frame: "preserves (\<lambda>s. P (queues s) (sig_value s)) (write_params a ps)"
proof (induction a ps rule: write_params.induct)
  case (1 a)
  then show ?case by (simp add: presI)
next
  case (2 a p bs ps)
  then show ?case
    by (auto intro!: presI preserves_modify simp: write_words_def split: option.split)
qed

text \<open>The queue with the page offset advanced, and memory with the bank and the arguments.\<close>

definition cb0_of :: "launch_dims \<Rightarrow> NvU32 list" where
  "cb0_of d = constbuf0 [blockDimX d, blockDimY d, blockDimZ d] [gridDimX d, gridDimY d, gridDimZ d]"

lemma length_cb0 [simp]: "length (cb0_of d) = 88"
  by (simp add: cb0_of_def constbuf0_def)

lemma launch_args_success:
  assumes "launch_args q f d params n s = (Inr kp, s')"
  obtains ws where "args_words (zip (param_info f) params) = Some ws" "constants f \<noteq> []"
    "length (param_info f) \<le> length params"
    "kp = kernArgsPageVa (queues s q) + kernArgsWriteIdx (queues s q)"
    "kernArgsWriteIdx (queues s q) + kernargs_size f \<le> KERNARGS_PAGE_SIZE"
    "s' = (upd_queue q (\<lambda>c. c\<lparr>kernArgsWriteIdx := kernArgsWriteIdx c + kernargs_size f\<rparr>) s)
       \<lparr>wmem := store_words kp (cb0_of d @ ws) (wmem s)\<rparr>"
proof -
  let ?idx = "\<lambda>c. c\<lparr>kernArgsWriteIdx := kernArgsWriteIdx c + kernargs_size f\<rparr>"
  let ?s1 = "upd_queue q ?idx s"
  have ok: "constants f \<noteq> []" "length (param_info f) \<le> length params"
    "kp = kernArgsPageVa (queues s q) + kernArgsWriteIdx (queues s q)"
    "kernArgsWriteIdx (queues s q) + kernargs_size f \<le> KERNARGS_PAGE_SIZE"
    using assms by (auto simp: launch_args_def bind_eq_Inr validate_eq_Inr guard_ub_eq_Inr
        allocKernArgs_run Let_def not_less split: if_splits)
  have "\<exists>u. write_params (kp + sizeof_constbuf0) (zip (param_info f) params)
      (?s1\<lparr>wmem := store_words kp (cb0_of d) (wmem s)\<rparr>) = (Inr u, s')"
    using assms by (auto simp: launch_args_def bind_eq_Inr validate_eq_Inr guard_ub_eq_Inr
        allocKernArgs_run Let_def cb0_of_def split: if_splits)
  then obtain ws where w: "args_words (zip (param_info f) params) = Some ws"
    "s' = ?s1\<lparr>wmem := store_words kp (cb0_of d) (wmem s)\<rparr>
       \<lparr>wmem := store_words (kp + sizeof_constbuf0) ws (store_words kp (cb0_of d) (wmem s))\<rparr>"
    using write_params_success by fastforce
  have "s' = ?s1\<lparr>wmem := store_words kp (cb0_of d @ ws) (wmem s)\<rparr>"
    by (simp add: w(2) store_words_append sizeof_constbuf0_def)
  then show thesis using that w(1) ok by blast
qed

text \<open>However it ends, only the page offset of the queue and memory have changed.\<close>

lemma launch_args_frame:
  assumes "launch_args q f d params n s = (r, s')"
  shows "sig_value s' = sig_value s \<and> (\<exists>i. queues s' = (queues s)(q := (queues s q)\<lparr>kernArgsWriteIdx := i\<rparr>))"
proof -
  let ?I = "\<lambda>s'. sig_value s' = sig_value s \<and> (\<exists>i. queues s' = (queues s)(q := (queues s q)\<lparr>kernArgsWriteIdx := i\<rparr>))"
  have init: "?I s"
    by (auto intro: exI [of _ "kernArgsWriteIdx (queues s q)"])
  have a: "preserves ?I (allocKernArgs q (kernargs_size f))"
    by (auto simp: preserves_def allocKernArgs_run Let_def upd_queue_def)
  have w: "preserves ?I (write_words x ws)" for x ws
    by (auto simp: preserves_def)
  have p: "preserves ?I (write_params x ps)" for x ps
    by (rule write_params_frame [of "\<lambda>Q V. V = sig_value s \<and> (\<exists>i. Q = (queues s)(q := (queues s q)\<lparr>kernArgsWriteIdx := i\<rparr>))"])
  have "preserves ?I (launch_args q f d params n)"
    unfolding launch_args_def by (intro presI a w p)
  from preservesD [OF this init assms] show ?thesis .
qed

section \<open>The commands of a launch\<close>

definition launch_words :: "NvU64 \<Rightarrow> NvU32 list" where
  "launch_words qmd_addr =
     call_words 1 NVC6C0_INVALIDATE_SHADER_CACHES_NO_WFI [invalidate_caches] @
     call_words 1 NVC6C0_SEND_PCAS_A [ucast (drop_bit 8 qmd_addr)] @
     call_words 1 NVC6C0_SEND_SIGNALING_PCAS2_B [0x9]"

lemma launch_words_nonempty [simp]: "launch_words a \<noteq> []"
  by (simp add: launch_words_def call_words_def)

lemma emits_launch: "emits (launch_words a) [LaunchQmd (push_bit 8 (ucast (ucast (drop_bit 8 a) :: NvU32)))]"
proof -
  have "launch_words a = concat (map (\<lambda>(s, m, x). call_words s m x)
      [(1, NVC6C0_INVALIDATE_SHADER_CACHES_NO_WFI, [invalidate_caches]),
       (1, NVC6C0_SEND_PCAS_A, [ucast (drop_bit 8 a)]), (1, NVC6C0_SEND_SIGNALING_PCAS2_B, [0x9])])"
    by (simp add: launch_words_def)
  then show ?thesis
    by (simp only:) (rule emits_calls,
      simp add: calls_ok, simp add: Let_def trigger_def reg_file_def register_defs)
qed

text \<open>The descriptor register holds bits 8 to 39 of the address.\<close>

lemma pcas_address:
  assumes "take_bit 8 a = 0" "a < 2 ^ 40"
  shows "push_bit 8 (ucast (ucast (drop_bit 8 a) :: NvU32)) = (a :: NvU64)"
proof (rule bit_word_eqI)
  fix n assume "n < LENGTH(64)"
  have "\<not> bit a n" if "n < 8" using arg_cong [OF assms(1), of "\<lambda>x. bit x n"] that by (simp add: bit_take_bit_iff)
  moreover have "\<not> bit a n" if "40 \<le> n" using bit_less_exp [of a 40 n] assms(2) that by auto
  ultimately show "bit (push_bit 8 (ucast (ucast (drop_bit 8 a) :: NvU32)) :: NvU64) n = bit a n"
    using \<open>n < LENGTH(64)\<close> by (cases "n < 8"; cases "n < 40") (auto simp: bit_simps not_less)
qed

definition qmd_address :: "func \<Rightarrow> NvU64 \<Rightarrow> NvU64" where
  "qmd_address f kp = kp + roundUp64 (const_size (constants f ! 0)) (push_bit 8 1)"

lemma launch_commands_run:
  "launch_commands q f d sm kp s =
    (let slm = currentSlmPerThread (queues s q); u = maxOf32 (shared_mem f) sm in
     if list_all (\<lambda>(fld, _). DRF_WORD_MW fld < 64) (qmd_writes f d u slm kp)
     then (Inr (), (upd_queue q (app_words COMPUTE (launch_words (qmd_address f kp))) s)
             \<lparr>wmem := store_words (qmd_address f kp) (qmd_data f d u slm kp) (wmem s)\<rparr>)
     else (Inl (UB ''QMD index out of range''), s))"
  by (simp add: launch_commands_def Let_def bind_def enqueue_run calls_ok launch_words_def
      qmd_address_def upd_queue_def)

section \<open>The whole launch\<close>

text \<open>What \<open>check_launch\<close> lets through.\<close>

definition regs_ok :: "func \<Rightarrow> bool" where
  "regs_ok f \<longleftrightarrow> roundUp32 (maxOf32 1 (num_registers f) * 32) 256 \<noteq> 0"

definition launch_ok :: "func \<Rightarrow> launch_dims \<Rightarrow> NvU32 \<Rightarrow> bool" where
  "launch_ok f d sm \<longleftrightarrow>
     (let n = blockDimX d * blockDimY d * blockDimZ d in
      shared_mem f \<le> sm \<or> n \<le> 1024 \<and> n \<le> max_threads (num_registers f)) \<and>
     blockDimX d < 1024 \<and> blockDimY d < 1024 \<and> blockDimZ d < 64 \<and>
     gridDimX d < 2147483647 \<and> gridDimY d < 65535 \<and> gridDimZ d < 65535"

lemma check_launch_run:
  assumes "regs_ok f"
  shows "check_launch f d sm s =
    (if launch_ok f d sm then Inr () else Inl (Fail LIBRECUDA_ERROR_LAUNCH_OUT_OF_RESOURCES), s)"
  using assms
  by (auto simp: check_launch_def regs_ok_def launch_ok_def maxOf32_def Let_def validate_def)

lemma check_launch_regs:
  "\<not> regs_ok f \<Longrightarrow> check_launch f d sm s = (Inl (UB ''division by zero''), s)"
  by (simp add: check_launch_def regs_ok_def)

lemma check_launch_success: "check_launch f d sm s = (Inr u, s') \<Longrightarrow> s' = s \<and> regs_ok f \<and> launch_ok f d sm"
  by (cases "regs_ok f") (auto simp: check_launch_run check_launch_regs split: if_splits)

lemma check_launch_frame: "check_launch f d sm s = (r, s') \<Longrightarrow> s' = s"
  by (cases "regs_ok f") (auto simp: check_launch_run check_launch_regs)

definition launched :: "bool \<Rightarrow> NvU64 \<Rightarrow> NvU64 \<Rightarrow> NvU32 list \<Rightarrow> NvU64 \<Rightarrow> NvU64 \<Rightarrow> cmdq \<Rightarrow> cmdq" where
  "launched async v x ws i qa c = finished COMPUTE async (app_words COMPUTE (launch_words qa)
     ((synced async v (slm_queue x ws (switched COMPUTE DMA c)))\<lparr>kernArgsWriteIdx := i\<rparr>))"

lemma switched_kernargs [simp]:
  "kernArgsPageVa (switched t o' c) = kernArgsPageVa c" "kernArgsWriteIdx (switched t o' c) = kernArgsWriteIdx c"
  "currentSlmPerThread (switched t o' c) = currentSlmPerThread c" "q_ctx (switched t o' c) = q_ctx c"
  by (simp_all add: switched_def backlogged_def)

lemma slm_queue_fields [simp]:
  "kernArgsPageVa (slm_queue x ws c) = kernArgsPageVa c" "kernArgsWriteIdx (slm_queue x ws c) = kernArgsWriteIdx c"
  "timelineSignal (slm_queue x ws c) = timelineSignal c" "currentSlmPerThread (slm_queue x ws c) = x"
  by (simp_all add: slm_queue_def)

lemma synced_fields [simp]:
  "kernArgsPageVa (synced a v c) = kernArgsPageVa c" "kernArgsWriteIdx (synced a v c) = kernArgsWriteIdx c"
  "timelineSignal (synced a v c) = timelineSignal c" "currentSlmPerThread (synced a v c) = currentSlmPerThread c"
  by (simp_all add: synced_def)

text \<open>Nothing but the local memory address of a function changes on the way.\<close>

lemma func_slm [simp]:
  "qmd_data (f\<lparr>shader_local_memory_va := v\<rparr>) d u x kp = qmd_data f d u x kp"
  "kernargs_size (f\<lparr>shader_local_memory_va := v\<rparr>) = kernargs_size f"
  "qmd_address (f\<lparr>shader_local_memory_va := v\<rparr>) kp = qmd_address f kp"
  "launch_ok (f\<lparr>shader_local_memory_va := v\<rparr>) d sm = launch_ok f d sm"
  "regs_ok (f\<lparr>shader_local_memory_va := v\<rparr>) = regs_ok f"
  by (simp_all add: qmd_data_def qmd_writes_def head_writes_def kernargs_size_def qmd_address_def
      launch_ok_def regs_ok_def)

lemma launch_success:
  assumes run: "launchFunction K q fp d sm params n async s = (Inr u, s')" and p: "timelineSignal (queues s q) \<noteq> 0"
  defines "c \<equiv> queues s q" and "f \<equiv> funcs s fp"
  defines "kp \<equiv> kernArgsPageVa c + kernArgsWriteIdx c"
  shows "fp \<noteq> 0 \<and> n = of_nat (length (param_info f)) \<and> constants f \<noteq> [] \<and>
    length (param_info f) \<le> length params \<and>
    kernArgsWriteIdx c + kernargs_size f \<le> KERNARGS_PAGE_SIZE \<and> regs_ok f \<and> launch_ok f d sm \<and>
    (\<exists>x ws args. emits ws [] \<and> args_words (zip (param_info f) params) = Some args \<and>
      x = (if ucast (local_mem_req f) \<le> currentSlmPerThread c then currentSlmPerThread c
           else slm_per_thread (local_mem_req f)) \<and>
      queues s' = (queues s)(q := launched async (sig_value s (timelineSignal c)) x ws
        (kernArgsWriteIdx c + kernargs_size f) (qmd_address f kp) c) \<and>
      wmem s' = store_words (qmd_address f kp) (qmd_data f d (maxOf32 (shared_mem f) sm) x kp)
        (store_words kp (cb0_of d @ args) (wmem s)))"
proof -
  let ?v = "sig_value s (timelineSignal c)"
  have fp: "fp \<noteq> 0" "n = of_nat (length (param_info f))"
    using run by (auto simp: launchFunction_def bind_eq_Inr validate_eq_Inr f_def)
  obtain v1 s1 where p1: "launch_prepare K q fp async s = (Inr v1, s1)"
    and r1: "bind (gets (\<lambda>s. funcs s fp)) (\<lambda>f. bind (launch_args q f d params n) (\<lambda>kp.
      bind (check_launch f d sm) (\<lambda>_. bind (launch_commands q f d sm kp) (\<lambda>_. finish_command q COMPUTE async)))) s1 = (Inr u, s')"
    using run by (auto simp: launchFunction_def bind_eq_Inr validate_eq_Inr)
  obtain x ws where w: "emits ws []" "wmem s1 = wmem s" "sig_value s1 = sig_value s"
    "queues s1 = (queues s)(q := synced async ?v (slm_queue x ws (switched COMPUTE DMA c)))"
    "\<exists>v. funcs s1 fp = f\<lparr>shader_local_memory_va := v\<rparr>"
    and x: "x = (if ucast (local_mem_req f) \<le> currentSlmPerThread c then currentSlmPerThread c
         else slm_per_thread (local_mem_req f))"
    using launch_prepare_outcome [OF p1 p] by (auto simp: c_def f_def)
  obtain f' l where f': "f' = f\<lparr>shader_local_memory_va := l\<rparr>" "funcs s1 fp = f'" using w(5) by blast
  obtain kq s2 where a: "launch_args q f' d params n s1 = (Inr kq, s2)"
    and r2: "bind (check_launch f' d sm) (\<lambda>_. bind (launch_commands q f' d sm kq) (\<lambda>_. finish_command q COMPUTE async)) s2 = (Inr u, s')"
    using r1 f'(2) by (auto simp: bind_eq_Inr)
  obtain args where args: "args_words (zip (param_info f) params) = Some args" "constants f \<noteq> []"
    "length (param_info f) \<le> length params" "kq = kp" "kernArgsWriteIdx c + kernargs_size f \<le> KERNARGS_PAGE_SIZE"
    "queues s2 q = (queues s1 q)\<lparr>kernArgsWriteIdx := kernArgsWriteIdx c + kernargs_size f\<rparr>"
    "\<forall>p. p \<noteq> q \<longrightarrow> queues s2 p = queues s1 p"
    "wmem s2 = store_words kp (cb0_of d @ args) (wmem s)"
    by (rule launch_args_success [OF a]) (auto simp: f'(1) w kp_def c_def upd_queue_def)
  have ok: "regs_ok f" "launch_ok f d sm"
    and r3: "bind (launch_commands q f' d sm kp) (\<lambda>_. finish_command q COMPUTE async) s2 = (Inr u, s')"
    using r2 args(4) by (auto simp: bind_eq_Inr f'(1) dest!: check_launch_success)
  let ?s3 = "(upd_queue q (app_words COMPUTE (launch_words (qmd_address f kp))) s2)
     \<lparr>wmem := store_words (qmd_address f kp) (qmd_data f d (maxOf32 (shared_mem f) sm) x kp) (wmem s2)\<rparr>"
  have "finish_command q COMPUTE async ?s3 = (Inr u, s')"
    using r3 args(6) w(4)
    by (auto simp: bind_eq_Inr launch_commands_run Let_def f'(1) split: if_splits)
  moreover have ts: "timelineSignal (queues ?s3 q) \<noteq> 0" using p w(4) args(6) by (simp add: c_def)
  ultimately have s': "s' = upd_queue q (finished COMPUTE async) ?s3"
    unfolding finish_run [OF ts] by simp
  have q': "queues s' = (queues s)(q := launched async ?v x ws (kernArgsWriteIdx c + kernargs_size f) (qmd_address f kp) c)"
  proof
    fix k
    show "queues s' k = ((queues s)(q := launched async ?v x ws (kernArgsWriteIdx c + kernargs_size f) (qmd_address f kp) c)) k"
      by (cases "k = q") (simp_all add: s' upd_queue_def launched_def args(6,7) w(4))
  qed
  have "wmem s' = store_words (qmd_address f kp) (qmd_data f d (maxOf32 (shared_mem f) sm) x kp)
      (store_words kp (cb0_of d @ args) (wmem s))"
    by (simp add: s' args(8))
  then show ?thesis using fp args ok w(1) x q' by blast
qed

section \<open>The invariant\<close>

lemma inv_slm_kernargs [simp]:
  "queue_inv (c\<lparr>currentSlmPerThread := x\<rparr>) = queue_inv c"
  "queue_inv (c\<lparr>kernArgsWriteIdx := i\<rparr>) = queue_inv c"
  by (simp_all add: queue_inv_def queue_wf_def queue_covered_def)

lemma emits_well_formed: "emits ws ops \<Longrightarrow> well_formed ws"
  by (auto simp: well_formed_def)

lemma inv_slm_queue:
  "queue_inv c \<Longrightarrow> currentQueueType c = Some COMPUTE \<Longrightarrow> emits ws [] \<Longrightarrow> queue_inv (slm_queue x ws c)"
  unfolding slm_queue_def by (rule inv_app_words) (auto dest: emits_well_formed)

lemma inv_synced:
  assumes inv: "queue_inv c" and ty: "currentQueueType c = Some COMPUTE"
  shows "queue_inv (synced async v c)"
proof -
  let ?ws = "sync_words c async v"
  have wf: "well_formed ?ws" using emits_sync emits_well_formed by blast
  have a: "queue_inv (app_words COMPUTE ?ws c)" by (rule inv_app_words [OF inv ty wf])
  have n: "timelineCtr c \<in> notifies (timelineSignal c) (computeCommandBuffer c @ ?ws)"
    if "timelineNotifyPending c" "\<not> async"
  proof -
    have "well_formed (computeCommandBuffer c)" using inv by (simp add: queue_inv_def queue_wf_def)
    moreover have "timelineCtr c \<in> notifies (timelineSignal c) ?ws"
      using that notifies_notify by (simp add: sync_words_def notifies_append)
    ultimately show ?thesis using wf by (simp add: notifies_append)
  qed
  show ?thesis
  proof (cases "timelineNotifyPending c \<and> \<not> async")
    case False
    then have "c\<lparr>timelineNotifyPending := timelineNotifyPending c \<and> async\<rparr> = c" by (cases c) auto
    then show ?thesis using a by (simp only: synced_def)
  next
    case True
    then show ?thesis using a n by (auto simp: synced_def app_words_pending [symmetric]
        queue_inv_def queue_wf_def queue_covered_def Let_def)
  qed
qed

lemma synced_type [simp]: "currentQueueType (synced async v c) = currentQueueType c"
  "currentQueueType (slm_queue x ws c) = currentQueueType c"
  by (simp_all add: synced_def slm_queue_def)

lemma inv_launched:
  assumes "queue_inv c" "emits ws []"
  shows "queue_inv (launched async v x ws i qa c)"
proof -
  let ?c1 = "switched COMPUTE DMA c"
  have c1: "queue_inv ?c1" "currentQueueType ?c1 = Some COMPUTE"
    using inv_switched [OF assms(1), of COMPUTE DMA] by simp_all
  then have "queue_inv (synced async v (slm_queue x ws ?c1))"
    using inv_synced inv_slm_queue assms(2) by simp
  moreover have "well_formed (launch_words qa)" using emits_launch emits_well_formed by blast
  ultimately show ?thesis unfolding launched_def
    using c1 by (intro inv_finished inv_app_words) simp_all
qed

text \<open>
  The stages behind \<open>launch_prepare\<close> keep this predicate of a queue in compute mode, whether they
  succeed or not.
\<close>

definition launch_mode :: "nat \<Rightarrow> (nat \<Rightarrow> cmdq) \<Rightarrow> (NvU64 \<Rightarrow> NvU64) \<Rightarrow> 'a drv_scheme \<Rightarrow> bool" where
  "launch_mode q Q V s \<longleftrightarrow> queue_inv (queues s q) \<and> currentQueueType (queues s q) = Some COMPUTE \<and>
     (\<forall>p. p \<noteq> q \<longrightarrow> queues s p = Q p) \<and> sig_value s = V"

lemma launch_args_mode: "preserves (launch_mode q Q V) (launch_args q f d params n)"
proof -
  have "launch_mode q Q V s'" if "launch_mode q Q V s" "launch_args q f d params n s = (r, s')" for s s' r
    using launch_args_frame [OF that(2)] that(1) by (auto simp: launch_mode_def)
  then show ?thesis unfolding preserves_def by (metis prod.collapse)
qed

lemma check_launch_mode: "preserves (launch_mode q Q V) (check_launch f d sm)"
  unfolding preserves_def using check_launch_frame by (metis prod.collapse)

lemma commands_mode:
  "preserves (launch_mode q Q V) (bind (launch_commands q f d sm kp) (\<lambda>_. finish_command q COMPUTE async))"
  unfolding preserves_def
proof (intro allI impI)
  fix s assume m: "launch_mode q Q V s"
  let ?u = "maxOf32 (shared_mem f) sm" and ?x = "currentSlmPerThread (queues s q)"
  let ?lw = "launch_words (qmd_address f kp)"
  let ?s1 = "(upd_queue q (app_words COMPUTE ?lw) s)
     \<lparr>wmem := store_words (qmd_address f kp) (qmd_data f d ?u ?x kp) (wmem s)\<rparr>"
  show "launch_mode q Q V (snd (bind (launch_commands q f d sm kp) (\<lambda>_. finish_command q COMPUTE async) s))"
  proof (cases "list_all (\<lambda>(fld, _). DRF_WORD_MW fld < 64) (qmd_writes f d ?u ?x kp)")
    case False
    then show ?thesis using m by (simp add: bind_def launch_commands_run)
  next
    case True
    have ts: "timelineSignal (queues ?s1 q) \<noteq> 0" using m by (simp add: launch_mode_def queue_inv_def queue_wf_def)
    have "bind (launch_commands q f d sm kp) (\<lambda>_. finish_command q COMPUTE async) s =
        (Inr (), upd_queue q (finished COMPUTE async) ?s1)"
      using True finish_run [OF ts, of COMPUTE async] by (simp add: bind_def launch_commands_run Let_def)
    moreover have "well_formed ?lw" using emits_launch emits_well_formed by blast
    then have "queue_inv (finished COMPUTE async (app_words COMPUTE ?lw (queues s q)))"
      using m by (intro inv_finished inv_app_words) (simp_all add: launch_mode_def)
    ultimately show ?thesis using m
      by (simp add: launch_mode_def) (simp add: upd_queue_def finished_def Let_def)
  qed
qed

lemma launchFunction_inv:
  assumes run: "launchFunction K q fp d sm params n async s = (r, s')" and inv: "queue_inv (queues s q)"
  shows "queue_inv (queues s' q) \<and> (\<forall>p. p \<noteq> q \<longrightarrow> queues s' p = queues s p) \<and> sig_value s' = sig_value s"
proof (cases "fp \<noteq> 0 \<and> n = of_nat (length (param_info (funcs s fp)))")
  case False
  then have "s' = s" using run by (cases "fp = 0") (auto simp: launchFunction_def)
  then show ?thesis using inv by simp
next
  case True
  let ?c1 = "switched COMPUTE DMA (queues s q)"
  let ?rest = "bind (gets (\<lambda>s. funcs s fp)) (\<lambda>f. bind (launch_args q f d params n) (\<lambda>kp.
      bind (check_launch f d sm) (\<lambda>_. bind (launch_commands q f d sm kp) (\<lambda>_. finish_command q COMPUTE async))))"
  have p: "timelineSignal (queues s q) \<noteq> 0" using inv by (simp add: queue_inv_def queue_wf_def)
  have c1: "queue_inv ?c1" "currentQueueType ?c1 = Some COMPUTE"
    using inv_switched [OF inv, of COMPUTE DMA] by simp_all
  have rest: "preserves (launch_mode q (queues s) (sig_value s)) ?rest"
    by (rule preserves_bind [OF preserves_gets], rule preserves_bind [OF launch_args_mode],
        rule preserves_bind [OF check_launch_mode], rule commands_mode)
  obtain r1 s1 where p1: "launch_prepare K q fp async s = (r1, s1)" by fastforce
  then obtain x ws c' where w: "emits ws []" "queues s1 = (queues s)(q := c')" "sig_value s1 = sig_value s"
    "c' = slm_queue x ws ?c1 \<or> c' = synced async (sig_value s (timelineSignal (queues s q))) (slm_queue x ws ?c1)"
    using launch_prepare_outcome [OF p1 p] by blast
  then have m1: "launch_mode q (queues s) (sig_value s) s1"
    using c1 inv_synced inv_slm_queue [OF c1 w(1)] by (auto simp: launch_mode_def)
  have all: "launchFunction K q fp d sm params n async s = bind (launch_prepare K q fp async) (\<lambda>_. ?rest) s"
    using True by (simp add: launchFunction_def)
  have "launch_mode q (queues s) (sig_value s) s'"
  proof (cases r1)
    case (Inl e)
    then show ?thesis using run m1 p1 unfolding all by (simp add: bind_def)
  next
    case (Inr u)
    have "bind (launch_prepare K q fp async) (\<lambda>_. ?rest) s = ?rest s1" by (rule bind_run_Inr) (simp add: p1 Inr)
    then have "?rest s1 = (r, s')" using run unfolding all by simp
    then show ?thesis by (rule preservesD [OF rest m1])
  qed
  then show ?thesis by (simp add: launch_mode_def)
qed

end
