(* ===== verification/Launch_Properties.thy ===== *)
theory Launch_Properties
  imports Launch_Proofs Qmd_Tables
begin

text \<open>
  What launching a kernel guarantees: the descriptor holds the launch's parameters, the arguments lie
  where the kernel reads them, the checks of the dimensions and of the shared memory configuration,
  the commands handed to the GPU, and the invariant of the queue under every operation.
\<close>

section \<open>The descriptor\<close>

definition const_fields :: "nat \<Rightarrow> drf list" where
  "const_fields i = [CONSTANT_BUFFER_ADDR_UPPER i, CONSTANT_BUFFER_ADDR_LOWER i,
     CONSTANT_BUFFER_SIZE_SHIFTED4 i, CONSTANT_BUFFER_VALID i]"

definition head_fields :: "drf list" where
  "head_fields = [QMD_GROUP_ID, SM_GLOBAL_CACHING_ENABLE, INVALIDATE_TEXTURE_HEADER_CACHE,
     INVALIDATE_TEXTURE_SAMPLER_CACHE, INVALIDATE_TEXTURE_DATA_CACHE,
     INVALIDATE_SHADER_DATA_CACHE, API_VISIBLE_CALL_LIMIT, SAMPLER_INDEX,
     CWD_MEMBAR_TYPE, QMD_MAJOR_VERSION, CONSTANT_BUFFER_INVALIDATE 0, SHARED_MEMORY_SIZE,
     MIN_SM_CONFIG_SHARED_MEM_SIZE, MAX_SM_CONFIG_SHARED_MEM_SIZE, REGISTER_COUNT_V,
     TARGET_SM_CONFIG_SHARED_MEM_SIZE, BARRIER_COUNT, SHADER_LOCAL_MEMORY_HIGH_SIZE,
     PROGRAM_PREFETCH_SIZE, PROGRAM_ADDRESS_LOWER, PROGRAM_ADDRESS_UPPER, SASS_VERSION,
     PROGRAM_PREFETCH_ADDR_LOWER_SHIFTED, PROGRAM_PREFETCH_ADDR_UPPER_SHIFTED,
     CTA_RASTER_WIDTH, CTA_RASTER_HEIGHT, CTA_RASTER_DEPTH, CTA_THREAD_DIMENSION0,
     CTA_THREAD_DIMENSION1, CTA_THREAD_DIMENSION2]"

definition used_fields :: "drf list" where
  "used_fields = head_fields @ concat (map const_fields [0, 1, 2, 3, 4, 5, 6, 7])"

lemma used_ok: "layout_ok used_fields"
  by (rule layout_okI) (simp add: used_fields_def head_fields_def const_fields_def qmd_field_defs)

lemma used_disj:
  assumes "f \<in> set used_fields" "g \<in> set used_fields"
  shows "drf_ok 64 f \<and> (g = f \<or> drf_disj f g)"
proof -
  obtain i j where i: "i < length used_fields" "f = used_fields ! i"
    and j: "j < length used_fields" "g = used_fields ! j"
    using assms by (auto simp: in_set_conv_nth)
  have "drf_ok 64 f" using used_ok assms(1) by (auto simp: layout_ok_def list_all_iff)
  moreover have "g = f \<or> drf_disj f g"
    using layout_okD [OF used_ok, of i j] layout_okD [OF used_ok, of j i] i j drf_disj_sym
    by (metis linorder_neqE_nat)
  ultimately show ?thesis by simp
qed

lemma fst_head_writes: "map fst (head_writes f d u slm) = head_fields"
  by (simp add: head_writes_def head_fields_def)

lemma fst_constant_writes: "map fst (constant_writes k) = const_fields (unat (const_nr k))"
  by (simp add: constant_writes_def const_fields_def Let_def)

lemma const_fields_used: "i < 8 \<Longrightarrow> set (const_fields i) \<subseteq> set used_fields"
proof -
  assume "i < 8"
  then have "i \<in> {0, 1, 2, 3, 4, 5, 6, 7}" by auto
  then show ?thesis by (auto simp: used_fields_def)
qed

lemma const_fields_distinct: "i \<noteq> j \<Longrightarrow> set (const_fields i) \<inter> set (const_fields j) = {}"
  by (auto simp: const_fields_def qmd_field_defs)

lemma head_const_distinct: "i < 8 \<Longrightarrow> set head_fields \<inter> set (const_fields i) = {}"
proof -
  assume "i < 8"
  then have "i \<in> {0, 1, 2, 3, 4, 5, 6, 7}" by auto
  then show ?thesis by (elim insertE emptyE) (simp_all add: const_fields_def head_fields_def qmd_field_defs)
qed

lemma head_distinct: "distinct head_fields"
  by (simp add: head_fields_def qmd_field_defs)

lemma const_distinct: "distinct (const_fields i)"
  by (simp add: const_fields_def qmd_field_defs)

definition constants_ok :: "func \<Rightarrow> bool" where
  "constants_ok f \<longleftrightarrow> distinct (map const_nr (constants f)) \<and> (\<forall>k \<in> set (constants f). unat (const_nr k) < 8)"

lemma const_writes_distinct:
  "distinct (map const_nr ks) \<Longrightarrow> distinct (map fst (concat (map constant_writes ks)))"
proof (induction ks)
  case (Cons k ks)
  have "set (const_fields (unat (const_nr k))) \<inter> set (const_fields (unat (const_nr j))) = {}" if "j \<in> set ks" for j
  proof (rule const_fields_distinct)
    have "const_nr k \<noteq> const_nr j" using Cons.prems that by (auto simp: image_iff)
    then show "unat (const_nr k) \<noteq> unat (const_nr j)" by (metis unsigned_word_eqI)
  qed
  then have "set (map fst (constant_writes k)) \<inter> set (map fst (concat (map constant_writes ks))) = {}"
    unfolding fst_constant_writes by (force simp: map_concat fst_constant_writes)
  moreover have "distinct (map fst (constant_writes k))" unfolding fst_constant_writes by (rule const_distinct)
  ultimately show ?case using Cons by simp
qed simp

lemma writes_used:
  assumes "constants_ok f" "g \<in> fst ` set (qmd_writes f d u slm kp)"
  shows "g \<in> set used_fields"
proof -
  have h: "fst ` set (head_writes f d u slm) \<subseteq> set used_fields"
    using fst_head_writes [of f d u slm] by (metis list.set_map used_fields_def set_append Un_upper1)
  have c: "fst x \<in> set used_fields" if "k \<in> set (constants f)" "x \<in> set (constant_writes k)" for k x
    using fst_constant_writes [of k] const_fields_used [of "unat (const_nr k)"] assms(1) that
    by (metis constants_ok_def image_eqI list.set_map subsetD)
  have z: "CONSTANT_BUFFER_ADDR_UPPER 0 \<in> set used_fields" "CONSTANT_BUFFER_ADDR_LOWER 0 \<in> set used_fields"
    by (simp_all add: used_fields_def const_fields_def)
  obtain x where x: "x \<in> set (qmd_writes f d u slm kp)" "g = fst x" using assms(2) by blast
  then consider "x \<in> set (head_writes f d u slm)" | k where "k \<in> set (constants f)" "x \<in> set (constant_writes k)"
    | "g = CONSTANT_BUFFER_ADDR_UPPER 0" | "g = CONSTANT_BUFFER_ADDR_LOWER 0"
    unfolding qmd_writes_def by auto
  then show ?thesis by cases (use h c z x in auto)
qed

lemma read_qmd:
  assumes "constants_ok f" "map_of (rev (qmd_writes f d u slm kp)) g = Some n"
  shows "DRF_VAL_MW g (qmd_data f d u slm kp) = drf_cut g n"
proof -
  have g: "g \<in> set used_fields"
    using writes_used [OF assms(1)] map_of_SomeD [OF assms(2)] by force
  have "DRF_VAL_MW g (FLD_SET_all (qmd_writes f d u slm kp) (replicate 64 0)) =
      (case map_of (rev (qmd_writes f d u slm kp)) g of None \<Rightarrow> DRF_VAL_MW g (replicate 64 0) | Some n \<Rightarrow> drf_cut g n)"
  proof (rule drf_read_written)
    show "drf_ok (length (replicate 64 (0 :: NvU32))) g" using used_disj [OF g g] by simp
    fix h m assume "(h, m) \<in> set (qmd_writes f d u slm kp)"
    then have "h \<in> set used_fields" using writes_used [OF assms(1)] by force
    then show "drf_ok (length (replicate 64 (0 :: NvU32))) h \<and> (h = g \<or> drf_disj g h)"
      using used_disj [OF g] used_disj [of h h] by simp
  qed
  then show ?thesis by (simp add: qmd_data_def assms(2))
qed

lemma map_of_rev_distinct:
  "distinct (map fst ws) \<Longrightarrow> (g, n) \<in> set ws \<Longrightarrow> map_of (rev ws) g = Some n"
  by (subst map_of_eq_Some_iff) (simp_all flip: rev_map)

lemma map_of_rev_absent: "g \<notin> fst ` set ws \<Longrightarrow> map_of (rev ws) g = None"
  by (simp add: map_of_eq_None_iff)

lemma qmd_head_field:
  assumes "constants_ok f" "(g, n) \<in> set (head_writes f d u slm)"
  shows "DRF_VAL_MW g (qmd_data f d u slm kp) = drf_cut g n"
proof (rule read_qmd [OF assms(1)])
  have g: "g \<in> set head_fields" using assms(2) fst_head_writes [of f d u slm] by (metis list.set_map fst_conv image_eqI)
  have "g \<notin> fst ` set (concat (map constant_writes (constants f)))"
  proof
    assume "g \<in> fst ` set (concat (map constant_writes (constants f)))"
    then obtain k x where k: "k \<in> set (constants f)" "x \<in> set (constant_writes k)" "g = fst x" by auto
    then have "g \<in> set (const_fields (unat (const_nr k)))"
      using fst_constant_writes [of k] by (metis image_eqI list.set_map)
    moreover have "unat (const_nr k) < 8" using assms(1) k(1) by (simp add: constants_ok_def)
    ultimately show False using g head_const_distinct by blast
  qed
  moreover have "g \<noteq> CONSTANT_BUFFER_ADDR_UPPER 0" "g \<noteq> CONSTANT_BUFFER_ADDR_LOWER 0"
    using g head_const_distinct [of 0] by (auto simp: const_fields_def)
  moreover have "map_of (rev (head_writes f d u slm)) g = Some n"
    by (rule map_of_rev_distinct) (simp_all add: fst_head_writes head_distinct assms(2))
  ultimately show "map_of (rev (qmd_writes f d u slm kp)) g = Some n"
    by (simp add: qmd_writes_def map_add_def map_of_rev_absent)
qed

lemma qmd_constant_field:
  assumes "constants_ok f" "k \<in> set (constants f)" "(g, n) \<in> set (constant_writes k)"
    and "g \<noteq> CONSTANT_BUFFER_ADDR_UPPER 0" "g \<noteq> CONSTANT_BUFFER_ADDR_LOWER 0"
  shows "DRF_VAL_MW g (qmd_data f d u slm kp) = drf_cut g n"
proof (rule read_qmd [OF assms(1)])
  have "map_of (rev (concat (map constant_writes (constants f)))) g = Some n"
    by (rule map_of_rev_distinct)
      (use assms in \<open>auto simp: constants_ok_def intro!: const_writes_distinct\<close>)
  then show "map_of (rev (qmd_writes f d u slm kp)) g = Some n"
    using assms(4,5) by (simp add: qmd_writes_def map_add_def)
qed

lemma qmd_bank0:
  assumes "constants_ok f"
  shows "DRF_VAL_MW (CONSTANT_BUFFER_ADDR_UPPER 0) (qmd_data f d u slm kp) =
      drf_cut (CONSTANT_BUFFER_ADDR_UPPER 0) (ucast (hi_32 kp))"
    and "DRF_VAL_MW (CONSTANT_BUFFER_ADDR_LOWER 0) (qmd_data f d u slm kp) =
      drf_cut (CONSTANT_BUFFER_ADDR_LOWER 0) (ucast (lo_32 kp))"
  by (rule read_qmd [OF assms], simp add: qmd_writes_def qmd_field_defs)+

text \<open>Values that fit their field come back unchanged.\<close>

lemma drf_cut_fits:
  assumes "unat w < 2 ^ Suc (hi - lo)"
  shows "drf_cut (MW hi lo) (ucast (w :: NvU32)) = w"
proof -
  have "take_bit (Suc (hi - lo)) (ucast w :: NvU64) = ucast w"
    using assms by (metis unat_ucast32_64 word_unat_eq_iff unsigned_take_bit_eq take_bit_nat_eq_self)
  then show ?thesis by (simp del: take_bit_Suc) (rule bit_word_eqI, auto simp: bit_simps)
qed

lemma unat_hi_32: "unat (hi_32 a) = unat a div 2 ^ 32"
proof -
  have "unat (drop_bit 32 a) = unat a div 2 ^ 32" by (metis unat_drop_bit_eq drop_bit_eq_div)
  moreover have "unat a div 2 ^ 32 < 2 ^ 32" using unsigned_less [of a, where ?'a = nat] by simp
  ultimately show ?thesis by (simp add: hi_32_def unsigned_ucast_eq take_bit_nat_eq_self)
qed

text \<open>
  A launch that passes the dimension checks gives the GPU a descriptor in which the grid, the
  block and the register count are exactly the launch's, the program address is the function's, bank
  0 is the argument block and every other constant bank is valid at its own address, for addresses
  below 2^49 and banks numbered below 8 without duplicates: no field is cut off and none overwrites
  another.
\<close>

theorem launch_descriptor:
  assumes ok: "constants_ok f" "launch_ok f d sm" "num_registers f < 512"
    and va: "func_va_addr f < 2 ^ 49" "kp < 2 ^ 49"
    and banks: "\<forall>k \<in> set (constants f). const_address k < 2 ^ 49"
    and v: "v = (\<lambda>g. DRF_VAL_MW g (qmd_data f d u slm kp))"
  shows "v CTA_RASTER_WIDTH = gridDimX d \<and> v CTA_RASTER_HEIGHT = gridDimY d \<and>
    v CTA_RASTER_DEPTH = gridDimZ d \<and> v CTA_THREAD_DIMENSION0 = blockDimX d \<and>
    v CTA_THREAD_DIMENSION1 = blockDimY d \<and> v CTA_THREAD_DIMENSION2 = blockDimZ d \<and>
    v REGISTER_COUNT_V = num_registers f \<and>
    join_32 (v PROGRAM_ADDRESS_UPPER) (v PROGRAM_ADDRESS_LOWER) = func_va_addr f \<and>
    join_32 (v (CONSTANT_BUFFER_ADDR_UPPER 0)) (v (CONSTANT_BUFFER_ADDR_LOWER 0)) = kp \<and>
    (\<forall>k \<in> set (constants f). let i = unat (const_nr k) in i \<noteq> 0 \<longrightarrow>
       v (CONSTANT_BUFFER_VALID i) = 1 \<and>
       join_32 (v (CONSTANT_BUFFER_ADDR_UPPER i)) (v (CONSTANT_BUFFER_ADDR_LOWER i)) = const_address k)"
proof -
  have vg: "DRF_VAL_MW g (qmd_data f d u slm kp) = v g" for g by (simp add: v)
  have hi: "unat (hi_32 a) < 2 ^ Suc 16" if "a < 2 ^ 49" for a :: NvU64
  proof -
    have "unat a < 2 ^ 49" using that by (simp add: word_less_nat_alt)
    then show ?thesis unfolding unat_hi_32 by (simp add: less_mult_imp_div_less)
  qed
  have w32: "drf_cut (MW (lo + 31) lo) (ucast w) = w" for w :: NvU32 and lo
    by (rule drf_cut_fits) (use unsigned_less [of w, where ?'a = nat] in simp)
  have dims: "unat (gridDimY d) < 2 ^ 16" "unat (gridDimZ d) < 2 ^ 16" "unat (blockDimX d) < 2 ^ 16"
    "unat (blockDimY d) < 2 ^ 16" "unat (blockDimZ d) < 2 ^ 16" "unat (num_registers f) < 2 ^ 9"
    using ok(2,3) by (simp_all add: launch_ok_def word_less_nat_alt)
  have head: "v g = w" if "g = MW hi lo" "(g, ucast w) \<in> set (head_writes f d u slm)" "unat w < 2 ^ Suc (hi - lo)" for g w hi lo
    using qmd_head_field [OF ok(1) that(2), of kp, unfolded vg] drf_cut_fits [OF that(3)] that(1) by simp
  note fields = CTA_RASTER_WIDTH_def CTA_RASTER_HEIGHT_def CTA_RASTER_DEPTH_def CTA_THREAD_DIMENSION0_def
    CTA_THREAD_DIMENSION1_def CTA_THREAD_DIMENSION2_def REGISTER_COUNT_V_def PROGRAM_ADDRESS_UPPER_def
    PROGRAM_ADDRESS_LOWER_def
  have w: "unat w < 2 ^ Suc 31" for w :: NvU32 using unsigned_less [of w, where ?'a = nat] by simp
  have dim: "v CTA_RASTER_WIDTH = gridDimX d \<and> v CTA_RASTER_HEIGHT = gridDimY d \<and>
      v CTA_RASTER_DEPTH = gridDimZ d \<and> v CTA_THREAD_DIMENSION0 = blockDimX d \<and>
      v CTA_THREAD_DIMENSION1 = blockDimY d \<and> v CTA_THREAD_DIMENSION2 = blockDimZ d \<and>
      v REGISTER_COUNT_V = num_registers f"
    by (intro conjI; rule head, rule fields, simp add: head_writes_def, use dims w in simp)
  have prog: "v PROGRAM_ADDRESS_UPPER = hi_32 (func_va_addr f)" "v PROGRAM_ADDRESS_LOWER = lo_32 (func_va_addr f)"
    by (rule head, rule fields, simp add: head_writes_def, use hi [OF va(1)] w in simp)+
  have upper: "drf_cut (CONSTANT_BUFFER_ADDR_UPPER i) (ucast (hi_32 a)) = hi_32 a" if "a < 2 ^ 49" for i a
    unfolding CONSTANT_BUFFER_ADDR_UPPER_def by (rule drf_cut_fits) (use hi [OF that] in simp)
  have lower: "drf_cut (CONSTANT_BUFFER_ADDR_LOWER i) (ucast (lo_32 a)) = lo_32 a" for i a
    using w32 [of "1024 + i * 64" "lo_32 a"] by (simp add: CONSTANT_BUFFER_ADDR_LOWER_def)
  note bank0 = qmd_bank0 [OF ok(1), of d u slm kp, unfolded vg]
  have bank: "v (CONSTANT_BUFFER_VALID i) = 1 \<and>
       join_32 (v (CONSTANT_BUFFER_ADDR_UPPER i)) (v (CONSTANT_BUFFER_ADDR_LOWER i)) = const_address k"
    if k: "k \<in> set (constants f)" and i: "i = unat (const_nr k)" "i \<noteq> 0" for k i
  proof -
    have ne: "CONSTANT_BUFFER_ADDR_UPPER i \<noteq> CONSTANT_BUFFER_ADDR_UPPER 0"
      "CONSTANT_BUFFER_ADDR_UPPER i \<noteq> CONSTANT_BUFFER_ADDR_LOWER 0"
      "CONSTANT_BUFFER_ADDR_LOWER i \<noteq> CONSTANT_BUFFER_ADDR_UPPER 0"
      "CONSTANT_BUFFER_ADDR_LOWER i \<noteq> CONSTANT_BUFFER_ADDR_LOWER 0"
      "CONSTANT_BUFFER_VALID i \<noteq> CONSTANT_BUFFER_ADDR_UPPER 0"
      "CONSTANT_BUFFER_VALID i \<noteq> CONSTANT_BUFFER_ADDR_LOWER 0"
      using i(2) by (simp_all add: qmd_field_defs)
    note field = qmd_constant_field [OF ok(1) k, of _ _ d u slm kp, unfolded vg]
    have "v (CONSTANT_BUFFER_VALID i) = drf_cut (CONSTANT_BUFFER_VALID i) 1"
      "v (CONSTANT_BUFFER_ADDR_UPPER i) = drf_cut (CONSTANT_BUFFER_ADDR_UPPER i) (ucast (hi_32 (const_address k)))"
      "v (CONSTANT_BUFFER_ADDR_LOWER i) = drf_cut (CONSTANT_BUFFER_ADDR_LOWER i) (ucast (lo_32 (const_address k)))"
      by (rule field; simp add: constant_writes_def Let_def i(1) ne [unfolded i(1)])+
    moreover have "drf_cut (CONSTANT_BUFFER_VALID i) 1 = 1"
      using drf_cut_fits [of 1 "640 + i" "640 + i"] by (simp add: CONSTANT_BUFFER_VALID_def)
    ultimately show ?thesis using upper lower banks k by simp
  qed
  show ?thesis using dim prog bank0 upper lower va(2) bank by (simp add: Let_def)
qed

definition demo_dims :: launch_dims where
  "demo_dims = \<lparr>gridDimX = 128, gridDimY = 2, gridDimZ = 1, blockDimX = 256, blockDimY = 1, blockDimZ = 1\<rparr>"

lemma demo_constants_ok: "constants_ok demo_func"
  by (simp add: constants_ok_def demo_func_def)

lemma demo_launch_ok: "launch_ok demo_func demo_dims 0"
  by (simp add: launch_ok_def demo_func_def demo_dims_def)

theorem launch_descriptor_witness:
  "DRF_VAL_MW CTA_RASTER_WIDTH (qmd_data demo_func demo_dims 0 0 0x1300000000) = 128 \<and>
   DRF_VAL_MW CTA_THREAD_DIMENSION0 (qmd_data demo_func demo_dims 0 0 0x1300000000) = 256"
  using launch_descriptor [OF demo_constants_ok demo_launch_ok _ _ _ _ refl, of "0x1300000000" 0 0]
  by (simp add: demo_func_def demo_dims_def)

section \<open>Memory and commands of a launch\<close>

text \<open>Blocks of words that do not meet.\<close>

lemma load_store_disjoint:
  assumes "unat a + 4 * n \<le> unat b" "unat b + 4 * length ws \<le> 2 ^ 64"
  shows "load_words a n (store_words b ws m) = load_words a n m"
  using assms(1)
proof (induction n arbitrary: a)
  case 0
  then show ?case by simp
next
  case (Suc n)
  have "unat a + 4 \<le> unat b" using Suc.prems by simp
  moreover have "unat b < 2 ^ 64" using unsigned_less [of b, where ?'a = nat] by simp
  ultimately have a4: "unat (a + 4) = unat a + 4" using unat_word_sum [of a 4] by simp
  have "store_words b ws m a = m a"
  proof (rule store_words_other)
    fix i assume i: "i < length ws"
    then have "i * 4 < 2 ^ 64" using assms(2) by linarith
    then have "unat (of_nat (i * 4) :: NvU64) = i * 4"
      unfolding unsigned_of_nat of_nat_id by (simp add: take_bit_nat_eq_self del: of_nat_mult)
    then have "unat (b + of_nat (i * 4)) = unat b + i * 4"
      using unat_word_sum [of b "of_nat (i * 4)"] i assms(2) by simp
    then show "a \<noteq> b + of_nat i * 4" using Suc.prems by auto
  qed
  then show ?case using Suc a4 by simp
qed

lemma length_load_words [simp]: "length (load_words a n m) = n"
  by (induction n arbitrary: a) simp_all

lemma load_words_append:
  "load_words a (m + n) mem = load_words a m mem @ load_words (a + of_nat m * 4) n mem"
  by (induction m arbitrary: a) (simp_all add: algebra_simps)

lemma load_store_parts:
  assumes "length xs + length ys < 2 ^ 61"
  shows "load_words a (length xs) (store_words a (xs @ ys) m) = xs \<and>
    load_words (a + of_nat (length xs) * 4) (length ys) (store_words a (xs @ ys) m) = ys"
proof -
  have "load_words a (length xs) (store_words a (xs @ ys) m) @
      load_words (a + of_nat (length xs) * 4) (length ys) (store_words a (xs @ ys) m) = xs @ ys"
    using load_store_words [of "xs @ ys" a m] assms by (simp flip: load_words_append)
  then show ?thesis by (simp add: append_eq_append_conv)
qed

text \<open>
  Bank 0 of a function is large enough when it holds the launch constants and all arguments, as the
  bank the compiler emits does, and the page lies where its end does not wrap.
\<close>

definition bank0_holds :: "func \<Rightarrow> NvU32 list \<Rightarrow> bool" where
  "bank0_holds f args \<longleftrightarrow> 352 + 4 * length args \<le> unat (const_size (constants f ! 0)) \<and>
     unat (const_size (constants f ! 0)) < 2 ^ 32"

lemma qmd_data_length: "length (qmd_data f d u x kp) = 64"
  by (simp add: qmd_data_def length_FLD_SET_all)

lemma unat_page_size: "unat KERNARGS_PAGE_SIZE = 2 ^ 24"
  by (simp add: KERNARGS_PAGE_SIZE_def push_bit_eq_mult)

lemma bank0_rounded:
  assumes "bank0_holds f args"
  shows "unat (roundUp64 (const_size (constants f ! 0)) (push_bit 8 1)) = round_up (unat (const_size (constants f ! 0))) 256"
    and "unat (kernargs_size f) = round_up (unat (const_size (constants f ! 0))) 256 + 2048"
proof -
  let ?n = "unat (const_size (constants f ! 0))"
  have p: "(push_bit 8 1 :: NvU64) = 256" "(push_bit 8 8 :: NvU64) = 2048" by (simp_all add: push_bit_eq_mult)
  show r: "unat (roundUp64 (const_size (constants f ! 0)) (push_bit 8 1)) = round_up ?n 256"
    unfolding p using unat_roundUp64 [of 256 "const_size (constants f ! 0)"] assms by (simp add: bank0_holds_def)
  have "round_up ?n 256 < ?n + 256" by (rule round_up_less) simp
  then show "unat (kernargs_size f) = round_up ?n 256 + 2048"
    using unat_word_sum [of "roundUp64 (const_size (constants f ! 0)) (push_bit 8 1)" 2048] r assms
    by (simp add: kernargs_size_def p bank0_holds_def)
qed

text \<open>The last write of a launch does not touch the bank and the arguments written before.\<close>

lemma launch_memory:
  assumes holds: "bank0_holds f args" and fits: "unat kp + unat (kernargs_size f) \<le> 2 ^ 64"
    and mem: "m = store_words (qmd_address f kp) (qmd_data f d u x kp) (store_words kp (cb0_of d @ args) m0)"
  shows "load_words (qmd_address f kp) 64 m = qmd_data f d u x kp \<and>
    load_words kp 88 m = cb0_of d \<and> load_words (kp + 352) (length args) m = args"
proof -
  let ?n = "unat (const_size (constants f ! 0))" and ?qa = "qmd_address f kp" and ?qd = "qmd_data f d u x kp"
  let ?m1 = "store_words kp (cb0_of d @ args) m0"
  note sz = bank0_rounded [OF holds]
  have le: "352 + 4 * length args \<le> round_up ?n 256"
    using holds round_up_ge [of 256 ?n] by (simp add: bank0_holds_def)
  have qa: "unat ?qa = unat kp + round_up ?n 256"
    unfolding qmd_address_def
    using unat_word_sum [of kp "roundUp64 (const_size (constants f ! 0)) (push_bit 8 1)"] fits sz by simp
  have k352: "unat (kp + 352) = unat kp + 352"
    using unat_word_sum [of kp 352] fits sz le by simp
  have last: "unat ?qa + 4 * length ?qd \<le> 2 ^ 64" using fits sz qa by (simp add: qmd_data_length)
  have small: "length (cb0_of d) + length args < 2 ^ 61" using holds by (simp add: bank0_holds_def)
  have frame: "load_words a n m = load_words a n ?m1" if "unat a + 4 * n \<le> unat ?qa" for a n
    unfolding mem by (rule load_store_disjoint [OF that last])
  have "load_words ?qa 64 m = ?qd"
    unfolding mem using load_store_words [of ?qd ?qa ?m1] by (simp add: qmd_data_length)
  moreover have "load_words kp 88 m = cb0_of d" "load_words (kp + 352) (length args) m = args"
    using frame [of kp 88] frame [of "kp + 352" "length args"] load_store_parts [OF small, of kp m0] le qa k352
    by simp_all
  ultimately show ?thesis by simp
qed

text \<open>
  C3: A successful \<open>launchFunction\<close> puts exactly one launch behind the compute commands enqueued so
  far (after the waits of a synchronous launch, before its release of the next timeline value), and
  what the launch refers to is in memory: the descriptor at the address given to the GPU, bank 0
  with the launch dimensions at the argument block, and the arguments at offset 0x160 behind it. Copy
  commands still in the buffer are moved to the backlog first. The queue keeps its invariant.
\<close>

theorem launchFunction_correct:
  assumes inv: "queue_inv (queues s q)" and run: "launchFunction K q fp d sm params n async s = (Inr (), s')"
    and emit: "emits (computeCommandBuffer (queues s q)) ops"
    and c: "c = queues s q" and f: "f = funcs s fp" and kp: "kp = kernArgsPageVa c + kernArgsWriteIdx c"
    and args: "args_words (zip (param_info f) params) = Some args" "bank0_holds f args"
    and page: "unat kp + unat (kernargs_size f) \<le> 2 ^ 64" "take_bit 8 (qmd_address f kp) = 0" "qmd_address f kp < 2 ^ 40"
    and slm: "unat (local_mem_req f) + 32 < 2 ^ 32"
  shows "queue_inv (queues s' q) \<and>
    commandBufBacklog (queues s' q) = commandBufBacklog (backlogged DMA c) \<and>
    emits (computeCommandBuffer (queues s' q))
      (ops @ sync_ops (switched COMPUTE DMA c) async (sig_value s (timelineSignal c)) @ [LaunchQmd (qmd_address f kp)] @
       (if async then [] else [Release (timelineSignal c) (ucast (timelineCtr c + 1))])) \<and>
    load_words kp 88 (wmem s') = cb0_of d \<and> load_words (kp + 352) (length args) (wmem s') = args \<and>
    load_words (qmd_address f kp) 64 (wmem s') =
      qmd_data f d (maxOf32 (shared_mem f) sm) (currentSlmPerThread (queues s' q)) kp \<and>
    ucast (local_mem_req f) \<le> currentSlmPerThread (queues s' q)"
proof -
  let ?c1 = "switched COMPUTE DMA c" and ?v = "sig_value s (timelineSignal c)"
  have p: "timelineSignal (queues s q) \<noteq> 0" using inv by (simp add: queue_inv_def queue_wf_def)
  obtain x ws where w: "emits ws []"
    "x = (if ucast (local_mem_req f) \<le> currentSlmPerThread c then currentSlmPerThread c
       else slm_per_thread (local_mem_req f))"
    "queues s' = (queues s)(q := launched async ?v x ws (kernArgsWriteIdx c + kernargs_size f) (qmd_address f kp) c)"
    "wmem s' = store_words (qmd_address f kp) (qmd_data f d (maxOf32 (shared_mem f) sm) x kp)
        (store_words kp (cb0_of d @ args) (wmem s))"
    using launch_success [OF run p] args(1) by (auto simp: c f kp)
  have buf1: "computeCommandBuffer ?c1 = computeCommandBuffer c"
    by (simp add: switched_def backlogged_def set_buf_def)
  have st: "sync_words (slm_queue x ws ?c1) async ?v = sync_words ?c1 async ?v"
    by (simp add: sync_words_def slm_queue_def)
  have buf: "computeCommandBuffer (queues s' q) = computeCommandBuffer c @ ws @ sync_words ?c1 async ?v @
      launch_words (qmd_address f kp) @
      (if async then [] else notify_words COMPUTE (timelineSignal c) (timelineCtr c + 1))"
    using st by (simp add: w(3) launched_def finished_def Let_def synced_def slm_queue_def buf1 app_words_def set_buf_def)
  have e: "emits (computeCommandBuffer (queues s' q)) (ops @ [] @ sync_ops ?c1 async ?v @
      [LaunchQmd (qmd_address f kp)] @ (if async then [] else [Release (timelineSignal c) (ucast (timelineCtr c + 1))]))"
    unfolding buf
    using emit w(1) emits_sync emits_launch [of "qmd_address f kp"] emits_notify
    by (intro emits_append) (auto simp: c pcas_address [OF page(2,3)])
  have x: "currentSlmPerThread (queues s' q) = x"
    by (simp add: w(3) launched_def finished_def Let_def)
  have blog: "commandBufBacklog (queues s' q) = commandBufBacklog (backlogged DMA c)"
    using inv by (auto simp: w(3) launched_def finished_def Let_def synced_def slm_queue_def switched_def
        backlogged_def c queue_inv_def queue_wf_def)
  have "ucast (local_mem_req f) \<le> x"
    using slm_per_thread_enough [OF slm] by (simp add: w(2))
  then show ?thesis
    using launchFunction_inv [OF run inv] e x blog launch_memory [OF args(2) page(1) w(4)] by simp
qed

text \<open>Sufficient conditions for a launch to succeed when the local memory on record is enough.\<close>

lemma qmd_in_array:
  assumes "constants_ok f"
  shows "list_all (\<lambda>(g, _). DRF_WORD_MW g < 64) (qmd_writes f d u x kp)"
proof -
  have "DRF_WORD_MW g < 64" if g: "g \<in> fst ` set (qmd_writes f d u x kp)" for g
  proof -
    have "drf_ok 64 g" using used_disj writes_used [OF assms g] by blast
    then show ?thesis by (cases g) (auto simp: drf_defs)
  qed
  then show ?thesis by (force simp: list_all_iff)
qed

definition launch_fits :: "cmdq \<Rightarrow> func \<Rightarrow> nat \<Rightarrow> bool" where
  "launch_fits c f n \<longleftrightarrow> kernArgsWriteIdx c + kernargs_size f \<le> KERNARGS_PAGE_SIZE \<and>
     sizeof_constbuf0 < kernargs_size f \<and> sizeof_constbuf0 + of_nat n * 2 * 4 < kernargs_size f"

lemma launch_succeeds:
  assumes p: "timelineSignal (queues s q) \<noteq> 0" "fp \<noteq> 0" and f: "f = funcs s fp"
    and slm: "ucast (local_mem_req f) \<le> currentSlmPerThread (queues s q)"
    and fits: "launch_fits (queues s q) f (length (param_info f))" "constants f \<noteq> []"
    and args: "args_words (zip (param_info f) params) = Some args" "length (param_info f) \<le> length params"
    and ok: "regs_ok f" "launch_ok f d sm" "constants_ok f"
  shows "\<exists>s'. launchFunction K q fp d sm params (of_nat (length (param_info f))) async s = (Inr (), s')"
proof -
  let ?c1 = "switched COMPUTE DMA (queues s q)"
  obtain r1 s1 where p1: "launch_prepare K q fp async s = (r1, s1)" by fastforce
  have en: "ensureEnoughLocalMem K q fp (upd_queue q (switched COMPUTE DMA) s) = (Inr (), upd_queue q (switched COMPUTE DMA) s)"
    using slm by (simp add: ensureEnoughLocalMem_def f)
  have r1: "r1 = Inr ()"
  proof -
    let ?s0 = "upd_queue q (switched COMPUTE DMA) s"
    have ts: "timelineSignal (queues ?s0 q) \<noteq> 0" using p(1) by simp
    show ?thesis using p1 sync_run [OF ts, of async] en
      by (simp add: launch_prepare_def bind_run_Inr [where m = "switch_to q COMPUTE DMA", OF switch_run]
          bind_run_Inr [where m = "ensureEnoughLocalMem K q fp"])
  qed
  from launch_prepare_outcome [OF p1 p(1)] r1 obtain x ws c' where
    "\<forall>p. \<exists>v. funcs s1 p = (funcs s p)\<lparr>shader_local_memory_va := v\<rparr>" "queues s1 = (queues s)(q := c')"
    "c' = synced async (sig_value s (timelineSignal (queues s q))) (slm_queue x ws ?c1)" by blast
  then obtain l where s1: "queues s1 = (queues s)(q := c')" "funcs s1 fp = f\<lparr>shader_local_memory_va := l\<rparr>"
    "c' = synced async (sig_value s (timelineSignal (queues s q))) (slm_queue x ws ?c1)" using f by blast
  let ?f = "f\<lparr>shader_local_memory_va := l\<rparr>"
  have idx: "kernArgsWriteIdx (queues s1 q) = kernArgsWriteIdx (queues s q)" by (simp add: s1(1,3))
  have not: "\<not> KERNARGS_PAGE_SIZE < kernArgsWriteIdx (queues s1 q) + kernargs_size f"
    using fits(1) idx by (simp add: launch_fits_def not_less)
  obtain kp s2 where a: "launch_args q ?f d params (of_nat (length (param_info f))) s1 = (Inr kp, s2)"
    and s2: "timelineSignal (queues s2 q) = timelineSignal (queues s q)"
    using not fits args(2) idx
    by (simp add: launch_args_def bind_def allocKernArgs_run Let_def launch_fits_def s1(1,3)
        write_params_ok [OF args(1)])
  have ch: "check_launch ?f d sm s2 = (Inr (), s2)" using ok by (simp add: check_launch_run)
  have "list_all (\<lambda>(g, _). DRF_WORD_MW g < 64) (qmd_writes ?f d u y kp)" for u y
    using qmd_in_array [of ?f] ok(3) by (simp add: constants_ok_def)
  then obtain s3 where lc: "launch_commands q ?f d sm kp s2 = (Inr (), s3)"
    and s3: "timelineSignal (queues s3 q) \<noteq> 0"
    using p(1) s2 by (simp add: launch_commands_run Let_def)
  show ?thesis
    using p(2) p1 r1 s1(2) a ch lc finish_run [OF s3, of COMPUTE async] f
    by (simp add: launchFunction_def bind_def)
qed

definition demo_params :: "NvU8 list list" where
  "demo_params = [[1, 2, 3, 4, 5, 6, 7, 8], [9, 10, 11, 12]]"

lemma demo_args: "args_words (zip (param_info demo_func) demo_params) = Some [0x04030201, 0x08070605, 0x0c0b0a09]"
  by code_simp

lemma demo_launch: "\<exists>s'. launchFunction K 1 1 demo_dims 0 demo_params 2 False demo_drv = (Inr (), s')"
proof -
  have "launch_fits (queues demo_drv 1) demo_func (length (param_info demo_func))"
    by (simp add: launch_fits_def demo_func_def KERNARGS_PAGE_SIZE_def kernargs_size_def roundUp64_def ceilDiv64_def
        sizeof_constbuf0_def push_bit_eq_mult)
  moreover have "regs_ok demo_func" by (simp add: regs_ok_def demo_func_def roundUp32_def ceilDiv32_def maxOf32_def)
  ultimately show ?thesis
    using launch_succeeds [of demo_drv 1 1 demo_func demo_params "[0x04030201, 0x08070605, 0x0c0b0a09]" demo_dims 0 K False]
      demo_args demo_launch_ok demo_constants_ok
    by (simp add: demo_func_def demo_params_def)
qed

theorem launchFunction_correct_witness:
  "\<exists>s'. launchFunction demo_kernel 1 1 demo_dims 0 demo_params 2 False demo_drv = (Inr (), s') \<and>
     load_words 0x1300000160 3 (wmem s') = [0x04030201, 0x08070605, 0x0c0b0a09] \<and>
     emits (computeCommandBuffer (queues s' 1))
       [Acquire 0x1400000000 2, LaunchQmd 0x1300000200, Release 0x1400000000 3]"
proof -
  obtain s' where r: "launchFunction demo_kernel 1 1 demo_dims 0 demo_params 2 False demo_drv = (Inr (), s')"
    using demo_launch by blast
  have ru: "roundUp64 0x170 256 = (0x200 :: NvU64)" by (simp add: roundUp64_def ceilDiv64_def)
  have qa: "qmd_address demo_func 0x1300000000 = 0x1300000200"
    by (simp add: qmd_address_def demo_func_def push_bit_eq_mult ru)
  have ks: "kernargs_size demo_func = 0xA00"
    by (simp add: kernargs_size_def demo_func_def push_bit_eq_mult ru)
  have sync: "sync_ops (switched COMPUTE DMA demo_queue) False 0 = [Acquire 0x1400000000 2]"
    by (simp add: sync_ops_def switched_def)
  have holds: "bank0_holds demo_func [0x04030201, 0x08070605, 0x0c0b0a09]"
    by (simp add: bank0_holds_def demo_func_def)
  have emit: "emits (computeCommandBuffer (queues demo_drv 1)) []" by simp
  have words3: "load_words a 3 m = load_words a (length [x, y, z]) m" for a m and x y z :: NvU32
    by (simp add: numeral_3_eq_3)
  have inv: "queue_inv (queues demo_drv 1)" using demo_queue_inv by simp
  have "take_bit 8 (0x1300000200 :: NvU64) = 0" by (simp add: take_bit_eq_mod)
  moreover have "local_mem_req demo_func = 0" by (simp add: demo_func_def)
  ultimately show ?thesis
    using launchFunction_correct [OF inv r emit refl refl refl, of "[0x04030201, 0x08070605, 0x0c0b0a09]"]
      r demo_args holds qa ks sync words3 by auto
qed

section \<open>Launches that fail\<close>

text \<open>
  A failed launch leaves the queue at one of three points: as it was, after the local memory, or
  after the waits; behind them only the offset in the argument page changes.
\<close>

definition stopped_at :: "nat \<Rightarrow> (nat \<Rightarrow> cmdq) \<Rightarrow> cmdq \<Rightarrow> 'a drv_scheme \<Rightarrow> bool" where
  "stopped_at q Q c s \<longleftrightarrow> timelineSignal c \<noteq> 0 \<and> (\<exists>i. queues s = Q(q := c\<lparr>kernArgsWriteIdx := i\<rparr>))"

lemma preserves_triple: "preserves I m \<Longrightarrow> triple I m (\<lambda>_. I) (\<lambda>_. I)"
  by (auto intro!: tripleI dest: preservesD)

lemma stopped_stages:
  "preserves (stopped_at q Q c) (launch_args q f d params n)" "preserves (stopped_at q Q c) (check_launch f d sm)"
proof -
  have "stopped_at q Q c s'" if "stopped_at q Q c s" "launch_args q f d params n s = (r, s')" for s s' r
    using launch_args_frame [OF that(2)] that(1) by (auto simp: stopped_at_def)
  then show "preserves (stopped_at q Q c) (launch_args q f d params n)" unfolding preserves_def by (metis prod.collapse)
  show "preserves (stopped_at q Q c) (check_launch f d sm)"
    unfolding preserves_def using check_launch_frame by (metis prod.collapse)
qed

lemma stopped_commands:
  "triple (stopped_at q Q c) (bind (launch_commands q f d sm kp) (\<lambda>_. finish_command q COMPUTE async))
    (\<lambda>_ _. True) (\<lambda>_. stopped_at q Q c)"
proof (rule tripleI, simp)
  fix s e s' assume q: "stopped_at q Q c s"
    and run: "bind (launch_commands q f d sm kp) (\<lambda>_. finish_command q COMPUTE async) s = (Inl e, s')"
  have "finish_command q COMPUTE async ((upd_queue q (app_words COMPUTE ws) s)\<lparr>wmem := w\<rparr>) \<noteq> (Inl e, s')" for ws w
    using finish_run [of "(upd_queue q (app_words COMPUTE ws) s)\<lparr>wmem := w\<rparr>" q COMPUTE async] q
    by (auto simp: stopped_at_def)
  then have "s' = s" using run by (auto simp: bind_eq_Inl launch_commands_run Let_def split: if_splits)
  then show "stopped_at q Q c s'" using q by simp
qed

lemma failed_launch_stops:
  assumes p: "timelineSignal (queues s q) \<noteq> 0" and run: "launchFunction K q fp d sm params n async s = (Inl e, s')"
  shows "\<exists>x ws c. emits ws [] \<and> stopped_at q (queues s) c s' \<and>
    (c = queues s q \<or> c = slm_queue x ws (switched COMPUTE DMA (queues s q)) \<or>
     c = synced async (sig_value s (timelineSignal (queues s q))) (slm_queue x ws (switched COMPUTE DMA (queues s q))))"
proof (cases "fp \<noteq> 0 \<and> n = of_nat (length (param_info (funcs s fp)))")
  case False
  then have "s' = s" using run by (cases "fp = 0") (auto simp: launchFunction_def)
  then have "stopped_at q (queues s) (queues s q) s'"
    using p by (auto simp: stopped_at_def intro!: exI [of _ "kernArgsWriteIdx (queues s q)"])
  then show ?thesis using emits_Nil by blast
next
  case True
  let ?rest = "bind (gets (\<lambda>s. funcs s fp)) (\<lambda>f. bind (launch_args q f d params n) (\<lambda>kp.
      bind (check_launch f d sm) (\<lambda>_. bind (launch_commands q f d sm kp) (\<lambda>_. finish_command q COMPUTE async))))"
  obtain r1 s1 where p1: "launch_prepare K q fp async s = (r1, s1)" by fastforce
  then obtain x ws c where w: "emits ws []" "queues s1 = (queues s)(q := c)"
    "c = slm_queue x ws (switched COMPUTE DMA (queues s q)) \<or>
     c = synced async (sig_value s (timelineSignal (queues s q))) (slm_queue x ws (switched COMPUTE DMA (queues s q)))"
    using launch_prepare_outcome [OF p1 p] by blast
  have "timelineSignal c \<noteq> 0" using w(3) p by auto
  then have q1: "stopped_at q (queues s) c s1"
    using w(2) by (auto simp: stopped_at_def intro!: exI [of _ "kernArgsWriteIdx c"])
  have rest: "triple (stopped_at q (queues s) c) ?rest (\<lambda>_ _. True) (\<lambda>_. stopped_at q (queues s) c)"
    by (rule triple_bind [OF preserves_triple [OF preserves_gets]],
        rule triple_bind [OF preserves_triple [OF stopped_stages(1)]],
        rule triple_bind [OF preserves_triple [OF stopped_stages(2)]], rule stopped_commands)
  have all: "launchFunction K q fp d sm params n async s = bind (launch_prepare K q fp async) (\<lambda>_. ?rest) s"
    using True by (simp add: launchFunction_def)
  have "stopped_at q (queues s) c s'"
  proof (cases r1)
    case (Inl e1)
    then show ?thesis using run q1 p1 unfolding all by (simp add: bind_def)
  next
    case (Inr u)
    have "bind (launch_prepare K q fp async) (\<lambda>_. ?rest) s = ?rest s1" by (rule bind_run_Inr) (simp add: p1 Inr)
    then have "?rest s1 = (Inl e, s')" using run unfolding all by simp
    then show ?thesis using triple_InlD [OF rest q1] by simp
  qed
  then show ?thesis using w(1,3) by blast
qed

text \<open>Commands that only concern the timeline \<open>p\<close> of a queue.\<close>

fun timeline_op :: "NvU64 \<Rightarrow> gpu_op \<Rightarrow> bool" where
  "timeline_op p (Release a v) \<longleftrightarrow> a = p"
| "timeline_op p (Acquire a v) \<longleftrightarrow> a = p"
| "timeline_op p (CopyLine src dst n) \<longleftrightarrow> False"
| "timeline_op p (LaunchQmd a) \<longleftrightarrow> False"

lemma sync_ops_timeline: "\<forall>x \<in> set (sync_ops c async v). timeline_op (timelineSignal c) x"
  by (simp add: sync_ops_def)

lemma prepared_emits:
  assumes "emits (computeCommandBuffer c) ops" "emits ws []"
  shows "emits (computeCommandBuffer (slm_queue x ws (switched COMPUTE DMA c))) ops"
    and "\<exists>extra. emits (computeCommandBuffer (synced async v (slm_queue x ws (switched COMPUTE DMA c)))) (ops @ extra) \<and>
      (\<forall>y \<in> set extra. timeline_op (timelineSignal c) y)"
proof -
  have "computeCommandBuffer (switched COMPUTE DMA c) = computeCommandBuffer c"
    by (simp add: switched_def backlogged_def set_buf_def)
  then show a: "emits (computeCommandBuffer (slm_queue x ws (switched COMPUTE DMA c))) ops"
    using emits_append [OF assms] by (simp add: slm_queue_def)
  let ?c = "slm_queue x ws (switched COMPUTE DMA c)"
  show "\<exists>extra. emits (computeCommandBuffer (synced async v (slm_queue x ws (switched COMPUTE DMA c)))) (ops @ extra) \<and>
      (\<forall>y \<in> set extra. timeline_op (timelineSignal c) y)"
    using emits_append [OF a emits_sync [of ?c async v]] sync_ops_timeline [of ?c async v]
    by (intro exI [of _ "sync_ops ?c async v"]) (simp add: synced_def)
qed

text \<open>
  C21: A launch that fails, at whatever point and whatever the kernel answered, leaves no launch
  command behind: the compute buffer is extended by waits for and releases of the queue's own
  timeline at most, the invariant of the queue holds and no other queue is touched.
\<close>

theorem failed_launch_starts_nothing:
  assumes inv: "queue_inv (queues s q)" and run: "launchFunction K q fp d sm params n async s = (Inl e, s')"
    and emit: "emits (computeCommandBuffer (queues s q)) ops"
  shows "queue_inv (queues s' q) \<and> (\<forall>p. p \<noteq> q \<longrightarrow> queues s' p = queues s p) \<and>
    (\<exists>extra. emits (computeCommandBuffer (queues s' q)) (ops @ extra) \<and>
      (\<forall>x \<in> set extra. timeline_op (timelineSignal (queues s q)) x))"
proof -
  have p: "timelineSignal (queues s q) \<noteq> 0" using inv by (simp add: queue_inv_def queue_wf_def)
  obtain x ws c where w: "emits ws []" "stopped_at q (queues s) c s'"
    "c = queues s q \<or> c = slm_queue x ws (switched COMPUTE DMA (queues s q)) \<or>
     c = synced async (sig_value s (timelineSignal (queues s q))) (slm_queue x ws (switched COMPUTE DMA (queues s q)))"
    using failed_launch_stops [OF p run] by blast
  have "computeCommandBuffer (queues s' q) = computeCommandBuffer c" using w(2) by (auto simp: stopped_at_def)
  then show ?thesis
    using launchFunction_inv [OF run inv] w(3) prepared_emits [OF emit w(1)] emit
    by (auto intro: exI [of _ "[]"])
qed

theorem failed_launch_starts_nothing_witness:
  "\<exists>e s'. launchFunction demo_kernel 1 1 demo_dims 0 demo_params 7 False demo_drv = (Inl e, s') \<and> queue_inv (queues s' 1)"
proof -
  have r: "launchFunction demo_kernel 1 1 demo_dims 0 demo_params 7 False demo_drv =
      (Inl (Fail LIBRECUDA_ERROR_INVALID_VALUE), demo_drv)"
    by (simp add: launchFunction_def demo_func_def)
  have inv: "queue_inv (queues demo_drv 1)" using demo_queue_inv by simp
  have "emits (computeCommandBuffer (queues demo_drv 1)) []" by simp
  from failed_launch_starts_nothing [OF inv r this] r show ?thesis by blast
qed

end
