(* ===== verification/Copy_Kernels.thy ===== *)
theory Copy_Kernels
  imports Prelude
begin

text \<open>
  The copy kernels of \<open>driverapi/kernels/memcpy/memcpy.cu\<close>. A thread of a kernel is the list of
  element copies it makes, a launch is the list of the threads of its grid, and a run of a launch is
  any interleaving of its threads: the theorems hold for every order in which the GPU runs them.
  GPU memory is a function from addresses to bytes. An element access at an address that is not a
  multiple of the element's size is a fault.
\<close>

section \<open>Element copies\<close>

type_synonym gpu_bytes = "NvU64 \<Rightarrow> NvU8"

datatype move = Move (mv_dst: NvU64) (mv_src: NvU64) (mv_len: nat)

text \<open>The bytes \<open>[d, d + n)\<close> become those of \<open>[s, s + n)\<close>. This is also what a copy promises.\<close>

definition copy_bytes :: "NvU64 \<Rightarrow> NvU64 \<Rightarrow> nat \<Rightarrow> gpu_bytes \<Rightarrow> gpu_bytes" where
  "copy_bytes d s n m = (\<lambda>a. if unat (a - d) < n then m (s + (a - d)) else m a)"

definition aligned_move :: "move \<Rightarrow> bool" where
  "aligned_move v \<longleftrightarrow> unat (mv_dst v) mod mv_len v = 0 \<and> unat (mv_src v) mod mv_len v = 0"

definition exec_move :: "move \<Rightarrow> gpu_bytes \<Rightarrow> gpu_bytes option" where
  "exec_move v m =
     (if aligned_move v then Some (copy_bytes (mv_dst v) (mv_src v) (mv_len v) m) else None)"

fun exec_moves :: "move list \<Rightarrow> gpu_bytes \<Rightarrow> gpu_bytes option" where
  "exec_moves [] m = Some m"
| "exec_moves (v # vs) m = (case exec_move v m of None \<Rightarrow> None | Some m' \<Rightarrow> exec_moves vs m')"

section \<open>The kernels\<close>

record thread =
  gridDim_x :: NvU32
  blockIdx_x :: NvU32
  blockIdx_y :: NvU32
  threadIdx_x :: NvU32

definition MEMCPY_BLOCK_SIZE :: NvU64 where "MEMCPY_BLOCK_SIZE = 256"

text \<open>\<open>dst[idx] = src[idx]\<close> for arrays of \<open>sz\<close>-byte elements.\<close>

definition element :: "nat \<Rightarrow> NvU64 \<Rightarrow> NvU64 \<Rightarrow> NvU64 \<Rightarrow> move" where
  "element sz dst src idx = Move (dst + idx * of_nat sz) (src + idx * of_nat sz) sz"

fun highbw_loop :: "nat \<Rightarrow> NvU64 \<Rightarrow> NvU64 \<Rightarrow> NvU64 \<Rightarrow> move list" where
  "highbw_loop 0 idx dst src = []"
| "highbw_loop (Suc n) idx dst src =
     element 4 dst src idx # highbw_loop n (idx + MEMCPY_BLOCK_SIZE) dst src"

definition memcpyKernelHighBW :: "NvU64 \<Rightarrow> NvU64 \<Rightarrow> thread \<Rightarrow> move list" where
  "memcpyKernelHighBW dst src t =
     (let idx = push_bit 2 (MEMCPY_BLOCK_SIZE *
                  ucast (blockIdx_y t * gridDim_x t + blockIdx_x t)) + ucast (threadIdx_x t)
      in highbw_loop 4 idx dst src)"

definition memcpyKernelLowLatency :: "NvU64 \<Rightarrow> NvU64 \<Rightarrow> NvU64 \<Rightarrow> thread \<Rightarrow> move list" where
  "memcpyKernelLowLatency dst src n t =
     (let tid = MEMCPY_BLOCK_SIZE * ucast (blockIdx_x t) + ucast (threadIdx_x t)
      in if tid < n then [element 4 dst src tid] else [])"

definition memcpyKernelTrailing :: "NvU64 \<Rightarrow> NvU64 \<Rightarrow> NvU64 \<Rightarrow> thread \<Rightarrow> move list" where
  "memcpyKernelTrailing dst src n t =
     (let tid = MEMCPY_BLOCK_SIZE * ucast (blockIdx_x t) + ucast (threadIdx_x t)
      in if tid < n then [element 1 dst src tid] else [])"

section \<open>Launches\<close>

text \<open>The threads of a grid of \<open>gx\<close> by \<open>gy\<close> blocks of \<open>bx\<close> threads.\<close>

definition grid_threads :: "NvU32 \<Rightarrow> NvU32 \<Rightarrow> NvU32 \<Rightarrow> thread list" where
  "grid_threads gx gy bx =
     concat (map (\<lambda>y. concat (map (\<lambda>x. map (\<lambda>t. \<lparr>gridDim_x = gx, blockIdx_x = of_nat x,
       blockIdx_y = of_nat y, threadIdx_x = of_nat t\<rparr>) [0 ..< unat bx]) [0 ..< unat gx])) [0 ..< unat gy])"

text \<open>The interleavings of a list of programs.\<close>

inductive interleaving :: "'a list list \<Rightarrow> 'a list \<Rightarrow> bool" where
  all_done: "\<forall>p \<in> set ps. p = [] \<Longrightarrow> interleaving ps []"
| one_step: "interleaving (ps @ p # qs) tr \<Longrightarrow> interleaving (ps @ (v # p) # qs) (v # tr)"

inductive_simps interleaving_Nil [simp]: "interleaving ps []"
inductive_cases interleaving_ConsE: "interleaving ps (v # tr)"

lemma interleaving_set: "interleaving ps tr \<Longrightarrow> set tr = \<Union> (set ` set ps)"
  by (induction rule: interleaving.induct) auto

text \<open>There always is one: the programs one after the other.\<close>

lemma interleaving_prefix:
  "interleaving ([] # qs) tr \<Longrightarrow> interleaving (p # qs) (p @ tr)"
proof (induction p)
  case (Cons v p)
  then show ?case using one_step [of "[]" p qs "p @ tr" v] by simp
qed simp

lemma interleaving_Nil_Cons: "interleaving qs tr \<Longrightarrow> interleaving ([] # qs) tr"
proof (induction rule: interleaving.induct)
  case (one_step ps p qs tr v)
  then show ?case using interleaving.one_step [of "[] # ps" p qs tr v] by simp
qed simp

lemma interleaving_concat: "interleaving ps (concat ps)"
  by (induction ps) (auto intro: interleaving_prefix interleaving_Nil_Cons)

section \<open>Element copies inside a copy\<close>

text \<open>\<open>mv\<close> copies bytes of \<open>[s, s + N)\<close> to the same offset of \<open>[d, d + N)\<close>.\<close>

definition inside :: "NvU64 \<Rightarrow> NvU64 \<Rightarrow> nat \<Rightarrow> move \<Rightarrow> bool" where
  "inside d s N v \<longleftrightarrow> (\<exists>off. off + mv_len v \<le> N \<and> mv_dst v = d + of_nat off \<and> mv_src v = s + of_nat off)"

definition reaches :: "move list \<Rightarrow> NvU64 \<Rightarrow> bool" where
  "reaches vs a \<longleftrightarrow> (\<exists>v \<in> set vs. unat (a - mv_dst v) < mv_len v)"

text \<open>The two ranges have no byte in common; the address space may wrap around between them.\<close>

definition apart :: "NvU64 \<Rightarrow> NvU64 \<Rightarrow> nat \<Rightarrow> bool" where
  "apart d s N \<longleftrightarrow> N \<le> unat (d - s) \<and> N \<le> unat (s - d)"

lemma unat_diff_offset:
  fixes x :: NvU64
  assumes "off + k \<le> 2 ^ 64" "0 < k"
  shows "unat (x - of_nat off) < k \<longleftrightarrow> off \<le> unat x \<and> unat x < off + k"
proof (cases "off < 2 ^ 64")
  case True
  then have o: "unat (of_nat off :: NvU64) = off" by (simp add: unsigned_of_nat take_bit_nat_eq_self)
  show ?thesis
  proof (cases "off \<le> unat x")
    case True
    then have "unat (x - of_nat off) = unat x - off" using unat_word_minus [of "of_nat off" x] o by simp
    then show ?thesis using True by auto
  next
    case False
    then have lt: "unat x < off" by simp
    have e: "unat (x - of_nat off) = 2 ^ 64 + unat x - off"
      using o lt by (simp add: unat_sub_if')
    show ?thesis using e False assms by linarith
  qed
next
  case False
  then show ?thesis using assms by linarith
qed

lemma apart_outside:
  assumes ap: "apart d s N" and i: "unat i < N"
  shows "\<not> unat (s + i - d) < N"
proof
  assume lt: "unat (s + i - d) < N"
  have n1: "N \<le> unat (d - s)" and n2: "N \<le> unat (s - d)" using ap by (simp_all add: apart_def)
  show False
  proof (cases "unat (s - d) + unat i < 2 ^ 64")
    case True
    have "unat (s - d + i) = unat (s - d) + unat i" using unat_word_sum [of "s - d" i] True by simp
    then show False using lt n2 by (simp add: algebra_simps)
  next
    case False
    have "(unat (s - d) + unat (d - s)) mod 2 ^ 64 = 0"
      using unat_word_ariths(1) [of "s - d" "d - s"] by simp
    moreover have "unat (s - d) < 2 ^ 64" "unat (d - s) < 2 ^ 64"
      using unsigned_less [of "s - d", where 'a = nat] unsigned_less [of "d - s", where 'a = nat] by simp_all
    ultimately have "unat (s - d) + unat (d - s) \<le> 2 ^ 64"
      by (auto elim!: dvdE simp: mod_eq_0_iff_dvd)
    then show False using n1 i False by linarith
  qed
qed

lemma inside_reach:
  assumes v: "inside d s N v" and k: "N < 2 ^ 64" and lt: "unat (a - mv_dst v) < mv_len v"
  shows "unat (a - d) < N"
proof -
  obtain off where off: "off + mv_len v \<le> N" "mv_dst v = d + of_nat off"
    using v by (auto simp: inside_def)
  have e: "a - mv_dst v = a - d - of_nat off" by (simp add: off algebra_simps)
  have "unat (a - d - of_nat off) < mv_len v" using lt unfolding e .
  moreover have "0 < mv_len v" using lt by simp
  ultimately show ?thesis
    using unat_diff_offset [of off "mv_len v" "a - d"] off k by linarith
qed

lemma inside_step:
  assumes "inside d s N v" "exec_move v m = Some m1"
  shows "m1 a = (if unat (a - mv_dst v) < mv_len v then m (s + (a - d)) else m a)"
  using assms by (auto simp: inside_def exec_move_def copy_bytes_def algebra_simps split: if_splits)

text \<open>
  Element copies inside a copy of ranges that are apart may run in any order and any number of
  times: what counts is which addresses they reach.
\<close>

lemma exec_moves_reach:
  assumes "\<forall>v \<in> set vs. inside d s N v" "apart d s N" "N < 2 ^ 64" "exec_moves vs m = Some m'"
  shows "m' a = (if reaches vs a then m (s + (a - d)) else m a)"
  using assms
proof (induction vs arbitrary: m)
  case Nil
  then show ?case by (simp add: reaches_def)
next
  case (Cons v vs)
  from Cons.prems(4) obtain m1 where m1: "exec_move v m = Some m1" "exec_moves vs m1 = Some m'"
    by (auto split: option.splits)
  have IH: "m' a = (if reaches vs a then m1 (s + (a - d)) else m1 a)"
    using Cons.IH [of m1] Cons.prems(1-3) m1(2) by simp
  have v: "inside d s N v" using Cons.prems(1) by simp
  note st = inside_step [OF v m1(1)]
  have rest: "m1 (s + (a - d)) = m (s + (a - d))" if r: "reaches vs a"
  proof -
    obtain w where w: "w \<in> set vs" "unat (a - mv_dst w) < mv_len w" using r unfolding reaches_def by blast
    have iw: "inside d s N w" using Cons.prems(1) w(1) by simp
    have "unat (a - d) < N" by (rule inside_reach [OF iw Cons.prems(3) w(2)])
    then have "\<not> unat (s + (a - d) - d) < N" by (rule apart_outside [OF Cons.prems(2)])
    then have "\<not> unat (s + (a - d) - mv_dst v) < mv_len v" using inside_reach [OF v Cons.prems(3)] by blast
    then show ?thesis using st [of "s + (a - d)"] by simp
  qed
  show ?case
  proof (cases "reaches vs a")
    case True
    then show ?thesis using IH rest by (auto simp: reaches_def)
  next
    case False
    then have "reaches (v # vs) a \<longleftrightarrow> unat (a - mv_dst v) < mv_len v" by (auto simp: reaches_def)
    then show ?thesis using IH False st [of a] by simp
  qed
qed

lemma exec_moves_aligned: "\<forall>v \<in> set vs. aligned_move v \<Longrightarrow> exec_moves vs m \<noteq> None"
  by (induction vs arbitrary: m) (auto simp: exec_move_def)

lemma exec_moves_copy:
  assumes "\<forall>v \<in> set vs. inside d s N v \<and> aligned_move v" "apart d s N" "N < 2 ^ 64"
    and "\<And>x. unat x < N \<Longrightarrow> reaches vs (d + x)"
  shows "exec_moves vs m = Some (copy_bytes d s N m)"
proof -
  obtain m' where m': "exec_moves vs m = Some m'"
    using exec_moves_aligned [of vs m] assms(1) by auto
  have "m' a = copy_bytes d s N m a" for a
  proof -
    have in_range: "unat (a - d) < N" if r: "reaches vs a"
    proof -
      obtain v where v: "v \<in> set vs" "unat (a - mv_dst v) < mv_len v" using r unfolding reaches_def by blast
      then show ?thesis using inside_reach [OF _ assms(3)] assms(1) by blast
    qed
    have "reaches vs a" if "unat (a - d) < N" using assms(4) [OF that] by simp
    then show ?thesis
      using exec_moves_reach [OF _ assms(2,3) m', of a] assms(1) in_range by (auto simp: copy_bytes_def)
  qed
  then show ?thesis using m' by auto
qed

section \<open>What the kernels copy\<close>

lemma set_grid_threads:
  "set (grid_threads gx gy bx) = (\<Union>y \<in> {..<unat gy}. \<Union>x \<in> {..<unat gx}.
     (\<lambda>t. \<lparr>gridDim_x = gx, blockIdx_x = of_nat x, blockIdx_y = of_nat y, threadIdx_x = of_nat t\<rparr>)
       ` {..<unat bx})"
  by (simp add: grid_threads_def atLeast0LessThan)

lemma grid_threads_iff:
  "t \<in> set (grid_threads gx gy bx) \<longleftrightarrow> gridDim_x t = gx \<and> blockIdx_x t < gx \<and>
     blockIdx_y t < gy \<and> threadIdx_x t < bx"
proof
  assume "t \<in> set (grid_threads gx gy bx)"
  then obtain x y i where "x < unat gx" "y < unat gy" "i < unat bx" and
    t: "t = \<lparr>gridDim_x = gx, blockIdx_x = of_nat x, blockIdx_y = of_nat y, threadIdx_x = of_nat i\<rparr>"
    by (auto simp: grid_threads_def)
  moreover have "(of_nat k :: NvU32) < w" if "k < unat w" for k and w :: NvU32
    using that unsigned_less [of w, where 'a = nat]
    by (simp add: word_less_nat_alt unsigned_of_nat take_bit_nat_eq_self)
  ultimately show "gridDim_x t = gx \<and> blockIdx_x t < gx \<and> blockIdx_y t < gy \<and> threadIdx_x t < bx"
    by simp
next
  assume "gridDim_x t = gx \<and> blockIdx_x t < gx \<and> blockIdx_y t < gy \<and> threadIdx_x t < bx"
  then have "unat (blockIdx_x t) < unat gx" "unat (blockIdx_y t) < unat gy" "unat (threadIdx_x t) < unat bx"
    and "t = \<lparr>gridDim_x = gx, blockIdx_x = of_nat (unat (blockIdx_x t)),
      blockIdx_y = of_nat (unat (blockIdx_y t)), threadIdx_x = of_nat (unat (threadIdx_x t))\<rparr>"
    by (simp_all add: word_less_nat_alt)
  then show "t \<in> set (grid_threads gx gy bx)"
    unfolding set_grid_threads
    by (intro UN_I [of "unat (blockIdx_y t)"] UN_I [of "unat (blockIdx_x t)"]
      rev_image_eqI [of "unat (threadIdx_x t)"]) simp_all
qed

text \<open>The elements numbered below \<open>n\<close> of the arrays that start \<open>b\<close> bytes into both ranges.\<close>

definition elements :: "nat \<Rightarrow> NvU64 \<Rightarrow> NvU64 \<Rightarrow> NvU64 \<Rightarrow> nat \<Rightarrow> move set" where
  "elements sz d s b n = element sz (d + b) (s + b) ` {i. unat i < n}"

lemma elements_inside:
  assumes "v \<in> elements sz d s b n" "unat b + sz * n \<le> N" "N < 2 ^ 64"
  shows "inside d s N v"
proof -
  obtain i where i: "unat i < n" "v = element sz (d + b) (s + b) i"
    using assms(1) by (auto simp: elements_def)
  have "sz * unat i + sz \<le> sz * n" using i(1) by (metis Suc_leI add.commute mult_Suc_right mult_le_mono2)
  then show ?thesis
    using assms(2) i(2) unfolding inside_def
    by (intro exI [of _ "unat b + sz * unat i"]) (simp add: element_def algebra_simps)
qed

lemma elements_reach:
  assumes "unat b + sz * n \<le> N" "N < 2 ^ 64" "unat b \<le> unat x" "unat x < unat b + sz * n"
  shows "\<exists>v \<in> elements sz d s b n. unat (d + x - mv_dst v) < mv_len v"
proof -
  have sz: "0 < sz" using assms(3,4) by (cases sz) simp_all
  define k where "k = (unat x - unat b) div sz"
  have k: "k < n" using assms(3,4) sz by (simp add: k_def div_less_iff_less_mult algebra_simps)
  have low: "sz * k \<le> unat x - unat b" and high: "unat x - unat b < sz * k + sz"
    unfolding k_def using mod_less_divisor [OF sz, of "unat x - unat b"]
    by (metis mult_div_mod_eq le_add1, metis mult_div_mod_eq nat_add_left_cancel_less)
  have "k \<le> sz * k" using sz by simp
  moreover have "sz * k < 2 ^ 64" using low unsigned_less [of x, where 'a = nat] by simp
  ultimately have "k < 2 ^ 64" by linarith
  then have u: "unat (of_nat k :: NvU64) = k" by (simp add: unsigned_of_nat take_bit_nat_eq_self)
  have e: "d + x - mv_dst (element sz (d + b) (s + b) (of_nat k)) = x - of_nat (unat b + sz * k)"
    by (simp add: element_def algebra_simps)
  have "unat b + sz * k + sz \<le> unat b + sz * n" using k by (metis Suc_leI add.assoc add.commute add_le_cancel_left mult_Suc_right mult_le_mono2)
  then have "unat (x - of_nat (unat b + sz * k)) < sz"
    using unat_diff_offset [of "unat b + sz * k" sz x] assms low high sz by linarith
  then show ?thesis
    using k u by (intro bexI [of _ "element sz (d + b) (s + b) (of_nat k)"])
      (simp_all only: e, simp_all add: element_def elements_def)
qed

lemma elements_aligned:
  assumes "v \<in> elements sz d s b n" "sz = 1 \<or> sz = 4 \<and> unat d mod 4 = 0 \<and> unat s mod 4 = 0 \<and> unat b mod 4 = 0"
  shows "aligned_move v"
proof -
  obtain i where i: "v = element sz (d + b) (s + b) i" using assms(1) by (auto simp: elements_def)
  have sum4: "unat (x + y) mod 4 = 0" if "unat x mod 4 = 0" "unat y mod 4 = 0" for x y :: NvU64
  proof -
    have "unat (x + y) mod 4 = (unat x + unat y) mod 4"
      using mod_mod_cancel [of 4 "2 ^ 64" "unat x + unat y"] by (simp add: unat_word_ariths)
    then show ?thesis using that by presburger
  qed
  have mul4: "unat (x * 4) mod 4 = 0" for x :: NvU64
    using mod_mod_cancel [of 4 "2 ^ 64" "unat x * 4"] by (simp add: unat_word_ariths)
  show ?thesis
    using assms(2) by (auto simp: i aligned_move_def element_def intro!: sum4 mul4)
qed

lemma unat_linear:
  fixes b t :: NvU32
  assumes "k \<le> 2048"
  shows "unat (of_nat k * ucast b + ucast t :: NvU64) = k * unat b + unat t"
proof -
  have b: "unat b < 2 ^ 32" "unat t < 2 ^ 32"
    using unsigned_less [of b, where 'a = nat] unsigned_less [of t, where 'a = nat] by simp_all
  have "k * unat b \<le> 2048 * 2 ^ 32" using assms b(1) by (intro mult_le_mono) simp_all
  moreover have k: "unat (of_nat k :: NvU64) = k"
    using assms by (simp add: unsigned_of_nat take_bit_nat_eq_self)
  ultimately have m: "unat (of_nat k * ucast b :: NvU64) = k * unat b"
    using unat_word_prod [of "of_nat k :: NvU64" "ucast b"] by simp
  show ?thesis
    using unat_word_sum [of "of_nat k * ucast b :: NvU64" "ucast t"] m \<open>k * unat b \<le> 2048 * 2 ^ 32\<close> b by simp
qed

definition launch_moves :: "(thread \<Rightarrow> move list) \<Rightarrow> NvU32 \<Rightarrow> NvU32 \<Rightarrow> NvU32 \<Rightarrow> move list list" where
  "launch_moves prog_of gx gy bx = map prog_of (grid_threads gx gy bx)"

lemma launch_moves_set:
  "\<Union> (set ` set (launch_moves prog_of gx gy bx)) = (\<Union>t \<in> set (grid_threads gx gy bx). set (prog_of t))"
  by (simp add: launch_moves_def)

lemma tid_split:
  fixes i :: NvU64
  assumes "unat i < 256 * unat (gx :: NvU32)"
  shows "\<exists>b t. b < gx \<and> t < (256 :: NvU32) \<and> i = 256 * ucast b + ucast t"
proof (intro exI conjI)
  let ?b = "of_nat (unat i div 256) :: NvU32" and ?t = "of_nat (unat i mod 256) :: NvU32"
  have q: "unat i div 256 < unat gx" using assms by (simp add: div_less_iff_less_mult)
  then have b: "unat ?b = unat i div 256"
    using unsigned_less [of gx, where 'a = nat] by (simp add: unsigned_of_nat take_bit_nat_eq_self)
  have t: "unat ?t = unat i mod 256"
    by (simp add: unsigned_of_nat take_bit_nat_eq_self)
  show "?b < gx" using q b by (simp add: word_less_nat_alt)
  show "?t < 256" using t by (simp add: word_less_nat_alt)
  have "unat (256 * ucast ?b + ucast ?t :: NvU64) = unat i"
    using unat_linear [of 256 ?b ?t] b t by simp
  then show "i = 256 * ucast ?b + ucast ?t" by (metis unsigned_word_eqI)
qed

lemma guarded_grid:
  assumes "unat n \<le> 256 * unat gx" "gy \<noteq> 0"
    and k: "\<And>t. prog_of t = (let tid = MEMCPY_BLOCK_SIZE * ucast (blockIdx_x t) + ucast (threadIdx_x t)
      in if tid < n then [element sz dst src tid] else [])"
  shows "(\<Union>t \<in> set (grid_threads gx gy 256). set (prog_of t)) = elements sz dst src 0 (unat n)"
proof (intro equalityI subsetI)
  fix v assume "v \<in> (\<Union>t \<in> set (grid_threads gx gy 256). set (prog_of t))"
  then show "v \<in> elements sz dst src 0 (unat n)"
    by (auto simp: k Let_def elements_def word_less_nat_alt split: if_splits)
next
  fix v assume "v \<in> elements sz dst src 0 (unat n)"
  then obtain i where i: "unat i < unat n" "v = element sz dst src i" by (auto simp: elements_def)
  then have "unat i < 256 * unat gx" using assms(1) by linarith
  then obtain b t where bt: "b < gx" "t < (256 :: NvU32)" "i = 256 * ucast b + ucast t"
    using tid_split by blast
  let ?t = "\<lparr>gridDim_x = gx, blockIdx_x = b, blockIdx_y = 0, threadIdx_x = t\<rparr>"
  have "?t \<in> set (grid_threads gx gy 256)" using bt assms(2) by (simp add: grid_threads_iff word_gt_0)
  moreover have "v \<in> set (prog_of ?t)"
    using i bt by (simp add: k MEMCPY_BLOCK_SIZE_def word_less_nat_alt)
  ultimately show "v \<in> (\<Union>t \<in> set (grid_threads gx gy 256). set (prog_of t))" by blast
qed

lemma LowLatency_elements:
  assumes "unat n \<le> 256 * unat gx" "gy \<noteq> 0"
  shows "(\<Union>t \<in> set (grid_threads gx gy 256). set (memcpyKernelLowLatency dst src n t)) =
    elements 4 dst src 0 (unat n)"
  by (rule guarded_grid [OF assms]) (simp add: memcpyKernelLowLatency_def)

lemma Trailing_elements:
  assumes "unat n \<le> 256 * unat gx" "gy \<noteq> 0"
  shows "(\<Union>t \<in> set (grid_threads gx gy 256). set (memcpyKernelTrailing dst src n t)) =
    elements 1 dst src 0 (unat n)"
  by (rule guarded_grid [OF assms]) (simp add: memcpyKernelTrailing_def)

lemma highbw_loop4:
  "highbw_loop 4 idx dst src = map (element 4 dst src) [idx, idx + 256, idx + 512, idx + 768]"
  by (simp add: eval_nat_numeral MEMCPY_BLOCK_SIZE_def algebra_simps)

definition block_nr :: "thread \<Rightarrow> NvU32" where
  "block_nr t = blockIdx_y t * gridDim_x t + blockIdx_x t"

lemma HighBW_moves:
  "memcpyKernelHighBW dst src t = map (\<lambda>j. element 4 dst src
     (1024 * ucast (block_nr t) + ucast (threadIdx_x t) + of_nat j * 256)) [0 ..< 4]"
  by (simp add: memcpyKernelHighBW_def block_nr_def highbw_loop4 MEMCPY_BLOCK_SIZE_def
      push_bit_eq_mult upt_conv_Cons algebra_simps)

text \<open>
  Together the threads copy 1024 elements per block, if the number of blocks fits 32 bits: every
  block has its own number \<open>block_nr\<close>.
\<close>

lemma HighBW_elements:
  assumes blocks: "unat gx * unat gy < 2 ^ 32"
  shows "(\<Union>t \<in> set (grid_threads gx gy 256). set (memcpyKernelHighBW dst src t)) =
    elements 4 dst src 0 (1024 * (unat gx * unat gy))"
proof (intro equalityI subsetI)
  fix v assume "v \<in> (\<Union>t \<in> set (grid_threads gx gy 256). set (memcpyKernelHighBW dst src t))"
  then obtain t j where t: "gridDim_x t = gx" "blockIdx_x t < gx" "blockIdx_y t < gy" "threadIdx_x t < 256"
    and j: "j < 4" and v: "v = element 4 dst src (1024 * ucast (block_nr t) + ucast (threadIdx_x t) + of_nat j * 256)"
    by (auto simp: HighBW_moves grid_threads_iff)
  have b: "unat (block_nr t) < unat gx * unat gy"
  proof -
    have "unat (blockIdx_y t) * unat gx + unat (blockIdx_x t) < (unat (blockIdx_y t) + 1) * unat gx"
      using t(2) by (simp add: word_less_nat_alt)
    also have "\<dots> \<le> unat gy * unat gx" using t(3) by (intro mult_le_mono) (simp_all add: word_less_nat_alt)
    finally show ?thesis
      using blocks by (simp add: block_nr_def t(1) unat_word_ariths mult.commute)
  qed
  have "unat (1024 * ucast (block_nr t) + ucast (threadIdx_x t) + of_nat j * 256 :: NvU64) =
    1024 * unat (block_nr t) + unat (threadIdx_x t) + j * 256"
    using unat_linear [of 1024 "block_nr t" "threadIdx_x t"] b blocks j t(4)
    by (simp add: unat_word_ariths word_less_nat_alt unsigned_of_nat take_bit_nat_eq_self)
  then show "v \<in> elements 4 dst src 0 (1024 * (unat gx * unat gy))"
    using b t(4) j unfolding v elements_def by (intro rev_image_eqI) (simp_all add: word_less_nat_alt)
next
  fix v assume "v \<in> elements 4 dst src 0 (1024 * (unat gx * unat gy))"
  then obtain i where i: "unat i < 1024 * (unat gx * unat gy)" "v = element 4 dst src i"
    by (auto simp: elements_def)
  define b where "b = unat i div 1024"
  define r where "r = unat i mod 1024"
  have ui: "unat i = 1024 * b + r" by (simp add: b_def r_def)
  have b: "b < unat gx * unat gy" using i(1) by (simp add: b_def div_less_iff_less_mult)
  then have gx: "0 < unat gx" by (cases "unat gx") simp_all
  let ?t = "\<lparr>gridDim_x = gx, blockIdx_x = of_nat (b mod unat gx), blockIdx_y = of_nat (b div unat gx),
    threadIdx_x = of_nat (r mod 256)\<rparr> :: thread"
  have small: "unat (of_nat k :: NvU32) = k" if "k \<le> b" for k
    using that b blocks by (simp add: unsigned_of_nat take_bit_nat_eq_self)
  have x: "unat (blockIdx_x ?t) = b mod unat gx" and y: "unat (blockIdx_y ?t) = b div unat gx"
    using small by (simp_all add: mod_less_eq_dividend)
  have t: "unat (threadIdx_x ?t) = r mod 256" by (simp add: unsigned_of_nat take_bit_nat_eq_self)
  have mem: "?t \<in> set (grid_threads gx gy 256)"
    using x y t gx b by (simp add: grid_threads_iff word_less_nat_alt div_less_iff_less_mult mult.commute)
  have "b div unat gx * unat gx \<le> b" by simp
  then have "b div unat gx * unat gx < 2 ^ 32" using b blocks by linarith
  then have nr: "unat (block_nr ?t) = b"
    using x y blocks b by (simp add: block_nr_def unat_word_ariths)
  have r: "r < 1024" by (simp add: r_def)
  let ?a = "1024 * ucast (block_nr ?t) + ucast (threadIdx_x ?t) :: NvU64"
  let ?c = "of_nat (r div 256) * 256 :: NvU64"
  have a: "unat ?a = 1024 * b + r mod 256" using unat_linear [of 1024 "block_nr ?t" "threadIdx_x ?t"] nr t by simp
  have c: "unat ?c = r div 256 * 256"
    using r by (simp add: unat_word_ariths unsigned_of_nat take_bit_nat_eq_self)
  have s: "unat ?a + unat ?c = unat i" unfolding a c ui by simp
  then have "unat (?a + ?c) = unat i"
    using unat_word_sum [of ?a ?c] unsigned_less [of i, where 'a = nat] by simp
  then have "v = element 4 dst src (1024 * ucast (block_nr ?t) + ucast (threadIdx_x ?t) + of_nat (r div 256) * 256)"
    unfolding i(2) by (metis unsigned_word_eqI)
  moreover have "r div 256 < 4" by (simp add: r_def div_less_iff_less_mult)
  ultimately have "v \<in> set (memcpyKernelHighBW dst src ?t)" unfolding HighBW_moves by auto
  then show "v \<in> (\<Union>t \<in> set (grid_threads gx gy 256). set (memcpyKernelHighBW dst src t))"
    using mem by blast
qed

end
