(* ===== verification/Stream_Order.thy ===== *)
theory Stream_Order
  imports Launch_Properties
begin

text \<open>
  What a stream promises, across all operations of \<open>NvCommandQueue\<close>: the GPU is handed exactly the
  copies, launches and event releases the program asked for, in the order in which it asked, each
  once. The abstract state of a queue is the list of these operations; the timeline releases and
  waits that the driver adds of its own, the two buffers, the backlog and the segments of the FIFO
  are the implementation.
\<close>

section \<open>Traces\<close>

text \<open>A labelled step relation whose steps append their labels to the trace of the state.\<close>

inductive runs :: "('s \<Rightarrow> 'l list \<Rightarrow> 's \<Rightarrow> bool) \<Rightarrow> 's \<Rightarrow> 'l list \<Rightarrow> 's \<Rightarrow> bool" for step where
  runs_none: "runs step s [] s"
| runs_more: "runs step s ls s' \<Longrightarrow> step s' ms s'' \<Longrightarrow> runs step s (ls @ ms) s''"

locale tracing =
  fixes step :: "'s \<Rightarrow> 'l list \<Rightarrow> 's \<Rightarrow> bool"
    and inv :: "'s \<Rightarrow> bool"
    and trace :: "'s \<Rightarrow> 'l list"
  assumes step_inv: "inv s \<Longrightarrow> step s ls s' \<Longrightarrow> inv s'"
    and step_trace: "inv s \<Longrightarrow> step s ls s' \<Longrightarrow> trace s' = trace s @ ls"
begin

lemma runs_refine: "runs step s ls s' \<Longrightarrow> inv s \<Longrightarrow> inv s' \<and> trace s' = trace s @ ls"
proof (induction rule: runs.induct)
  case runs_none
  then show ?case by simp
next
  case (runs_more s ls s' ms s'')
  then show ?case using step_inv [of s' ms s''] step_trace [of s' ms s''] by simp
qed

end

section \<open>The operations a queue holds\<close>

definition stream_ops :: "cmdq \<Rightarrow> gpu_op list" where
  "stream_ops c = concat (map (ops_of \<circ> snd) (submitted c)) @
     concat (map (ops_of \<circ> commandBuffer) (commandBufBacklog c)) @
     ops_of (computeCommandBuffer c) @ ops_of (dmaCommandBuffer c)"

definition user_part :: "NvU64 \<Rightarrow> gpu_op list \<Rightarrow> gpu_op list" where
  "user_part p ops = filter (\<lambda>x. \<not> timeline_op p x) ops"

text \<open>Everything asked of the queue so far, and the part of it that the GPU has been handed.\<close>

definition user_ops :: "cmdq \<Rightarrow> gpu_op list" where
  "user_ops c = user_part (timelineSignal c) (stream_ops c)"

definition submitted_ops :: "cmdq \<Rightarrow> gpu_op list" where
  "submitted_ops c = user_part (timelineSignal c) (concat (map (ops_of \<circ> snd) (submitted c)))"

lemma user_part_append [simp]: "user_part p (xs @ ys) = user_part p xs @ user_part p ys"
  by (simp add: user_part_def)

lemma user_part_Nil [simp]: "user_part p [] = []"
  by (simp add: user_part_def)

lemma user_part_timeline: "\<forall>x \<in> set ops. timeline_op p x \<Longrightarrow> user_part p ops = []"
  by (simp add: user_part_def filter_empty_conv)

lemma ops_of_Nil [simp]: "ops_of [] = []"
  using ops_of_emits [OF emits_Nil] .

lemma ops_of_append: "well_formed ws \<Longrightarrow> emits vs ops \<Longrightarrow> ops_of (ws @ vs) = ops_of ws @ ops"
  unfolding well_formed_def using emits_append ops_of_emits by blast

lemma ops_of_notify: "ops_of (notify_words t p v) = [Release p (ucast v)]"
  using ops_of_emits [OF emits_notify] .

text \<open>At most one of the buffers is in use, and it is the one of the current type.\<close>

lemma wf_buffers:
  assumes "queue_wf c"
  shows "computeCommandBuffer c = [] \<or> dmaCommandBuffer c = []"
    "currentQueueType c = Some t \<Longrightarrow> t \<noteq> u \<Longrightarrow> buf_of u c = []"
  using assms by (cases u; cases t; auto simp: queue_wf_def)+

lemma user_ops_app:
  assumes "queue_wf c" "currentQueueType c = Some t" "emits ws ops"
  shows "user_ops (app_words t ws c) = user_ops c @ user_part (timelineSignal c) ops"
proof -
  have wf: "well_formed (buf_of t c)" using assms(1) by (cases t) (simp_all add: queue_wf_def)
  show ?thesis
    using wf_buffers(2) [OF assms(1,2), of COMPUTE] wf_buffers(2) [OF assms(1,2), of DMA]
      ops_of_append [OF wf assms(3)]
    by (cases t) (auto simp: user_ops_def stream_ops_def app_words_def set_buf_def)
qed

lemma user_ops_fields [simp]:
  "user_ops (c\<lparr>currentQueueType := ty\<rparr>) = user_ops c"
  "user_ops (c\<lparr>timelineNotifyPending := b\<rparr>) = user_ops c"
  "user_ops (c\<lparr>timelineCtr := n\<rparr>) = user_ops c"
  "user_ops (c\<lparr>currentSlmPerThread := x\<rparr>) = user_ops c"
  "user_ops (c\<lparr>kernArgsWriteIdx := i\<rparr>) = user_ops c"
  "user_ops (c\<lparr>freeSignals := l\<rparr>) = user_ops c"
  by (simp_all add: user_ops_def stream_ops_def)

lemma user_ops_backlogged:
  assumes "queue_wf c"
  shows "user_ops (backlogged t c) = user_ops c"
  using wf_buffers(1) [OF assms]
  by (cases t) (auto simp: user_ops_def stream_ops_def backlogged_def set_buf_def)

lemma user_ops_switched: "queue_wf c \<Longrightarrow> user_ops (switched t u c) = user_ops c"
  by (simp add: switched_def user_ops_backlogged)

lemma user_ops_finished:
  assumes "queue_wf c" "currentQueueType c = Some t"
  shows "user_ops (finished t async c) = user_ops c"
proof -
  let ?d = "c\<lparr>timelineCtr := timelineCtr c + 1\<rparr>"
  have "queue_wf ?d" "currentQueueType ?d = Some t" using assms by (simp_all add: queue_wf_def)
  from user_ops_app [OF this emits_notify [of t "timelineSignal c" "timelineCtr c + 1"]]
  show ?thesis by (simp add: finished_def Let_def user_part_def)
qed

section \<open>The operations\<close>

lemma wf_switched: "queue_inv c \<Longrightarrow> t \<noteq> u \<Longrightarrow>
    queue_inv (switched t u c) \<and> currentQueueType (switched t u c) = Some t"
  using inv_switched [of c t u] by simp

lemma inv_wf: "queue_inv c \<Longrightarrow> queue_wf c"
  by (simp add: queue_inv_def)

lemma user_ops_copied:
  assumes inv: "queue_inv c" and n: "n < 0xFFFFFFFF"
  shows "user_ops (copied dst src n async c) = user_ops c @ [CopyLine src dst (unat n)]"
proof -
  let ?c = "switched DMA COMPUTE c"
  have c: "queue_inv ?c" "currentQueueType ?c = Some DMA" using wf_switched [OF inv] by simp_all
  have a: "queue_inv (app_words DMA (copy_words dst src n) ?c)" by (rule inv_app_words [OF c]) simp
  have "unat n < 2 ^ 32" using n by (simp add: word_less_nat_alt)
  then have u: "unat (ucast n :: NvU32) = unat n" by (simp add: unsigned_ucast_eq take_bit_nat_eq_self)
  show ?thesis
    using user_ops_finished [OF inv_wf [OF a], of DMA async] c
      user_ops_app [OF inv_wf [OF c(1)] c(2) emits_copy [of dst src n]] user_ops_switched [OF inv_wf [OF inv], of DMA COMPUTE]
    by (simp add: copied_def u user_part_def)
qed

lemma user_ops_prepared:
  assumes inv: "queue_inv c" and ws: "emits ws []"
  shows "user_ops (slm_queue x ws (switched COMPUTE DMA c)) = user_ops c"
    and "user_ops (synced async v (slm_queue x ws (switched COMPUTE DMA c))) = user_ops c"
proof -
  let ?c = "switched COMPUTE DMA c"
  have c: "queue_inv ?c" "currentQueueType ?c = Some COMPUTE" using wf_switched [OF inv] by simp_all
  have d: "queue_inv (slm_queue x ws ?c)" "currentQueueType (slm_queue x ws ?c) = Some COMPUTE"
    using inv_slm_queue [OF c ws] c by simp_all
  have c': "queue_wf (?c\<lparr>currentSlmPerThread := x\<rparr>)" using inv_wf [OF c(1)] by (simp add: queue_wf_def)
  show s: "user_ops (slm_queue x ws ?c) = user_ops c"
    using user_ops_app [OF c' _ ws] c(2) user_ops_switched [OF inv_wf [OF inv]]
    by (simp add: slm_queue_def)
  let ?d = "(slm_queue x ws ?c)\<lparr>timelineNotifyPending := timelineNotifyPending (slm_queue x ws ?c) \<and> async\<rparr>"
  have e: "queue_wf ?d" "currentQueueType ?d = Some COMPUTE"
    using inv_wf [OF d(1)] d(2) by (auto simp: queue_wf_def)
  show "user_ops (synced async v (slm_queue x ws ?c)) = user_ops c"
    using user_ops_app [OF e emits_sync [of "slm_queue x ws ?c" async v]] s
      user_part_timeline [OF sync_ops_timeline [of "slm_queue x ws ?c" async v]]
    by (simp add: synced_def)
qed

lemma user_ops_launched:
  assumes inv: "queue_inv c" and ws: "emits ws []"
  shows "user_ops (launched async v x ws i qa c) =
    user_ops c @ [LaunchQmd (push_bit 8 (ucast (ucast (drop_bit 8 qa) :: NvU32)))]"
proof -
  let ?c = "switched COMPUTE DMA c"
  let ?d = "(synced async v (slm_queue x ws ?c))\<lparr>kernArgsWriteIdx := i\<rparr>"
  have c: "queue_inv ?c" "currentQueueType ?c = Some COMPUTE" using wf_switched [OF inv] by simp_all
  have d: "queue_inv ?d" "currentQueueType ?d = Some COMPUTE"
    using inv_synced inv_slm_queue [OF c ws] c by simp_all
  have a: "queue_inv (app_words COMPUTE (launch_words qa) ?d)"
    by (rule inv_app_words [OF d]) (use emits_launch emits_well_formed in auto)
  show ?thesis
    using user_ops_finished [OF inv_wf [OF a], of COMPUTE async] d(2)
      user_ops_app [OF inv_wf [OF d(1)] d(2) emits_launch [of qa]] user_ops_prepared(2) [OF inv ws]
    by (simp add: launched_def user_part_def)
qed

lemma user_ops_recorded:
  assumes inv: "queue_inv c"
  shows "user_ops (recorded p c) = user_ops c @ user_part (timelineSignal c) [Release p 1]"
proof -
  let ?t = "record_type c"
  let ?c = "if currentQueueType c = None then c\<lparr>currentQueueType := Some COMPUTE\<rparr> else c"
  have wf: "queue_wf ?c" using inv_wf [OF inv] by (auto simp: queue_wf_def)
  have ty: "currentQueueType ?c = Some ?t" by (auto simp: record_type_def split: option.split)
  show ?thesis
    using user_ops_app [OF wf ty emits_notify [of ?t p 1]] by (auto simp: recorded_def)
qed

lemma ops_of_seg:
  assumes "well_formed (commandBuffer e)"
  shows "user_part p (ops_of (seg_words p e)) = user_part p (ops_of (commandBuffer e))"
  using ops_of_append [OF assms emits_notify [of "queueType e" p "split_timelineCtr e"]]
  by (simp add: seg_words_def user_part_def)

text \<open>A successful start hands over everything, and nothing else changes.\<close>

lemma user_ops_started:
  assumes G: "gpu_frame G" and inv: "queue_inv (queues s q)"
    and run: "startExecution G n q s = (Inr u, s')"
  shows "user_ops (queues s' q) = user_ops (queues s q) \<and> submitted_ops (queues s' q) = user_ops (queues s q)"
proof -
  let ?c = "queues s q" and ?c' = "queues s' q"
  let ?p = "timelineSignal ?c"
  have wf: "queue_wf ?c" by (rule inv_wf [OF inv])
  note ok = startExecution_success [OF G wf run]
  have wfs: "queue_wf (backlogged DMA (backlogged COMPUTE ?c))" using inv by (intro inv_wf inv_backlogged)
  have "user_part ?p (concat (map (ops_of \<circ> snd) (map (\<lambda>e. (queueType e, seg_words ?p e)) es))) =
      user_part ?p (concat (map (ops_of \<circ> commandBuffer) es))"
    if "\<forall>e \<in> set es. well_formed (commandBuffer e)" for es
    using that by (induction es) (simp_all add: ops_of_seg)
  then have seg: "user_part ?p (concat (map (ops_of \<circ> snd) (map (\<lambda>e. (queueType e, seg_words ?p e)) (plan ?c)))) =
      user_part ?p (concat (map (ops_of \<circ> commandBuffer) (plan ?c)))"
    using wfs by (simp add: queue_wf_def plan_def)
  have "user_ops (backlogged DMA (backlogged COMPUTE ?c)) = user_ops ?c"
    using inv_wf [OF inv_backlogged [OF inv]] wf by (simp add: user_ops_backlogged)
  moreover have "computeCommandBuffer (backlogged DMA (backlogged COMPUTE ?c)) = []"
    "dmaCommandBuffer (backlogged DMA (backlogged COMPUTE ?c)) = []"
    by (auto simp: backlogged_def set_buf_def)
  ultimately have all: "user_ops ?c = user_part ?p (concat (map (ops_of \<circ> snd) (submitted ?c))) @
      user_part ?p (concat (map (ops_of \<circ> commandBuffer) (plan ?c)))"
    by (simp add: user_ops_def stream_ops_def plan_def backlogged_def)
  have "submitted_ops ?c' = user_ops ?c"
    using ok seg all by (simp add: submitted_ops_def)
  moreover have "user_ops ?c' = submitted_ops ?c'"
    using ok by (simp add: user_ops_def submitted_ops_def stream_ops_def idle_def)
  ultimately show ?thesis by simp
qed

section \<open>Steps of a stream\<close>

text \<open>
  One call on the queue \<open>q\<close>, with what it asks of the GPU. A refused copy, launch or recording asks
  for nothing, whatever it has done by then. A start that fails is not a step: its backlog stays and
  would be handed over a second time.
\<close>

definition launch_target :: "cmdq \<Rightarrow> func \<Rightarrow> NvU64" where
  "launch_target c f = push_bit 8 (ucast (ucast
     (drop_bit 8 (qmd_address f (kernArgsPageVa c + kernArgsWriteIdx c))) :: NvU32))"

inductive stream_step ::
  "kern \<Rightarrow> ('a drv_scheme \<Rightarrow> 'a drv_scheme) \<Rightarrow> nat \<Rightarrow> nat \<Rightarrow> 'a drv_scheme \<Rightarrow> gpu_op list \<Rightarrow> 'a drv_scheme \<Rightarrow> bool"
  for K G n q where
  step_copy: "gpuMemcpy q dst src sz async s = (Inr (), s') \<Longrightarrow>
    stream_step K G n q s [CopyLine src dst (unat sz)] s'"
| step_launch: "launchFunction K q fp d sm ps np async s = (Inr (), s') \<Longrightarrow>
    stream_step K G n q s [LaunchQmd (launch_target (queues s q) (funcs s fp))] s'"
| step_record: "recordEvent q ev st s = (Inr (), s') \<Longrightarrow>
    stream_step K G n q s [Release (event_signal (record_type (queues s q)) (events s' ev)) 1] s'"
| step_no_copy: "gpuMemcpy q dst src sz async s = (Inl e, s') \<Longrightarrow> stream_step K G n q s [] s'"
| step_no_launch: "launchFunction K q fp d sm ps np async s = (Inl e, s') \<Longrightarrow> stream_step K G n q s [] s'"
| step_no_record: "recordEvent q ev st s = (Inl e, s') \<Longrightarrow> stream_step K G n q s [] s'"
| step_start: "startExecution G n q s = (Inr (), s') \<Longrightarrow> stream_step K G n q s [] s'"
| step_await: "awaitExecution G n q s = (r, s') \<Longrightarrow> stream_step K G n q s [] s'"

text \<open>
  What holds between calls: the invariant of the queue, a sound pool, and a timeline signal that is
  neither free nor the signal of an event.
\<close>

definition order_inv :: "nat \<Rightarrow> 'a drv_scheme \<Rightarrow> bool" where
  "order_inv q s \<longleftrightarrow> (let c = queues s q in queue_inv c \<and> pool_ok c \<and>
     timelineSignal c \<notin> signal_addr c ` set (freeSignals c) \<and>
     (\<forall>ev t. event_signal t (events s ev) \<noteq> timelineSignal c))"

definition gpu_keeps :: "('a drv_scheme \<Rightarrow> 'a drv_scheme) \<Rightarrow> bool" where
  "gpu_keeps G \<longleftrightarrow> (\<forall>s. queues (G s) = queues s \<and> events (G s) = events s)"

text \<open>The parts of a queue that the invariant of the pool and of the timeline speaks of.\<close>

definition same_signals :: "cmdq \<Rightarrow> cmdq \<Rightarrow> bool" where
  "same_signals c c' \<longleftrightarrow> timelineSignal c' = timelineSignal c \<and> signalPool c' = signalPool c \<and>
     freeSignals c' = freeSignals c"

lemma same_signals_ops [simp]:
  "same_signals c (copied dst src n async c)" "same_signals c (launched async v x ws i qa c)"
  "same_signals c (slm_queue x ws (switched COMPUTE DMA c))"
  "same_signals c (synced async v (slm_queue x ws (switched COMPUTE DMA c)))"
  "same_signals c c" "same_signals c (d\<lparr>kernArgsWriteIdx := i\<rparr>) = same_signals c d"
  by (auto simp: same_signals_def copied_def launched_def finished_def Let_def switched_def
      backlogged_def synced_def slm_queue_def)

lemma order_inv_same:
  assumes "order_inv q s" "queue_inv (queues s' q)" "same_signals (queues s q) (queues s' q)" "events s' = events s"
  shows "order_inv q s'"
  using assms by (simp add: order_inv_def Let_def same_signals_def pool_ok_def signal_addr_def)

lemma order_invD:
  assumes "order_inv q s"
  shows "queue_inv (queues s q)" "pool_ok (queues s q)" "timelineSignal (queues s q) \<noteq> 0"
  using assms by (simp_all add: order_inv_def Let_def queue_inv_def queue_wf_def)

subsection \<open>The events, and the state beyond the queues, are untouched\<close>

definition outside :: "((nat \<Rightarrow> cu_event) \<Rightarrow> 'a \<Rightarrow> bool) \<Rightarrow> 'a drv_scheme \<Rightarrow> bool" where
  "outside P s \<longleftrightarrow> P (events s) (drv.more s)"

lemma keeps_events:
  "preserves (outside P) (modq q f)" "preserves (outside P) (mod_func fp h)"
  "preserves (outside P) (write_words a ws)" "preserves (outside P) (getq q g)"
  "preserves (outside P) (modify_ctx c k)"
  by (simp_all add: preserves_def outside_def mod_func_def modify_ctx_def upd_queue_def)

lemma keeps_events_vm:
  "preserves (outside P) (gpuAlloc K c sz ph hp host fl)" "preserves (outside P) (gpuFree K c va)"
proof -
  show "preserves (outside P) (gpuAlloc K c sz ph hp host fl)"
    unfolding preserves_def using gpuAlloc_same_drv [of K c sz ph hp host fl] unfolding same_drv_def outside_def
    by (metis prod.collapse)
  show "preserves (outside P) (gpuFree K c va)"
    unfolding preserves_def using gpuFree_same_drv [of K c va] unfolding same_drv_def outside_def
    by (metis prod.collapse)
qed

lemma keeps_events_enqueue: "preserves (outside P) (enqueue q m ws t)"
  unfolding enqueue_def Let_def by (intro presI keeps_events)

lemma keeps_events_signals:
  "preserves (outside P) (signalNotify q p v t)" "preserves (outside P) (signalWaitGpu q p v)"
  by (cases t; simp add: signalNotify_def; intro presI keeps_events_enqueue)
    (unfold signalWaitGpu_def, intro presI keeps_events_enqueue)

lemma keeps_events_params: "preserves (outside P) (write_params a ps)"
  by (induction a ps rule: write_params.induct)
    (auto intro!: presI keeps_events split: option.split)

lemmas event_frames = keeps_events keeps_events_vm keeps_events_enqueue keeps_events_signals keeps_events_params

lemma keeps_events_switch: "preserves (outside P) (switch_to q t u)"
  unfolding switch_to_def backlogCurrentCmdBuffer_def by (intro presI event_frames)

lemma keeps_events_local: "preserves (outside P) (ensureEnoughLocalMem K q fp)"
proof -
  have "preserves (outside P) (case x of (va, y) \<Rightarrow> m va y)"
    if "\<And>va y. preserves (outside P) (m va y)" for x and m :: "NvU64 \<Rightarrow> NvU32 \<Rightarrow> ('a drv_scheme, unit) prog"
    using that by (cases x) simp
  then show ?thesis
    unfolding ensureEnoughLocalMem_def Let_def split_beta by (intro presI event_frames)
qed

lemma keeps_events_finish: "preserves (outside P) (finish_command q t async)"
  unfolding finish_command_def by (intro presI event_frames)

lemma keeps_events_args: "preserves (outside P) (launch_args q f d params n)"
  unfolding launch_args_def allocKernArgs_def Let_def by (intro presI event_frames)

lemma keeps_events_commands: "preserves (outside P) (launch_commands q f d sm kp)"
  unfolding launch_commands_def Let_def by (intro presI event_frames)

lemma keeps_events_prepare: "preserves (outside P) (launch_prepare K q fp async)"
  unfolding launch_prepare_def by (intro presI event_frames keeps_events_switch keeps_events_local)

lemma keeps_events_check: "preserves (outside P) (check_launch f d sm)"
  unfolding preserves_def using check_launch_frame [of f d sm] by (metis prod.collapse)

lemma launch_outside:
  assumes "launchFunction K q fp d sm ps np async s = (r, s')"
  shows "events s' = events s \<and> drv.more s' = drv.more s"
proof -
  have "preserves (outside (\<lambda>e m. e = events s \<and> m = drv.more s)) (launchFunction K q fp d sm ps np async)"
    unfolding launchFunction_def
    by (intro presI keeps_events_prepare keeps_events_args keeps_events_check keeps_events_commands keeps_events_finish)
  from preservesD [OF this _ assms] show ?thesis by (simp add: outside_def)
qed

lemmas launch_events = launch_outside [THEN conjunct1]

lemma poll_keeps:
  assumes "\<And>s. I s \<Longrightarrow> I (G s)"
  shows "preserves I (poll G n p v)"
proof -
  have "I (snd (poll G n p v s))" if "I s" for s
    using that by (induction n arbitrary: s) (simp_all add: poll.simps assms)
  then show ?thesis by (simp add: preserves_def)
qed

lemma wait_keeps:
  assumes "\<And>s. I s \<Longrightarrow> I (G s)" "\<And>c f. preserves I (modify_ctx c f)"
  shows "preserves I (signalWaitCpu G n q p v)"
  unfolding signalWaitCpu_def getq_def by (auto intro!: presI poll_keeps assms)

lemma submit_events: "preserves (outside P) (submitToFifo q t)"
  unfolding submitToFifo_def Let_def
  by (auto intro!: presI event_frames preserves_modify simp: outside_def split: prod.splits)

lemma start_events:
  assumes G: "gpu_keeps G" and run: "startExecution G n q s = (r, s')"
  shows "events s' = events s"
proof -
  have w: "preserves (outside (\<lambda>e _. e = events s)) (signalWaitCpu G n q p v)" for p v
    by (rule wait_keeps) (use G in \<open>simp_all add: gpu_keeps_def keeps_events outside_def\<close>)
  have sp: "preserves (outside (\<lambda>e _. e = events s)) (run_split G n q e)" for e
    unfolding run_split_def by (intro presI event_frames submit_events w)
  have cu: "preserves (outside (\<lambda>e _. e = events s)) (start_current q t u)" for t u
    unfolding start_current_def startExecution1_def by (intro presI event_frames submit_events)
  have bl: "preserves (outside (\<lambda>e _. e = events s)) (backlogCurrentCmdBuffer q t)" for t
    unfolding backlogCurrentCmdBuffer_def by (intro presI event_frames)
  have "preserves (outside (\<lambda>e _. e = events s)) (startExecution G n q)"
    unfolding startExecution_def by (intro presI event_frames sp cu bl)
  from preservesD [OF this _ run] show ?thesis by (simp add: outside_def)
qed

lemma await_frame:
  assumes "gpu_keeps G" "awaitExecution G n q s = (r, s')"
  shows "events s' = events s \<and> (\<exists>i. queues s' q = (queues s q)\<lparr>kernArgsWriteIdx := i\<rparr>)"
proof -
  let ?I = "\<lambda>s'. events s' = events s \<and> (\<exists>i. queues s' q = (queues s q)\<lparr>kernArgsWriteIdx := i\<rparr>)"
  have w: "preserves ?I (signalWaitCpu G n q p v)" for p v
    by (rule wait_keeps) (use assms(1) in \<open>auto simp: gpu_keeps_def preserves_def modify_ctx_def\<close>)
  have "preserves ?I (awaitExecution G n q)"
    unfolding awaitExecution_def getq_def by (intro presI w) (auto simp: preserves_def)
  moreover have "?I s" by (auto intro: exI [of _ "kernArgsWriteIdx (queues s q)"])
  ultimately show ?thesis using preservesD [of ?I] assms(2) by blast
qed

subsection \<open>Every step keeps the invariant and appends its label\<close>

lemma copy_cases:
  assumes "timelineSignal (queues s q) \<noteq> 0" "gpuMemcpy q dst src sz async s = (r, s')"
  obtains "r = Inr ()" "sz < 0xFFFFFFFF" "s' = upd_queue q (copied dst src sz async) s" | e where "r = Inl e" "s' = s"
proof (cases "dst \<noteq> 0 \<and> src \<noteq> 0 \<and> sz < 0xFFFFFFFF")
  case True
  then show thesis using that(1) assms gpuMemcpy_run [of dst src sz s q async] by simp
next
  case False
  then show thesis using that(2) assms(2) gpuMemcpy_invalid [of dst src sz q async s] by auto
qed

lemma copy_step:
  assumes inv: "order_inv q s" and run: "gpuMemcpy q dst src sz async s = (r, s')"
  shows "order_inv q s' \<and> user_ops (queues s' q) = user_ops (queues s q) @
    (if r = Inr () then [CopyLine src dst (unat sz)] else [])"
  using order_invD(3) [OF inv] run
proof (cases rule: copy_cases)
  case 1
  have "queue_inv (queues s' q)" using inv_copied [OF order_invD(1) [OF inv]] 1 by simp
  moreover have "events s' = events s" using 1 by (simp add: upd_queue_def)
  ultimately show ?thesis
    using order_inv_same [OF inv, of s'] user_ops_copied [OF order_invD(1) [OF inv] 1(2)] 1 by auto
next
  case (2 e)
  then show ?thesis using inv by simp
qed

lemma launch_step:
  assumes inv: "order_inv q s" and run: "launchFunction K q fp d sm ps np async s = (r, s')"
  shows "order_inv q s' \<and> user_ops (queues s' q) = user_ops (queues s q) @
    (if r = Inr () then [LaunchQmd (launch_target (queues s q) (funcs s fp))] else [])"
proof -
  let ?c = "queues s q" and ?f = "funcs s fp"
  note qi = order_invD(1) [OF inv]
  have keep: "queue_inv (queues s' q)" "events s' = events s"
    using launchFunction_inv [OF run qi] launch_events [OF run] by simp_all
  have "same_signals ?c (queues s' q) \<and> user_ops (queues s' q) = user_ops ?c @
      (if r = Inr () then [LaunchQmd (launch_target ?c ?f)] else [])"
  proof (cases r)
    case (Inl e)
    obtain x ws c where w: "emits ws []" "stopped_at q (queues s) c s'"
      "c = ?c \<or> c = slm_queue x ws (switched COMPUTE DMA ?c) \<or>
       c = synced async (sig_value s (timelineSignal ?c)) (slm_queue x ws (switched COMPUTE DMA ?c))"
      using failed_launch_stops [OF order_invD(3) [OF inv]] run Inl by blast
    obtain i where "queues s' q = c\<lparr>kernArgsWriteIdx := i\<rparr>" using w(2) by (auto simp: stopped_at_def)
    then show ?thesis using w(3) user_ops_prepared [OF qi w(1)] Inl by auto
  next
    case (Inr u)
    then obtain x ws where w: "emits ws []" "queues s' q = launched async (sig_value s (timelineSignal ?c)) x ws
        (kernArgsWriteIdx ?c + kernargs_size ?f) (qmd_address ?f (kernArgsPageVa ?c + kernArgsWriteIdx ?c)) ?c"
      using launch_success [of K q fp d sm ps np async s u s'] run order_invD(3) [OF inv] by auto
    then show ?thesis using user_ops_launched [OF qi w(1)] Inr by (simp add: launch_target_def)
  qed
  then show ?thesis using order_inv_same [OF inv keep(1) _ keep(2)] by blast
qed

lemma record_step:
  assumes inv: "order_inv q s" and run: "recordEvent q ev st s = (r, s')"
  shows "order_inv q s' \<and> user_ops (queues s' q) = user_ops (queues s q) @
    (if r = Inr () then [Release (event_signal (record_type (queues s q)) (events s' ev)) 1] else [])"
proof (cases "ev = 0")
  case True
  then show ?thesis using inv run by (auto simp: recordEvent_def)
next
  case False
  let ?c = "queues s q"
  let ?t = "record_type ?c" and ?s0 = "upd_event ev (\<lambda>e. e\<lparr>ev_stream := st\<rparr>) s"
  note r = recordEvent_run [OF order_invD(2) [OF inv] False, of st]
  have ev0: "event_signal u (events ?s0 e) = event_signal u (events s e)" for u e
    by (simp add: upd_event_def)
  have ts: "event_signal u (events s e) \<noteq> timelineSignal ?c" for u e
    using inv by (simp add: order_inv_def Let_def)
  have inv0: "order_inv q ?s0" using inv ev0 by (simp add: order_inv_def Let_def)
  show ?thesis
  proof (cases "record_prepare q ev ?t ?s0")
    case None
    then show ?thesis using r run inv0 by (auto simp: Let_def)
  next
    case (Some x)
    obtain p s1 where x: "x = (p, s1)" by fastforce
    have rs: "r = Inr ()" "s' = upd_queue q (recorded p) s1" using r run Some x by (auto simp: Let_def)
    have pool: "pool_ok (queues ?s0 q)" using order_invD(2) [OF inv0] .
    note prep = record_prepare_some [OF pool Some [unfolded x]]
    obtain l where l: "queues s1 q = ?c\<lparr>freeSignals := l\<rparr>" using prep(3) by auto
    have sub: "set l \<subseteq> set (freeSignals ?c) \<and> distinct l"
      using Some x l pool by (auto simp: record_prepare_def pool_ok_def split: if_splits list.splits)
        (metis cmdq.select_convs(8) cmdq.surjective cmdq.update_convs(8))+
    have p: "p \<noteq> timelineSignal ?c"
      using Some x ev0 ts inv by (auto simp: record_prepare_def order_inv_def Let_def split: if_splits list.splits)
    have ts2: "computeSignal (events s e) \<noteq> timelineSignal ?c" "dmaSignal (events s e) \<noteq> timelineSignal ?c" for e
      using ts [of COMPUTE e] ts [of DMA e] by (simp_all add: event_signal_def)
    have evs: "event_signal u (events s' e) \<noteq> timelineSignal ?c" for u e
      using Some x p ts2
      by (cases u; cases ?t) (auto simp: rs(2) record_prepare_def upd_event_def upd_queue_def event_signal_def
          set_event_signal_def split: if_splits list.splits)
    have q': "queues s' q = (recorded p ?c)\<lparr>freeSignals := l\<rparr>" by (simp add: rs(2) l)
    have core: "timelineSignal (recorded p ?c) = timelineSignal ?c" "signalPool (recorded p ?c) = signalPool ?c"
      by (simp_all add: recorded_def)
    have "order_inv q s'"
      using inv inv_recorded [OF order_invD(1) [OF inv]] evs sub
      by (auto simp: order_inv_def Let_def q' core inv_freeSignals pool_ok_def signal_addr_def)
    moreover have "event_signal ?t (events s' ev) = p" using prep(2) by (simp add: rs(2))
    moreover have "user_ops (queues s' q) = user_ops ?c @ [Release p 1]"
      using user_ops_recorded [OF order_invD(1) [OF inv], of p] p by (simp add: q' user_part_def)
    ultimately show ?thesis using rs(1) by simp
  qed
qed

lemma start_step:
  assumes G: "gpu_keeps G" and inv: "order_inv q s" and run: "startExecution G n q s = (Inr (), s')"
  shows "order_inv q s' \<and> user_ops (queues s' q) = user_ops (queues s q)"
proof -
  have fr: "gpu_frame G" using G by (simp add: gpu_keeps_def gpu_frame_def)
  note qi = order_invD(1) [OF inv]
  have "same_signals (queues s q) (queues s' q)"
    using startExecution_success [OF fr inv_wf [OF qi] run] by (simp add: same_signals_def)
  then show ?thesis
    using order_inv_same [OF inv] startExecution_inv [OF fr qi run] start_events [OF G run]
      user_ops_started [OF fr qi run] by blast
qed

lemma await_step:
  assumes G: "gpu_keeps G" and inv: "order_inv q s" and run: "awaitExecution G n q s = (r, s')"
  shows "order_inv q s' \<and> user_ops (queues s' q) = user_ops (queues s q)"
proof -
  obtain i where i: "events s' = events s" "queues s' q = (queues s q)\<lparr>kernArgsWriteIdx := i\<rparr>"
    using await_frame [OF G run] by blast
  have "order_inv q s'"
    by (rule order_inv_same [OF inv]) (use order_invD(1) [OF inv] i in \<open>simp_all\<close>)
  then show ?thesis by (simp add: i)
qed

lemma stream_step_order:
  assumes G: "gpu_keeps G" and inv: "order_inv q s" and st: "stream_step K G n q s ls s'"
  shows "order_inv q s' \<and> user_ops (queues s' q) = user_ops (queues s q) @ ls"
  using st
proof (cases rule: stream_step.cases)
  case (step_copy dst src sz async)
  then show ?thesis using copy_step [OF inv] by fastforce
next
  case (step_launch fp d sm ps np async)
  then show ?thesis using launch_step [OF inv] by fastforce
next
  case (step_record ev st)
  then show ?thesis using record_step [OF inv] by fastforce
next
  case (step_no_copy dst src sz async e)
  then show ?thesis using copy_step [OF inv] by fastforce
next
  case (step_no_launch fp d sm ps np async e)
  then show ?thesis using launch_step [OF inv] by fastforce
next
  case (step_no_record ev st e)
  then show ?thesis using record_step [OF inv] by fastforce
next
  case step_start
  then show ?thesis using start_step [OF G inv] by simp
next
  case (step_await r)
  then show ?thesis using await_step [OF G inv] by simp
qed

interpretation stream: tracing "stream_step K G n q" "\<lambda>s. gpu_keeps G \<and> order_inv q s" "\<lambda>s. user_ops (queues s q)"
  for K G n q
  using stream_step_order by unfold_locales blast+


lemma demo_order: "order_inv 1 demo_drv" "gpu_keeps demo_gpu" "user_ops demo_queue = []"
proof -
  have "event_signal t demo_event = 0" for t by (cases t) (simp_all add: event_signal_def demo_event_def)
  then show "order_inv 1 demo_drv"
    using demo_queue_inv demo_pool_ok by (simp add: order_inv_def signal_addr_def sizeof_NvSignal_def)
  show "gpu_keeps demo_gpu" by (simp add: gpu_keeps_def demo_gpu_def)
  show "user_ops demo_queue = []" by (simp add: user_ops_def stream_ops_def ops_of_notify user_part_def)
qed


end
