(* ===== verification/Stream_Api.thy ===== *)
theory Stream_Api
  imports Stream_Order
begin

text \<open>
  The public functions on streams and events of \<open>driverapi/src/librecuda.cpp\<close>, and what a stream is
  like when \<open>libreCuStreamCreate\<close> has returned it: the invariants of the queue hold from then on.
\<close>

section \<open>State\<close>

text \<open>
  \<open>streams\<close> gives the command queue of a stream. \<open>new\<close> takes the next pointer; no pointer is handed
  out twice, also not after \<open>delete\<close>.
\<close>

record api = drv +
  streams :: "nat \<Rightarrow> nat"
  next_ptr :: nat

definition new_ptr :: "('a api_scheme, nat) prog" where
  "new_ptr = (\<lambda>s. (Inr (next_ptr s), s\<lparr>next_ptr := next_ptr s + 1\<rparr>))"

section \<open>Streams\<close>

text \<open>
  \<open>new NvCommandQueue(current_ctx)\<close> does not initialise \<open>currentQueueType\<close> and \<open>kernArgsPageVa\<close>:
  \<open>ty\<close> and \<open>ka\<close> are what the memory holds.
\<close>

definition libreCuStreamCreate ::
  "kern \<Rightarrow> ('a api_scheme \<Rightarrow> 'a api_scheme) \<Rightarrow> nat \<Rightarrow> QueueType option \<Rightarrow> NvU64 \<Rightarrow> bool \<Rightarrow>
    ('a api_scheme, nat) prog" where
  "libreCuStreamCreate K G n ty ka pStreamOut =
     bind (validate pStreamOut LIBRECUDA_ERROR_INVALID_VALUE) (\<lambda>_.
     bind new_ptr (\<lambda>command_queue.
     bind (modify (\<lambda>s. s\<lparr>queues := (queues s)(command_queue := new_queue (current_ctx s) ty ka)\<rparr>)) (\<lambda>_.
     bind (initializeQueue K G n command_queue) (\<lambda>_.
     bind new_ptr (\<lambda>stream.
     bind (modify (\<lambda>s. s\<lparr>streams := (streams s)(stream := command_queue)\<rparr>)) (\<lambda>_.
     ret stream))))))"

definition on_queue :: "nat \<Rightarrow> (nat \<Rightarrow> ('a api_scheme, 'b) prog) \<Rightarrow> ('a api_scheme, 'b) prog" where
  "on_queue stream f = bind (gets (\<lambda>s. streams s stream)) f"

definition libreCuStreamCommence ::
  "('a api_scheme \<Rightarrow> 'a api_scheme) \<Rightarrow> nat \<Rightarrow> nat \<Rightarrow> ('a api_scheme, unit) prog" where
  "libreCuStreamCommence G n stream =
     bind (validate (stream \<noteq> 0) LIBRECUDA_ERROR_INVALID_VALUE) (\<lambda>_.
     on_queue stream (startExecution G n))"

definition libreCuStreamAwait ::
  "('a api_scheme \<Rightarrow> 'a api_scheme) \<Rightarrow> nat \<Rightarrow> nat \<Rightarrow> ('a api_scheme, unit) prog" where
  "libreCuStreamAwait G n stream =
     bind (validate (stream \<noteq> 0) LIBRECUDA_ERROR_INVALID_VALUE) (\<lambda>_.
     on_queue stream (awaitExecution G n))"

definition libreCuStreamDestroy :: "kern \<Rightarrow> nat \<Rightarrow> ('a api_scheme, unit) prog" where
  "libreCuStreamDestroy K stream =
     bind (validate (stream \<noteq> 0) LIBRECUDA_ERROR_INVALID_VALUE) (\<lambda>_.
     on_queue stream (delete_queue K))"

definition libreCuLaunchKernel ::
  "kern \<Rightarrow> nat \<Rightarrow> launch_dims \<Rightarrow> NvU32 \<Rightarrow> nat \<Rightarrow> NvU8 list list \<Rightarrow> NvU64 \<Rightarrow> bool \<Rightarrow> ('a api_scheme, unit) prog" where
  "libreCuLaunchKernel K f d sharedMemBytes stream kernelParams numParams async =
     bind (validate (f \<noteq> 0) LIBRECUDA_ERROR_INVALID_VALUE) (\<lambda>_.
     bind (validate (stream \<noteq> 0) LIBRECUDA_ERROR_INVALID_VALUE) (\<lambda>_.
     on_queue stream (\<lambda>q. launchFunction K q f d sharedMemBytes kernelParams numParams async)))"

section \<open>Events\<close>

text \<open>\<open>new LibreCUEvent_{}\<close> clears all fields.\<close>

definition NewEvent :: "('a api_scheme, nat) prog" where
  "NewEvent = bind new_ptr (\<lambda>ev.
     bind (modify (\<lambda>s. s\<lparr>events := (events s)(ev := \<lparr>ev_stream = 0, computeSignal = 0, dmaSignal = 0\<rparr>)\<rparr>)) (\<lambda>_.
     ret ev))"

definition EventGetStream :: "nat \<Rightarrow> ('a api_scheme, nat) prog" where
  "EventGetStream ev = gets (\<lambda>s. ev_stream (events s ev))"

definition libreCuEventCreate :: "bool \<Rightarrow> ('a api_scheme, nat) prog" where
  "libreCuEventCreate pEventOut =
     bind (validate pEventOut LIBRECUDA_ERROR_INVALID_VALUE) (\<lambda>_. NewEvent)"

definition libreCuEventRecord :: "nat \<Rightarrow> nat \<Rightarrow> ('a api_scheme, unit) prog" where
  "libreCuEventRecord ev stream =
     bind (validate (ev \<noteq> 0) LIBRECUDA_ERROR_INVALID_VALUE) (\<lambda>_.
     bind (validate (stream \<noteq> 0) LIBRECUDA_ERROR_INVALID_VALUE) (\<lambda>_.
     on_queue stream (\<lambda>q. recordEvent q ev stream)))"

definition libreCuEventSynchronize ::
  "('a api_scheme \<Rightarrow> 'a api_scheme) \<Rightarrow> nat \<Rightarrow> nat \<Rightarrow> ('a api_scheme, unit) prog" where
  "libreCuEventSynchronize G n ev =
     bind (validate (ev \<noteq> 0) LIBRECUDA_ERROR_INVALID_VALUE) (\<lambda>_.
     bind (EventGetStream ev) (\<lambda>stream.
     bind (validate (stream \<noteq> 0) LIBRECUDA_ERROR_INVALID_VALUE) (\<lambda>_.
     on_queue stream (\<lambda>q. waitForEvent G n q ev))))"

text \<open>
  The result is the difference of the timestamps in nanoseconds; the source converts it to
  milliseconds as a \<open>float\<close>. Neither \<open>getEventTimestamp\<close> looks at the queue it is called on.
\<close>

definition libreCuEventElapsedTime :: "nat \<Rightarrow> nat \<Rightarrow> ('a api_scheme, NvU64) prog" where
  "libreCuEventElapsedTime start_ev end_ev =
     bind (validate (start_ev \<noteq> 0) LIBRECUDA_ERROR_INVALID_VALUE) (\<lambda>_.
     bind (EventGetStream start_ev) (\<lambda>stream.
     bind (validate (stream \<noteq> 0) LIBRECUDA_ERROR_INVALID_VALUE) (\<lambda>_.
     bind (validate (end_ev \<noteq> 0) LIBRECUDA_ERROR_INVALID_VALUE) (\<lambda>_.
     bind (EventGetStream end_ev) (\<lambda>stream2.
     bind (validate (stream2 = stream) LIBRECUDA_ERROR_INVALID_VALUE) (\<lambda>_.
     bind (getEventTimestamp start_ev True) (\<lambda>startTimestamp.
     bind (getEventTimestamp end_ev True) (\<lambda>endTimestamp.
     ret (endTimestamp - startTimestamp)))))))))"

text \<open>Deleting an event gives nothing back: its signals stay taken.\<close>

definition libreCuEventDestroy :: "nat \<Rightarrow> ('a api_scheme, unit) prog" where
  "libreCuEventDestroy ev = validate (ev \<noteq> 0) LIBRECUDA_ERROR_INVALID_VALUE"

section \<open>A new queue\<close>

text \<open>What \<open>initializeQueue\<close> sends first.\<close>

definition setup_words :: "NvU32 \<Rightarrow> NvU32 list" where
  "setup_words cls = call_words 1 NVC6C0_SET_OBJECT [cls] @
     call_words 1 NVC6C0_SET_SHADER_LOCAL_MEMORY_WINDOW_A [hi_32 local_mem_window, lo_32 local_mem_window] @
     call_words 1 NVC6C0_SET_SHADER_SHARED_MEMORY_WINDOW_A [hi_32 shared_mem_window, lo_32 shared_mem_window]"

lemma emits_setup: "emits (setup_words cls) []"
proof -
  have "setup_words cls = concat (map (\<lambda>(s, m, x). call_words s m x)
      [(1, NVC6C0_SET_OBJECT, [cls]),
       (1, NVC6C0_SET_SHADER_LOCAL_MEMORY_WINDOW_A, [hi_32 local_mem_window, lo_32 local_mem_window]),
       (1, NVC6C0_SET_SHADER_SHARED_MEMORY_WINDOW_A, [hi_32 shared_mem_window, lo_32 shared_mem_window])])"
    by (simp add: setup_words_def)
  then show ?thesis
    by (simp only:) (rule emits_calls,
      simp add: calls_ok, simp add: Let_def trigger_def reg_file_def register_defs)
qed

lemma emits_dma_object: "emits (call_words 4 NVC6C0_SET_OBJECT [x]) []"
proof -
  have "call_words 4 NVC6C0_SET_OBJECT [x] = concat (map (\<lambda>(s, m, x). call_words s m x)
      [(4, NVC6C0_SET_OBJECT, [x])])" by simp
  then show ?thesis
    by (simp only:) (rule emits_calls,
      simp add: calls_ok, simp add: Let_def trigger_def reg_file_def register_defs)
qed

lemma bump_timeline_run:
  assumes "timelineSignal (queues s q) \<noteq> 0"
  shows "bump_timeline q t s = (Inr (), upd_queue q (\<lambda>c. app_words t
    (notify_words t (timelineSignal c) (timelineCtr c + 1)) (c\<lparr>timelineCtr := timelineCtr c + 1\<rparr>)) s)"
  using assms by (simp add: bump_timeline_def bind_def signalNotify_run upd_queue_def)

text \<open>
  The state of a queue between the stages: nothing is pending, and everything released so far was
  submitted.
\<close>

definition quiet_queue :: "NvU64 \<Rightarrow> NvU32 \<Rightarrow> cmdq \<Rightarrow> bool" where
  "quiet_queue p v c \<longleftrightarrow> timelineSignal c = p \<and> timelineCtr c = v \<and> idle c \<and>
     commandBufBacklog c = [] \<and> \<not> timelineNotifyPending c"

text \<open>Setting up one of the two engines: objects, a release of the next timeline value, a wait.\<close>

definition setup_engine ::
  "('a drv_scheme \<Rightarrow> 'a drv_scheme) \<Rightarrow> nat \<Rightarrow> nat \<Rightarrow> QueueType \<Rightarrow> ('a drv_scheme, unit) prog" where
  "setup_engine G n q t = block [bump_timeline q t, startExecution1 q t, awaitExecution G n q]"

lemma setup_engine_success:
  assumes G: "gpu_keeps G" and run: "setup_engine G n q t (upd_queue q (app_words t ws) s) = (Inr (), s')"
    and c: "quiet_queue p v (queues s q)" "p \<noteq> 0" and ws: "emits ws []"
  shows "quiet_queue p (v + 1) (queues s' q) \<and> events s' = events s \<and>
    signalPool (queues s' q) = signalPool (queues s q) \<and> freeSignals (queues s' q) = freeSignals (queues s q) \<and>
    q_ctx (queues s' q) = q_ctx (queues s q) \<and>
    submitted (queues s' q) = submitted (queues s q) @ [(t, ws @ notify_words t p (v + 1))]"
proof -
  let ?s = "upd_queue q (app_words t ws) s"
  define s1 where "s1 = upd_queue q (\<lambda>c. app_words t (notify_words t p (v + 1)) (c\<lparr>timelineCtr := v + 1\<rparr>)) ?s"
  have b: "bump_timeline q t ?s = (Inr (), s1)"
    using bump_timeline_run [of ?s q t] c by (simp add: quiet_queue_def s1_def upd_queue_def)
  obtain s2 where sub: "submitToFifo q t s1 = (Inr (), s2)" and aw: "awaitExecution G n q s2 = (Inr (), s')"
    using run b by (auto simp: setup_engine_def bind_eq_Inr startExecution1_def)
  have empty: "computeCommandBuffer (queues s q) = []" "dmaCommandBuffer (queues s q) = []"
    using c(1) by (simp_all add: quiet_queue_def idle_def)
  have buf: "buf_of t (queues s1 q) = ws @ notify_words t p (v + 1)"
    by (cases t) (simp_all add: s1_def empty app_words_def set_buf_def)
  have other: "buf_of u (queues s1 q) = []" if "u \<noteq> t" for u
    using that by (cases t; cases u) (simp_all add: s1_def empty app_words_def set_buf_def)
  have "buf_of t (queues s1 q) \<noteq> []" unfolding buf by (cases t) (simp_all add: notify_words_def call_words_def)
  note sq = submit_queue [OF sub this]
  have e2: "events s2 = events s" using preservesD [OF submit_events [of "\<lambda>e _. e = events s1"] _ sub] by (simp add: outside_def s1_def)
  obtain i where i: "events s' = events s2" "queues s' q = (queues s2 q)\<lparr>kernArgsWriteIdx := i\<rparr>"
    using await_frame [OF G aw] by blast
  have idle: "idle (queues s2 q)"
    using sq other by (cases t) (auto simp: idle_def dest: spec [of _ COMPUTE] spec [of _ DMA])
  have q1: "timelineSignal (queues s1 q) = p" "timelineCtr (queues s1 q) = v + 1"
    "commandBufBacklog (queues s1 q) = []" "\<not> timelineNotifyPending (queues s1 q)"
    "submitted (queues s1 q) = submitted (queues s q)" "signalPool (queues s1 q) = signalPool (queues s q)"
    "freeSignals (queues s1 q) = freeSignals (queues s q)" "q_ctx (queues s1 q) = q_ctx (queues s q)"
    using c(1) by (simp_all add: s1_def quiet_queue_def)
  show ?thesis
    using sq idle q1 buf by (simp add: i e2 quiet_queue_def same_queue_def idle_def)
qed

lemma initializeQueue_stages:
  "initializeQueue K G n q =
     bind (block [alloc_queue_page K q COMPUTE, alloc_queue_page K q DMA, alloc_signal_pool K q,
       bind (obtainSignal q) (\<lambda>p. modq q (\<lambda>c. c\<lparr>timelineSignal := p\<rparr>))]) (\<lambda>_.
     bind (gets (\<lambda>s. compute_class (public_device_handles s ! ctx_device (ctxs s (q_ctx (queues s q)))))) (\<lambda>cls.
     bind (block [enqueue q (makeNvMethod 1 NVC6C0_SET_OBJECT 1 2) [cls] COMPUTE,
       enqueue q (makeNvMethod 1 NVC6C0_SET_SHADER_LOCAL_MEMORY_WINDOW_A 2 2)
         [hi_32 local_mem_window, lo_32 local_mem_window] COMPUTE,
       enqueue q (makeNvMethod 1 NVC6C0_SET_SHADER_SHARED_MEMORY_WINDOW_A 2 2)
         [hi_32 shared_mem_window, lo_32 shared_mem_window] COMPUTE]) (\<lambda>_.
     bind (setup_engine G n q COMPUTE) (\<lambda>_.
     bind (enqueue q (makeNvMethod 4 NVC6C0_SET_OBJECT 1 2) [AMPERE_DMA_COPY_B] DMA) (\<lambda>_.
     bind (setup_engine G n q DMA) (\<lambda>_.
     block [bind (getq q q_ctx) (\<lambda>c. bind (gpuAlloc K c KERNARGS_PAGE_SIZE False True True 0) (\<lambda>(va, _).
         modq q (\<lambda>x. x\<lparr>kernArgsPageVa := va\<rparr>))),
       modq q (\<lambda>c. c\<lparr>initialized := True\<rparr>)]))))))"
  by (simp only: initializeQueue_def setup_engine_def block.simps bind_assoc bind_succeed)

lemma alloc_page_success:
  assumes run: "alloc_queue_page K q t s = (Inr (), s')"
    and fit: "va_fits (q_ctx (queues s q)) 0x800000 s"
  shows "\<exists>P. queues s' = (queues s)(q := set_page t P (queues s q))" "events s' = events s"
    "unat (uvm_vaddr (ctxs s (q_ctx (queues s q)))) \<le> unat (uvm_vaddr (ctxs s' (q_ctx (queues s q))))"
    "unat (uvm_vaddr (ctxs s' (q_ctx (queues s q)))) < unat (uvm_vaddr (ctxs s (q_ctx (queues s q)))) + 0xc00000"
proof -
  let ?c = "q_ctx (queues s q)"
  have sz: "MAX_CMD_QUEUE_PAGE_SIZE * 4 = 0x800000" by (simp add: MAX_CMD_QUEUE_PAGE_SIZE_def)
  obtain va h s1 where a: "gpuAlloc K ?c 0x800000 False False True 0 s = (Inr (va, h), s1)"
    and s': "s' = upd_queue q (\<lambda>x. set_page t ((page_of t x)\<lparr>commandQueueSpace := va\<rparr>) x) s1"
    using run by (auto simp: alloc_queue_page_def sz bind_eq_Inr)
  note b = alloc_base_bounds [OF fit]
  have sm: "same_drv s s1" by (rule gpuAlloc_same_drv [OF a])
  show "\<exists>P. queues s' = (queues s)(q := set_page t P (queues s q))"
    using sm by (auto simp: s' upd_queue_def same_drv_def)
  show "events s' = events s" using sm by (simp add: s' same_drv_def)
  have u: "uvm_vaddr (ctxs s1 ?c) = alloc_base ?c False s + alloc_size False 0x800000"
    by (rule gpuAlloc_outcome [OF a b(8) b(7)]) (simp_all add: alloc_effect_def)
  have sum: "unat (uvm_vaddr (ctxs s1 ?c)) = unat (alloc_base ?c False s) + unat (alloc_size False 0x800000)"
    unfolding u by (rule b(5) [of False])
  have size: "unat (alloc_size False 0x800000) < 0x800000 + 0x200000"
    using round_up_less [OF page_alignment_32(4) [of False], of "unat (0x800000 :: NvU64)"] page_alignment_32(3) [of False]
    unfolding b(3) [of False] by simp
  have "ctxs s' = ctxs s1" by (simp add: s' upd_queue_def)
  then show "unat (uvm_vaddr (ctxs s ?c)) \<le> unat (uvm_vaddr (ctxs s' ?c))"
    "unat (uvm_vaddr (ctxs s' ?c)) < unat (uvm_vaddr (ctxs s ?c)) + 0xc00000"
    using b(1) [of False] b(2) [of False] sum size by simp_all
qed

lemma alloc_pool_success:
  assumes run: "alloc_signal_pool K q s = (Inr (), s')"
    and fit: "va_fits (q_ctx (queues s q)) 0x100000 s"
  obtains va where "queues s' = (queues s)(q := (queues s q)\<lparr>signalPool := va,
      freeSignals := freeSignals (queues s q) @ map of_nat [0 ..< MAX_SIGNAL_POOL_SIZE]\<rparr>)"
    and "events s' = events s" "uvm_vaddr (ctxs s (q_ctx (queues s q))) \<le> va" "unat va + 0x100000 < 2 ^ 64" "va \<noteq> 0"
proof -
  let ?c = "q_ctx (queues s q)"
  have sz: "sizeof_NvSignal * of_nat MAX_SIGNAL_POOL_SIZE = 0x100000"
    by (simp add: sizeof_NvSignal_def MAX_SIGNAL_POOL_SIZE_def)
  obtain va h s1 where a: "gpuSystemAlloc K ?c 0x100000 True 0 s = (Inr (va, h), s1)"
    and s': "s' = upd_queue q (\<lambda>x. x\<lparr>signalPool := va, freeSignals := freeSignals x @ map of_nat [0 ..< MAX_SIGNAL_POOL_SIZE]\<rparr>) s1"
    using run by (auto simp: alloc_signal_pool_def sz bind_eq_Inr)
  note b = alloc_base_bounds [OF fit]
  have va: "va = alloc_base ?c False s" and q1: "queues s1 = queues s" "events s1 = events s"
    by (rule gpuSystemAlloc_outcome [OF a b(8,7)]; simp add: alloc_effect_def)+
  have "unat va + 0x100000 < 2 ^ 64" using b(2) [of False] fit by (simp add: va va_fits_def)
  then show thesis
    using that [of va] b(1) [of False] b(7) [of False] by (simp add: s' q1 upd_queue_def va word_le_nat_alt)
qed

lemma setup_words_run:
  "block [enqueue q (makeNvMethod 1 NVC6C0_SET_OBJECT 1 2) [cls] COMPUTE,
       enqueue q (makeNvMethod 1 NVC6C0_SET_SHADER_LOCAL_MEMORY_WINDOW_A 2 2)
         [hi_32 local_mem_window, lo_32 local_mem_window] COMPUTE,
       enqueue q (makeNvMethod 1 NVC6C0_SET_SHADER_SHARED_MEMORY_WINDOW_A 2 2)
         [hi_32 shared_mem_window, lo_32 shared_mem_window] COMPUTE] s =
     (Inr (), upd_queue q (app_words COMPUTE (setup_words cls)) s)"
  by (simp add: bind_def enqueue_run calls_ok setup_words_def)

lemma setup_memory_success:
  assumes run: "block [alloc_queue_page K q COMPUTE, alloc_queue_page K q DMA, alloc_signal_pool K q,
       bind (obtainSignal q) (\<lambda>p. modq q (\<lambda>c. c\<lparr>timelineSignal := p\<rparr>))] s = (Inr (), s')"
    and new: "queues s q = new_queue c ty ka" and fit: "va_fits c 0x2000000 s"
  obtains va where "quiet_queue va 0 (queues s' q)" "signalPool (queues s' q) = va" "pool_ok (queues s' q)"
    "timelineSignal (queues s' q) \<notin> signal_addr (queues s' q) ` set (freeSignals (queues s' q))"
    "submitted (queues s' q) = []" "events s' = events s" "uvm_vaddr (ctxs s c) \<le> va" "va \<noteq> 0"
    "\<forall>p. p \<noteq> q \<longrightarrow> queues s' p = queues s p"
proof -
  obtain s1 s2 s3 where p1: "alloc_queue_page K q COMPUTE s = (Inr (), s1)"
    and p2: "alloc_queue_page K q DMA s1 = (Inr (), s2)" and p3: "alloc_signal_pool K q s2 = (Inr (), s3)"
    and p4: "bind (obtainSignal q) (\<lambda>p. modq q (\<lambda>c. c\<lparr>timelineSignal := p\<rparr>)) s3 = (Inr (), s')"
    using run by (auto simp: bind_eq_Inr)
  have c0: "q_ctx (queues s q) = c" by (simp add: new new_queue_def)
  have top: "uvm_vaddr (ctxs s c) \<noteq> 0" "unat (uvm_vaddr (ctxs s c)) + 0x2000000 + 0x400000 < 2 ^ 64"
    using fit by (simp_all add: va_fits_def)
  have f1: "va_fits (q_ctx (queues s q)) 0x800000 s" using top by (simp add: c0 va_fits_def)
  note a1 = alloc_page_success [OF p1 f1]
  obtain P1 where q1: "queues s1 = (queues s)(q := set_page COMPUTE P1 (queues s q))" using a1(1) by blast
  have c1: "q_ctx (queues s1 q) = c" by (simp add: q1 c0)
  have f2: "va_fits (q_ctx (queues s1 q)) 0x800000 s1"
    using top a1(3,4) unfolding c0 c1 va_fits_def by (auto simp: unat_eq_zero)
  note a2 = alloc_page_success [OF p2 f2]
  obtain P2 where q2: "queues s2 = (queues s1)(q := set_page DMA P2 (queues s1 q))" using a2(1) by blast
  have c2: "q_ctx (queues s2 q) = c" by (simp add: q2 c1)
  have f3: "va_fits (q_ctx (queues s2 q)) 0x100000 s2"
    using top a1(3,4) a2(3,4) unfolding c0 c1 c2 va_fits_def by (auto simp: unat_eq_zero)
  obtain va where q3: "queues s3 = (queues s2)(q := (queues s2 q)\<lparr>signalPool := va,
      freeSignals := freeSignals (queues s2 q) @ map of_nat [0 ..< MAX_SIGNAL_POOL_SIZE]\<rparr>)"
    and va: "events s3 = events s2" "uvm_vaddr (ctxs s2 (q_ctx (queues s2 q))) \<le> va" "unat va + 0x100000 < 2 ^ 64" "va \<noteq> 0"
    using alloc_pool_success [OF p3 f3] by blast
  have low: "uvm_vaddr (ctxs s c) \<le> va"
    using va(2) a1(3) a2(3) unfolding c0 c1 c2 by (simp add: word_le_nat_alt)
  have fresh: "freeSignals (queues s2 q) = []" by (simp add: q2 q1 new new_queue_def)
  have idx: "unat (of_nat i :: NvU32) = i" if "i < MAX_SIGNAL_POOL_SIZE" for i
    using that by (simp add: MAX_SIGNAL_POOL_SIZE_def unsigned_of_nat take_bit_nat_eq_self)
  have free3: "freeSignals (queues s3 q) = map of_nat [0 ..< MAX_SIGNAL_POOL_SIZE]" by (simp add: q3 fresh)
  have inj: "inj_on (of_nat :: nat \<Rightarrow> NvU32) {0 ..< MAX_SIGNAL_POOL_SIZE}"
    using idx by (metis atLeastLessThan_iff inj_onI)
  have ok3: "pool_ok (queues s3 q)"
    unfolding pool_ok_def free3 using va(3,4) idx inj
    by (auto simp: q3 distinct_map MAX_SIGNAL_POOL_SIZE_def)
  have pos: "0 < MAX_SIGNAL_POOL_SIZE" by (simp add: MAX_SIGNAL_POOL_SIZE_def)
  have first: "map of_nat [0 ..< MAX_SIGNAL_POOL_SIZE] = (0 :: NvU32) # map of_nat [1 ..< MAX_SIGNAL_POOL_SIZE]"
    unfolding upt_conv_Cons [OF pos] by simp
  have s': "s' = upd_queue q (\<lambda>c. c\<lparr>freeSignals := map of_nat [1 ..< MAX_SIGNAL_POOL_SIZE],
      timelineSignal := signal_addr (queues s3 q) 0\<rparr>) s3"
    using p4 unfolding bind_def obtainSignal_run [OF ok3] free3 first by (simp add: upd_queue_def)
  have addr0: "signal_addr (queues s3 q) 0 = va" by (simp add: signal_addr_def q3)
  have q': "queues s' q = (queues s3 q)\<lparr>freeSignals := map of_nat [1 ..< MAX_SIGNAL_POOL_SIZE], timelineSignal := va\<rparr>"
    by (simp add: s' addr0)
  show thesis
  proof (rule that [of va])
    show "quiet_queue va 0 (queues s' q)"
      by (simp add: q' quiet_queue_def q3 q2 q1 new idle_def new_queue_def set_page_def)
    show "signalPool (queues s' q) = va" by (simp add: q' q3)
    show "pool_ok (queues s' q)" using ok3 unfolding pool_ok_def q' free3 first by auto
    show "timelineSignal (queues s' q) \<notin> signal_addr (queues s' q) ` set (freeSignals (queues s' q))"
    proof
      assume "timelineSignal (queues s' q) \<in> signal_addr (queues s' q) ` set (freeSignals (queues s' q))"
      then obtain i where i: "1 \<le> i" "i < MAX_SIGNAL_POOL_SIZE" "va = signal_addr (queues s' q) (of_nat i)"
        by (auto simp: q')
      have "signal_addr (queues s' q) 0 = va" by (simp add: signal_addr_def q' q3)
      then have "(of_nat i :: NvU32) = 0"
        using i signal_addr_inj [of "of_nat i" 0 "queues s' q"] idx [OF i(2)] by (simp add: MAX_SIGNAL_POOL_SIZE_def)
      then show False using idx [OF i(2)] i(1) by simp
    qed
    show "submitted (queues s' q) = []" by (simp add: q' q3 q2 q1 new new_queue_def)
    show "events s' = events s" using a1(2) a2(2) va(1) by (simp add: s')
    show "\<forall>p. p \<noteq> q \<longrightarrow> queues s' p = queues s p" by (simp add: s' upd_queue_def q3 q2 q1)
  qed (use low va in auto)
qed

text \<open>A queue that has just been initialised.\<close>

lemma initializeQueue_success:
  assumes G: "gpu_keeps G" and run: "initializeQueue K G n q s = (Inr (), s')"
    and new: "queues s q = new_queue c ty ka" and fit: "va_fits c 0x2000000 s"
  obtains va where "quiet_queue va 2 (queues s' q)" "pool_ok (queues s' q)" "initialized (queues s' q)"
    "va \<notin> signal_addr (queues s' q) ` set (freeSignals (queues s' q))"
    "submitted_notifies va (submitted (queues s' q)) \<supseteq> {1, 2}" "submitted_ops (queues s' q) = []"
    "events s' = events s" "uvm_vaddr (ctxs s c) \<le> va" "va \<noteq> 0"
proof -
  obtain s1 s2 s3 s4 s5 cls where p1: "block [alloc_queue_page K q COMPUTE, alloc_queue_page K q DMA,
       alloc_signal_pool K q, bind (obtainSignal q) (\<lambda>p. modq q (\<lambda>c. c\<lparr>timelineSignal := p\<rparr>))] s = (Inr (), s1)"
    and p2: "setup_engine G n q COMPUTE (upd_queue q (app_words COMPUTE (setup_words cls)) s1) = (Inr (), s2)"
    and p3: "setup_engine G n q DMA (upd_queue q (app_words DMA (call_words 4 NVC6C0_SET_OBJECT [AMPERE_DMA_COPY_B])) s2) = (Inr (), s3)"
    and p4: "bind (getq q q_ctx) (\<lambda>c. bind (gpuAlloc K c KERNARGS_PAGE_SIZE False True True 0) (\<lambda>(va, _).
         modq q (\<lambda>x. x\<lparr>kernArgsPageVa := va\<rparr>))) s3 = (Inr (), s4)"
    and s': "s' = upd_queue q (\<lambda>c. c\<lparr>initialized := True\<rparr>) s4"
    using run unfolding initializeQueue_stages bind_eq_Inr setup_words_run enqueue_run [OF calls_ok(8), of 1, simplified]
    by (auto simp: bind_eq_Inr)
  obtain va where m: "quiet_queue va 0 (queues s1 q)" "signalPool (queues s1 q) = va" "pool_ok (queues s1 q)"
    "timelineSignal (queues s1 q) \<notin> signal_addr (queues s1 q) ` set (freeSignals (queues s1 q))"
    "submitted (queues s1 q) = []" "events s1 = events s" "uvm_vaddr (ctxs s c) \<le> va" "va \<noteq> 0"
    using setup_memory_success [OF p1 new fit] by metis
  note e1 = setup_engine_success [OF G p2 m(1,8) emits_setup]
  have q2: "quiet_queue va 1 (queues s2 q)" using e1 by simp
  note e2 = setup_engine_success [OF G p3 q2 m(8) emits_dma_object]
  obtain v2 h s4' where a: "gpuAlloc K (q_ctx (queues s3 q)) KERNARGS_PAGE_SIZE False True True 0 s3 = (Inr (v2, h), s4')"
    and s4: "s4 = upd_queue q (\<lambda>x. x\<lparr>kernArgsPageVa := v2\<rparr>) s4'"
    using p4 by (auto simp: bind_eq_Inr)
  have sm: "queues s4' = queues s3" "events s4' = events s3" using gpuAlloc_same_drv [OF a] by (simp_all add: same_drv_def)
  have q': "queues s' q = (queues s3 q)\<lparr>kernArgsPageVa := v2, initialized := True\<rparr>" by (simp add: s' s4 sm)
  let ?w1 = "setup_words cls @ notify_words COMPUTE va 1"
  let ?w2 = "call_words 4 NVC6C0_SET_OBJECT [AMPERE_DMA_COPY_B] @ notify_words DMA va 2"
  have sub: "submitted (queues s3 q) = [(COMPUTE, ?w1), (DMA, ?w2)]" using e1 e2 m(5) by simp
  have ops: "emits ?w1 [Release va 1]" "emits ?w2 [Release va 2]"
    using emits_append [OF emits_setup emits_notify [of COMPUTE va 1]] emits_append [OF emits_dma_object emits_notify [of DMA va 2]]
    by simp_all
  show thesis
  proof (rule that [of va])
    show "quiet_queue va 2 (queues s' q)" using e2 by (simp add: q' quiet_queue_def idle_def)
    show "pool_ok (queues s' q)" using e1 e2 m(3) by (simp add: q' pool_ok_def)
    show "initialized (queues s' q)" by (simp add: q')
    show "va \<notin> signal_addr (queues s' q) ` set (freeSignals (queues s' q))"
      using e1 e2 m(1,4) by (simp add: q' signal_addr_def quiet_queue_def)
    show "submitted_notifies va (submitted (queues s' q)) \<supseteq> {1, 2}"
      using sub notifies_emits [OF ops(1)] notifies_emits [OF ops(2)] by (simp add: q' submitted_notifies_def)
    show "submitted_ops (queues s' q) = []"
      using e2 sub ops_of_emits [OF ops(1)] ops_of_emits [OF ops(2)]
      by (simp add: q' submitted_ops_def quiet_queue_def user_part_def)
    show "events s' = events s" using e1 e2 m(6) by (simp add: s' s4 sm)
  qed (use m in auto)
qed


text \<open>A kernel that grants everything, and a program that has created nothing yet.\<close>

definition granting :: kern where
  "granting l c = \<lparr>kret = (case c of KOpen _ \<Rightarrow> 7 | _ \<Rightarrow> 0), kstatus = 0, khandle = 0x100, kaddr = 0x7000, kdata = []\<rparr>"

definition demo_api :: api where
  "demo_api = \<lparr>root = 0x10, fd_ctl = 3, fd_uvm = 4, klog = [], public_device_handles = [demo_device],
     ctxs = (\<lambda>_. demo_context), current_ctx = 1, hostMappedPtrs = [], va_to_mem_handle = Map.empty,
     queues = (\<lambda>_. new_queue 0 None 0), events = (\<lambda>_. demo_event), funcs = (\<lambda>_. demo_func),
     sig_value = (\<lambda>_. 0), sig_time = (\<lambda>_. 0), wmem = (\<lambda>_. 0), doorbells = [],
     streams = (\<lambda>_. 0), next_ptr = 1\<rparr>"

lemma granted:
  assumes "fd_ctl s > 0"
  shows "RM_ALLOC granting (fd_ctl s) cl r p ob ps s = (Inr 0x100, s\<lparr>klog := klog s @ [KIowr (fd_ctl s) NV_ESC_RM_ALLOC
      ([(''hRoot'', ucast r), (''hObjectParent'', ucast p), (''hObjectNew'', ucast ob), (''hClass'', ucast cl)] @ ps)]\<rparr>)"
  using assms by (simp add: RM_ALLOC_def as_unknown_def rm_alloc_def NV_IOWR_def kernel_call_def bind_def granting_def)

lemma granted_uvm: "\<exists>s'. UVM_IOCTL granting fd nr ps s = (Inr (), s')"
  by (simp add: UVM_IOCTL_def kernel_call_def bind_def granting_def)

lemma granted_map:
  assumes "c \<noteq> 0" "h \<noteq> 0" "va \<noteq> 0"
  shows "\<exists>s'. memUVMMap granting c h va sz s = (Inr (), s')" "\<exists>s'. memMapToCpu granting c h sz va fl b s = (Inr va, s')"
  using assms by (cases b; simp add: memUVMMap_def memMapToCpu_def open_for_map_def UVM_IOCTL_def NV_IOWR_def
      kernel_call_def bind_def granting_def MAP_FAILED_def)+

text \<open>What the stages of a creation need and keep; \<open>B\<close> bounds the addresses handed out.\<close>

definition granted_state :: "nat \<Rightarrow> nat \<Rightarrow> nat \<Rightarrow> 'a drv_scheme \<Rightarrow> bool" where
  "granted_state q c B s \<longleftrightarrow> fd_ctl s > 0 \<and> q_ctx (queues s q) = c \<and> c \<noteq> 0 \<and>
     ctx_flags (ctxs s c) \<in> {0, CU_CTX_SCHED_SPIN} \<and>
     uvm_vaddr (ctxs s c) \<noteq> 0 \<and> unat (uvm_vaddr (ctxs s c)) < B \<and>
     entries_count (compute_gpfifo (ctxs s c)) \<noteq> 0 \<and> entries_count (dma_gpfifo (ctxs s c)) \<noteq> 0"

lemma alloc_granted:
  assumes "fd_ctl s > 0" "c \<noteq> 0" "va_fits c sz s"
  shows "\<exists>s'. gpuAlloc granting c sz ph hp host fl s = (Inr (alloc_base c hp s, 0x100), s')"
proof -
  note b = alloc_base_bounds [OF assms(3)]
  obtain ps where ps: "gpuAlloc granting c sz ph hp host fl s =
      bind (RM_ALLOC granting (fd_ctl s) NV1_MEMORY_USER (root s) (device_handle (ctxs s c)) 0 ps)
        (alloc_tail granting c (alloc_size hp sz) hp host fl) s"
    using assms(2) by (simp add: gpuAlloc_def alloc_tail_def [abs_def] alloc_size_def roundUp64_def Let_def)
  obtain l where l: "gpuAlloc granting c sz ph hp host fl s = alloc_tail granting c (alloc_size hp sz) hp host fl 0x100 (s\<lparr>klog := l\<rparr>)"
    unfolding ps bind_def granted [OF assms(1)] by simp
  let ?s = "s\<lparr>klog := l\<rparr>"
  have fit: "unat (uvm_vaddr (ctxs ?s c)) + unat (ucast (page_alignment hp) :: NvU32) < 2 ^ 64"
    using b(8) page_alignment_32 [of hp] by simp
  have base: "bump_va (uvm_vaddr (ctxs ?s c)) (ucast (page_alignment hp)) = alloc_base c hp s"
    by (simp add: alloc_base_def)
  have m: "\<exists>s'. memUVMMap granting c 0x100 (alloc_base c hp s) x t = (Inr (), s')"
    "\<exists>s'. memMapToCpu granting c 0x100 x (alloc_base c hp s) fl y t = (Inr (alloc_base c hp s), s')" for x y t
    using granted_map [of c "0x100" "alloc_base c hp s"] assms(2) b(7) [of hp] by simp_all
  obtain s1 where s1: "bump_alloc_virtual_addr c (alloc_size hp sz) (ucast (page_alignment hp)) ?s = (Inr (alloc_base c hp s), s1)"
    using bump_alloc_run [OF page_alignment_32(1) fit] unfolding base Let_def by blast
  obtain s2 where s2: "memUVMMap granting c 0x100 (alloc_base c hp s) (alloc_size hp sz) s1 = (Inr (), s2)" using m(1) by blast
  obtain s3 where s3: "memMapToCpu granting c 0x100 (alloc_size hp sz) (alloc_base c hp s) fl False
      (s2\<lparr>hostMappedPtrs := hostMappedPtrs s2 @ [(alloc_base c hp s, alloc_base c hp s + alloc_size hp sz)]\<rparr>)
      = (Inr (alloc_base c hp s), s3)" using m(2) by blast
  show ?thesis
    unfolding l by (cases host) (simp_all add: alloc_tail_def bind_def s1 s2 s3)
qed

lemma system_granted:
  assumes "fd_ctl s > 0" "c \<noteq> 0" "va_fits c sz s"
  shows "\<exists>s'. gpuSystemAlloc granting c sz True fl s = (Inr (alloc_base c False s, 0x100), s')"
proof -
  note b = alloc_base_bounds [OF assms(3)]
  obtain ps where ps: "gpuSystemAlloc granting c sz True fl s =
      bind (RM_ALLOC granting (fd_ctl s) NV1_MEMORY_SYSTEM (root s) (device_handle (ctxs s c)) 0 ps)
        (system_tail granting c sz True fl) s"
    using assms(2) by (simp add: gpuSystemAlloc_def system_tail_def [abs_def])
  obtain l where l: "gpuSystemAlloc granting c sz True fl s = system_tail granting c sz True fl 0x100 (s\<lparr>klog := l\<rparr>)"
    unfolding ps bind_def granted [OF assms(1)] by simp
  let ?s = "s\<lparr>klog := l\<rparr>"
  have fit: "unat (uvm_vaddr (ctxs ?s c)) + unat (push_bit 10 4 :: NvU32) < 2 ^ 64"
    using b(8) unfolding small_page by simp
  have nz: "(push_bit 10 4 :: NvU32) \<noteq> 0" unfolding small_page by simp
  have base: "bump_va (uvm_vaddr (ctxs ?s c)) (push_bit 10 4) = alloc_base c False s"
    by (simp add: alloc_base_small)
  obtain s1 where s1: "bump_alloc_virtual_addr c sz (push_bit 10 4) ?s = (Inr (alloc_base c False s), s1)"
    using bump_alloc_run [OF nz fit] unfolding base Let_def by blast
  obtain s2 where s2: "memMapToCpu granting c 0x100 sz (alloc_base c False s) fl True s1 = (Inr (alloc_base c False s), s2)"
    using granted_map(2) [OF assms(2) _ b(7) [of False], of "0x100"] by fastforce
  obtain s3 where s3: "memUVMMap granting c 0x100 (alloc_base c False s) sz s2 = (Inr (), s3)"
    using granted_map(1) [OF assms(2) _ b(7) [of False], of "0x100"] by fastforce
  show ?thesis by (simp add: l system_tail_def bind_def s1 [unfolded small_page] small_page s2 s3)
qed

lemma gpuAlloc_granted:
  assumes g: "granted_state q c B s" and B: "B + unat sz + 0x400000 < 2 ^ 64"
  obtains va s' where "gpuAlloc granting c sz ph hp host fl s = (Inr (va, 0x100), s')"
    "granted_state q c (B + unat sz + 0x400000) s'"
proof -
  have st: "fd_ctl s > 0" "c \<noteq> 0" using g by (simp_all add: granted_state_def)
  have fit: "va_fits c sz s" using g B by (simp add: granted_state_def va_fits_def)
  note b = alloc_base_bounds [OF fit]
  obtain s' where a: "gpuAlloc granting c sz ph hp host fl s = (Inr (alloc_base c hp s, 0x100), s')"
    using alloc_granted [OF st fit] by blast
  obtain l h where s': "s' = (alloc_effect c (alloc_base c hp s) (alloc_size hp sz) host (Some h) s)\<lparr>klog := l\<rparr>"
    by (rule gpuAlloc_outcome [OF a b(8) b(7)]) auto
  have "unat (alloc_size hp sz) < unat sz + 0x200000"
    using round_up_less [OF page_alignment_32(4) [of hp], of "unat sz"] page_alignment_32(3) [of hp]
    unfolding b(3) by linarith
  then have top: "unat (alloc_base c hp s + alloc_size hp sz) < B + unat sz + 0x400000"
    "alloc_base c hp s + alloc_size hp sz \<noteq> 0"
    using b(1,2) [of hp] b(5) [of hp] g by (auto simp: granted_state_def unat_eq_zero)
  have "granted_state q c (B + unat sz + 0x400000) s'"
    using g top by (simp add: granted_state_def s' alloc_effect_def)
  then show thesis using that a by blast
qed

lemma system_granted_state:
  assumes g: "granted_state q c B s" and B: "B + unat sz + 0x400000 < 2 ^ 64"
  obtains va s' where "gpuSystemAlloc granting c sz True fl s = (Inr (va, 0x100), s')"
    "granted_state q c (B + unat sz + 0x400000) s'"
proof -
  have st: "fd_ctl s > 0" "c \<noteq> 0" using g by (simp_all add: granted_state_def)
  have fit: "va_fits c sz s" using g B by (simp add: granted_state_def va_fits_def)
  note b = alloc_base_bounds [OF fit]
  obtain s' where a: "gpuSystemAlloc granting c sz True fl s = (Inr (alloc_base c False s, 0x100), s')"
    using system_granted [OF st fit] by blast
  obtain l where s': "s' = (alloc_effect c (alloc_base c False s) sz False None s)\<lparr>klog := l\<rparr>"
    by (rule gpuSystemAlloc_outcome [OF a b(8) b(7)]) auto
  have top: "unat (alloc_base c False s + sz) < B + unat sz + 0x400000" "alloc_base c False s + sz \<noteq> 0"
    using b(1,2) [of False] b(6) g by (auto simp: granted_state_def unat_eq_zero)
  have "granted_state q c (B + unat sz + 0x400000) s'"
    using g top by (simp add: granted_state_def s' alloc_effect_def)
  then show thesis using that a by blast
qed

lemma granted_upd:
  "granted_state q c B s \<Longrightarrow> q_ctx (f (queues s q)) = q_ctx (queues s q) \<Longrightarrow> granted_state q c B (upd_queue q f s)"
  by (simp add: granted_state_def upd_queue_def)

lemma demo_gpu_keeps_state: "granted_state q c B s \<Longrightarrow> granted_state q c B ((demo_gpu ^^ k) s)"
  by (induction k) (simp_all add: demo_gpu_def granted_state_def)

lemma demo_gpu_queues: "queues ((demo_gpu ^^ k) s) = queues s"
  by (induction k) (simp_all add: demo_gpu_def)

lemma setup_granted:
  assumes g: "granted_state 1 c B s" and ts: "p \<noteq> 0" "timelineSignal (queues s 1) = p"
    and new: "buf_of t (queues s 1) = []" "commandWriteIdx (page_of t (queues s 1)) = 0"
    and len: "length ws < 100" and ws: "emits ws []"
  shows "\<exists>s'. setup_engine demo_gpu 1 1 t (upd_queue 1 (app_words t ws) s) = (Inr (), s') \<and> granted_state 1 c B s' \<and>
    (\<forall>u. u \<noteq> t \<longrightarrow> page_of u (queues s' 1) = page_of u (queues s 1))"
proof -
  let ?v = "timelineCtr (queues s 1) + 1"
  define s1 where "s1 = upd_queue 1 (\<lambda>c. app_words t (ws @ notify_words t p ?v) (c\<lparr>timelineCtr := ?v\<rparr>)) s"
  have b: "bump_timeline 1 t (upd_queue 1 (app_words t ws) s) = (Inr (), s1)"
    using ts by (cases t) (simp_all add: bump_timeline_run s1_def upd_queue_def app_words_def set_buf_def)
  have g1: "granted_state 1 c B s1" unfolding s1_def by (rule granted_upd [OF g]) simp
  have buf: "buf_of t (queues s1 1) = ws @ notify_words t p ?v"
    using new(1) by (cases t) (simp_all add: s1_def app_words_def set_buf_def)
  have ln: "length (ws @ notify_words t p ?v) < 200" "ws @ notify_words t p ?v \<noteq> []"
    using len by (cases t; simp add: notify_words_def call_words_def)+
  have page: "commandWriteIdx (page_of t (queues s1 1)) = 0"
    using new(2) by (cases t) (simp_all add: s1_def app_words_def set_buf_def)
  have small: "unat (of_nat k :: NvU64) \<le> 2097152" if "k < 200" for k
    using that by (simp add: unsigned_of_nat take_bit_nat_eq_self)
  have nf: "\<not> page_full 1 t s1"
    using small [OF ln(1)] unfolding page_full_def page buf
    by (simp add: MAX_CMD_QUEUE_PAGE_SIZE_def not_less word_le_nat_alt del: length_append)
  have ent: "entries_count (fifo_of t (ctxs s1 (q_ctx (queues s1 1)))) \<noteq> 0"
    using g1 by (cases t) (simp_all add: granted_state_def fifo_of_def)
  obtain w where sub: "submitToFifo 1 t s1 = (Inr (), submit_effect 1 t w s1)"
    using submit_run [of t s1 1] buf ln(2) ent nf by simp
  define s2 where "s2 = submit_effect 1 t w s1"
  have g2: "granted_state 1 c B s2"
    using g1 by (cases t) (simp_all add: granted_state_def s2_def submit_effect_def Let_def fifo_of_def set_fifo_def
        set_page_def page_of_def set_buf_def)
  have q2: "timelineSignal (queues s2 1) = p" "timelineCtr (queues s2 1) = ?v"
    using submit_queue [OF sub] ln(2) ts(2) unfolding buf by (simp_all add: same_queue_def s2_def s1_def)
  have sv: "?v \<in> submitted_notifies p (submitted (queues s2 1))"
  proof -
    have "(t, ws @ notify_words t p ?v) \<in> set (submitted (queues s2 1))"
      using submit_queue [OF sub] ln(2) unfolding buf by (simp add: s2_def)
    moreover have "?v \<in> notifies p (ws @ notify_words t p ?v)"
      using notifies_append [OF emits_well_formed [OF ws]] notifies_notify by simp
    ultimately show ?thesis by (force simp: submitted_notifies_def)
  qed
  have c2: "q_ctx (queues s2 1) = c" using g2 by (simp add: granted_state_def)
  let ?sp = "spin_default c s2"
  have g3: "granted_state 1 c B ?sp" using g2 by (auto simp: granted_state_def spin_default_def)
  have nb: "\<not> blocking_only c s2" using g2 by (auto simp: granted_state_def blocking_only_def)
  have "ucast ?v \<le> sig_value ((demo_gpu ^^ 1) ?sp) p"
    using demo_gpu_serves [of ?v p ?sp] sv by simp
  then obtain s3 where s3: "poll demo_gpu 1 p ?v ?sp = (Inr (), s3)" using poll_eventually by blast
  obtain k where k: "s3 = (demo_gpu ^^ k) ?sp" using poll_returns [OF s3] by blast
  then have g4: "granted_state 1 c B s3" using demo_gpu_keeps_state [OF g3] by simp
  have "queues s3 = queues s2" using k by (simp add: demo_gpu_queues spin_default_def)
  moreover have "page_of u (queues s2 1) = page_of u (queues s 1)" if "u \<noteq> t" for u
    using that by (cases t; cases u) (simp_all add: s2_def s1_def submit_effect_def Let_def set_page_def page_of_def
        set_buf_def app_words_def)
  ultimately have pg: "page_of u (queues s3 1) = page_of u (queues s 1)" if "u \<noteq> t" for u using that by simp
  have "awaitExecution demo_gpu 1 1 s2 = (Inr (), upd_queue 1 (\<lambda>c. c\<lparr>kernArgsWriteIdx := 0\<rparr>) s3)"
    using s3 signalWaitCpu_run [OF ts(1), of s2 1] nb ts(1) by (simp add: awaitExecution_def bind_def q2 c2 del: One_nat_def)
  moreover have "granted_state 1 c B (upd_queue 1 (\<lambda>c. c\<lparr>kernArgsWriteIdx := 0\<rparr>) s3)"
    by (rule granted_upd [OF g4]) simp
  moreover have "page_of u (queues (upd_queue 1 (\<lambda>c. c\<lparr>kernArgsWriteIdx := 0\<rparr>) s3) 1) = page_of u (queues s 1)"
    if "u \<noteq> t" for u
    using pg [OF that] by (cases u) simp_all
  ultimately show ?thesis using b sub by (simp add: setup_engine_def bind_def startExecution1_def s2_def)
qed

text \<open>The memory a new queue asks for is granted.\<close>

lemma page_granted:
  assumes g: "granted_state q c B s" and B: "B + 0xc00000 < 2 ^ 64"
  obtains s' where "alloc_queue_page granting q t s = (Inr (), s')" "granted_state q c (B + 0xc00000) s'"
proof -
  have c: "q_ctx (queues s q) = c" using g by (simp add: granted_state_def)
  have sz: "MAX_CMD_QUEUE_PAGE_SIZE * 4 = 0x800000" by (simp add: MAX_CMD_QUEUE_PAGE_SIZE_def)
  have B': "B + unat (0x800000 :: NvU64) + 0x400000 < 2 ^ 64" using B by simp
  obtain va s1 where a: "gpuAlloc granting c 0x800000 False False True 0 s = (Inr (va, 0x100), s1)"
    and "granted_state q c (B + unat (0x800000 :: NvU64) + 0x400000) s1"
    using gpuAlloc_granted [OF g B', of False False True 0] by blast
  moreover have "B + unat (0x800000 :: NvU64) + 0x400000 = B + 0xc00000" by simp
  ultimately have g1: "granted_state q c (B + 0xc00000) s1" by metis
  have "granted_state q c (B + 0xc00000)
      (upd_queue q (\<lambda>x. set_page t ((page_of t x)\<lparr>commandQueueSpace := va\<rparr>) x) s1)"
    by (rule granted_upd [OF g1]) simp
  then show thesis using that a by (simp add: alloc_queue_page_def sz bind_def c)
qed

lemma pool_granted:
  assumes g: "granted_state q c B s" and B: "B + 0x500000 < 2 ^ 64"
  obtains s' where "alloc_signal_pool granting q s = (Inr (), s')" "granted_state q c (B + 0x500000) s'"
proof -
  have c: "q_ctx (queues s q) = c" using g by (simp add: granted_state_def)
  have sz: "sizeof_NvSignal * of_nat MAX_SIGNAL_POOL_SIZE = 0x100000"
    by (simp add: sizeof_NvSignal_def MAX_SIGNAL_POOL_SIZE_def)
  have B': "B + unat (0x100000 :: NvU64) + 0x400000 < 2 ^ 64" using B by simp
  obtain va s1 where a: "gpuSystemAlloc granting c 0x100000 True 0 s = (Inr (va, 0x100), s1)"
    and "granted_state q c (B + unat (0x100000 :: NvU64) + 0x400000) s1"
    using system_granted_state [OF g B', of 0] by blast
  moreover have "B + unat (0x100000 :: NvU64) + 0x400000 = B + 0x500000" by simp
  ultimately have g1: "granted_state q c (B + 0x500000) s1" by metis
  have "granted_state q c (B + 0x500000) (upd_queue q (\<lambda>x. x\<lparr>signalPool := va,
      freeSignals := freeSignals x @ map of_nat [0 ..< MAX_SIGNAL_POOL_SIZE]\<rparr>) s1)"
    by (rule granted_upd [OF g1]) simp
  then show thesis using that a by (simp add: alloc_signal_pool_def sz bind_def c)
qed

lemma alloc_page_writeIdx:
  assumes "alloc_queue_page K q t s = (Inr (), s')"
  shows "commandWriteIdx (page_of u (queues s' q)) = commandWriteIdx (page_of u (queues s q))"
  using assms gpuAlloc_same_drv
  by (cases t; cases u) (fastforce simp: alloc_queue_page_def bind_eq_Inr set_page_def page_of_def same_drv_def)+

lemma memory_granted:
  assumes g: "granted_state q c B s" and B: "B < 0x3000000000" and new: "queues s q = new_queue c ty ka"
  obtains s' va where "block [alloc_queue_page granting q COMPUTE, alloc_queue_page granting q DMA, alloc_signal_pool granting q,
       bind (obtainSignal q) (\<lambda>p. modq q (\<lambda>c. c\<lparr>timelineSignal := p\<rparr>))] s = (Inr (), s')"
    "granted_state q c (B + 0x1d00000) s'" "quiet_queue va 0 (queues s' q)" "va \<noteq> 0"
    "\<forall>t. commandWriteIdx (page_of t (queues s' q)) = 0"
proof -
  obtain s1 where a1: "alloc_queue_page granting q COMPUTE s = (Inr (), s1)" and g1: "granted_state q c (B + 0xc00000) s1"
    by (rule page_granted [OF g, of COMPUTE]) (use B in simp)
  obtain s2 where a2: "alloc_queue_page granting q DMA s1 = (Inr (), s2)"
    and "granted_state q c (B + 0xc00000 + 0xc00000) s2"
    by (rule page_granted [OF g1, of DMA]) (use B in simp)
  then have g2: "granted_state q c (B + 0x1800000) s2" by (simp add: add.commute)
  obtain s3 where a3: "alloc_signal_pool granting q s2 = (Inr (), s3)" and "granted_state q c (B + 0x1800000 + 0x500000) s3"
    by (rule pool_granted [OF g2]) (use B in simp)
  then have g3: "granted_state q c (B + 0x1d00000) s3" by (simp add: add.commute)
  have "va_fits (q_ctx (queues s2 q)) 0x100000 s2" using g2 B by (simp add: granted_state_def va_fits_def)
  from alloc_pool_success [OF a3 this] obtain pool where
    q3: "queues s3 = (queues s2)(q := (queues s2 q)\<lparr>signalPool := pool,
      freeSignals := freeSignals (queues s2 q) @ map of_nat [0 ..< MAX_SIGNAL_POOL_SIZE]\<rparr>)" and pool: "pool \<noteq> 0"
    by blast
  have "0 < MAX_SIGNAL_POOL_SIZE" by (simp add: MAX_SIGNAL_POOL_SIZE_def)
  then obtain i r where free: "freeSignals (queues s3 q) = i # r" by (cases "freeSignals (queues s3 q)") (auto simp: q3)
  define s' where "s' = upd_queue q (\<lambda>c. c\<lparr>freeSignals := r, timelineSignal := pool + ucast i * sizeof_NvSignal\<rparr>) s3"
  have a4: "bind (obtainSignal q) (\<lambda>p. modq q (\<lambda>c. c\<lparr>timelineSignal := p\<rparr>)) s3 = (Inr (), s')"
    using pool free by (simp add: obtainSignal_def bind_def q3 s'_def upd_queue_def)
  have run: "block [alloc_queue_page granting q COMPUTE, alloc_queue_page granting q DMA, alloc_signal_pool granting q,
       bind (obtainSignal q) (\<lambda>p. modq q (\<lambda>c. c\<lparr>timelineSignal := p\<rparr>))] s = (Inr (), s')"
    using a1 a2 a3 a4 by (simp add: bind_def)
  have fit: "va_fits c 0x2000000 s" using g B by (simp add: granted_state_def va_fits_def)
  obtain va where va: "quiet_queue va 0 (queues s' q)" "va \<noteq> 0" using setup_memory_success [OF run new fit] by metis
  have i0: "commandWriteIdx (page_of t (queues s q)) = 0" for t by (cases t) (simp_all add: new new_queue_def page_of_def)
  have "commandWriteIdx (page_of t (queues s' q)) = 0" for t
    using alloc_page_writeIdx [OF a1, of t] alloc_page_writeIdx [OF a2, of t] i0 [of t] by (cases t) (simp_all add: s'_def q3)
  moreover have "granted_state q c (B + 0x1d00000) s'" unfolding s'_def by (rule granted_upd [OF g3]) simp
  ultimately show thesis using that run va by blast
qed

lemma quiet_queueD:
  assumes "quiet_queue p v c"
  shows "timelineSignal c = p" "buf_of t c = []"
  using assms by (cases t; simp add: quiet_queue_def idle_def)+

lemma initializeQueue_granted:
  assumes g: "granted_state 1 c B s" and B: "B < 0x3000000000" and new: "queues s 1 = new_queue c ty ka"
  shows "\<exists>s'. initializeQueue granting demo_gpu 1 1 s = (Inr (), s')"
proof -
  obtain s1 va where m: "block [alloc_queue_page granting 1 COMPUTE, alloc_queue_page granting 1 DMA, alloc_signal_pool granting 1,
       bind (obtainSignal 1) (\<lambda>p. modq 1 (\<lambda>c. c\<lparr>timelineSignal := p\<rparr>))] s = (Inr (), s1)"
    and g1: "granted_state 1 c (B + 0x1d00000) s1" and q1: "quiet_queue va 0 (queues s1 1)" "va \<noteq> 0"
    and w: "\<forall>t. commandWriteIdx (page_of t (queues s1 1)) = 0"
    by (rule memory_granted [OF g B new])
  have gk: "gpu_keeps (demo_gpu :: 'a drv_scheme \<Rightarrow> 'a drv_scheme)" by (simp add: gpu_keeps_def demo_gpu_def)
  define cls where "cls = compute_class (public_device_handles s1 ! ctx_device (ctxs s1 (q_ctx (queues s1 1))))"
  have l1: "length (setup_words cls) < 100" by (simp add: setup_words_def call_words_def)
  have l2: "length (call_words 4 NVC6C0_SET_OBJECT [AMPERE_DMA_COPY_B]) < 100" by (simp add: call_words_def)
  obtain s2 where e1: "setup_engine demo_gpu 1 1 COMPUTE (upd_queue 1 (app_words COMPUTE (setup_words cls)) s1) = (Inr (), s2)"
    and g2: "granted_state 1 c (B + 0x1d00000) s2" and w2: "page_of DMA (queues s2 1) = page_of DMA (queues s1 1)"
    using setup_granted [OF g1 q1(2) quiet_queueD [OF q1(1)] w [rule_format] l1 emits_setup] by blast
  have q2: "quiet_queue va 1 (queues s2 1)" using setup_engine_success [OF gk e1 q1 emits_setup] by simp
  obtain s3 where e2: "setup_engine demo_gpu 1 1 DMA (upd_queue 1 (app_words DMA (call_words 4 NVC6C0_SET_OBJECT [AMPERE_DMA_COPY_B])) s2) = (Inr (), s3)"
    and g3: "granted_state 1 c (B + 0x1d00000) s3"
    using setup_granted [OF g2 q1(2) quiet_queueD [OF q2] _ l2 emits_dma_object] w w2 by metis
  have "B + 0x1d00000 + unat KERNARGS_PAGE_SIZE + 0x400000 < 2 ^ 64" using B by (simp add: KERNARGS_PAGE_SIZE_def)
  from gpuAlloc_granted [OF g3 this] obtain v s4 where a: "gpuAlloc granting c KERNARGS_PAGE_SIZE False True True 0 s3 = (Inr (v, 0x100), s4)"
    by metis
  have c: "q_ctx (queues s3 1) = c" using g3 by (simp add: granted_state_def)
  have o: "enqueue 1 (makeNvMethod 4 NVC6C0_SET_OBJECT 1 2) [AMPERE_DMA_COPY_B] DMA s2 =
      (Inr (), upd_queue 1 (app_words DMA (call_words 4 NVC6C0_SET_OBJECT [AMPERE_DMA_COPY_B])) s2)"
    by (rule enqueue_run [OF calls_ok(8), of 1, simplified])
  note w1 = setup_words_run [of 1 cls s1]
  show ?thesis
    unfolding initializeQueue_stages
    by (subst bind_run_Inr, rule m, subst bind_gets, fold cls_def, subst bind_run_Inr, rule w1,
        subst bind_run_Inr, rule e1, subst bind_run_Inr, rule o, subst bind_run_Inr, rule e2)
      (simp add: bind_def c [unfolded One_nat_def] a)
qed

lemma stream_create_granted:
  "\<exists>stream s'. libreCuStreamCreate granting demo_gpu 1 None 0 True demo_api = (Inr stream, s')"
proof -
  define s0 where "s0 = demo_api\<lparr>next_ptr := 1 + 1, queues := (queues demo_api)(1 := new_queue 1 None 0)\<rparr>"
  have g: "granted_state 1 1 0x2000000000 s0"
    by (simp add: granted_state_def s0_def demo_api_def new_queue_def demo_context_def UVM_HEAP_START_def demo_fifo_def)
  have new: "queues s0 1 = new_queue 1 None 0" by (simp add: s0_def)
  obtain s1 where i: "initializeQueue granting demo_gpu 1 1 s0 = (Inr (), s1)"
    using initializeQueue_granted [OF g _ new] by auto
  have "next_ptr demo_api = 1" "current_ctx demo_api = 1" by (simp_all add: demo_api_def)
  then have "libreCuStreamCreate granting demo_gpu 1 None 0 True demo_api =
      (Inr (next_ptr s1), s1\<lparr>next_ptr := next_ptr s1 + 1, streams := (streams s1)(next_ptr s1 := 1)\<rparr>)"
    using i by (simp add: libreCuStreamCreate_def bind_def new_ptr_def s0_def del: One_nat_def)
  then show ?thesis by blast
qed


end
