(* ===== verification/Device_Copy.thy ===== *)
theory Device_Copy
  imports Stream_Api Copy_Kernels
begin

text \<open>
  Copies: \<open>libreCuMemCpy\<close> of \<open>driverapi/src/librecuda.cpp\<close> and \<open>memcpyD2D\<close> of \<open>driverapi/src/memcopy.cpp\<close>,
  which splits a copy of device memory into launches of up to three kernels. The lemmas show that the
  threads of all these launches together, in any order, copy exactly the bytes asked for.
\<close>

section \<open>The code\<close>

text \<open>
  The functions that \<open>loadMemcpyKernelsIfNeeded\<close> found, by the ordinal of the device; an entry that
  an \<open>unordered_map\<close> does not have yet reads as the null pointer 0.
\<close>

record d2d = api +
  kernelHighBW :: "int \<Rightarrow> nat"
  kernelLowLatency :: "int \<Rightarrow> nat"
  kernelTrailingCpy :: "int \<Rightarrow> nat"

definition CEIL_DIV :: "NvU64 \<Rightarrow> NvU64 \<Rightarrow> NvU64" where "CEIL_DIV x y = (x + y - 1) div y"
definition MEMCPY_THREAD_COPYSIZE :: NvU64 where "MEMCPY_THREAD_COPYSIZE = 16"
definition MAX_GRID_SIZE_X :: NvU64 where "MAX_GRID_SIZE_X = 65535"
definition MEMCPY_HIGHBW_BYTE_GRANULARITY :: NvU64 where "MEMCPY_HIGHBW_BYTE_GRANULARITY = 4096"
definition MEMCPY_FINISH_BYTE_GRANULARITY :: NvU64 where "MEMCPY_FINISH_BYTE_GRANULARITY = 4"

lemmas copy_consts = MEMCPY_THREAD_COPYSIZE_def MAX_GRID_SIZE_X_def MEMCPY_HIGHBW_BYTE_GRANULARITY_def
  MEMCPY_FINISH_BYTE_GRANULARITY_def MEMCPY_BLOCK_SIZE_def

text \<open>The bytes of an eight-byte argument in host memory.\<close>

definition arg_bytes :: "NvU64 \<Rightarrow> NvU8 list" where
  "arg_bytes x = map (\<lambda>i. ucast (drop_bit (8 * i) x)) [0 ..< 8]"

text \<open>
  One call of \<open>libreCuLaunchKernel\<close>: the kernel of the current device, a grid of \<open>gx\<close> by \<open>gy\<close> blocks
  of \<open>blockSizeX\<close> threads (the parameters are 32 bits wide), and pointers to the arguments.
\<close>

definition launch_copy ::
  "kern \<Rightarrow> ('a d2d_scheme \<Rightarrow> int \<Rightarrow> nat) \<Rightarrow> NvU64 \<Rightarrow> NvU64 \<Rightarrow> NvU64 list \<Rightarrow> nat \<Rightarrow> bool \<Rightarrow>
    ('a d2d_scheme, unit) prog" where
  "launch_copy K fns gx gy args stream async =
     bind (gets (\<lambda>s. fns s (ordinal (public_device_handles s ! ctx_device (ctxs s (current_ctx s)))))) (\<lambda>f.
     libreCuLaunchKernel K f \<lparr>gridDimX = ucast gx, gridDimY = ucast gy, gridDimZ = 1,
       blockDimX = ucast MEMCPY_BLOCK_SIZE, blockDimY = 1, blockDimZ = 1\<rparr> 0 stream
       (map arg_bytes args) (of_nat (length args)) async)"

definition memcpyD2D ::
  "kern \<Rightarrow> NvU64 \<Rightarrow> NvU64 \<Rightarrow> NvU64 \<Rightarrow> nat \<Rightarrow> bool \<Rightarrow> ('a d2d_scheme, unit) prog" where
  "memcpyD2D K dst src sz stream async =
     bind LIBRECUDA_ENSURE_CTX_VALID (\<lambda>_.
     let use_high_bw = sz > 1024 * 1024;
         launch_kernel_1 = use_high_bw;
         launch_kernel_2 = (\<not> use_high_bw \<or> sz mod MEMCPY_HIGHBW_BYTE_GRANULARITY \<noteq> 0);
         launch_kernel_3 = (sz mod MEMCPY_FINISH_BYTE_GRANULARITY \<noteq> 0) in
     bind (if launch_kernel_1 then
             let gridSizeX = sz div (MEMCPY_THREAD_COPYSIZE * MEMCPY_BLOCK_SIZE);
                 gridSizeY = CEIL_DIV gridSizeX MAX_GRID_SIZE_X in
             bind (launch_copy K kernelHighBW gridSizeX gridSizeY [dst, src] stream (if async then True else False)) (\<lambda>_.
             ret (\<not> async))
           else ret False) (\<lambda>has_synced.
     bind (if launch_kernel_2 then
             let bytes_copied = (if use_high_bw
                   then sz div MEMCPY_HIGHBW_BYTE_GRANULARITY * MEMCPY_HIGHBW_BYTE_GRANULARITY else 0);
                 bytes_remaining = sz - bytes_copied;
                 words_remaining = bytes_remaining div 4;
                 gridSizeX = CEIL_DIV words_remaining MEMCPY_BLOCK_SIZE in
             bind (launch_copy K kernelLowLatency gridSizeX 1
               [dst + bytes_copied, src + bytes_copied, words_remaining] stream (if async then True else has_synced)) (\<lambda>_.
             ret (if \<not> async then True else has_synced))
           else ret has_synced) (\<lambda>has_synced.
     if launch_kernel_3 then
       let bytes_copied = sz div MEMCPY_HIGHBW_BYTE_GRANULARITY * MEMCPY_HIGHBW_BYTE_GRANULARITY;
           bytes_remaining = sz - bytes_copied;
           gridSizeX = CEIL_DIV bytes_remaining MEMCPY_BLOCK_SIZE in
       launch_copy K kernelTrailingCpy gridSizeX 1
         [dst + bytes_copied, src + bytes_copied, bytes_remaining] stream (if async then True else has_synced)
     else succeed)))"

text \<open>The statuses of both kinds of copy are dropped.\<close>

definition libreCuMemCpy ::
  "kern \<Rightarrow> NvU64 \<Rightarrow> NvU64 \<Rightarrow> NvU64 \<Rightarrow> nat \<Rightarrow> bool \<Rightarrow> ('a d2d_scheme, unit) prog" where
  "libreCuMemCpy K dst src byteCount stream async =
     bind (validate (dst \<noteq> 0) LIBRECUDA_ERROR_INVALID_VALUE) (\<lambda>_.
     bind (validate (src \<noteq> 0) LIBRECUDA_ERROR_INVALID_VALUE) (\<lambda>_.
     bind (validate (stream \<noteq> 0) LIBRECUDA_ERROR_INVALID_VALUE) (\<lambda>_.
     bind LIBRECUDA_ENSURE_CTX_VALID (\<lambda>_.
     bind (gets (\<lambda>s. isDevicePtr s dst \<and> isDevicePtr s src)) (\<lambda>d2d.
     if d2d then ignore_status (memcpyD2D K dst src byteCount stream async)
     else ignore_status (on_queue stream (\<lambda>q. gpuMemcpy q dst src byteCount async)))))))"

section \<open>The launches of a copy\<close>

text \<open>What \<open>memcpyD2D\<close> launches, as data: a kernel, its grid, its arguments.\<close>

datatype copy_kernel = HighBW | LowLatency | Trailing

record copy_launch =
  copy_kernel :: copy_kernel
  grid_x :: NvU64
  grid_y :: NvU64
  copy_args :: "NvU64 list"

definition whole_blocks :: "NvU64 \<Rightarrow> NvU64" where
  "whole_blocks sz = sz div 4096 * 4096"

definition high_launch :: "NvU64 \<Rightarrow> NvU64 \<Rightarrow> NvU64 \<Rightarrow> copy_launch" where
  "high_launch dst src sz = \<lparr>copy_kernel = HighBW, grid_x = sz div 4096,
     grid_y = ceilDiv64 (sz div 4096) 65535, copy_args = [dst, src]\<rparr>"

definition rest_launch :: "copy_kernel \<Rightarrow> NvU64 \<Rightarrow> NvU64 \<Rightarrow> NvU64 \<Rightarrow> NvU64 \<Rightarrow> copy_launch" where
  "rest_launch k dst src b n = \<lparr>copy_kernel = k, grid_x = ceilDiv64 n 256, grid_y = 1, copy_args = [dst + b, src + b, n]\<rparr>"

definition copy_plan :: "NvU64 \<Rightarrow> NvU64 \<Rightarrow> NvU64 \<Rightarrow> copy_launch list" where
  "copy_plan dst src sz =
     (if sz > 0x100000 then
        high_launch dst src sz #
        (if sz mod 4096 \<noteq> 0 then [rest_launch LowLatency dst src (whole_blocks sz) ((sz - whole_blocks sz) div 4)] else [])
      else [rest_launch LowLatency dst src 0 (sz div 4)]) @
     (if sz mod 4 \<noteq> 0 then [rest_launch Trailing dst src (whole_blocks sz) (sz - whole_blocks sz)] else [])"

definition kernel_fn :: "copy_kernel \<Rightarrow> 'a d2d_scheme \<Rightarrow> int \<Rightarrow> nat" where
  "kernel_fn k = (case k of HighBW \<Rightarrow> kernelHighBW | LowLatency \<Rightarrow> kernelLowLatency | Trailing \<Rightarrow> kernelTrailingCpy)"

definition do_launch :: "kern \<Rightarrow> nat \<Rightarrow> copy_launch \<times> bool \<Rightarrow> ('a d2d_scheme, unit) prog" where
  "do_launch K stream = (\<lambda>(l, async).
     launch_copy K (kernel_fn (copy_kernel l)) (grid_x l) (grid_y l) (copy_args l) stream async)"

lemma bind_succeed_right: "bind m (\<lambda>_. succeed) = m" "bind m (\<lambda>_. Pair (Inr ())) = m"
  by (auto simp: bind_def succeed_def fun_eq_iff split: prod.splits sum.splits)

text \<open>
  A device copy is a fixed sequence of launches: the block-wise kernel if the size exceeds
  1 MiB, the word-wise kernel for the words that leaves over, the byte-wise kernel if the size is
  not a multiple of four. A synchronous copy makes the first launch synchronous and the others
  asynchronous. The first launch that fails ends it with its status, and without a current context
  nothing is launched.
\<close>

theorem memcpyD2D_launches:
  "memcpyD2D K dst src sz stream async s =
     (if current_ctx s = 0 then (Inl (Fail LIBRECUDA_ERROR_INVALID_CONTEXT), s)
      else foreach (zip (copy_plan dst src sz) (async # replicate 2 True)) (do_launch K stream) s)"
  by (simp add: memcpyD2D_def LIBRECUDA_ENSURE_CTX_VALID_def copy_plan_def high_launch_def rest_launch_def
      do_launch_def kernel_fn_def copy_consts CEIL_DIV_def ceilDiv64_def whole_blocks_def Let_def bind_assoc
      bind_succeed_right eval_nat_numeral)

text \<open>
  \<open>libreCuMemCpy\<close> does not report that a copy failed: with valid pointers it never returns an
  error status, and a copy to or from the host of \<open>0xFFFFFFFF\<close> bytes or more, which \<open>gpuMemcpy\<close>
  refuses, is reported as done although nothing was queued.
\<close>

theorem libreCuMemCpy_silent:
  assumes args: "dst \<noteq> 0" "src \<noteq> 0" "stream \<noteq> 0" "current_ctx s \<noteq> 0"
  shows "fst (libreCuMemCpy K dst src n stream async s) \<noteq> Inl (Fail st) \<and>
    (\<not> (isDevicePtr s dst \<and> isDevicePtr s src) \<and> n \<ge> 0xFFFFFFFF \<longrightarrow>
      libreCuMemCpy K dst src n stream async s = (Inr (), s))"
proof -
  have r: "libreCuMemCpy K dst src n stream async s =
      (if isDevicePtr s dst \<and> isDevicePtr s src then ignore_status (memcpyD2D K dst src n stream async) s
       else ignore_status (gpuMemcpy (streams s stream) dst src n async) s)"
    using args by (simp add: libreCuMemCpy_def LIBRECUDA_ENSURE_CTX_VALID_def on_queue_def ignore_status_def bind_assoc)
  have "fst (ignore_status m s) \<noteq> Inl (Fail st)" for m :: "('a d2d_scheme, unit) prog"
    by (simp add: ignore_status_def split: prod.splits sum.splits error.splits)
  moreover have "gpuMemcpy q dst src n async s = (Inl (Fail LIBRECUDA_ERROR_INVALID_VALUE), s)" if "n \<ge> 0xFFFFFFFF" for q
    using that args by (simp add: gpuMemcpy_def not_less [symmetric])
  ultimately show ?thesis by (simp add: r ignore_status_def)
qed

definition demo_d2d :: d2d where
  "demo_d2d = \<lparr>root = 0x10, fd_ctl = 3, fd_uvm = 4, klog = [], public_device_handles = [demo_device],
     ctxs = (\<lambda>_. demo_context), current_ctx = 1, hostMappedPtrs = [], va_to_mem_handle = Map.empty,
     queues = (\<lambda>_. new_queue 1 None 0), events = (\<lambda>_. demo_event), funcs = (\<lambda>_. demo_func),
     sig_value = (\<lambda>_. 0), sig_time = (\<lambda>_. 0), wmem = (\<lambda>_. 0), doorbells = [],
     streams = (\<lambda>_. 1), next_ptr = 3, kernelHighBW = (\<lambda>_. 0), kernelLowLatency = (\<lambda>_. 0), kernelTrailingCpy = (\<lambda>_. 0)\<rparr>"

theorem libreCuMemCpy_silent_witness:
  "libreCuMemCpy granting 0x5000 0x6000 0x100000000 2 True demo_d2d = (Inr (), demo_d2d)"
  using libreCuMemCpy_silent [of "0x5000" "0x6000" 2 demo_d2d granting "0x100000000" True]
  by (simp add: demo_d2d_def isDevicePtr_def UVM_HEAP_START_def)

section \<open>The threads of a copy\<close>

definition kernel_moves :: "copy_kernel \<Rightarrow> NvU64 list \<Rightarrow> thread \<Rightarrow> move list" where
  "kernel_moves k args = (case k of
      HighBW \<Rightarrow> memcpyKernelHighBW (args ! 0) (args ! 1)
    | LowLatency \<Rightarrow> memcpyKernelLowLatency (args ! 0) (args ! 1) (args ! 2)
    | Trailing \<Rightarrow> memcpyKernelTrailing (args ! 0) (args ! 1) (args ! 2))"

text \<open>The threads of all launches of a plan.\<close>

definition launch_threads :: "copy_launch \<Rightarrow> move list list" where
  "launch_threads l = launch_moves (kernel_moves (copy_kernel l) (copy_args l)) (ucast (grid_x l)) (ucast (grid_y l)) 256"

definition plan_threads :: "copy_launch list \<Rightarrow> move list list" where
  "plan_threads ls = concat (map launch_threads ls)"

definition launch_copies :: "copy_launch \<Rightarrow> move set" where
  "launch_copies l = \<Union> (set ` set (launch_threads l))"

lemma plan_threads_set: "\<Union> (set ` set (plan_threads ls)) = (\<Union>l \<in> set ls. launch_copies l)"
  by (auto simp: plan_threads_def launch_copies_def)

lemma elements_offset: "elements sz (d + b) (s + b) 0 n = elements sz d s b n"
  by (simp add: elements_def)

lemma unat_32 [simp]: "unat x < 2 ^ 32 \<Longrightarrow> unat (ucast (x :: NvU64) :: NvU32) = unat x"
  by (simp add: unsigned_ucast_eq take_bit_nat_eq_self)

lemma unat_ceil_small:
  assumes "unat n < 2 ^ 35" "0 < unat k" "unat k < 2 ^ 35"
  shows "unat (ceilDiv64 n k) = (unat n + unat k - 1) div unat k"
  using unat_ceil_word [of k n] assms by (simp add: ceilDiv64_def)

lemma unat_ceil_256:
  assumes "unat n < 2 ^ 32"
  shows "unat n \<le> 256 * unat (ceilDiv64 n 256)" "unat (ceilDiv64 n 256) < 2 ^ 32"
proof -
  have e: "unat (ceilDiv64 n 256) = (unat n + 255) div 256"
    using unat_ceil_small [of n 256] assms by simp
  show "unat n \<le> 256 * unat (ceilDiv64 n 256)" unfolding e by simp
  show "unat (ceilDiv64 n 256) < 2 ^ 32" unfolding e using assms by simp
qed

lemma rest_copies:
  assumes "unat n < 2 ^ 32"
  shows "launch_copies (rest_launch LowLatency d s b n) = elements 4 d s b (unat n)"
    "launch_copies (rest_launch Trailing d s b n) = elements 1 d s b (unat n)"
  using unat_ceil_256 [OF assms] LowLatency_elements [of n "ucast (ceilDiv64 n 256)" 1 "d + b" "s + b"]
    Trailing_elements [of n "ucast (ceilDiv64 n 256)" 1 "d + b" "s + b"]
  by (simp_all add: launch_copies_def launch_threads_def launch_moves_set rest_launch_def kernel_moves_def elements_offset)

text \<open>The number of blocks the block-wise kernel is launched with.\<close>

definition high_blocks :: "nat \<Rightarrow> nat" where
  "high_blocks n = n div 4096 * ((n div 4096 + 65534) div 65535)"

lemma high_copies:
  assumes "unat sz < 2 ^ 35"
  shows "launch_copies (high_launch d s sz) = elements 4 d s 0 (1024 * high_blocks (unat sz))"
proof -
  have x: "unat (sz div 4096) = unat sz div 4096" by (simp add: unat_div)
  have y: "unat (ceilDiv64 (sz div 4096) 65535) = (unat sz div 4096 + 65534) div 65535"
    using unat_ceil_small [of "sz div 4096" 65535] assms x by simp
  have l: "unat sz div 4096 < 2 ^ 23" "(unat sz div 4096 + 65534) div 65535 \<le> 129" using assms by simp_all
  have "high_blocks (unat sz) \<le> 2 ^ 23 * 129" unfolding high_blocks_def using l by (intro mult_le_mono) simp_all
  then have "high_blocks (unat sz) < 2 ^ 32" by simp
  then show ?thesis
    using HighBW_elements [of "ucast (sz div 4096)" "ucast (ceilDiv64 (sz div 4096) 65535)" d s] l
    by (simp add: launch_copies_def launch_threads_def launch_moves_set high_launch_def kernel_moves_def high_blocks_def x y)
qed

lemma high_blocks_small:
  assumes "4096 \<le> n" "n < 2 ^ 28"
  shows "high_blocks n = n div 4096"
proof -
  have "1 \<le> n div 4096" "n div 4096 \<le> 65535" using assms by simp_all
  then have "(n div 4096 + 65534) div 65535 = 1" by (simp add: div_nat_eqI)
  then show ?thesis by (simp add: high_blocks_def)
qed

text \<open>Beyond 65535 blocks the grid gets a second dimension, but the first is not made smaller.\<close>

lemma high_blocks_large:
  assumes "2 ^ 28 \<le> n"
  shows "n < 4096 * high_blocks n"
proof -
  have b: "65536 \<le> n div 4096" using assms by simp
  then have "2 \<le> (n div 4096 + 65534) div 65535" by simp
  then have "n div 4096 * 2 \<le> high_blocks n" unfolding high_blocks_def by (rule mult_le_mono2)
  moreover have "n < 4096 * (n div 4096) + 4096"
    using div_mult_mod_eq [of n 4096] mod_less_divisor [of 4096 n] by linarith
  ultimately show ?thesis using b by linarith
qed

text \<open>The pieces of a copy of \<open>n\<close> bytes: element size, first byte, number of elements.\<close>

definition copy_pieces :: "nat \<Rightarrow> (nat \<times> nat \<times> nat) list" where
  "copy_pieces n =
     (if n > 0x100000 then [(4, 0, 1024 * high_blocks n), (4, n div 4096 * 4096, n mod 4096 div 4)] else [(4, 0, n div 4)]) @
     (if n mod 4 \<noteq> 0 then [(1, n div 4096 * 4096, n mod 4096)] else [])"

definition piece_copies :: "NvU64 \<Rightarrow> NvU64 \<Rightarrow> nat \<times> nat \<times> nat \<Rightarrow> move set" where
  "piece_copies d s = (\<lambda>(k, b, m). elements k d s (of_nat b) m)"

lemma elements_none [simp]: "elements k d s b 0 = {}"
  by (simp add: elements_def)

lemma plan_pieces:
  assumes "unat sz < 2 ^ 35"
  shows "(\<Union>l \<in> set (copy_plan d s sz). launch_copies l) = (\<Union>p \<in> set (copy_pieces (unat sz)). piece_copies d s p)"
proof -
  have "unat sz div 4096 * 4096 < 2 ^ 64"
    by (rule le_less_trans [OF div_times_less_eq_dividend less_trans [OF assms]]) simp
  then have uw: "unat (whole_blocks sz) = unat sz div 4096 * 4096"
    by (simp add: whole_blocks_def unat_word_prod unat_div)
  have w: "whole_blocks sz = of_nat (unat sz div 4096 * 4096)"
    unfolding uw [symmetric] by simp
  have r: "unat (sz - whole_blocks sz) = unat sz mod 4096"
    using uw by (simp add: unat_sub_if' minus_div_mult_eq_mod)
  have r4: "unat ((sz - whole_blocks sz) div 4) = unat sz mod 4096 div 4" using r by (simp add: unat_div)
  have m: "sz mod 4096 \<noteq> 0 \<longleftrightarrow> unat sz mod 4096 \<noteq> 0" "sz mod 4 \<noteq> 0 \<longleftrightarrow> unat sz mod 4 \<noteq> 0"
    by (simp_all add: word_unat_eq_iff unat_mod)
  have g: "sz > 0x100000 \<longleftrightarrow> unat sz > 0x100000" by (simp add: word_less_nat_alt)
  have l: "unat sz mod 4096 div 4 < 2 ^ 32" "unat sz mod 4096 < 2 ^ 32"
    by (rule less_trans [of _ 4096], simp_all)
  have p0: "launch_copies (high_launch d s sz) = piece_copies d s (4, 0, 1024 * high_blocks (unat sz))"
    using high_copies [OF assms] by (simp add: piece_copies_def)
  have p1: "launch_copies (rest_launch LowLatency d s 0 (sz div 4)) = piece_copies d s (4, 0, unat sz div 4)"
    if "unat sz \<le> 0x100000"
    using rest_copies(1) [of "sz div 4" d s 0] that by (simp add: piece_copies_def unat_div)
  have p2: "launch_copies (rest_launch LowLatency d s (whole_blocks sz) ((sz - whole_blocks sz) div 4)) =
      piece_copies d s (4, unat sz div 4096 * 4096, unat sz mod 4096 div 4)"
    unfolding piece_copies_def prod.case w [symmetric] r4 [symmetric] by (rule rest_copies(1)) (use l r4 in simp)
  have p3: "launch_copies (rest_launch Trailing d s (whole_blocks sz) (sz - whole_blocks sz)) =
      piece_copies d s (1, unat sz div 4096 * 4096, unat sz mod 4096)"
    unfolding piece_copies_def prod.case w [symmetric] r [symmetric] by (rule rest_copies(2)) (use l r in simp)
  have none: "piece_copies d s (k, b, 0) = {}" for k b by (simp add: piece_copies_def)
  show ?thesis
    using p1 unfolding copy_plan_def copy_pieces_def m g
    by (auto simp: p0 p2 p3 none simp del: One_nat_def)
qed

lemma copy_split:
  fixes n :: nat
  shows "n div 4096 * 4096 + n mod 4096 = n" "4 * (n mod 4096 div 4) \<le> n mod 4096" "4 * (n div 4) \<le> n"
    "n div 4096 * 4096 \<le> 4 * (n div 4)" "n mod 4 = 0 \<Longrightarrow> 4 * (n mod 4096 div 4) = n mod 4096"
    "n mod 4 = 0 \<Longrightarrow> 4 * (n div 4) = n"
proof -
  have "n mod 4096 mod 4 = n mod 4" by (rule mod_mod_cancel) simp
  then show "n mod 4 = 0 \<Longrightarrow> 4 * (n mod 4096 div 4) = n mod 4096" by (metis mult_div_mod_eq add_0_right)
  have "1024 * (n div 4096) \<le> n div 4"
    using div_times_less_eq_dividend [of n 4096] by (simp add: less_eq_div_iff_mult_less_eq mult.commute)
  then show "n div 4096 * 4096 \<le> 4 * (n div 4)" by linarith
  show "n mod 4 = 0 \<Longrightarrow> 4 * (n div 4) = n" by (metis mult_div_mod_eq add_0_right)
qed (simp_all add: mult.commute)

lemma copy_pieces_sound:
  assumes "n < 2 ^ 28" "(k, b, m) \<in> set (copy_pieces n)"
  shows "b + k * m \<le> n" "k = 1 \<or> k = 4 \<and> b mod 4 = 0"
proof -
  note c = copy_split [of n]
  have "n div 4096 * 4096 + 4 * (n mod 4096 div 4) \<le> n" using c(1,2) by linarith
  then show "b + k * m \<le> n"
    using assms high_blocks_small [of n] c(3) by (auto simp: copy_pieces_def split: if_splits)
  have "n div 4096 * 4096 mod 4 = 0" by (simp add: mod_mult_right_eq [symmetric])
  then show "k = 1 \<or> k = 4 \<and> b mod 4 = 0"
    using assms by (auto simp: copy_pieces_def split: if_splits)
qed

lemma copy_pieces_cover:
  assumes "n < 2 ^ 28" "x < n"
  shows "\<exists>(k, b, m) \<in> set (copy_pieces n). b \<le> x \<and> x < b + k * m"
proof -
  note c = copy_split [of n]
  have last: "\<exists>(k, b, m) \<in> set (copy_pieces n). b \<le> x \<and> x < b + k * m"
    if "n mod 4 \<noteq> 0" "n div 4096 * 4096 \<le> x"
    using that assms(2) c(1) by (intro bexI [of _ "(1, n div 4096 * 4096, n mod 4096)"]) (auto simp: copy_pieces_def)
  show ?thesis
  proof (cases "n > 0x100000")
    case True
    then have h: "high_blocks n = n div 4096" using high_blocks_small [of n] assms(1) by simp
    consider "x < n div 4096 * 4096" | "n div 4096 * 4096 \<le> x" "x < n div 4096 * 4096 + 4 * (n mod 4096 div 4)"
      | "n div 4096 * 4096 + 4 * (n mod 4096 div 4) \<le> x" by linarith
    then show ?thesis
    proof cases
      case 1
      then show ?thesis using True h
        by (intro bexI [of _ "(4, 0, 1024 * high_blocks n)"]) (simp_all add: copy_pieces_def)
    next
      case 2
      then show ?thesis using True
        by (intro bexI [of _ "(4, n div 4096 * 4096, n mod 4096 div 4)"]) (simp_all add: copy_pieces_def)
    next
      case 3
      then have "n mod 4 \<noteq> 0" using c(1,5) assms(2) by linarith
      then show ?thesis using last 3 by linarith
    qed
  next
    case False
    show ?thesis
    proof (cases "x < 4 * (n div 4)")
      case True
      then show ?thesis using False by (intro bexI [of _ "(4, 0, n div 4)"]) (simp_all add: copy_pieces_def)
    next
      case nx: False
      then have "n mod 4 \<noteq> 0" using c(6) assms(2) by linarith
      then show ?thesis using last nx c(4) by linarith
    qed
  qed
qed

text \<open>
  C6: The launches of a device copy of less than 256 MiB between four-byte aligned ranges that are
  apart copy exactly the bytes asked for, and touch no other, in whatever order the GPU runs the
  threads of all the launches, also when the launches overlap in time.
\<close>

theorem memcpyD2D_copies:
  assumes sz: "sz < 0x10000000" and al: "unat dst mod 4 = 0" "unat src mod 4 = 0"
    and ap: "apart dst src (unat sz)"
    and tr: "interleaving (plan_threads (copy_plan dst src sz)) tr"
  shows "exec_moves tr m = Some (copy_bytes dst src (unat sz) m)"
proof (rule exec_moves_copy [OF _ ap])
  have n: "unat sz < 2 ^ 28" using sz by (simp add: word_less_nat_alt)
  then have n35: "unat sz < 2 ^ 35" by simp
  have set: "set tr = (\<Union>p \<in> set (copy_pieces (unat sz)). piece_copies dst src p)"
    unfolding interleaving_set [OF tr] plan_threads_set by (rule plan_pieces [OF n35])
  have b: "unat (of_nat b :: NvU64) = b" if "(k, b, j) \<in> set (copy_pieces (unat sz))" for k b j
  proof -
    have "b < 2 ^ 28" using copy_pieces_sound(1) [OF n that] n by linarith
    then show ?thesis by (simp add: unsigned_of_nat take_bit_nat_eq_self)
  qed
  show "unat sz < 2 ^ 64" using n by simp
  show "\<forall>v \<in> set tr. inside dst src (unat sz) v \<and> aligned_move v"
  proof
    fix v assume "v \<in> set tr"
    then obtain k b j where p: "(k, b, j) \<in> set (copy_pieces (unat sz))" "v \<in> elements k dst src (of_nat b) j"
      unfolding set piece_copies_def by auto
    show "inside dst src (unat sz) v \<and> aligned_move v"
      using elements_inside [OF p(2)] elements_aligned [OF p(2)] copy_pieces_sound [OF n p(1)] b [OF p(1)] n al by auto
  qed
  fix x :: NvU64 assume "unat x < unat sz"
  then obtain k b j where p: "(k, b, j) \<in> set (copy_pieces (unat sz))" "b \<le> unat x" "unat x < b + k * j"
    using copy_pieces_cover [OF n] by fastforce
  then have "\<exists>v \<in> elements k dst src (of_nat b) j. unat (dst + x - mv_dst v) < mv_len v"
    using elements_reach [of "of_nat b" k j "unat sz" x dst src] copy_pieces_sound(1) [OF n p(1)] b [OF p(1)] n by simp
  then show "reaches tr (dst + x)"
    using p(1) unfolding reaches_def set piece_copies_def by fastforce
qed

theorem memcpyD2D_copies_witness:
  "let p = copy_plan 0x1000000000 0x2000000000 7 in length p = 2 \<and> length (plan_threads p) = 512 \<and>
     exec_moves (concat (plan_threads p)) ucast = Some (copy_bytes 0x1000000000 0x2000000000 7 ucast)"
proof -
  have l: "length (plan_threads (copy_plan 0x1000000000 0x2000000000 7)) = 512"
    by (simp add: copy_plan_def plan_threads_def launch_threads_def launch_moves_def grid_threads_def rest_launch_def
        ceilDiv64_def whole_blocks_def)
  have "exec_moves (concat (plan_threads (copy_plan 0x1000000000 0x2000000000 7))) ucast =
      Some (copy_bytes 0x1000000000 0x2000000000 (unat (7 :: NvU64)) ucast)"
    by (rule memcpyD2D_copies [OF _ _ _ _ interleaving_concat]) (simp_all add: apart_def)
  then show ?thesis unfolding Let_def l by (simp add: copy_plan_def)
qed

text \<open>
  C40: From 256 MiB on a device copy writes past its end: in every order of the threads a byte right
  behind the destination range is overwritten, because the grid of the block-wise kernel gets a second
  dimension without its first dimension being reduced. (Up to 32 GiB the grid has fewer than \<open>2 ^ 32\<close>
  blocks, which is what the kernel can number.)
\<close>

theorem memcpyD2D_overrun:
  assumes sz: "0x10000000 \<le> sz" "sz < 0x800000000"
    and tr: "interleaving (plan_threads (copy_plan dst src sz)) tr"
  shows "reaches tr (dst + sz)"
proof -
  have n: "2 ^ 28 \<le> unat sz" "unat sz < 2 ^ 35" using sz by (simp_all add: word_le_nat_alt word_less_nat_alt)
  let ?k = "high_blocks (unat sz)"
  have p: "(4, 0, 1024 * ?k) \<in> set (copy_pieces (unat sz))" using n(1) by (simp add: copy_pieces_def)
  have "unat sz div 4096 * ((unat sz div 4096 + 65534) div 65535) \<le> 2 ^ 23 * 129"
    using n(2) by (intro mult_le_mono) simp_all
  then have "4096 * ?k < 2 ^ 64" by (simp add: high_blocks_def)
  then have "\<exists>v \<in> elements 4 dst src 0 (1024 * ?k). unat (dst + sz - mv_dst v) < mv_len v"
    using elements_reach [of 0 4 "1024 * ?k" "4096 * ?k" sz dst src] high_blocks_large [OF n(1)] by simp
  then show ?thesis
    using p unfolding reaches_def interleaving_set [OF tr] plan_threads_set plan_pieces [OF n(2)]
    by (fastforce simp: piece_copies_def)
qed

theorem memcpyD2D_overrun_witness:
  "reaches (concat (plan_threads (copy_plan 0x1000000000 0x2000000000 0x10000000))) (0x1000000000 + 0x10000000)"
  by (rule memcpyD2D_overrun [OF _ _ interleaving_concat]) simp_all

end
