(* ===== verification/Module_Image.thy ===== *)
theory Module_Image
  imports Prelude
begin

text \<open>
  The image of a module in \<open>libreCuModuleLoadData\<close> (\<open>driverapi/src/librecuda.cpp\<close>): the sections of the ELF
  file are laid out again, aligned to 128 bytes, and relocations are patched into the result. Reading
  ELF files is the work of the library ELFIO, which is not part of the sources: a file is given by
  what its accessors return.
\<close>

section \<open>ELF files\<close>

record elf_section =
  sec_name :: string
  sec_type :: NvU32
  sec_address :: NvU64
  sec_data :: "NvU8 list"  \<comment> \<open>\<open>get_size()\<close> bytes behind \<open>get_data()\<close>\<close>
  sec_info :: NvU32
  sec_addr_align :: NvU64

definition sec_size :: "elf_section \<Rightarrow> NvU64" where
  "sec_size s = of_nat (length (sec_data s))"

record elf_symbol =
  sym_name :: string
  sym_value :: NvU64
  sym_section :: NvU16

record elf_rel =
  rel_offset :: NvU64
  rel_symbol :: NvU32
  rel_type :: NvU32

text \<open>
  Entries of relocation sections and symbol tables by the number of their section; \<open>None\<close> is an entry
  that the accessor fails to read.
\<close>

record elf =
  sections :: "elf_section list"
  section_entry_size :: NvU16
  rel_entries :: "nat \<Rightarrow> elf_rel option list"
  symbols :: "nat \<Rightarrow> elf_symbol option list"

text \<open>Section types of the ELF standard.\<close>

definition SHT_PROGBITS :: NvU32 where "SHT_PROGBITS = 1"
definition SHT_SYMTAB :: NvU32 where "SHT_SYMTAB = 2"
definition SHT_RELA :: NvU32 where "SHT_RELA = 4"
definition SHT_REL :: NvU32 where "SHT_REL = 9"

section \<open>Laying out the sections\<close>

definition fixed_section :: "elf_section \<Rightarrow> bool" where
  "fixed_section s \<longleftrightarrow> sec_type s = SHT_PROGBITS \<and> sec_address s \<noteq> 0"

definition num_bytes_fixed :: "elf_section list \<Rightarrow> NvU64" where
  "num_bytes_fixed ss =
     fold (\<lambda>s n. if fixed_section s then maxOf64 n (sec_address s + sec_size s) else n) ss 0"

definition force_section_align :: NvU32 where "force_section_align = 128"

definition section_align :: "elf_section \<Rightarrow> NvU32" where
  "section_align s = maxOf32 (ucast (sec_addr_align s)) force_section_align"

definition num_padding_bytes :: "elf_section \<Rightarrow> nat \<Rightarrow> NvU64" where
  "num_padding_bytes s n = (ucast (section_align s) - of_nat n) mod ucast (section_align s)"

text \<open>\<open>ys\<close> over the elements of \<open>xs\<close> from index \<open>a\<close>.\<close>

definition overwrite :: "'a list \<Rightarrow> nat \<Rightarrow> 'a list \<Rightarrow> 'a list" where
  "overwrite xs a ys = take a xs @ ys @ drop (a + length ys) xs"

text \<open>
  One round of the loop over the sections. The state is \<open>image_data\<close> and the sections seen so far,
  with the addresses they have been given.
\<close>

definition place_section :: "elf_section \<Rightarrow> (NvU8 list \<times> elf_section list, unit) prog" where
  "place_section s =
     (if sec_type s \<noteq> SHT_PROGBITS then modify (\<lambda>(img, out). (img, out @ [s]))
      else if sec_address s \<noteq> 0 then
        bind (gets (\<lambda>(img, _). length img)) (\<lambda>n.
        bind (guard_ub (sec_data s = [] \<or> unat (sec_address s) + length (sec_data s) \<le> n) ''section outside the image'') (\<lambda>_.
        modify (\<lambda>(img, out).
          (if sec_data s = [] then img else overwrite img (unat (sec_address s)) (sec_data s), out @ [s]))))
      else
        modify (\<lambda>(img, out).
          let image_data = img @ replicate (unat (num_padding_bytes s (length img))) 0 @ sec_data s
          in (image_data, out @ [s\<lparr>sec_address := of_nat (length image_data) - sec_size s\<rparr>])))"

definition place_sections :: "elf_section list \<Rightarrow> (NvU8 list \<times> elf_section list, unit) prog" where
  "place_sections ss = foreach ss place_section"

definition image_start :: "elf_section list \<Rightarrow> NvU8 list \<times> elf_section list" where
  "image_start ss = (replicate (unat (num_bytes_fixed ss)) 0, [])"

subsection \<open>Where the sections end up\<close>

lemma foreach_append: "foreach (xs @ ys) f = bind (foreach xs f) (\<lambda>_. foreach ys f)"
  by (induction xs) (simp_all add: bind_assoc)

text \<open>The bytes \<open>[a, a + n)\<close> of an image.\<close>

definition sub_list :: "nat \<Rightarrow> nat \<Rightarrow> 'a list \<Rightarrow> 'a list" where
  "sub_list a n xs = take n (drop a xs)"

lemma sub_list_append: "a + n \<le> length xs \<Longrightarrow> sub_list a n (xs @ ys) = sub_list a n xs"
  by (simp add: sub_list_def)

lemma length_overwrite: "a + length ys \<le> length xs \<Longrightarrow> length (overwrite xs a ys) = length xs"
  by (simp add: overwrite_def)

lemma nth_overwrite:
  assumes "a + length ys \<le> length xs" "i < length xs" "i < a \<or> a + length ys \<le> i"
  shows "overwrite xs a ys ! i = xs ! i"
  using assms by (auto simp: overwrite_def nth_append)

lemma sub_list_overwrite: "a + length ys \<le> length xs \<Longrightarrow> sub_list a (length ys) (overwrite xs a ys) = ys"
  by (simp add: sub_list_def overwrite_def)

lemma sub_list_overwrite_other:
  assumes "a + length ys \<le> length xs" "b + n \<le> a \<or> a + length ys \<le> b"
  shows "sub_list b n (overwrite xs a ys) = sub_list b n xs"
proof (rule nth_equalityI)
  show "length (sub_list b n (overwrite xs a ys)) = length (sub_list b n xs)"
    using length_overwrite [OF assms(1)] by (simp add: sub_list_def)
  fix i assume "i < length (sub_list b n (overwrite xs a ys))"
  then have i: "i < n" "b + i < length xs" using length_overwrite [OF assms(1)] by (auto simp: sub_list_def)
  then show "sub_list b n (overwrite xs a ys) ! i = sub_list b n xs ! i"
    using assms by (auto simp: sub_list_def overwrite_def nth_append)
qed

definition moved_section :: "elf_section \<Rightarrow> bool" where
  "moved_section s \<longleftrightarrow> sec_type s = SHT_PROGBITS \<and> sec_address s = 0"

text \<open>
  What has become of a section \<open>s\<close> when the image is \<open>img\<close>: a section without an address has got one
  behind the first \<open>F\<close> bytes, with the alignment asked for; every section's bytes are at its address.
\<close>

definition sec_end :: "elf_section \<Rightarrow> nat" where
  "sec_end s = unat (sec_address s) + length (sec_data s)"

definition at_address :: "NvU8 list \<Rightarrow> elf_section \<Rightarrow> bool" where
  "at_address img t \<longleftrightarrow> sec_end t \<le> length img \<and> sub_list (unat (sec_address t)) (length (sec_data t)) img = sec_data t"

definition placed :: "nat \<Rightarrow> NvU8 list \<Rightarrow> elf_section \<Rightarrow> elf_section \<Rightarrow> bool" where
  "placed F img s t \<longleftrightarrow>
     (if moved_section s then (\<exists>a. t = s\<lparr>sec_address := a\<rparr>) \<and> F \<le> unat (sec_address t) \<and>
        unat (section_align s) dvd unat (sec_address t) \<and> at_address img t
      else t = s \<and> (fixed_section s \<longrightarrow> sec_data s = [] \<or> sec_end s \<le> F \<and> at_address img t))"

text \<open>Sections with addresses of their own do not overlap, and the alignments are powers of two.\<close>

definition sections_apart :: "elf_section \<Rightarrow> elf_section \<Rightarrow> bool" where
  "sections_apart s t \<longleftrightarrow> fixed_section s \<and> fixed_section t \<longrightarrow> sec_end s \<le> unat (sec_address t) \<or>
     sec_end t \<le> unat (sec_address s)"

definition elf_ok :: "elf_section list \<Rightarrow> bool" where
  "elf_ok ss \<longleftrightarrow> sorted_wrt sections_apart ss \<and>
     (\<forall>s \<in> set ss. sec_address s \<noteq> 0 \<longrightarrow> sec_end s < 2 ^ 64) \<and>
     (\<forall>s \<in> set ss. sec_addr_align s = 0 \<or> (\<exists>k < 32. sec_addr_align s = 2 ^ k))"

definition in_order :: "elf_section \<times> elf_section \<Rightarrow> elf_section \<times> elf_section \<Rightarrow> bool" where
  "in_order = (\<lambda>(s, t) (s', t'). moved_section s \<and> moved_section s' \<longrightarrow> sec_end t \<le> unat (sec_address t'))"

lemma unat_of_nat64: "n < 2 ^ 64 \<Longrightarrow> unat (of_nat n :: NvU64) = n"
  by (simp add: unsigned_of_nat take_bit_nat_eq_self)

lemma align_power:
  assumes "sec_addr_align s = 0 \<or> (\<exists>k < 32. sec_addr_align s = 2 ^ k)"
  shows "\<exists>k < 32. unat (section_align s) = 2 ^ k"
proof -
  have u: "unat (ucast (2 ^ k :: NvU64) :: NvU32) = 2 ^ k" if "k < 32" for k
  proof -
    have e: "(2 ^ k :: NvU64) = of_nat (2 ^ k)" by simp
    have l: "(2::nat) ^ k < 2 ^ 32" using that by (intro power_strict_increasing) simp_all
    then have "(2::nat) ^ k < 2 ^ 64" by simp
    then have "unat (2 ^ k :: NvU64) = 2 ^ k" using that unfolding e by (simp only: unsigned_of_nat) (simp add: take_bit_nat_eq_self)
    then show ?thesis using l that by (simp add: unsigned_ucast_eq take_bit_nat_eq_self)
  qed
  have p: "unat (128 :: NvU32) = 2 ^ 7" by simp
  show ?thesis
    using assms u p unfolding section_align_def maxOf32_def force_section_align_def
    by (auto intro: exI [of _ 7])
qed

lemma padding_aligned:
  assumes "\<exists>k < 32. unat (section_align s) = 2 ^ k" "n < 2 ^ 64"
  shows "unat (section_align s) dvd n + unat (num_padding_bytes s n)"
    "unat (num_padding_bytes s n) < unat (section_align s)"
proof -
  let ?A = "unat (section_align s)"
  obtain k where k: "k < 32" "?A = 2 ^ k" using assms(1) by blast
  define d where "d = unat (ucast (section_align s) - of_nat n :: NvU64)"
  have pad: "unat (num_padding_bytes s n) = d mod ?A" by (simp add: num_padding_bytes_def unat_mod d_def)
  have n: "unat (of_nat n :: NvU64) = n" using assms(2) by (simp add: unsigned_of_nat take_bit_nat_eq_self)
  have "n + d = ?A \<or> n + d = ?A + 2 ^ 64"
    using assms(2) unfolding d_def by (simp add: unat_sub_if' n)
  moreover have "?A dvd 2 ^ 64" unfolding k(2) using k(1) by (intro le_imp_power_dvd) simp
  ultimately have "?A dvd n + d" by (metis dvd_add_right_iff dvd_refl)
  then show "?A dvd n + unat (num_padding_bytes s n)"
    unfolding pad by (metis dvd_eq_mod_eq_0 mod_add_right_eq)
  show "unat (num_padding_bytes s n) < ?A" unfolding pad k(2) by simp
qed

lemma num_bytes_fixed_ge:
  assumes "s \<in> set ss" "fixed_section s" "\<forall>s \<in> set ss. sec_address s \<noteq> 0 \<longrightarrow> sec_end s < 2 ^ 64"
  shows "sec_end s \<le> unat (num_bytes_fixed ss)"
proof -
  let ?f = "\<lambda>s n. if fixed_section s then maxOf64 n (sec_address s + sec_size s) else n"
  have up: "unat n \<le> unat (fold ?f ss n)" for ss n
  proof (induction ss arbitrary: n)
    case (Cons x ss)
    have "unat n \<le> unat (?f x n)" by (auto simp: maxOf64_def word_less_nat_alt)
    then show ?case using Cons [of "?f x n"] by simp
  qed simp
  have "sec_end s \<le> unat (fold ?f ss n)" if "s \<in> set ss" "\<forall>s \<in> set ss. sec_address s \<noteq> 0 \<longrightarrow> sec_end s < 2 ^ 64" for n
    using that
  proof (induction ss arbitrary: n)
    case (Cons x ss)
    show ?case
    proof (cases "x = s")
      case True
      have "sec_end s < 2 ^ 64" using Cons.prems(2) True assms(2) by (simp add: fixed_section_def)
      then have "unat (sec_address s + sec_size s) = sec_end s"
        by (simp add: sec_end_def sec_size_def unat_word_ariths unsigned_of_nat take_bit_nat_eq_self)
      then have "sec_end s \<le> unat (?f x n)" using assms(2) True by (auto simp: maxOf64_def word_less_nat_alt)
      also have "\<dots> \<le> unat (fold ?f ss (?f x n))" by (rule up)
      finally show ?thesis by simp
    next
      case False
      then show ?thesis using Cons.IH [of "?f x n"] Cons.prems by simp
    qed
  qed simp
  then show ?thesis using assms unfolding num_bytes_fixed_def by blast
qed

lemma at_address_append: "at_address img t \<Longrightarrow> at_address (img @ xs) t"
  by (simp add: at_address_def sec_end_def sub_list_append)

lemma placed_append: "placed F img s t \<Longrightarrow> placed F (img @ xs) s t"
  by (auto simp: placed_def at_address_append split: if_splits)

lemma placed_overwrite:
  assumes "placed F img s t" "fixed_section x" "sec_end x \<le> F" "F \<le> length img" "sections_apart s x"
  shows "placed F (overwrite img (unat (sec_address x)) (sec_data x)) s t"
proof -
  have in_img: "unat (sec_address x) + length (sec_data x) \<le> length img" using assms(3,4) by (simp add: sec_end_def)
  have keep: "at_address (overwrite img (unat (sec_address x)) (sec_data x)) u"
    if "at_address img u" "sec_end u \<le> unat (sec_address x) \<or> sec_end x \<le> unat (sec_address u)" for u
    using that in_img sub_list_overwrite_other [OF in_img, of "unat (sec_address u)" "length (sec_data u)"]
    by (simp add: at_address_def sec_end_def length_overwrite)
  show ?thesis
    using assms(1,2,3,5) keep [of t] keep [of s] unfolding placed_def
    by (auto simp: sections_apart_def fixed_section_def moved_section_def split: if_splits)
qed

lemma place_sections_placed:
  assumes "place_sections ss (replicate F 0, []) = (Inr (), img, out)" "elf_ok ss" "length img < 2 ^ 64"
    and "\<forall>s \<in> set ss. fixed_section s \<longrightarrow> sec_end s \<le> F"
  shows "list_all2 (placed F img) ss out \<and> sorted_wrt in_order (zip ss out) \<and> F \<le> length img \<and>
    (\<forall>(s, t) \<in> set (zip ss out). moved_section s \<longrightarrow> sec_end t \<le> length img)"
  using assms
proof (induction ss arbitrary: img out rule: rev_induct)
  case Nil
  then show ?case by (auto simp: place_sections_def)
next
  case (snoc s ss)
  obtain img0 out0 where r0: "place_sections ss (replicate F 0, []) = (Inr (), img0, out0)"
    and r1: "place_section s (img0, out0) = (Inr (), img, out)"
    using snoc.prems(1) by (auto simp: place_sections_def foreach_append bind_eq_Inr)
  have grow: "length img0 \<le> length img"
    using r1 by (auto simp: place_section_def bind_eq_Inr guard_ub_eq_Inr Let_def length_overwrite sec_end_def split: if_splits)
  have IH: "list_all2 (placed F img0) ss out0" "sorted_wrt in_order (zip ss out0)" "F \<le> length img0"
    "\<forall>(s, t) \<in> set (zip ss out0). moved_section s \<longrightarrow> sec_end t \<le> length img0"
    using snoc.IH [OF r0] snoc.prems(2-4) grow by (auto simp: elf_ok_def sorted_wrt_append)
  consider (other) "sec_type s \<noteq> SHT_PROGBITS" "img = img0" "out = out0 @ [s]"
    | (fixed) "fixed_section s" "sec_data s = [] \<or> sec_end s \<le> length img0" "out = out0 @ [s]"
        "img = (if sec_data s = [] then img0 else overwrite img0 (unat (sec_address s)) (sec_data s))"
    | (moved) "moved_section s" "img = img0 @ replicate (unat (num_padding_bytes s (length img0))) 0 @ sec_data s"
        "out = out0 @ [s\<lparr>sec_address := of_nat (length img) - sec_size s\<rparr>]"
    using r1 by (auto simp: place_section_def bind_eq_Inr guard_ub_eq_Inr Let_def sec_end_def fixed_section_def
        moved_section_def split: if_splits)
  then show ?case
  proof cases
    case other
    have "placed F img s s" "\<not> moved_section s" using other by (simp_all add: placed_def moved_section_def fixed_section_def)
    then show ?thesis
      using IH list_all2_lengthD [OF IH(1)] other by (auto simp: sorted_wrt_append in_order_def list_all2_append)
  next
    case fixed
    have s: "sec_end s \<le> F" "\<forall>x \<in> set ss. sections_apart x s"
      using snoc.prems(2,4) fixed(1) by (simp_all add: elf_ok_def sorted_wrt_append)
    have old: "list_all2 (placed F img) ss out0"
    proof (cases "sec_data s = []")
      case False
      have "placed F img x t" if "placed F img0 x t" "x \<in> set ss" for x t
        using placed_overwrite [OF that(1) fixed(1) s(1) IH(3)] s(2) that(2) fixed(4) False by simp
      then show ?thesis using IH(1) by (metis (no_types, lifting) list.rel_mono_strong)
    qed (use IH(1) fixed(4) in simp)
    have len: "length img = length img0"
      using fixed s(1) IH(3) by (simp add: length_overwrite sec_end_def)
    have new: "placed F img s s"
      using fixed s(1) IH(3) len unfolding placed_def
      by (auto simp: fixed_section_def moved_section_def at_address_def sec_end_def sub_list_overwrite)
    show ?thesis
      using old new IH list_all2_lengthD [OF IH(1)] fixed(1,3) len
      by (auto simp: sorted_wrt_append in_order_def moved_section_def fixed_section_def list_all2_append)
  next
    case moved
    let ?p = "unat (num_padding_bytes s (length img0))"
    let ?t = "s\<lparr>sec_address := of_nat (length img) - sec_size s\<rparr>"
    have len: "length img = length img0 + ?p + length (sec_data s)" by (simp add: moved(2))
    have "unat (of_nat (length img) :: NvU64) = length img" by (rule unat_of_nat64) (rule snoc.prems(3))
    moreover have "unat (sec_size s) = length (sec_data s)"
      unfolding sec_size_def by (rule unat_of_nat64) (use snoc.prems(3) len in simp)
    ultimately have a: "unat (sec_address ?t) = length img0 + ?p" using len by (simp add: unat_sub_if')
    have al: "\<exists>k < 32. unat (section_align s) = 2 ^ k" using snoc.prems(2) by (intro align_power) (simp add: elf_ok_def)
    have dv: "unat (section_align s) dvd unat (sec_address ?t)"
      unfolding a by (rule padding_aligned(1) [OF al]) (use snoc.prems(3) len in simp)
    have at: "at_address img ?t"
      using a len by (simp add: at_address_def sec_end_def sub_list_def moved(2))
    have new: "placed F img s ?t" using moved(1) a dv at IH(3) unfolding placed_def by auto
    have old: "list_all2 (placed F img) ss out0"
      using IH(1) placed_append unfolding moved(2) by (metis (no_types, lifting) list.rel_mono_strong)
    have "sec_end ?t = length img" using a len by (simp add: sec_end_def)
    then show ?thesis
      using old new IH list_all2_lengthD [OF IH(1)] moved(3) len a
      by (fastforce simp: sorted_wrt_append in_order_def list_all2_append)
  qed
qed

text \<open>The loop does not fail on such a file: a section with an address of its own is inside the image.\<close>

lemma place_sections_runs:
  assumes "\<forall>s \<in> set ss. fixed_section s \<longrightarrow> sec_end s \<le> length img"
  shows "\<exists>img' out'. place_sections ss (img, out) = (Inr (), img', out')"
  using assms
proof (induction ss arbitrary: img out)
  case Nil
  then show ?case by (simp add: place_sections_def)
next
  case (Cons s ss)
  have "\<exists>img1 out1. place_section s (img, out) = (Inr (), img1, out1) \<and> length img \<le> length img1"
    using Cons.prems by (auto simp: place_section_def bind_def Let_def length_overwrite fixed_section_def sec_end_def)
  then obtain img1 out1 where r: "place_section s (img, out) = (Inr (), img1, out1)" "length img \<le> length img1" by blast
  then show ?case using Cons.IH [of img1 out1] Cons.prems by (fastforce simp: place_sections_def bind_def)
qed

text \<open>
  C11: Every section of code or data of a module is readable at the address it ends up with: the image
  holds its bytes there. Sections that had no address get one that is a multiple of 128 and of their
  own alignment, behind all sections that had one, and no two of them overlap; the addresses of all
  other sections stay as they were.
\<close>

theorem image_layout:
  assumes "elf_ok ss"
  shows "\<exists>img out. place_sections ss (image_start ss) = (Inr (), img, out) \<and>
    (length img < 2 ^ 64 \<longrightarrow> list_all2 (placed (unat (num_bytes_fixed ss)) img) ss out \<and> sorted_wrt in_order (zip ss out))"
proof -
  have e: "\<forall>s \<in> set ss. fixed_section s \<longrightarrow> sec_end s \<le> unat (num_bytes_fixed ss)"
    using num_bytes_fixed_ge [of _ ss] assms by (auto simp: elf_ok_def)
  then obtain img out where r: "place_sections ss (image_start ss) = (Inr (), img, out)"
    using place_sections_runs [of ss "replicate (unat (num_bytes_fixed ss)) 0" "[]"] by (auto simp: image_start_def)
  show ?thesis
    using place_sections_placed [OF r [unfolded image_start_def] assms _ e] r by blast
qed

definition demo_sections :: "elf_section list" where
  "demo_sections = [
     \<lparr>sec_name = ''.text.f'', sec_type = 1, sec_address = 0, sec_data = [1, 2, 3], sec_info = 0x0a000000, sec_addr_align = 128\<rparr>,
     \<lparr>sec_name = ''.strtab'', sec_type = 3, sec_address = 0, sec_data = [9], sec_info = 0, sec_addr_align = 1\<rparr>,
     \<lparr>sec_name = ''.nv.constant0.f'', sec_type = 1, sec_address = 0, sec_data = [7, 8], sec_info = 0, sec_addr_align = 4\<rparr>,
     \<lparr>sec_name = ''.fixed'', sec_type = 1, sec_address = 4, sec_data = [5, 6], sec_info = 0, sec_addr_align = 1\<rparr>]"

theorem image_layout_witness:
  "\<exists>img out. place_sections demo_sections (image_start demo_sections) = (Inr (), img, out) \<and>
     list_all2 (placed 6 img) demo_sections out \<and> map sec_address out = [128, 0, 256, 4]"
proof -
  have ok: "elf_ok demo_sections"
    by (auto simp: elf_ok_def demo_sections_def sections_apart_def fixed_section_def sec_end_def SHT_PROGBITS_def
        intro: exI [of _ 0] exI [of _ 2] exI [of _ 7])
  have f: "unat (num_bytes_fixed demo_sections) = 6"
    by (simp add: num_bytes_fixed_def demo_sections_def fixed_section_def SHT_PROGBITS_def sec_size_def maxOf64_def)
  have r: "place_sections demo_sections (image_start demo_sections) =
      (Inr (), [0, 0, 0, 0, 5, 6] @ replicate 122 0 @ [1, 2, 3] @ replicate 125 0 @ [7, 8],
       map2 (\<lambda>s a. s\<lparr>sec_address := a\<rparr>) demo_sections [128, 0, 256, 4])"
    by code_simp
  show ?thesis
    using image_layout [OF ok] r f by (auto simp: demo_sections_def)
qed

section \<open>Relocations\<close>

record RelocInfo =
  apply_image_offset :: NvU64
  rel_sym_offset :: NvU64
  reloc_typ :: NvU32

definition le_bytes :: "nat \<Rightarrow> NvU64 \<Rightarrow> NvU8 list" where
  "le_bytes n w = map (\<lambda>i. ucast (drop_bit (8 * i) w)) [0 ..< n]"

text \<open>A store through a pointer into \<open>rebuilt_image\<close>; behind its end the behaviour is undefined.\<close>

definition store_le :: "NvU64 \<Rightarrow> nat \<Rightarrow> NvU64 \<Rightarrow> (NvU8 list, unit) prog" where
  "store_le off n w =
     bind (gets length) (\<lambda>l.
     bind (guard_ub (unat off + n \<le> l) ''relocation outside the image'') (\<lambda>_.
     modify (\<lambda>img. overwrite img (unat off) (le_bytes n w))))"

definition apply_reloc :: "NvU64 \<Rightarrow> RelocInfo \<Rightarrow> (NvU8 list, unit) prog" where
  "apply_reloc module_gpu_va reloc =
     bind (gets length) (\<lambda>rebuilt_image_size.
     bind (validate (apply_image_offset reloc < of_nat rebuilt_image_size) LIBRECUDA_ERROR_INVALID_IMAGE) (\<lambda>_.
     if reloc_typ reloc = 0x2 then store_le (apply_image_offset reloc) 8 (module_gpu_va + rel_sym_offset reloc)
     else if reloc_typ reloc = 0x38 then
       store_le (apply_image_offset reloc + 4) 4 ((module_gpu_va + rel_sym_offset reloc) AND 0xffffffff)
     else if reloc_typ reloc = 0x39 then
       store_le (apply_image_offset reloc + 4) 4 (drop_bit 32 (module_gpu_va + rel_sym_offset reloc))
     else succeed))"

text \<open>The bytes a relocation writes, and where.\<close>

definition reloc_value :: "NvU64 \<Rightarrow> RelocInfo \<Rightarrow> NvU64" where
  "reloc_value va r = va + rel_sym_offset r"

definition reloc_patch :: "NvU64 \<Rightarrow> RelocInfo \<Rightarrow> (nat \<times> NvU8 list) option" where
  "reloc_patch va r =
     (if reloc_typ r = 0x2 then Some (unat (apply_image_offset r), le_bytes 8 (reloc_value va r))
      else if reloc_typ r = 0x38 then Some (unat (apply_image_offset r + 4), le_bytes 4 (take_bit 32 (reloc_value va r)))
      else if reloc_typ r = 0x39 then Some (unat (apply_image_offset r + 4), le_bytes 4 (drop_bit 32 (reloc_value va r)))
      else None)"

definition patches :: "NvU64 \<Rightarrow> RelocInfo \<Rightarrow> nat \<Rightarrow> bool" where
  "patches va r i = (case reloc_patch va r of None \<Rightarrow> False | Some (a, bs) \<Rightarrow> a \<le> i \<and> i < a + length bs)"

definition relocs_apart :: "NvU64 \<Rightarrow> RelocInfo \<Rightarrow> RelocInfo \<Rightarrow> bool" where
  "relocs_apart va r r' \<longleftrightarrow> (\<forall>a bs b cs. reloc_patch va r = Some (a, bs) \<longrightarrow> reloc_patch va r' = Some (b, cs) \<longrightarrow>
     a + length bs \<le> b \<or> b + length cs \<le> a)"

lemma and_ones32: "(w :: NvU64) AND 0xffffffff = take_bit 32 w"
  by (simp add: take_bit_eq_mask mask_eq_exp_minus_1)

lemma apply_reloc_run:
  assumes "apply_reloc va r img = (Inr (), img')"
  shows "(case reloc_patch va r of None \<Rightarrow> img' = img | Some (a, bs) \<Rightarrow> a + length bs \<le> length img \<and> img' = overwrite img a bs)"
  using assms
  by (auto simp: apply_reloc_def bind_eq_Inr store_le_def guard_ub_eq_Inr validate_eq_Inr reloc_patch_def reloc_value_def
      and_ones32 le_bytes_def split: if_splits)

lemma relocs_run:
  assumes "foreach rs (apply_reloc va) img = (Inr (), img')" "sorted_wrt (relocs_apart va) rs"
  shows "length img' = length img \<and> (\<forall>i < length img. (\<forall>r \<in> set rs. \<not> patches va r i) \<longrightarrow> img' ! i = img ! i) \<and>
    (\<forall>r \<in> set rs. \<forall>a bs. reloc_patch va r = Some (a, bs) \<longrightarrow> sub_list a (length bs) img' = bs)"
  using assms
proof (induction rs arbitrary: img)
  case Nil
  then show ?case by simp
next
  case (Cons r rs)
  obtain img1 where r1: "apply_reloc va r img = (Inr (), img1)" and rs: "foreach rs (apply_reloc va) img1 = (Inr (), img')"
    using Cons.prems(1) by (auto simp: bind_eq_Inr)
  note IH = Cons.IH [OF rs]
  have so: "sorted_wrt (relocs_apart va) rs" "\<forall>r' \<in> set rs. relocs_apart va r r'" using Cons.prems(2) by simp_all
  show ?case
  proof (cases "reloc_patch va r")
    case None
    then show ?thesis using apply_reloc_run [OF r1] IH so(1) by (auto simp: patches_def)
  next
    case (Some p)
    obtain a bs where p: "reloc_patch va r = Some (a, bs)" using Some by (cases p) simp
    then have w: "a + length bs \<le> length img" "img1 = overwrite img a bs" using apply_reloc_run [OF r1] by auto
    have len: "length img1 = length img" by (simp add: w length_overwrite)
    have keep: "sub_list a (length bs) img' = sub_list a (length bs) img1"
    proof (rule nth_equalityI)
      show "length (sub_list a (length bs) img') = length (sub_list a (length bs) img1)" using IH so(1) by (simp add: sub_list_def)
      fix i assume "i < length (sub_list a (length bs) img')"
      then have i: "i < length bs" "a + i < length img1" using IH so(1) by (auto simp: sub_list_def)
      have "\<not> patches va r' (a + i)" if "r' \<in> set rs" for r'
      proof
        assume "patches va r' (a + i)"
        then obtain b cs where "reloc_patch va r' = Some (b, cs)" "b \<le> a + i" "a + i < b + length cs"
          by (auto simp: patches_def split: option.splits)
        moreover have "relocs_apart va r r'" using so(2) that by simp
        ultimately have "a + length bs \<le> b \<or> b + length cs \<le> a" "b \<le> a + i" "a + i < b + length cs"
          using p by (auto simp: relocs_apart_def)
        then show False using i(1) by linarith
      qed
      then show "sub_list a (length bs) img' ! i = sub_list a (length bs) img1 ! i"
        using IH so(1) i by (simp add: sub_list_def)
    qed
    have other: "img1 ! i = img ! i" if "i < length img" "\<not> patches va r i" for i
      using that p nth_overwrite [OF w(1) that(1)] unfolding w(2) patches_def by (simp add: not_less not_le)
    have "sub_list a (length bs) img' = bs" unfolding keep w(2) by (rule sub_list_overwrite [OF w(1)])
    then show ?thesis using IH so(1) len other p by simp
  qed
qed

text \<open>Reading the bytes back.\<close>

definition load_le :: "NvU8 list \<Rightarrow> NvU64" where
  "load_le bs = foldr (\<lambda>b acc. push_bit 8 acc OR ucast b) bs 0"

lemma le_bytes_Suc: "le_bytes (Suc n) w = ucast w # le_bytes n (drop_bit 8 w)"
  unfolding le_bytes_def upt_conv_Cons [OF zero_less_Suc] map_Suc_upt [symmetric] list.map map_map comp_def
  by (simp add: add.commute)

lemma load_le_bytes: "load_le (le_bytes n w) = take_bit (8 * n) w"
proof (induction n arbitrary: w)
  case 0
  then show ?case by (simp add: load_le_def le_bytes_def)
next
  case (Suc n)
  have "load_le (le_bytes (Suc n) w) = push_bit 8 (take_bit (8 * n) (drop_bit 8 w)) OR ucast (ucast w :: NvU8)"
    using Suc [of "drop_bit 8 w"] by (simp add: le_bytes_Suc load_le_def)
  also have "\<dots> = take_bit (8 * Suc n) w"
    by (rule bit_word_eqI) (auto simp: bit_simps)
  finally show ?case .
qed

text \<open>
  C12: When the relocations of a module have been applied, each of them reads back as it should: type
  \<open>0x2\<close> as the eight-byte address of its symbol in GPU memory, types \<open>0x38\<close> and \<open>0x39\<close> as the low and the
  high half of that address in the second word of an instruction. All other bytes of the image are
  those that were there before.
\<close>

theorem relocations_applied:
  assumes run: "foreach rs (apply_reloc va) img = (Inr (), img')" and ap: "sorted_wrt (relocs_apart va) rs"
  shows "(\<forall>r \<in> set rs. let o' = apply_image_offset r; v = va + rel_sym_offset r in
      (reloc_typ r = 0x2 \<longrightarrow> load_le (sub_list (unat o') 8 img') = v) \<and>
      (reloc_typ r = 0x38 \<longrightarrow> load_le (sub_list (unat (o' + 4)) 4 img') = ucast (lo_32 v)) \<and>
      (reloc_typ r = 0x39 \<longrightarrow> load_le (sub_list (unat (o' + 4)) 4 img') = ucast (hi_32 v))) \<and>
    length img' = length img \<and>
    (\<forall>i < length img. (\<forall>r \<in> set rs. \<not> patches va r i) \<longrightarrow> img' ! i = img ! i)"
proof -
  note R = relocs_run [OF run ap]
  have len: "length (le_bytes n w) = n" for n w by (simp add: le_bytes_def)
  have lo: "(ucast (lo_32 v) :: NvU64) = take_bit 32 v" for v by (rule bit_word_eqI) (auto simp: bit_lo_32 bit_simps)
  have hi: "(ucast (hi_32 v) :: NvU64) = take_bit 32 (drop_bit 32 v)" for v
    by (rule bit_word_eqI) (auto simp: bit_hi_32 bit_simps)
  have "sub_list (unat (apply_image_offset r)) 8 img' = le_bytes 8 (va + rel_sym_offset r)" if "r \<in> set rs" "reloc_typ r = 0x2" for r
    using R that len [of 8] by (fastforce simp: reloc_patch_def reloc_value_def)
  moreover have "sub_list (unat (apply_image_offset r + 4)) 4 img' = le_bytes 4 (take_bit 32 (va + rel_sym_offset r))"
    if "r \<in> set rs" "reloc_typ r = 0x38" for r
    using R that len [of 4] by (fastforce simp: reloc_patch_def reloc_value_def)
  moreover have "sub_list (unat (apply_image_offset r + 4)) 4 img' = le_bytes 4 (drop_bit 32 (va + rel_sym_offset r))"
    if "r \<in> set rs" "reloc_typ r = 0x39" for r
    using R that len [of 4] by (fastforce simp: reloc_patch_def reloc_value_def)
  ultimately show ?thesis using R by (simp add: Let_def load_le_bytes lo hi take_bit_word_eq_self)
qed

theorem relocations_applied_witness:
  "let rs = [\<lparr>apply_image_offset = 0, rel_sym_offset = 0x80, reloc_typ = 0x38\<rparr>,
             \<lparr>apply_image_offset = 16, rel_sym_offset = 0x80, reloc_typ = 0x39\<rparr>,
             \<lparr>apply_image_offset = 24, rel_sym_offset = 0x100, reloc_typ = 0x2\<rparr>];
       img' = replicate 4 1 @ [0x80, 0, 0, 0] @ replicate 12 1 @ [0x10, 0, 0, 0] @ [0, 1, 0, 0, 0x10, 0, 0, 0]
     in foreach rs (apply_reloc 0x1000000000) (replicate 32 1) = (Inr (), img') \<and>
        load_le (sub_list 24 8 img') = 0x1000000100 \<and> load_le (sub_list 20 4 img') = 0x10"
proof -
  let ?rs = "[\<lparr>apply_image_offset = 0, rel_sym_offset = 0x80, reloc_typ = 0x38\<rparr>,
             \<lparr>apply_image_offset = 16, rel_sym_offset = 0x80, reloc_typ = 0x39\<rparr>,
             \<lparr>apply_image_offset = 24, rel_sym_offset = 0x100, reloc_typ = 0x2\<rparr>]"
  let ?img = "replicate 4 1 @ [0x80, 0, 0, 0] @ replicate 12 1 @ [0x10, 0, 0, 0] @ [0, 1, 0, 0, 0x10, 0, 0, 0] :: NvU8 list"
  have run: "foreach ?rs (apply_reloc 0x1000000000) (replicate 32 1) = (Inr (), ?img)" by code_simp
  have ap: "sorted_wrt (relocs_apart 0x1000000000) ?rs"
    by (simp add: relocs_apart_def reloc_patch_def reloc_value_def le_bytes_def)
  have "load_le (sub_list 24 8 ?img) = 0x1000000100" "load_le (sub_list 20 4 ?img) = 0x10"
    using relocations_applied [OF run ap] by (simp_all add: Let_def hi_32_def)
  then show ?thesis using run by (simp add: Let_def)
qed

end
