(* ===== verification/Module_Attrs.thy ===== *)
theory Module_Attrs
  imports Module_Image Cmd_Queue "HOL-Library.Multiset"
begin

text \<open>
  What \<open>libreCuModuleLoadData\<close> (\<open>driverapi/src/librecuda.cpp\<close>) collects about the functions of a module:
  the attributes of their \<open>.nv.info.<function>\<close> sections, their parameters and their constant banks.
\<close>

section \<open>Collected data\<close>

text \<open>
  The local maps of \<open>libreCuModuleLoadData\<close>. Looking up a missing key of an \<open>unordered_map\<close> makes an entry
  that holds 0 or an empty list, so most are total functions here. For the constants it matters
  which keys exist. \<open>function_names\<close> is an \<open>unordered_set\<close>, kept in the order of insertion.
\<close>

record load_info =
  relocs :: "RelocInfo list"
  function_names :: "string list"
  function_shared_mem :: "string \<Rightarrow> NvU32"
  function_addrs :: "string \<Rightarrow> NvU64"
  function_regs :: "string \<Rightarrow> NvU32"
  function_local_mem_reqs :: "string \<Rightarrow> NvU32"
  function_sizes :: "string \<Rightarrow> NvU64"
  const_lists :: "string \<Rightarrow> KernelConstantInfo list option"
  param_infos :: "string \<Rightarrow> KernelParamInfo list"
  param_total_sizes :: "string \<Rightarrow> NvU64"

definition no_info :: load_info where
  "no_info = \<lparr>relocs = [], function_names = [], function_shared_mem = (\<lambda>_. 0), function_addrs = (\<lambda>_. 0),
     function_regs = (\<lambda>_. 0), function_local_mem_reqs = (\<lambda>_. 0), function_sizes = (\<lambda>_. 0),
     const_lists = Map.empty, param_infos = (\<lambda>_. []), param_total_sizes = (\<lambda>_. 0)\<rparr>"

section \<open>Attributes of a function\<close>

definition EIATTR_MIN_STACK_SIZE :: NvU32 where "EIATTR_MIN_STACK_SIZE = 0x1204"
definition EIATTR_CUDA_API_VERSION :: NvU16 where "EIATTR_CUDA_API_VERSION = 0x3704"
definition EIATTR_CUDA_API_VERSION_ATTR_WORD_LEN :: nat where "EIATTR_CUDA_API_VERSION_ATTR_WORD_LEN = 2"
definition EIATTR_CRS_STACK_SIZE :: NvU16 where "EIATTR_CRS_STACK_SIZE = 0x1e04"
definition EIATTR_CRS_STACK_SIZE_ATTR_WORD_LEN :: nat where "EIATTR_CRS_STACK_SIZE_ATTR_WORD_LEN = 2"
definition EIATTR_PARAM_CBANK :: NvU16 where "EIATTR_PARAM_CBANK = 0x0a04"
definition EIATTR_PARAM_CBANK_ATTR_WORD_LEN :: nat where "EIATTR_PARAM_CBANK_ATTR_WORD_LEN = 3"
definition EIATTR_CBANK_PARAM_SIZE :: NvU16 where "EIATTR_CBANK_PARAM_SIZE = 0x1903"
definition EIATTR_CBANK_PARAM_SIZE_ATTR_WORD_LEN :: nat where "EIATTR_CBANK_PARAM_SIZE_ATTR_WORD_LEN = 1"
definition EIATTR_KPARAM_INFO :: NvU16 where "EIATTR_KPARAM_INFO = 0x1704"
definition EIATTR_KPARAM_INFO_ATTR_WORD_LEN :: nat where "EIATTR_KPARAM_INFO_ATTR_WORD_LEN = 4"
definition EIATTR_MAXREG_COUNT :: NvU16 where "EIATTR_MAXREG_COUNT = 0x1b03"
definition EIATTR_MAXREG_COUNT_ATTR_WORD_LEN :: nat where "EIATTR_MAXREG_COUNT_ATTR_WORD_LEN = 1"
definition EIATTR_COOP_GROUP_MASK_REGIDS :: NvU16 where "EIATTR_COOP_GROUP_MASK_REGIDS = 0x2904"
definition EIATTR_COOP_GROUP_MASK_REGIDS_ATTR_WORD_LEN :: nat where "EIATTR_COOP_GROUP_MASK_REGIDS_ATTR_WORD_LEN = 1"
definition EIATTR_EXIT_INSTR_OFFSETS :: NvU16 where "EIATTR_EXIT_INSTR_OFFSETS = 0x1c04"
definition EIATTR_SW2861232_WAR :: NvU16 where "EIATTR_SW2861232_WAR = 0x3501"
definition EIATTR_SW2861232_WAR_ATTR_WORD_LEN :: nat where "EIATTR_SW2861232_WAR_ATTR_WORD_LEN = 1"
definition EIATTR_SW2393858_WAR :: NvU16 where "EIATTR_SW2393858_WAR = 0x3001"
definition EIATTR_SW2393858_WAR_ATTR_WORD_LEN :: nat where "EIATTR_SW2393858_WAR_ATTR_WORD_LEN = 1"
definition EIATTR_SW1850030_WAR :: NvU16 where "EIATTR_SW1850030_WAR = 0x2a01"
definition EIATTR_SW1850030_WAR_ATTR_WORD_LEN :: nat where "EIATTR_SW1850030_WAR_ATTR_WORD_LEN = 1"
definition EIATTR_SW_WAR :: NvU16 where "EIATTR_SW_WAR = 0x3604"
definition EIATTR_SW_WAR_ATTR_WORD_LEN :: nat where "EIATTR_SW_WAR_ATTR_WORD_LEN = 2"
definition EIATTR_S2RCTAID_INSTR_OFFSETS :: NvU16 where "EIATTR_S2RCTAID_INSTR_OFFSETS = 0x1d04"
definition EIATTR_S2RCTAID_INSTR_OFFSETS_ATTR_BASE_WORD_LEN :: nat where
  "EIATTR_S2RCTAID_INSTR_OFFSETS_ATTR_BASE_WORD_LEN = 1"
definition EIATTR_EXTERNS :: NvU16 where "EIATTR_EXTERNS = 0x0f04"
definition EIATTR_EXTERNS_ATTR_WORD_LEN :: nat where "EIATTR_EXTERNS_ATTR_WORD_LEN = 2"
definition EIATTR_SYSCALL_OFFSETS :: NvU16 where "EIATTR_SYSCALL_OFFSETS = 0x4604"
definition EIATTR_SYSCALL_OFFSETS_ATTR_WORD_LEN :: nat where "EIATTR_SYSCALL_OFFSETS_ATTR_WORD_LEN = 2"

lemmas eiattr_defs = EIATTR_CUDA_API_VERSION_def EIATTR_CUDA_API_VERSION_ATTR_WORD_LEN_def
  EIATTR_CRS_STACK_SIZE_def EIATTR_CRS_STACK_SIZE_ATTR_WORD_LEN_def EIATTR_PARAM_CBANK_def
  EIATTR_PARAM_CBANK_ATTR_WORD_LEN_def EIATTR_CBANK_PARAM_SIZE_def EIATTR_CBANK_PARAM_SIZE_ATTR_WORD_LEN_def
  EIATTR_KPARAM_INFO_def EIATTR_KPARAM_INFO_ATTR_WORD_LEN_def EIATTR_MAXREG_COUNT_def
  EIATTR_MAXREG_COUNT_ATTR_WORD_LEN_def EIATTR_COOP_GROUP_MASK_REGIDS_def
  EIATTR_COOP_GROUP_MASK_REGIDS_ATTR_WORD_LEN_def EIATTR_EXIT_INSTR_OFFSETS_def EIATTR_SW2861232_WAR_def
  EIATTR_SW2861232_WAR_ATTR_WORD_LEN_def EIATTR_SW2393858_WAR_def EIATTR_SW2393858_WAR_ATTR_WORD_LEN_def
  EIATTR_SW1850030_WAR_def EIATTR_SW1850030_WAR_ATTR_WORD_LEN_def EIATTR_SW_WAR_def EIATTR_SW_WAR_ATTR_WORD_LEN_def
  EIATTR_S2RCTAID_INSTR_OFFSETS_def EIATTR_S2RCTAID_INSTR_OFFSETS_ATTR_BASE_WORD_LEN_def EIATTR_EXTERNS_def
  EIATTR_EXTERNS_ATTR_WORD_LEN_def EIATTR_SYSCALL_OFFSETS_def EIATTR_SYSCALL_OFFSETS_ATTR_WORD_LEN_def

text \<open>The bytes the \<open>switch\<close> skips for an attribute; \<open>None\<close> for a type it does not know.\<close>

definition attr_skip :: "NvU16 \<Rightarrow> NvU16 \<Rightarrow> nat option" where
  "attr_skip ty other =
     (if ty = EIATTR_CUDA_API_VERSION then Some (EIATTR_CUDA_API_VERSION_ATTR_WORD_LEN * 4)
      else if ty = EIATTR_CRS_STACK_SIZE then Some (EIATTR_CRS_STACK_SIZE_ATTR_WORD_LEN * 4)
      else if ty = EIATTR_PARAM_CBANK then Some (EIATTR_PARAM_CBANK_ATTR_WORD_LEN * 4)
      else if ty = EIATTR_CBANK_PARAM_SIZE then Some (EIATTR_CBANK_PARAM_SIZE_ATTR_WORD_LEN * 4)
      else if ty = EIATTR_KPARAM_INFO then Some (EIATTR_KPARAM_INFO_ATTR_WORD_LEN * 4)
      else if ty = EIATTR_MAXREG_COUNT then Some (EIATTR_MAXREG_COUNT_ATTR_WORD_LEN * 4)
      else if ty = EIATTR_COOP_GROUP_MASK_REGIDS then Some (EIATTR_COOP_GROUP_MASK_REGIDS_ATTR_WORD_LEN * 4)
      else if ty = EIATTR_EXTERNS then Some (EIATTR_EXTERNS_ATTR_WORD_LEN * 4)
      else if ty = EIATTR_SYSCALL_OFFSETS then Some (EIATTR_SYSCALL_OFFSETS_ATTR_WORD_LEN * 4)
      else if ty = EIATTR_SW2861232_WAR then Some (EIATTR_SW2861232_WAR_ATTR_WORD_LEN * 4)
      else if ty = EIATTR_SW2393858_WAR then Some (EIATTR_SW2393858_WAR_ATTR_WORD_LEN * 4)
      else if ty = EIATTR_SW1850030_WAR then Some (EIATTR_SW1850030_WAR_ATTR_WORD_LEN * 4)
      else if ty = EIATTR_S2RCTAID_INSTR_OFFSETS then
        Some (EIATTR_S2RCTAID_INSTR_OFFSETS_ATTR_BASE_WORD_LEN * 4 + unat other)
      else if ty = EIATTR_SW_WAR then Some (EIATTR_SW_WAR_ATTR_WORD_LEN * 4)
      else None)"

text \<open>The attributes that leave something behind; \<open>data\<close> is \<open>line[2]\<close>.\<close>

definition attr_effect :: "string \<Rightarrow> NvU16 \<Rightarrow> NvU32 \<Rightarrow> NvU32 \<Rightarrow> load_info \<Rightarrow> load_info" where
  "attr_effect f ty key data info =
     (if ty = EIATTR_CBANK_PARAM_SIZE then
        info\<lparr>param_total_sizes := (param_total_sizes info)(f := ucast (drop_bit 16 key AND 0xffff))\<rparr>
      else if ty = EIATTR_KPARAM_INFO then
        info\<lparr>param_infos := (param_infos info)(f := param_infos info f @
          [\<lparr>param_index = ucast (data AND 0xffff), param_offset = ucast (drop_bit 16 data AND 0xffff), param_size = 0\<rparr>])\<rparr>
      else info)"

definition word_at :: "NvU8 list \<Rightarrow> nat \<Rightarrow> NvU32" where
  "word_at bs off = ucast (load_le (sub_list off 4 bs))"

lemma attr_skip_pos: "attr_skip ty other = Some n \<Longrightarrow> 4 \<le> n"
  by (auto simp: attr_skip_def eiattr_defs split: if_splits)

text \<open>The loop over a section \<open>.nv.info.f\<close> with contents \<open>bs\<close>. Reading behind its end is undefined.\<close>

function parse_attrs :: "string \<Rightarrow> NvU8 list \<Rightarrow> nat \<Rightarrow> load_info \<Rightarrow> error + load_info" where
  "parse_attrs f bs off info =
     (if length bs \<le> off then Inr info
      else if length bs < off + 4 then Inl (UB ''attribute header outside the section'')
      else
        let key = word_at bs off; ty = ucast (key AND 0xffff); other = ucast (drop_bit 16 key AND 0xffff) in
        if key = 0xffffffff then Inr info
        else if ty = EIATTR_EXIT_INSTR_OFFSETS then Inr info
        else case attr_skip ty other of
            None \<Rightarrow> Inl (Fail LIBRECUDA_ERROR_INVALID_IMAGE)
          | Some n \<Rightarrow>
              if ty = EIATTR_KPARAM_INFO \<and> length bs < off + 12 then Inl (UB ''attribute outside the section'')
              else parse_attrs f bs (off + n) (attr_effect f ty key (word_at bs (off + 8)) info))"
  by pat_completeness auto
termination
  by (relation "measure (\<lambda>(f, bs, off, info). length bs - off)") (auto dest!: attr_skip_pos)

declare parse_attrs.simps [simp del]

subsection \<open>The loop ends\<close>

text \<open>
  The same loop with the number of passes it may still make, as the machine runs it: nothing in it but
  the distance \<open>attr_skip\<close> makes it stop.
\<close>

fun attr_loop :: "nat \<Rightarrow> string \<Rightarrow> NvU8 list \<Rightarrow> nat \<Rightarrow> load_info \<Rightarrow> error + load_info" where
  "attr_loop 0 f bs off info = (if length bs \<le> off then Inr info else Inl NoReturn)"
| "attr_loop (Suc passes) f bs off info =
     (if length bs \<le> off then Inr info
      else if length bs < off + 4 then Inl (UB ''attribute header outside the section'')
      else
        let key = word_at bs off; ty = ucast (key AND 0xffff); other = ucast (drop_bit 16 key AND 0xffff) in
        if key = 0xffffffff then Inr info
        else if ty = EIATTR_EXIT_INSTR_OFFSETS then Inr info
        else case attr_skip ty other of
            None \<Rightarrow> Inl (Fail LIBRECUDA_ERROR_INVALID_IMAGE)
          | Some n \<Rightarrow>
              if ty = EIATTR_KPARAM_INFO \<and> length bs < off + 12 then Inl (UB ''attribute outside the section'')
              else attr_loop passes f bs (off + n) (attr_effect f ty key (word_at bs (off + 8)) info))"

lemma attr_loop_enough:
  "length bs \<le> off + 4 * passes \<Longrightarrow> attr_loop passes f bs off info = parse_attrs f bs off info"
proof (induction passes arbitrary: off info)
  case 0
  then show ?case by (simp add: parse_attrs.simps [of f bs off])
next
  case (Suc k)
  have "attr_loop k f bs (off + n) i = parse_attrs f bs (off + n) i" if "attr_skip ty other = Some n" for n ty other i
    using attr_skip_pos [OF that] Suc.prems by (intro Suc.IH) simp
  then show ?case by (subst parse_attrs.simps) (auto simp: Let_def split: option.split)
qed

lemma parse_attrs_returns: "parse_attrs f bs off info \<noteq> Inl NoReturn"
proof (induction f bs off info rule: parse_attrs.induct)
  case (1 f bs off info)
  then show ?case by (subst parse_attrs.simps) (auto simp: Let_def split: option.split)
qed

text \<open>
  C14: the loop over the attributes of a function ends for every section contents, well formed or not,
  after at most one pass for each four bytes, with the collected data or an error; more passes would not
  change its result.
\<close>

theorem attribute_loop_ends:
  assumes "length bs \<le> 4 * passes"
  shows "attr_loop passes f bs 0 info \<noteq> Inl NoReturn \<and> attr_loop passes f bs 0 info = parse_attrs f bs 0 info"
  using attr_loop_enough [of bs 0 passes f info] parse_attrs_returns [of f bs 0 info] assms by simp

theorem attribute_loop_ends_witness:
  "attr_loop 1 ''f'' [0xff, 0xff, 0xff, 0xff] 0 no_info \<noteq> Inl NoReturn"
  by (rule conjunct1 [OF attribute_loop_ends]) simp

subsection \<open>Reading back an attribute list\<close>

text \<open>
  The attributes as the compiler emits them: a parameter with its index and offset (and two words the
  driver does not use), the total size of the parameters, and attributes the driver steps over. The
  list may end with the section, with the key \<open>0xffffffff\<close>, or with the exit offsets.
\<close>

datatype nv_attr =
    Attr_Param (ap_idx: NvU16) (ap_off: NvU16) NvU32 NvU32
  | Attr_Size NvU16
  | Attr_Other NvU16 NvU16 "NvU8 list"

definition header_bytes :: "NvU16 \<Rightarrow> NvU16 \<Rightarrow> NvU8 list" where
  "header_bytes ty other = le_bytes 2 (ucast ty) @ le_bytes 2 (ucast other)"

fun attr_bytes :: "nv_attr \<Rightarrow> NvU8 list" where
  "attr_bytes (Attr_Param i off w1 w3) =
     header_bytes EIATTR_KPARAM_INFO 12 @ le_bytes 4 (ucast w1) @ header_bytes i off @ le_bytes 4 (ucast w3)"
| "attr_bytes (Attr_Size n) = header_bytes EIATTR_CBANK_PARAM_SIZE n"
| "attr_bytes (Attr_Other ty other bs) = header_bytes ty other @ bs"

fun attr_ok :: "nv_attr \<Rightarrow> bool" where
  "attr_ok (Attr_Param i off w1 w3) = True"
| "attr_ok (Attr_Size n) = True"
| "attr_ok (Attr_Other ty other bs) = (attr_skip ty other = Some (4 + length bs) \<and>
     ty \<notin> {EIATTR_KPARAM_INFO, EIATTR_CBANK_PARAM_SIZE, EIATTR_EXIT_INSTR_OFFSETS})"

definition attrs_end :: "NvU8 list \<Rightarrow> bool" where
  "attrs_end bs \<longleftrightarrow> bs = [] \<or> take 4 bs = [0xff, 0xff, 0xff, 0xff] \<or>
     (\<exists>other rest. bs = header_bytes EIATTR_EXIT_INSTR_OFFSETS other @ rest)"

text \<open>What a list of attributes means for a function.\<close>

fun attr_param :: "nv_attr \<Rightarrow> KernelParamInfo list" where
  "attr_param (Attr_Param i off w1 w3) = [\<lparr>param_index = i, param_offset = off, param_size = 0\<rparr>]"
| "attr_param _ = []"

fun attr_total :: "nv_attr \<Rightarrow> NvU64 \<Rightarrow> NvU64" where
  "attr_total (Attr_Size n) t = ucast n"
| "attr_total _ t = t"

definition attrs_effect :: "string \<Rightarrow> nv_attr list \<Rightarrow> load_info \<Rightarrow> load_info" where
  "attrs_effect f as info = info\<lparr>
     param_infos := (param_infos info)(f := param_infos info f @ concat (map attr_param as)),
     param_total_sizes := (param_total_sizes info)(f := fold attr_total as (param_total_sizes info f))\<rparr>"

lemma length_le_bytes [simp]: "length (le_bytes n w) = n"
  by (simp add: le_bytes_def)

lemma length_header [simp]: "length (header_bytes ty other) = 4"
  by (simp add: header_bytes_def)

lemma load_le_append: "load_le (xs @ ys) = load_le xs OR push_bit (8 * length xs) (load_le ys)"
proof (induction xs)
  case Nil
  then show ?case by (simp add: load_le_def)
next
  case (Cons x xs)
  have "load_le (x # xs @ ys) = push_bit 8 (load_le (xs @ ys)) OR ucast x" by (simp add: load_le_def)
  also have "\<dots> = (push_bit 8 (load_le xs) OR ucast x) OR push_bit (8 + 8 * length xs) (load_le ys)"
    by (simp add: Cons push_bit_or or.assoc or.commute or.left_commute)
  finally show ?case by (simp add: load_le_def)
qed

lemma header_word:
  "word_at (header_bytes ty other @ bs) 0 = ucast ty OR push_bit 16 (ucast other)"
  by (rule bit_word_eqI)
    (auto simp: word_at_def sub_list_def header_bytes_def load_le_append load_le_bytes bit_simps dest: bit_imp_le_length)

lemma attr_header_fields:
  "ucast (word_at (header_bytes ty other @ bs) 0 AND 0xffff) = ty"
  "ucast (drop_bit 16 (word_at (header_bytes ty other @ bs) 0) AND 0xffff) = other"
  "drop_bit 16 (word_at (header_bytes ty other @ bs) 0) AND 0xffff = ucast other"
proof -
  have m: "(w :: NvU32) AND 0xffff = take_bit 16 w" for w by (simp add: take_bit_eq_mask mask_eq_exp_minus_1)
  show "ucast (word_at (header_bytes ty other @ bs) 0 AND 0xffff) = ty"
    unfolding header_word m by (rule bit_word_eqI) (auto simp: bit_simps dest: bit_imp_le_length)
  show "ucast (drop_bit 16 (word_at (header_bytes ty other @ bs) 0) AND 0xffff) = other"
    unfolding header_word m by (rule bit_word_eqI) (auto simp: bit_simps dest: bit_imp_le_length)
  show "drop_bit 16 (word_at (header_bytes ty other @ bs) 0) AND 0xffff = ucast other"
    unfolding header_word m by (rule bit_word_eqI) (auto simp: bit_simps dest: bit_imp_le_length)
qed

lemma word_at_append: "word_at (xs @ ys) (length xs + n) = word_at ys n"
  by (simp add: word_at_def sub_list_def)

text \<open>What lies before the offset does not matter.\<close>

lemma parse_attrs_shift: "parse_attrs f (xs @ bs) (length xs + off) info = parse_attrs f bs off info"
proof (induction f bs off info rule: parse_attrs.induct)
  case (1 f bs off info)
  show ?case
    by (subst (1 2) parse_attrs.simps) (use 1 in \<open>auto simp: word_at_append add.assoc Let_def split: option.split\<close>)
qed

lemma parse_header:
  assumes "bs = header_bytes ty other @ rest" "ty \<noteq> 0xffff"
  shows "parse_attrs f bs 0 info =
    (if ty = EIATTR_EXIT_INSTR_OFFSETS then Inr info
     else case attr_skip ty other of
         None \<Rightarrow> Inl (Fail LIBRECUDA_ERROR_INVALID_IMAGE)
       | Some n \<Rightarrow>
           if ty = EIATTR_KPARAM_INFO \<and> length bs < 12 then Inl (UB ''attribute outside the section'')
           else parse_attrs f bs n (attr_effect f ty (word_at bs 0) (word_at bs 8) info))"
proof -
  have l: "4 \<le> length bs" by (simp add: assms(1))
  have key: "word_at bs 0 \<noteq> 0xffffffff"
  proof
    assume "word_at bs 0 = 0xffffffff"
    then have "ucast (0xffffffff AND 0xffff :: NvU32) = ty" using attr_header_fields(1) [of ty other rest] assms(1) by metis
    then show False using assms(2) by simp
  qed
  have h: "ucast (word_at bs 0 AND 0xffff) = ty" "ucast (drop_bit 16 (word_at bs 0) AND 0xffff) = other"
    unfolding assms(1) by (rule attr_header_fields)+
  have nz: "\<not> length bs \<le> 0" "\<not> length bs < 4" using l by linarith+
  show ?thesis
    by (subst parse_attrs.simps) (simp only: nz if_False Let_def h key add_0)
qed

lemma parse_attrs_end:
  assumes "attrs_end bs"
  shows "parse_attrs f bs 0 info = Inr info"
proof -
  have "parse_attrs f bs 0 info = Inr info" if "take 4 bs = [0xff, 0xff, 0xff, 0xff]"
  proof -
    have "length (take 4 bs) = 4" using that by simp
    then have l: "4 \<le> length bs" by simp
    have "word_at bs 0 = 0xffffffff" using that by (simp add: word_at_def sub_list_def load_le_def)
    then show ?thesis using l by (subst parse_attrs.simps) (auto simp: Let_def)
  qed
  moreover have "parse_attrs f bs 0 info = Inr info" if "bs = header_bytes EIATTR_EXIT_INSTR_OFFSETS other @ rest" for other rest
    using parse_header [OF that] by (simp add: eiattr_defs)
  moreover have "parse_attrs f [] 0 info = Inr info" by (subst parse_attrs.simps) simp
  ultimately show ?thesis using assms unfolding attrs_end_def by blast
qed

lemma parse_skip:
  assumes "bs = header_bytes ty other @ xs @ rest" "attr_skip ty other = Some (4 + length xs)"
    and "ty \<noteq> EIATTR_EXIT_INSTR_OFFSETS" "ty = EIATTR_KPARAM_INFO \<Longrightarrow> 8 \<le> length xs"
  shows "parse_attrs f bs 0 info = parse_attrs f rest 0 (attr_effect f ty (word_at bs 0) (word_at bs 8) info)"
proof -
  have "ty \<noteq> 0xffff" using assms(2) by (auto simp: attr_skip_def eiattr_defs split: if_splits)
  moreover have "parse_attrs f bs (4 + length xs) i = parse_attrs f rest 0 i" for i
    using parse_attrs_shift [of f "header_bytes ty other @ xs" rest 0 i] by (simp add: assms(1))
  ultimately show ?thesis using assms(2-4) parse_header [of bs ty other "xs @ rest" f info] assms(1) by auto
qed

lemma parse_attr:
  assumes "attr_ok a"
  shows "parse_attrs f (attr_bytes a @ bs) 0 info = parse_attrs f bs 0 (attrs_effect f [a] info)"
proof (cases a)
  case (Attr_Param i off w1 w3)
  let ?bs = "attr_bytes a @ bs"
  have b: "?bs = header_bytes EIATTR_KPARAM_INFO 12 @ (le_bytes 4 (ucast w1) @ header_bytes i off @ le_bytes 4 (ucast w3)) @ bs"
    by (simp add: Attr_Param)
  have e: "?bs = (header_bytes EIATTR_KPARAM_INFO 12 @ le_bytes 4 (ucast w1)) @ header_bytes i off @ le_bytes 4 (ucast w3) @ bs"
    by (simp add: Attr_Param)
  have "word_at ?bs 8 = word_at (header_bytes i off @ le_bytes 4 (ucast w3) @ bs) 0"
    unfolding e using word_at_append [of "header_bytes EIATTR_KPARAM_INFO 12 @ le_bytes 4 (ucast w1)" _ 0] by simp
  then have "attr_effect f EIATTR_KPARAM_INFO (word_at ?bs 0) (word_at ?bs 8) info = attrs_effect f [a] info"
    by (simp add: attr_effect_def attrs_effect_def attr_header_fields(1,2) Attr_Param eiattr_defs)
  then show ?thesis
    using parse_skip [OF b, of f info] by (simp add: attr_skip_def eiattr_defs)
next
  case (Attr_Size n)
  have b: "attr_bytes a @ bs = header_bytes EIATTR_CBANK_PARAM_SIZE n @ [] @ bs" by (simp add: Attr_Size)
  have "drop_bit 16 (word_at (attr_bytes a @ bs) 0) AND 0xffff = (ucast n :: NvU32)"
    using attr_header_fields(3) [of EIATTR_CBANK_PARAM_SIZE n bs] by (simp add: Attr_Size)
  then have "attr_effect f EIATTR_CBANK_PARAM_SIZE (word_at (attr_bytes a @ bs) 0) (word_at (attr_bytes a @ bs) 8) info =
      attrs_effect f [a] info"
  proof -
    have "(ucast (ucast n :: NvU32) :: NvU64) = ucast n"
      by (rule bit_word_eqI) (auto simp: bit_simps dest: bit_imp_le_length)
    then show ?thesis using \<open>drop_bit 16 _ AND 0xffff = ucast n\<close> by (simp add: attr_effect_def attrs_effect_def Attr_Size)
  qed
  then show ?thesis using parse_skip [OF b, of f info] by (simp add: attr_skip_def eiattr_defs)
next
  case (Attr_Other ty other xs)
  have b: "attr_bytes a @ bs = header_bytes ty other @ xs @ bs" by (simp add: Attr_Other)
  have "attr_effect f ty (word_at (attr_bytes a @ bs) 0) (word_at (attr_bytes a @ bs) 8) info = attrs_effect f [a] info"
    using assms by (simp add: attr_effect_def attrs_effect_def Attr_Other)
  then show ?thesis using parse_skip [OF b, of f info] assms by (simp add: Attr_Other)
qed

lemma attrs_effect_Cons: "attrs_effect f as (attrs_effect f [a] info) = attrs_effect f (a # as) info"
  by (simp add: attrs_effect_def)



section \<open>Parameters\<close>

text \<open>
  \<open>param_size\<close> is 16 bits wide; the last parameter gets what is left of the total size. \<open>std::sort\<close> leaves
  the order of parameters with equal indices open; here they keep their order.
\<close>

definition param_sizes :: "KernelParamInfo list \<Rightarrow> NvU64 \<Rightarrow> KernelParamInfo list" where
  "param_sizes params total_param_size = map (\<lambda>i.
     if i + 1 < length params
     then (params ! i)\<lparr>param_size := param_offset (params ! (i + 1)) - param_offset (params ! i)\<rparr>
     else (params ! i)\<lparr>param_size := ucast (total_param_size - ucast (param_offset (params ! i)))\<rparr>) [0 ..< length params]"

definition finalize_params :: "string \<Rightarrow> load_info \<Rightarrow> load_info" where
  "finalize_params function_name info = info\<lparr>param_infos := (param_infos info)(function_name :=
     param_sizes (sort_key param_index (param_infos info function_name)) (param_total_sizes info function_name))\<rparr>"

text \<open>The end of a parameter and of a list of parameters.\<close>

definition param_end :: "KernelParamInfo \<Rightarrow> nat" where
  "param_end p = unat (param_offset p) + unat (param_size p)"

lemma length_param_sizes [simp]: "length (param_sizes ps t) = length ps"
  by (simp add: param_sizes_def)

lemma param_sizes_nth:
  assumes "i < length ps"
  shows "param_index (param_sizes ps t ! i) = param_index (ps ! i)" "param_offset (param_sizes ps t ! i) = param_offset (ps ! i)"
  using assms by (simp_all add: param_sizes_def)

text \<open>
  C35: The sizes that \<open>libreCuModuleLoadData\<close> computes make the parameters of a function tile its
  parameter area: after sorting, each parameter ends where the next one starts and the last one ends at
  the total size, when the offsets grow with the index and the last is at most the total size. The
  parameters are those that were read, in the order of their indices.
\<close>

theorem params_tile:
  assumes off: "sorted_wrt (\<lambda>p q. param_offset p \<le> param_offset q) (sort_key param_index (param_infos info f))"
    and tot: "\<forall>p \<in> set (param_infos info f). ucast (param_offset p) \<le> param_total_sizes info f"
    and small: "param_total_sizes info f < 0x10000"
  shows "let ps = param_infos (finalize_params f info) f in
     (\<forall>i. i + 1 < length ps \<longrightarrow> param_end (ps ! i) = unat (param_offset (ps ! (i + 1)))) \<and>
     (ps \<noteq> [] \<longrightarrow> param_end (last ps) = unat (param_total_sizes info f)) \<and>
     sorted (map param_index ps) \<and>
     image_mset (\<lambda>p. (param_index p, param_offset p)) (mset ps) =
       image_mset (\<lambda>p. (param_index p, param_offset p)) (mset (param_infos info f))"
proof -
  define qs where "qs = sort_key param_index (param_infos info f)"
  let ?t = "param_total_sizes info f"
  let ?ps = "param_sizes qs ?t"
  have ps: "param_infos (finalize_params f info) f = ?ps" by (simp add: finalize_params_def qs_def)
  have mid: "param_end (?ps ! i) = unat (param_offset (?ps ! (i + 1)))" if "i + 1 < length ?ps" for i
  proof -
    have "param_offset (qs ! i) \<le> param_offset (qs ! (i + 1))"
      using off that unfolding qs_def [symmetric] by (simp add: sorted_wrt_iff_nth_less)
    then show ?thesis using that by (simp add: param_end_def param_sizes_def unat_sub word_le_nat_alt)
  qed
  have last: "param_end (last ?ps) = unat ?t" if "?ps \<noteq> []"
  proof -
    have n: "qs \<noteq> []" using that by (auto simp: param_sizes_def)
    then have l: "last ?ps = (last qs)\<lparr>param_size := ucast (?t - ucast (param_offset (last qs)))\<rparr>"
      by (simp add: last_conv_nth param_sizes_def)
    have "last qs \<in> set (param_infos info f)" using n last_in_set [OF n] by (simp add: qs_def)
    then have le: "ucast (param_offset (last qs)) \<le> ?t" using tot by blast
    have "unat (param_offset (last qs)) < 2 ^ 64" by (rule less_le_trans [OF unsigned_less]) simp
    then have "unat (ucast (param_offset (last qs)) :: NvU64) = unat (param_offset (last qs))"
      by (simp add: unsigned_ucast_eq take_bit_nat_eq_self)
    moreover have "unat ?t < 2 ^ 16" using small by (simp add: word_less_nat_alt)
    ultimately show ?thesis using le
      by (simp add: l param_end_def unsigned_ucast_eq unat_sub word_le_nat_alt take_bit_nat_eq_self)
  qed
  have m: "map (\<lambda>p. (param_index p, param_offset p)) ?ps = map (\<lambda>p. (param_index p, param_offset p)) qs"
    by (rule nth_equalityI) (simp_all add: param_sizes_nth)
  have "map param_index ?ps = map param_index qs" by (rule nth_equalityI) (simp_all add: param_sizes_nth)
  then have "sorted (map param_index ?ps)" by (simp add: qs_def)
  moreover have "image_mset (\<lambda>p. (param_index p, param_offset p)) (mset ?ps) =
      image_mset (\<lambda>p. (param_index p, param_offset p)) (mset (param_infos info f))"
    using arg_cong [OF m, of mset] by (simp add: qs_def)
  ultimately show ?thesis using mid last by (simp add: ps Let_def)
qed

definition demo_info :: load_info where
  "demo_info = no_info\<lparr>param_infos := (\<lambda>_. [])(''f'' := [\<lparr>param_index = 1, param_offset = 8, param_size = 0\<rparr>,
     \<lparr>param_index = 0, param_offset = 0, param_size = 0\<rparr>]), param_total_sizes := (\<lambda>_. 0)(''f'' := 12)\<rparr>"

theorem params_tile_witness:
  "let ps = param_infos (finalize_params ''f'' demo_info) ''f'' in
     map param_index ps = [0, 1] \<and> map param_size ps = [8, 4] \<and> param_end (last ps) = 12"
proof -
  have s: "sort_key param_index (param_infos demo_info ''f'') = rev (param_infos demo_info ''f'')"
    by (simp add: demo_info_def)
  have "let ps = param_infos (finalize_params ''f'' demo_info) ''f'' in ps \<noteq> [] \<longrightarrow> param_end (last ps) = 12"
    using params_tile [of demo_info "''f''"] unfolding s by (simp add: demo_info_def Let_def)
  then show ?thesis unfolding finalize_params_def s by (simp add: demo_info_def param_sizes_def Let_def)
qed

section \<open>Constant banks\<close>

text \<open>One section \<open>.nv.constant<n>\<close>: bank 0 goes to the front of the list of its function.\<close>

definition add_constant :: "string \<Rightarrow> KernelConstantInfo \<Rightarrow> load_info \<Rightarrow> load_info" where
  "add_constant function_name const_info info =
     (let func_constants_list = (case const_lists info function_name of None \<Rightarrow> [] | Some l \<Rightarrow> l) in
      info\<lparr>const_lists := (const_lists info)(function_name \<mapsto>
        (if const_nr const_info = 0 then
           (if func_constants_list = [] then func_constants_list @ [const_info] else const_info # func_constants_list)
         else func_constants_list @ [const_info]))\<rparr>)"

text \<open>The banks of the null function are appended to every list that exists.\<close>

definition add_global_constants :: "load_info \<Rightarrow> load_info" where
  "add_global_constants info = info\<lparr>const_lists := (\<lambda>f.
     if f = [] then const_lists info f
     else case const_lists info f of
         None \<Rightarrow> None
       | Some l \<Rightarrow> (case const_lists info [] of None \<Rightarrow> Some l | Some g \<Rightarrow> Some (l @ g)))\<rparr>"

definition bank_0_first :: "KernelConstantInfo list \<Rightarrow> bool" where
  "bank_0_first l \<longleftrightarrow> ((\<exists>c \<in> set l. const_nr c = 0) \<longrightarrow> l \<noteq> [] \<and> const_nr (hd l) = 0)"

lemma add_constants_lists:
  "const_lists (fold (\<lambda>(f, c). add_constant f c) cs info) f =
     (if f \<in> fst ` set cs \<or> const_lists info f \<noteq> None
      then Some (fold (\<lambda>c l. if const_nr c = 0 then c # l else l @ [c]) (map snd (filter (\<lambda>p. fst p = f) cs))
             (case const_lists info f of None \<Rightarrow> [] | Some l \<Rightarrow> l))
      else None)"
  by (induction cs arbitrary: info) (auto simp: add_constant_def Let_def split: option.splits)

text \<open>
  Constant bank 0 of a function, on whose place at the front the launch relies, is the first of
  its list whenever the module has such a bank for the function, in whatever order the sections come;
  the list holds the banks of the function and after them the banks that belong to no function.
\<close>

theorem constants_listed:
  fixes cs :: "(string \<times> KernelConstantInfo) list"
  defines "info \<equiv> add_global_constants (fold (\<lambda>(f, c). add_constant f c) cs no_info)"
  assumes f: "f \<noteq> []" "f \<in> fst ` set cs"
  shows "\<exists>l. const_lists info f = Some l \<and>
    mset l = mset (map snd (filter (\<lambda>p. fst p = f) cs)) + mset (map snd (filter (\<lambda>p. fst p = []) cs)) \<and>
    (\<forall>c. (f, c) \<in> set cs \<and> const_nr c = 0 \<longrightarrow> const_nr (hd l) = 0)"
proof -
  let ?ins = "\<lambda>c l. if const_nr c = 0 then c # l else l @ [c]"
  have m: "mset (fold ?ins xs l) = mset xs + mset l" for xs l by (induction xs arbitrary: l) auto
  have h: "(\<exists>c \<in> set (xs @ l). const_nr c = 0) \<Longrightarrow> bank_0_first l \<Longrightarrow> fold ?ins xs l \<noteq> [] \<and> const_nr (hd (fold ?ins xs l)) = 0" for xs l
  proof (induction xs arbitrary: l)
    case Nil
    then show ?case by (auto simp: bank_0_first_def)
  next
    case (Cons x xs)
    have "bank_0_first (?ins x l)" using Cons.prems(2) by (auto simp: bank_0_first_def hd_append)
    moreover have "\<exists>c \<in> set (xs @ ?ins x l). const_nr c = 0" using Cons.prems(1) by auto
    ultimately show ?case using Cons.IH by simp
  qed
  let ?own = "fold ?ins (map snd (filter (\<lambda>p. fst p = f) cs)) []"
  let ?glob = "fold ?ins (map snd (filter (\<lambda>p. fst p = []) cs)) []"
  have own: "const_lists (fold (\<lambda>(f, c). add_constant f c) cs no_info) f = Some ?own"
    using f(2) by (simp add: add_constants_lists no_info_def)
  have glob: "const_lists (fold (\<lambda>(f, c). add_constant f c) cs no_info) [] = (if [] \<in> fst ` set cs then Some ?glob else None)"
    by (simp add: add_constants_lists no_info_def)
  have none: "?glob = []" if "[] \<notin> fst ` set cs"
  proof -
    have "filter (\<lambda>p. fst p = []) cs = []" using that by (force simp: filter_empty_conv)
    then show ?thesis by simp
  qed
  have l: "const_lists info f = Some (?own @ ?glob)"
    using f(1) own glob none unfolding info_def add_global_constants_def by simp
  have "const_nr (hd (?own @ ?glob)) = 0" if "(f, c) \<in> set cs" "const_nr c = 0" for c
  proof -
    have "c \<in> set (map snd (filter (\<lambda>p. fst p = f) cs))" using that(1) by force
    then have "\<exists>c \<in> set (map snd (filter (\<lambda>p. fst p = f) cs) @ []). const_nr c = 0" using that(2) by auto
    moreover have "bank_0_first []" by (simp add: bank_0_first_def)
    ultimately have "?own \<noteq> [] \<and> const_nr (hd ?own) = 0" by (rule h)
    then show ?thesis by (simp add: hd_append)
  qed
  then show ?thesis using l by (auto simp: m)
qed

theorem constants_listed_witness:
  "let k = (\<lambda>n. \<lparr>const_nr = n, const_address = 0x1000, const_size = 0x200\<rparr>);
       info = add_global_constants (fold (\<lambda>(f, c). add_constant f c)
         [(''f'', k 2), (''f'', k 0), ([], k 3)] no_info)
   in \<exists>l. const_lists info ''f'' = Some l \<and> const_nr (hd l) = 0 \<and> mset l = {#k 2, k 0, k 3#}"
proof -
  let ?k = "\<lambda>n. \<lparr>const_nr = n, const_address = 0x1000, const_size = 0x200\<rparr>"
  have "''f'' \<noteq> []" "''f'' \<in> fst ` set [(''f'', ?k 2), (''f'', ?k 0), ([], ?k 3)]" by simp_all
  from constants_listed [OF this] show ?thesis by (auto simp: Let_def add_mset_commute)
qed

end
