(* ===== verification/Module_Loader.thy ===== *)
theory Module_Loader
  imports Device_Copy Module_Attrs
begin

text \<open>
  Loading a module: \<open>libreCuModuleLoadData\<close> of \<open>driverapi/src/librecuda.cpp\<close>, and the functions that look
  at a loaded module.
\<close>

section \<open>State\<close>

record cu_module =
  mod_functions :: "nat list"  \<comment> \<open>the addresses of the elements of \<open>functions\<close>\<close>
  module_va_addr :: NvU64

text \<open>\<open>gbytes\<close> are the bytes that \<open>memcpy\<close> has put into mapped GPU memory.\<close>

record modl = d2d +
  modules :: "nat \<Rightarrow> cu_module"
  gbytes :: "NvU64 \<Rightarrow> NvU8"

section \<open>Reading the sections\<close>

text \<open>\<open>std::stoi\<close> for base 10: the number and the index behind it; it throws what the standard says.\<close>

definition is_space :: "char \<Rightarrow> bool" where
  "is_space c \<longleftrightarrow> c = CHR '' '' \<or> c = CHR 0x09 \<or> c = CHR 0x0A \<or> c = CHR 0x0B \<or> c = CHR 0x0C \<or> c = CHR 0x0D"

definition is_digit :: "char \<Rightarrow> bool" where
  "is_digit c \<longleftrightarrow> c \<in> set ''0123456789''"

definition digits_value :: "string \<Rightarrow> int" where
  "digits_value ds = foldl (\<lambda>a c. 10 * a + (of_char c - 48)) 0 ds"

definition stoi :: "string \<Rightarrow> error + int \<times> nat" where
  "stoi s =
     (let ws = takeWhile is_space s; r = dropWhile is_space s;
          (neg, sg) = (case r of [] \<Rightarrow> (False, 0)
            | c # _ \<Rightarrow> if c = CHR ''-'' then (True, 1) else if c = CHR ''+'' then (False, 1) else (False, 0));
          ds = takeWhile is_digit (drop sg r);
          v = (if neg then - digits_value ds else digits_value ds) in
      if ds = [] then Inl (Throw ''invalid_argument'')
      else if v < - (2 ^ 31) \<or> 2 ^ 31 \<le> v then Inl (Throw ''out_of_range'')
      else Inr (v, length ws + sg + length ds))"

fun symtab_from :: "nat \<Rightarrow> elf_section list \<Rightarrow> nat" where
  "symtab_from idx [] = 0"
| "symtab_from idx (s # ss) = (if sec_type s = SHT_SYMTAB then idx else symtab_from (idx + 1) ss)"

definition get_symbol :: "elf \<Rightarrow> nat \<Rightarrow> NvU32 \<Rightarrow> elf_symbol option" where
  "get_symbol e symtab_idx n =
     (if unat n < length (symbols e symtab_idx) then symbols e symtab_idx ! unat n else None)"

definition target_off :: "elf_section list \<Rightarrow> string \<Rightarrow> NvU64" where
  "target_off secs target_section_name =
     (case find (\<lambda>s. sec_name s = target_section_name) secs of None \<Rightarrow> 0 | Some s \<Rightarrow> sec_address s)"

text \<open>One entry of a relocation section: the symbol is resolved against the sections as laid out.\<close>

definition read_rel :: "elf \<Rightarrow> elf_section list \<Rightarrow> nat \<Rightarrow> NvU64 \<Rightarrow> elf_rel option \<Rightarrow> (load_info, unit) prog" where
  "read_rel e secs symtab_idx target_image_off entry =
     (case entry of None \<Rightarrow> fail LIBRECUDA_ERROR_INVALID_IMAGE
      | Some r \<Rightarrow>
          (case get_symbol e symtab_idx (rel_symbol r) of None \<Rightarrow> fail LIBRECUDA_ERROR_INVALID_IMAGE
           | Some y \<Rightarrow>
               bind (guard_ub (unat (sym_section y) < length secs) ''section of a symbol'') (\<lambda>_.
               modify (\<lambda>i. i\<lparr>relocs := relocs i @ [\<lparr>apply_image_offset = target_image_off + rel_offset r,
                 rel_sym_offset = sec_address (secs ! unat (sym_section y)) + sym_value y,
                 reloc_typ = rel_type r\<rparr>]\<rparr>))))"

definition read_relocs :: "elf \<Rightarrow> elf_section list \<Rightarrow> nat \<Rightarrow> nat \<Rightarrow> elf_section \<Rightarrow> (load_info, unit) prog" where
  "read_relocs e secs symtab_idx idx s =
     (let n = (if sec_type s = SHT_REL then 4 else 5);
          pre = (if sec_type s = SHT_REL then ''.rel'' else ''.rela'') in
      bind (validate (take n (sec_name s) = pre) LIBRECUDA_ERROR_INVALID_IMAGE) (\<lambda>_.
      foreach (rel_entries e idx) (read_rel e secs symtab_idx (target_off secs (drop n (sec_name s))))))"

definition read_constant :: "NvU64 \<Rightarrow> elf_section \<Rightarrow> (load_info, unit) prog" where
  "read_constant module_gpu_va s =
     (let constant_nr_str = drop 12 (sec_name s) in
      case stoi constant_nr_str of Inl e \<Rightarrow> stop e
      | Inr (v, after) \<Rightarrow>
          let function_name = (if after \<noteq> length constant_nr_str then drop (after + 1) constant_nr_str else []) in
          modify (add_constant function_name
            \<lparr>const_nr = word_of_int v, const_address = module_gpu_va + sec_address s, const_size = sec_size s\<rparr>))"

text \<open>One record of \<open>.nv.info\<close>; the loop looks for the name of symbol \<open>function\<close>.\<close>

definition nv_info_line :: "elf \<Rightarrow> nat \<Rightarrow> NvU32 \<Rightarrow> NvU32 \<Rightarrow> NvU32 \<Rightarrow> load_info \<Rightarrow> load_info" where
  "nv_info_line e symtab_idx ty function value info =
     (if ty AND 0xffff = EIATTR_MIN_STACK_SIZE then
        let target_name = (case get_symbol e symtab_idx function of None \<Rightarrow> [] | Some y \<Rightarrow> sym_name y);
            local_mem_req = value + 0x240 in
        info\<lparr>function_local_mem_reqs := (function_local_mem_reqs info)(target_name :=
          maxOf32 (function_local_mem_reqs info target_name) local_mem_req)\<rparr>
      else info)"

function read_nv_info :: "elf \<Rightarrow> nat \<Rightarrow> NvU8 list \<Rightarrow> (load_info, unit) prog" where
  "read_nv_info e symtab_idx bs =
     (if bs = [] then succeed
      else bind (guard_ub (12 \<le> length bs) ''.nv.info'') (\<lambda>_.
           bind (modify (nv_info_line e symtab_idx (word_at bs 0) (word_at bs 4) (word_at bs 8))) (\<lambda>_.
           read_nv_info e symtab_idx (drop 12 bs))))"
  by pat_completeness auto
termination
  by (relation "measure (\<lambda>(e, i, bs). length bs)") auto

declare read_nv_info.simps [simp del]

definition read_attrs :: "elf_section \<Rightarrow> (load_info, unit) prog" where
  "read_attrs s = (\<lambda>i. case parse_attrs (drop 9 (sec_name s)) (sec_data s) 0 i of
       Inl e \<Rightarrow> (Inl e, i) | Inr i' \<Rightarrow> (Inr (), i'))"

definition read_text :: "NvU64 \<Rightarrow> elf_section \<Rightarrow> load_info \<Rightarrow> load_info" where
  "read_text module_gpu_va s i =
     (let function_name = drop 6 (sec_name s) in
      i\<lparr>function_names := List.insert function_name (function_names i),
        function_addrs := (function_addrs i)(function_name := module_gpu_va + sec_address s),
        function_regs := (function_regs i)(function_name := drop_bit 24 (sec_info s)),
        function_sizes := (function_sizes i)(function_name := sec_size s)\<rparr>)"

definition name_prefix :: "string \<Rightarrow> elf_section \<Rightarrow> bool" where
  "name_prefix p s \<longleftrightarrow> length (sec_name s) > length p \<and> take (length p) (sec_name s) = p"

definition read_section :: "elf \<Rightarrow> elf_section list \<Rightarrow> NvU64 \<Rightarrow> nat \<Rightarrow> nat \<times> elf_section \<Rightarrow> (load_info, unit) prog" where
  "read_section e secs module_gpu_va symtab_idx = (\<lambda>(idx, s).
     bind (run_when (sec_type s = SHT_REL \<or> sec_type s = SHT_RELA) (read_relocs e secs symtab_idx idx s)) (\<lambda>_.
     if name_prefix ''.nv.shared.'' s then
       modify (\<lambda>i. i\<lparr>function_shared_mem := (function_shared_mem i)(drop 11 (sec_name s) := ucast (section_entry_size e))\<rparr>)
     else if name_prefix ''.text.'' s then modify (read_text module_gpu_va s)
     else if name_prefix ''.nv.constant'' s then read_constant module_gpu_va s
     else if sec_name s = ''.nv.info'' then read_nv_info e symtab_idx (sec_data s)
     else if name_prefix ''.nv.info.'' s then read_attrs s
     else succeed))"

definition read_sections :: "elf \<Rightarrow> elf_section list \<Rightarrow> NvU64 \<Rightarrow> (load_info, unit) prog" where
  "read_sections e secs module_gpu_va =
     foreach (zip [0 ..< length secs] secs) (read_section e secs module_gpu_va (symtab_from 0 secs))"

section \<open>Loading\<close>

text \<open>A part that works on local variables only.\<close>

definition locally :: "('l, unit) prog \<Rightarrow> 'l \<Rightarrow> ('s, 'l) prog" where
  "locally m l = (\<lambda>s. case m l of (Inl e, _) \<Rightarrow> (Inl e, s) | (Inr _, l') \<Rightarrow> (Inr l', s))"

definition make_function :: "load_info \<Rightarrow> string \<Rightarrow> func" where
  "make_function info f = \<lparr>func_name = f, func_va_addr = function_addrs info f,
     shared_mem = function_shared_mem info f, num_registers = function_regs info f,
     local_mem_req = function_local_mem_reqs info f, function_size = function_sizes info f,
     constants = (case const_lists info f of None \<Rightarrow> [] | Some l \<Rightarrow> l),
     param_info = param_infos info f, shader_local_memory_va = 0\<rparr>"

fun new_functions :: "load_info \<Rightarrow> string list \<Rightarrow> ('a modl_scheme, nat list) prog" where
  "new_functions info [] = ret []"
| "new_functions info (f # fs) =
     bind new_ptr (\<lambda>p.
     bind (modify (\<lambda>s. s\<lparr>funcs := (funcs s)(p := make_function info f)\<rparr>)) (\<lambda>_.
     bind (new_functions info fs) (\<lambda>ps. ret (p # ps))))"

definition memcpy_to_gpu :: "NvU64 \<Rightarrow> NvU8 list \<Rightarrow> ('a modl_scheme, unit) prog" where
  "memcpy_to_gpu va bs = modify (\<lambda>s. s\<lparr>gbytes := (\<lambda>a. if unat (a - va) < length bs then bs ! unat (a - va) else gbytes s a)\<rparr>)"

text \<open>
  \<open>elfio\<close> is the ELF reader, \<open>names\<close> the order in which an \<open>unordered_set\<close> is iterated. The module exists
  before its relocations are applied; when that fails, the caller's pointer has been set already.
\<close>

definition libreCuModuleLoadData ::
  "kern \<Rightarrow> (NvU8 list \<Rightarrow> elf) \<Rightarrow> (string list \<Rightarrow> string list) \<Rightarrow> bool \<Rightarrow> NvU8 list option \<Rightarrow> ('a modl_scheme, nat) prog" where
  "libreCuModuleLoadData K elfio names pModule binary =
     bind (validate pModule LIBRECUDA_ERROR_INVALID_VALUE) (\<lambda>_.
     bind (validate (binary \<noteq> None) LIBRECUDA_ERROR_INVALID_VALUE) (\<lambda>_.
     bind LIBRECUDA_ENSURE_CTX_VALID (\<lambda>_.
     let elf_reader = elfio (the binary) in
     bind (locally (place_sections (sections elf_reader)) (image_start (sections elf_reader))) (\<lambda>(rebuilt_image, secs).
     let allocated_size = ceilDiv64 (of_nat (length rebuilt_image)) 0x1000 * 0x1000 + 0x1000 in
     bind (gets current_ctx) (\<lambda>ctx.
     bind (gpuAlloc K ctx allocated_size False False True 0) (\<lambda>(module_gpu_va, _).
     bind (locally (read_sections elf_reader secs module_gpu_va) no_info) (\<lambda>info0.
     let order = names (function_names info0);
         info = add_global_constants (fold finalize_params order info0) in
     bind (new_functions info order) (\<lambda>functions.
     bind new_ptr (\<lambda>m.
     bind (modify (\<lambda>s. s\<lparr>modules := (modules s)(m := \<lparr>mod_functions = functions, module_va_addr = module_gpu_va\<rparr>)\<rparr>)) (\<lambda>_.
     bind (locally (foreach (relocs info) (apply_reloc module_gpu_va)) rebuilt_image) (\<lambda>rebuilt_image.
     bind (memcpy_to_gpu module_gpu_va rebuilt_image) (\<lambda>_.
     ret m))))))))))))"

section \<open>Looking at a module\<close>

definition libreCuModuleGetFunctionCount :: "bool \<Rightarrow> nat \<Rightarrow> ('a modl_scheme, NvU32) prog" where
  "libreCuModuleGetFunctionCount pCount m =
     bind (validate pCount LIBRECUDA_ERROR_INVALID_VALUE) (\<lambda>_.
     gets (\<lambda>s. of_nat (length (mod_functions (modules s m)))))"

definition libreCuModuleEnumerateFunctions :: "bool \<Rightarrow> NvU32 \<Rightarrow> nat \<Rightarrow> ('a modl_scheme, nat list) prog" where
  "libreCuModuleEnumerateFunctions out numFunctions m =
     bind (validate out LIBRECUDA_ERROR_INVALID_VALUE) (\<lambda>_.
     bind (validate (m \<noteq> 0) LIBRECUDA_ERROR_INVALID_VALUE) (\<lambda>_.
     bind (gets (\<lambda>s. mod_functions (modules s m))) (\<lambda>functions.
     bind (validate (length functions \<le> unat numFunctions) LIBRECUDA_ERROR_INVALID_VALUE) (\<lambda>_.
     ret functions))))"

definition libreCuModuleGetFunction :: "bool \<Rightarrow> nat \<Rightarrow> string \<Rightarrow> ('a modl_scheme, nat) prog" where
  "libreCuModuleGetFunction pFunc m name =
     bind (validate pFunc LIBRECUDA_ERROR_INVALID_VALUE) (\<lambda>_.
     bind (validate (m \<noteq> 0) LIBRECUDA_ERROR_INVALID_VALUE) (\<lambda>_.
     bind (gets (\<lambda>s. find (\<lambda>p. func_name (funcs s p) = name) (mod_functions (modules s m)))) (\<lambda>found.
     case found of None \<Rightarrow> fail LIBRECUDA_ERROR_NOT_FOUND | Some p \<Rightarrow> ret p)))"

definition libreCuModuleUnload :: "kern \<Rightarrow> nat \<Rightarrow> ('a modl_scheme, unit) prog" where
  "libreCuModuleUnload K m =
     bind LIBRECUDA_ENSURE_CTX_VALID (\<lambda>_.
     bind (validate (m \<noteq> 0) LIBRECUDA_ERROR_INVALID_VALUE) (\<lambda>_.
     bind (gets (\<lambda>s. (current_ctx s, modules s m))) (\<lambda>(ctx, md).
     bind (gpuFree K ctx (module_va_addr md)) (\<lambda>_.
     foreach (mod_functions md) (\<lambda>p.
       bind (gets (\<lambda>s. shader_local_memory_va (funcs s p))) (\<lambda>va.
       run_when (va \<noteq> 0) (bind (gets current_ctx) (\<lambda>ctx. gpuFree K ctx va))))))))"

definition libreCuFuncGetName :: "bool \<Rightarrow> nat \<Rightarrow> ('a modl_scheme, string) prog" where
  "libreCuFuncGetName pNameOut f =
     bind (validate pNameOut LIBRECUDA_ERROR_INVALID_VALUE) (\<lambda>_. gets (\<lambda>s. func_name (funcs s f)))"

section \<open>What the sections of code leave behind\<close>

text \<open>The part of the collected data that only the sections of code change.\<close>

definition code_part :: "load_info \<Rightarrow> string list \<times> (string \<Rightarrow> NvU64) \<times> (string \<Rightarrow> NvU32) \<times> (string \<Rightarrow> NvU64)" where
  "code_part i = (function_names i, function_addrs i, function_regs i, function_sizes i)"

lemma parse_attrs_code: "parse_attrs f bs off info = Inr info' \<Longrightarrow> code_part info' = code_part info"
proof (induction f bs off info rule: parse_attrs.induct)
  case (1 f bs off info)
  have e: "code_part (attr_effect f ty key d i) = code_part i" for ty key d i
    by (simp add: attr_effect_def code_part_def)
  show ?case
    using "1.prems" "1.IH" by (subst (asm) parse_attrs.simps) (auto simp: Let_def e split: if_splits option.splits)
qed

lemma read_rel_code: "preserves (\<lambda>i. P (code_part i)) (read_rel e secs t off entry)"
  unfolding read_rel_def by (auto intro!: presI preserves_modify simp: code_part_def split: option.split)

lemma read_nv_info_code: "preserves (\<lambda>i. P (code_part i)) (read_nv_info e t bs)"
proof (induction e t bs rule: read_nv_info.induct)
  case (1 e t bs)
  have "code_part (nv_info_line e t a b c i) = code_part i" for a b c i by (simp add: nv_info_line_def Let_def code_part_def)
  then show ?case
    using 1 by (subst read_nv_info.simps) (auto intro!: presI preserves_modify)
qed

lemma read_other_code:
  assumes "\<not> name_prefix ''.text.'' s \<or> name_prefix ''.nv.shared.'' s"
  shows "preserves (\<lambda>i. P (code_part i)) (read_section e secs va t (idx, s))"
proof -
  have at: "preserves (\<lambda>i. P (code_part i)) (read_attrs s)"
    unfolding read_attrs_def preserves_def using parse_attrs_code by (auto split: sum.split)
  have co: "preserves (\<lambda>i. P (code_part i)) (read_constant va s)"
    unfolding read_constant_def Let_def
    by (auto intro!: presI preserves_modify simp: code_part_def add_constant_def Let_def split: sum.split)
  have re: "preserves (\<lambda>i. P (code_part i)) (read_relocs e secs t idx s)"
    unfolding read_relocs_def Let_def by (intro presI read_rel_code)
  have sh: "preserves (\<lambda>i. P (code_part i)) (modify (\<lambda>i. i\<lparr>function_shared_mem := g i\<rparr>))" for g
    by (rule preserves_modify) (simp add: code_part_def)
  have tx: "preserves (\<lambda>i. P (code_part i)) (modify (read_text va s))"
    if "name_prefix ''.text.'' s" "\<not> name_prefix ''.nv.shared.'' s" using that assms by simp
  show ?thesis
    unfolding read_section_def prod.case by (intro presI at co re read_nv_info_code sh tx)
qed

text \<open>Where the code of a function is, after the sections \<open>secs\<close> have been read.\<close>

definition text_name :: "elf_section \<Rightarrow> string option" where
  "text_name s = (if name_prefix ''.text.'' s then Some (drop 6 (sec_name s)) else None)"

definition code_known :: "NvU64 \<Rightarrow> elf_section list \<Rightarrow> load_info \<Rightarrow> bool" where
  "code_known va secs i \<longleftrightarrow> distinct (function_names i) \<and>
     set (function_names i) = {f. \<exists>s \<in> set secs. text_name s = Some f} \<and>
     (\<forall>s \<in> set secs. \<forall>f. text_name s = Some f \<longrightarrow> function_addrs i f = va + sec_address s \<and>
        function_regs i f = drop_bit 24 (sec_info s) \<and> function_sizes i f = sec_size s)"

lemma code_known_part: "code_part i = code_part j \<Longrightarrow> code_known va secs i = code_known va secs j"
  by (simp add: code_known_def code_part_def)

definition text_names_distinct :: "elf_section list \<Rightarrow> bool" where
  "text_names_distinct ss \<longleftrightarrow> distinct (map the (filter (\<lambda>f. f \<noteq> None) (map text_name ss)))"

lemma text_not_shared: "name_prefix ''.text.'' s \<Longrightarrow> \<not> name_prefix ''.nv.shared.'' s"
  by (cases "sec_name s"; cases "tl (sec_name s)") (auto simp: name_prefix_def)

lemma read_section_code:
  assumes run: "read_section e secs va t (idx, s) i = (Inr (), j)" and i: "code_known va done i"
    and new: "\<forall>s' \<in> set done. \<forall>f. text_name s = Some f \<longrightarrow> text_name s' \<noteq> Some f"
    and ty: "text_name s \<noteq> None \<Longrightarrow> sec_type s = SHT_PROGBITS"
  shows "code_known va (done @ [s]) j"
proof (cases "name_prefix ''.text.'' s")
  case True
  have "j = read_text va s i"
    using run True ty text_not_shared [OF True]
    by (simp add: read_section_def text_name_def SHT_PROGBITS_def SHT_REL_def SHT_RELA_def)
  moreover obtain f where f: "text_name s = Some f" "f = drop 6 (sec_name s)" using True by (simp add: text_name_def)
  ultimately have j: "function_names j = List.insert f (function_names i)"
    "function_addrs j = (function_addrs i)(f := va + sec_address s)"
    "function_regs j = (function_regs i)(f := drop_bit 24 (sec_info s))"
    "function_sizes j = (function_sizes i)(f := sec_size s)"
    by (simp_all add: read_text_def Let_def)
  have old: "text_name s' \<noteq> Some f" if "s' \<in> set done" for s' using new that f(1) by blast
  have "set (function_names j) = {f. \<exists>s \<in> set (done @ [s]). text_name s = Some f}"
    using i f(1) by (auto simp: code_known_def j)
  moreover have "distinct (function_names j)" using i by (simp add: code_known_def j)
  moreover have "function_addrs j g = va + sec_address s' \<and> function_regs j g = drop_bit 24 (sec_info s') \<and>
      function_sizes j g = sec_size s'" if "s' \<in> set (done @ [s])" "text_name s' = Some g" for s' g
  proof (cases "s' \<in> set done")
    case True
    then have "g \<noteq> f" using old that(2) by blast
    then show ?thesis using i True that(2) by (simp add: code_known_def j)
  next
    case False
    then have "s' = s" using that(1) by simp
    then show ?thesis using that(2) f(1) by (simp add: j)
  qed
  ultimately show ?thesis by (simp add: code_known_def)
next
  case False
  have "code_part j = code_part i"
  proof -
    have "preserves (\<lambda>x. code_part x = code_part i) (read_section e secs va t (idx, s))"
      using read_other_code [of s "\<lambda>c. c = code_part i"] False by simp
    from preservesD [OF this _ run] show ?thesis by simp
  qed
  then have "code_known va done j" using code_known_part i by blast
  then show ?thesis using False by (auto simp: code_known_def text_name_def)
qed

lemma read_sections_code:
  assumes "foreach (zip ns ss) (read_section e secs va t) no_info = (Inr (), j)" "length ns = length ss"
    and "text_names_distinct ss" "\<forall>s \<in> set ss. text_name s \<noteq> None \<longrightarrow> sec_type s = SHT_PROGBITS"
  shows "code_known va ss j"
  using assms
proof (induction ss arbitrary: ns j rule: rev_induct)
  case Nil
  then show ?case by (auto simp: code_known_def no_info_def)
next
  case (snoc s ss)
  obtain n ns' where ns: "ns = ns' @ [n]" "length ns' = length ss"
    using snoc.prems(2) by (cases ns rule: rev_cases) auto
  obtain i where r: "foreach (zip ns' ss) (read_section e secs va t) no_info = (Inr (), i)"
    "read_section e secs va t (n, s) i = (Inr (), j)"
    using snoc.prems(1) ns by (auto simp: foreach_append bind_eq_Inr)
  have d: "text_names_distinct ss" "\<forall>s' \<in> set ss. \<forall>f. text_name s = Some f \<longrightarrow> text_name s' \<noteq> Some f"
    using snoc.prems(3) by (force simp: text_names_distinct_def)+
  show ?case
    using read_section_code [OF r(2) snoc.IH [OF r(1) ns(2) d(1)] d(2)] snoc.prems(4) by simp
qed

section \<open>A loaded module\<close>

lemma locally_eq_Inr: "locally m l s = (Inr l', s') \<longleftrightarrow> m l = (Inr (), l') \<and> s' = s"
  by (auto simp: locally_def split: prod.splits sum.splits)

lemma new_functions_run:
  assumes "new_functions info fs s = (Inr ps, s')"
  shows "ps = [next_ptr s ..< next_ptr s + length fs] \<and> next_ptr s' = next_ptr s + length fs \<and>
    (\<forall>i < length fs. funcs s' (next_ptr s + i) = make_function info (fs ! i)) \<and>
    (\<forall>p. p < next_ptr s \<longrightarrow> funcs s' p = funcs s p)"
  using assms
proof (induction fs arbitrary: s ps)
  case Nil
  then show ?case by auto
next
  case (Cons f fs)
  let ?s = "s\<lparr>next_ptr := next_ptr s + 1, funcs := (funcs s)(next_ptr s := make_function info f)\<rparr>"
  obtain qs where r: "new_functions info fs ?s = (Inr qs, s')" "ps = next_ptr s # qs"
    using Cons.prems by (auto simp: new_ptr_def bind_eq_Inr)
  note IH = Cons.IH [OF r(1)]
  have "funcs s' (next_ptr s + i) = make_function info ((f # fs) ! i)" if "i < length (f # fs)" for i
    using that IH by (cases i) simp_all
  moreover have "ps = [next_ptr s ..< next_ptr s + length (f # fs)]" using IH r(2) by (simp add: upt_conv_Cons del: upt_Suc)
  ultimately show ?case using IH by auto
qed

lemma finalize_code: "code_part (fold finalize_params fs i) = code_part i"
  by (induction fs arbitrary: i) (simp_all add: finalize_params_def code_part_def)

lemma global_code: "code_part (add_global_constants i) = code_part i"
  by (simp add: add_global_constants_def code_part_def)

lemma relocs_keep:
  assumes "foreach rs (apply_reloc va) img = (Inr (), img')"
  shows "length img' = length img \<and> (\<forall>i < length img. (\<forall>r \<in> set rs. \<not> patches va r i) \<longrightarrow> img' ! i = img ! i)"
  using assms
proof (induction rs arbitrary: img)
  case (Cons r rs)
  obtain img1 where r1: "apply_reloc va r img = (Inr (), img1)" and rs: "foreach rs (apply_reloc va) img1 = (Inr (), img')"
    using Cons.prems by (auto simp: bind_eq_Inr)
  have "length img1 = length img \<and> (\<forall>i < length img. \<not> patches va r i \<longrightarrow> img1 ! i = img ! i)"
    using apply_reloc_run [OF r1] nth_overwrite
    by (fastforce simp: patches_def length_overwrite split: option.splits)
  then show ?case using Cons.IH [OF rs] by simp
qed simp

lemma placed_names:
  assumes "list_all2 (placed F img) ss out"
  shows "map text_name out = map text_name ss"
    "(\<forall>t \<in> set out. text_name t \<noteq> None \<longrightarrow> sec_type t = SHT_PROGBITS) \<longleftrightarrow> (\<forall>t \<in> set ss. text_name t \<noteq> None \<longrightarrow> sec_type t = SHT_PROGBITS)"
proof -
  have "text_name t = text_name s \<and> sec_type t = sec_type s" if "placed F img s t" for s t
    using that by (auto simp: placed_def text_name_def name_prefix_def split: if_splits)
  then have "map text_name out = map text_name ss \<and> map sec_type out = map sec_type ss"
    using assms by (auto simp: list_all2_conv_all_nth intro!: nth_equalityI)
  moreover have "(\<forall>t \<in> set xs. text_name t \<noteq> None \<longrightarrow> sec_type t = SHT_PROGBITS) \<longleftrightarrow>
      (\<forall>(n, k) \<in> set (zip (map text_name xs) (map sec_type xs)). n \<noteq> None \<longrightarrow> k = SHT_PROGBITS)" for xs
    by (induction xs) auto
  ultimately show "map text_name out = map text_name ss"
    "(\<forall>t \<in> set out. text_name t \<noteq> None \<longrightarrow> sec_type t = SHT_PROGBITS) \<longleftrightarrow> (\<forall>t \<in> set ss. text_name t \<noteq> None \<longrightarrow> sec_type t = SHT_PROGBITS)"
    by (simp_all only:)
qed

definition image_size :: "elf_section list \<Rightarrow> nat" where
  "image_size ss = length (fst (snd (place_sections ss (image_start ss))))"

text \<open>The stages of a load that succeeds.\<close>

definition load_result :: "(string list \<Rightarrow> string list) \<Rightarrow> load_info \<Rightarrow> load_info" where
  "load_result names info0 = add_global_constants (fold finalize_params (names (function_names info0)) info0)"

lemma load_result_code: "code_part (load_result names i) = code_part i"
  by (simp add: load_result_def global_code finalize_code)

lemma load_stages:
  fixes s s' :: "'a modl_scheme"
  assumes run: "libreCuModuleLoadData K elfio names True (Some b) s = (Inr m, s')"
    and fits: "image_size (sections (elfio b)) < 2 ^ 64"
  obtains img secs va info0 fs img' and s2 s3 :: "'a modl_scheme" where
    "place_sections (sections (elfio b)) (image_start (sections (elfio b))) = (Inr (), img, secs)"
    "length img < 2 ^ 64" "read_sections (elfio b) secs va no_info = (Inr (), info0)"
    "new_functions (load_result names info0) (names (function_names info0)) s2 = (Inr fs, s3)"
    "foreach (relocs (load_result names info0)) (apply_reloc va) img = (Inr (), img')"
    "modules s' m = \<lparr>mod_functions = fs, module_va_addr = va\<rparr>" "funcs s' = funcs s3"
    "\<forall>i < length img. gbytes s' (va + of_nat i) = img' ! i"
proof -
  obtain img secs va info0 fs img' and s2 s3 :: "'a modl_scheme" where
    pl: "place_sections (sections (elfio b)) (image_start (sections (elfio b))) = (Inr (), img, secs)" and
    rd: "read_sections (elfio b) secs va no_info = (Inr (), info0)" and
    nf: "new_functions (load_result names info0) (names (function_names info0)) s2 = (Inr fs, s3)" and
    re: "foreach (relocs (load_result names info0)) (apply_reloc va) img = (Inr (), img')" and
    s': "memcpy_to_gpu va img' (s3\<lparr>next_ptr := next_ptr s3 + 1,
      modules := (modules s3)(m := \<lparr>mod_functions = fs, module_va_addr = va\<rparr>)\<rparr>) = (Inr (), s')"
    using run by (auto simp: libreCuModuleLoadData_def load_result_def Let_def bind_eq_Inr locally_eq_Inr new_ptr_def)
  have len: "length img < 2 ^ 64" using fits pl by (simp add: image_size_def)
  have gb: "gbytes s' (va + of_nat i) = img' ! i" if "i < length img" for i
  proof -
    have "unat (of_nat i :: NvU64) = i" using that len by (intro unat_of_nat64) simp
    then show ?thesis using s' that relocs_keep [OF re] by (auto simp: memcpy_to_gpu_def)
  qed
  have ms: "modules s' m = \<lparr>mod_functions = fs, module_va_addr = va\<rparr>" and fn: "funcs s' = funcs s3"
    using s' by (auto simp: memcpy_to_gpu_def)
  have "\<forall>i < length img. gbytes s' (va + of_nat i) = img' ! i" using gb by simp
  then show thesis by (rule that [OF pl len rd nf re ms fn])
qed

text \<open>Looking up a name among new functions.\<close>

lemma find_new_function:
  assumes nf: "new_functions info fs s = (Inr ps, s')" and f: "f \<in> set fs"
  shows "\<exists>p. find (\<lambda>p. func_name (funcs s' p) = f) ps = Some p \<and> funcs s' p = make_function info f"
proof -
  note nr = new_functions_run [OF nf]
  have fs: "funcs s' p = make_function info f" if "func_name (funcs s' p) = f" "p \<in> set ps" for p
  proof -
    obtain k where k: "k < length fs" "p = next_ptr s + k" using nr \<open>p \<in> set ps\<close> by (auto simp: le_iff_add)
    then have "funcs s' p = make_function info (fs ! k)" using nr by simp
    then show ?thesis using that(1) by (simp add: make_function_def)
  qed
  obtain k where k: "k < length fs" "fs ! k = f" using f by (metis in_set_conv_nth)
  then have "next_ptr s + k \<in> set ps" "func_name (funcs s' (next_ptr s + k)) = f"
    using nr by (simp_all add: make_function_def)
  then obtain p where p: "find (\<lambda>p. func_name (funcs s' p) = f) ps = Some p"
    by (metis (mono_tags, lifting) find_None_iff not_None_eq)
  then show ?thesis using fs [of p] by (auto simp: find_Some_iff)
qed

text \<open>The bytes of a section, unless they are patched.\<close>

lemma section_bytes:
  assumes at: "at_address img u" and re: "foreach rs (apply_reloc va) img = (Inr (), img')"
    and i: "i < length (sec_data u)" "\<forall>r \<in> set rs. \<not> patches va r (unat (sec_address u) + i)"
  shows "unat (sec_address u) + i < length img \<and> img' ! (unat (sec_address u) + i) = sec_data u ! i"
proof -
  have in_img: "unat (sec_address u) + i < length img" using at i(1) by (simp add: at_address_def sec_end_def)
  have "sub_list (unat (sec_address u)) (length (sec_data u)) img ! i = img ! (unat (sec_address u) + i)"
    using i(1) in_img by (simp add: sub_list_def)
  then have "sec_data u ! i = img ! (unat (sec_address u) + i)" using at by (simp add: at_address_def)
  then show ?thesis using relocs_keep [OF re] in_img i(2) by simp
qed

text \<open>Where a section of code has been put, and what has been recorded about it.\<close>

lemma code_placed:
  assumes pl: "place_sections ss (image_start ss) = (Inr (), img, secs)" and len: "length img < 2 ^ 64"
    and rd: "read_sections e secs va no_info = (Inr (), info)"
    and ok: "elf_ok ss" "text_names_distinct ss" "\<forall>t \<in> set ss. text_name t \<noteq> None \<longrightarrow> sec_type t = SHT_PROGBITS"
    and t: "t \<in> set ss" "text_name t = Some f" "moved_section t"
  obtains a where "at_address img (t\<lparr>sec_address := a\<rparr>)" "unat (section_align t) dvd unat a"
    "function_addrs info f = va + a" "function_regs info f = drop_bit 24 (sec_info t)"
    "function_sizes info f = sec_size t" "f \<in> set (function_names info)" "distinct (function_names info)"
proof -
  let ?F = "unat (num_bytes_fixed ss)"
  have placed: "list_all2 (placed ?F img) ss secs"
    using place_sections_placed [OF pl [unfolded image_start_def] ok(1) len] num_bytes_fixed_ge ok(1)
    by (simp add: elf_ok_def)
  have known: "code_known va secs info"
    using read_sections_code [OF rd [unfolded read_sections_def]] placed_names [OF placed] ok(2,3)
    by (simp add: text_names_distinct_def)
  obtain i where i: "i < length ss" "ss ! i = t" using t(1) by (auto simp: in_set_conv_nth)
  have u: "placed ?F img t (secs ! i)" "secs ! i \<in> set secs" using placed i by (auto simp: list_all2_conv_all_nth)
  then obtain a where a: "secs ! i = t\<lparr>sec_address := a\<rparr>" "unat (section_align t) dvd unat a" "at_address img (secs ! i)"
    using t(3) by (auto simp: placed_def)
  have "text_name (t\<lparr>sec_address := a\<rparr>) = text_name t" by (simp add: text_name_def name_prefix_def)
  then have "text_name (secs ! i) = Some f" using a(1) t(2) by simp
  then have "function_addrs info f = va + sec_address (secs ! i)" "function_regs info f = drop_bit 24 (sec_info (secs ! i))"
    "function_sizes info f = sec_size (secs ! i)" "f \<in> set (function_names info)" "distinct (function_names info)"
    using known u(2) unfolding code_known_def by blast+
  then show thesis using that [of a] a by (simp add: sec_size_def)
qed

text \<open>What the sections of a file say, and the relocations they ask for, once they have been placed.\<close>

definition module_info :: "elf \<Rightarrow> NvU64 \<Rightarrow> load_info" where
  "module_info e va = (let secs = snd (snd (place_sections (sections e) (image_start (sections e)))) in
     snd (read_sections e secs va no_info))"

definition module_relocs :: "elf \<Rightarrow> NvU64 \<Rightarrow> RelocInfo list" where
  "module_relocs e va = relocs (module_info e va)"

lemma load_result_relocs: "relocs (load_result names i) = relocs i"
proof -
  have "relocs (fold finalize_params fs j) = relocs j" for fs j
    by (induction fs arbitrary: j) (simp_all add: finalize_params_def)
  then show ?thesis by (simp add: load_result_def add_global_constants_def)
qed

text \<open>A section of code of the file, as a function of the loaded module.\<close>

lemma loaded_code:
  fixes s s' :: "'a modl_scheme"
  assumes run: "libreCuModuleLoadData K elfio names True (Some b) s = (Inr m, s')" and m: "m \<noteq> 0"
    and ok: "elf_ok (sections (elfio b))" "text_names_distinct (sections (elfio b))" "image_size (sections (elfio b)) < 2 ^ 64"
    and code: "\<forall>t \<in> set (sections (elfio b)). text_name t \<noteq> None \<longrightarrow> sec_type t = SHT_PROGBITS"
    and names: "\<And>xs. distinct xs \<Longrightarrow> distinct (names xs) \<and> set (names xs) = set xs"
    and t: "t \<in> set (sections (elfio b))" "text_name t = Some f" "moved_section t"
  obtains p a where "libreCuModuleGetFunction True m f s' = (Inr p, s')" "func_name (funcs s' p) = f"
    "funcs s' p = make_function (load_result names (module_info (elfio b) (module_va_addr (modules s' m)))) f"
    "func_va_addr (funcs s' p) = module_va_addr (modules s' m) + a" "unat (section_align t) dvd unat a"
    "unat a + length (sec_data t) \<le> image_size (sections (elfio b))"
    "function_size (funcs s' p) = sec_size t" "num_registers (funcs s' p) = drop_bit 24 (sec_info t)"
    "\<forall>i < length (sec_data t). (\<forall>r \<in> set (module_relocs (elfio b) (module_va_addr (modules s' m))).
         \<not> patches (module_va_addr (modules s' m)) r (unat a + i)) \<longrightarrow>
       gbytes s' (module_va_addr (modules s' m) + a + of_nat i) = sec_data t ! i"
proof -
  obtain img secs va info0 fs img' and s2 s3 :: "'a modl_scheme" where
    pl: "place_sections (sections (elfio b)) (image_start (sections (elfio b))) = (Inr (), img, secs)"
      "length img < 2 ^ 64" "read_sections (elfio b) secs va no_info = (Inr (), info0)" and
    nf: "new_functions (load_result names info0) (names (function_names info0)) s2 = (Inr fs, s3)" and
    re: "foreach (relocs (load_result names info0)) (apply_reloc va) img = (Inr (), img')" and
    s': "modules s' m = \<lparr>mod_functions = fs, module_va_addr = va\<rparr>" "funcs s' = funcs s3"
      "\<forall>i < length img. gbytes s' (va + of_nat i) = img' ! i"
    by (rule load_stages [OF run ok(3)])
  let ?info = "load_result names info0"
  obtain a where a: "at_address img (t\<lparr>sec_address := a\<rparr>)" "unat (section_align t) dvd unat a"
    "function_addrs info0 f = va + a" "function_regs info0 f = drop_bit 24 (sec_info t)"
    "function_sizes info0 f = sec_size t" "f \<in> set (function_names info0)" "distinct (function_names info0)"
    by (rule code_placed [OF pl ok(1,2) code t])
  obtain p where p: "find (\<lambda>p. func_name (funcs s' p) = f) fs = Some p" "funcs s' p = make_function ?info f"
    using find_new_function [OF nf] names [OF a(7)] a(6) unfolding s'(2) by blast
  have gf: "libreCuModuleGetFunction True m f s' = (Inr p, s')"
    using p(1) m s'(1) by (simp add: libreCuModuleGetFunction_def)
  have info: "function_addrs ?info f = va + a" "function_regs ?info f = drop_bit 24 (sec_info t)"
    "function_sizes ?info f = sec_size t"
    using load_result_code [of names info0] a(3-5) by (simp_all add: code_part_def)
  have bytes: "gbytes s' (va + a + of_nat i) = sec_data t ! i"
    if i: "i < length (sec_data t)" "\<forall>r \<in> set (relocs ?info). \<not> patches va r (unat a + i)" for i
  proof -
    have "unat a + i < length img" "img' ! (unat a + i) = sec_data t ! i"
      using section_bytes [OF a(1) re, of i] i by simp_all
    moreover have "va + a + of_nat i = va + of_nat (unat a + i)" by simp
    ultimately show ?thesis using s'(3) by metis
  qed
  have "unat a + length (sec_data t) \<le> image_size (sections (elfio b))"
    using a(1) pl(1) by (simp add: at_address_def sec_end_def image_size_def)
  moreover have "info0 = module_info (elfio b) va" by (simp add: module_info_def pl(1,3))
  moreover from this have rel: "relocs ?info = module_relocs (elfio b) va"
    by (simp add: module_relocs_def load_result_relocs)
  ultimately show thesis
    using that [OF gf, of a] p(2) info a(2) bytes s'(1) rel by (simp add: make_function_def)
qed


lemma new_functions_total: "\<exists>ps s'. new_functions info fs s = (Inr ps, s') \<and> next_ptr s' = next_ptr s + length fs"
proof (induction fs arbitrary: s)
  case (Cons f fs)
  show ?case using Cons [of "s\<lparr>next_ptr := next_ptr s + 1, funcs := (funcs s)(next_ptr s := make_function info f)\<rparr>"]
    by (auto simp: new_ptr_def bind_def)
qed simp

definition demo_elf :: elf where
  "demo_elf = \<lparr>sections = demo_sections, section_entry_size = 64, rel_entries = (\<lambda>_. []), symbols = (\<lambda>_. [])\<rparr>"

definition demo_modl :: modl where
  "demo_modl = \<lparr>root = 0x10, fd_ctl = 3, fd_uvm = 4, klog = [], public_device_handles = [demo_device],
     ctxs = (\<lambda>_. demo_context), current_ctx = 1, hostMappedPtrs = [], va_to_mem_handle = Map.empty,
     queues = (\<lambda>_. new_queue 1 None 0), events = (\<lambda>_. demo_event), funcs = (\<lambda>_. demo_func),
     sig_value = (\<lambda>_. 0), sig_time = (\<lambda>_. 0), wmem = (\<lambda>_. 0), doorbells = [],
     streams = (\<lambda>_. 1), next_ptr = 3, kernelHighBW = (\<lambda>_. 0), kernelLowLatency = (\<lambda>_. 0), kernelTrailingCpy = (\<lambda>_. 0),
     modules = (\<lambda>_. \<lparr>mod_functions = [], module_va_addr = 0\<rparr>), gbytes = (\<lambda>_. 0)\<rparr>"

lemma demo_image:
  "\<exists>img secs. place_sections demo_sections (image_start demo_sections) = (Inr (), img, secs) \<and> length img = 258 \<and>
     (\<exists>i. read_sections demo_elf secs 0x1000000000 no_info = (Inr (), i) \<and> relocs i = [] \<and> function_names i = [''f''])"
proof -
  define r where "r = place_sections demo_sections (image_start demo_sections)"
  have a: "(fst r, length (fst (snd r))) = (Inr (), 258)" unfolding r_def by code_simp
  define q where "q = read_sections demo_elf (snd (snd r)) 0x1000000000 no_info"
  have b: "(fst q, relocs (snd q), function_names (snd q)) = (Inr (), [], [''f''])"
    unfolding q_def r_def by code_simp
  show ?thesis using a b unfolding q_def r_def by (metis fst_conv prod.collapse prod.inject)
qed

text \<open>On a kernel that grants everything, an image without relocations loads.\<close>

lemma load_granted:
  fixes s :: "'a modl_scheme"
  assumes fd: "0 < fd_ctl s" and c: "current_ctx s \<noteq> 0"
    and pl: "place_sections (sections e) (image_start (sections e)) = (Inr (), img, secs)"
    and size: "ceilDiv64 (of_nat (length img)) 0x1000 * 0x1000 + 0x1000 = sz" and fit: "va_fits (current_ctx s) sz s"
    and rd: "read_sections e secs (alloc_base (current_ctx s) False s) no_info = (Inr (), i)"
    and rel: "relocs (load_result names i) = []"
  shows "\<exists>m s'. libreCuModuleLoadData granting (\<lambda>_. e) names True (Some b) s = (Inr m, s') \<and> next_ptr s \<le> m \<and>
     map (\<lambda>p. func_name (funcs s' p)) (mod_functions (modules s' m)) = names (function_names i) \<and>
     module_va_addr (modules s' m) = alloc_base (current_ctx s) False s"
proof -
  let ?va = "alloc_base (current_ctx s) False s"
  note bo = alloc_base_bounds [OF fit]
  obtain s1 where al: "gpuAlloc granting (current_ctx s) sz False False True 0 s = (Inr (?va, 0x100), s1)"
    using alloc_granted [OF fd c fit, of False False True 0] by blast
  obtain l h where s1: "s1 = (alloc_effect (current_ctx s) ?va (alloc_size False sz) True (Some h) s)\<lparr>klog := l\<rparr>"
    by (rule gpuAlloc_outcome [OF al bo(8) bo(7)]) auto
  let ?info = "load_result names i" and ?fs = "names (function_names i)"
  obtain ps s2 where nf: "new_functions ?info ?fs s1 = (Inr ps, s2)"
    using new_functions_total [of ?info ?fs s1] by auto
  note nr = new_functions_run [OF nf]
  have np: "next_ptr s \<le> next_ptr s2" using nr by (simp add: s1 alloc_effect_def)
  have names: "map (\<lambda>p. func_name (funcs s2 p)) ps = ?fs"
    using nr by (intro nth_equalityI) (simp_all add: make_function_def)
  have loc: "locally (place_sections (sections e)) (image_start (sections e)) s = (Inr (img, secs), s)"
    "locally (read_sections e secs ?va) no_info s1 = (Inr i, s1)"
    using pl rd by (simp_all add: locally_eq_Inr)
  have order: "?info = add_global_constants (fold finalize_params ?fs i)" by (simp add: load_result_def)
  show ?thesis
    using np names c by (simp add: libreCuModuleLoadData_def Let_def LIBRECUDA_ENSURE_CTX_VALID_def bind_assoc bind_eq_Inr locally_eq_Inr
        validate_eq_Inr pl size al rd nf [unfolded order] rel [unfolded order] new_ptr_def memcpy_to_gpu_def
        del: One_nat_def new_functions.simps)
qed

lemma demo_load:
  "\<exists>m s'. libreCuModuleLoadData granting (\<lambda>_. demo_elf) id True (Some []) demo_modl = (Inr m, s') \<and> m \<noteq> 0"
proof -
  obtain img secs i where pl: "place_sections demo_sections (image_start demo_sections) = (Inr (), img, secs)"
    and len: "length img = 258" and rd: "read_sections demo_elf secs 0x1000000000 no_info = (Inr (), i)"
    and i: "relocs i = []" "function_names i = [''f'']"
    using demo_image by blast
  have fit: "va_fits (current_ctx demo_modl) 0x2000 demo_modl"
    by (simp add: va_fits_def demo_modl_def demo_context_def UVM_HEAP_START_def)
  have base: "alloc_base (current_ctx demo_modl) False demo_modl = 0x1000000000" by code_simp
  have rel: "relocs (load_result id i) = []" using i(1) by (simp add: load_result_def i(2) add_global_constants_def finalize_params_def)
  have "\<exists>m s'. libreCuModuleLoadData granting (\<lambda>_. demo_elf) id True (Some []) demo_modl = (Inr m, s') \<and> next_ptr demo_modl \<le> m \<and>
     map (\<lambda>p. func_name (funcs s' p)) (mod_functions (modules s' m)) = id (function_names i) \<and>
     module_va_addr (modules s' m) = alloc_base (current_ctx demo_modl) False demo_modl"
  proof (rule load_granted [OF _ _ _ _ fit])
    show "place_sections (sections demo_elf) (image_start (sections demo_elf)) = (Inr (), img, secs)"
      using pl by (simp add: demo_elf_def)
    show "ceilDiv64 (of_nat (length img)) 0x1000 * 0x1000 + 0x1000 = (0x2000 :: NvU64)" by (simp add: len ceilDiv64_def)
  qed (use rd rel base in \<open>simp_all add: demo_modl_def\<close>)
  then show ?thesis by (auto simp: demo_modl_def)
qed


end
