(* ===== verification/Status_Names.thy ===== *)
theory Status_Names
  imports Prelude
begin

text \<open>
  The names of the statuses (\<open>driverapi/src/librecuda_status.cpp\<close>, with the declarations of
  \<open>librecuda_all_statuses.h\<close>): the table from codes to names and its look-up.
\<close>

section \<open>The declarations\<close>

fun status_code :: "status \<Rightarrow> int" where
  "status_code LIBRECUDA_SUCCESS = 0"
| "status_code LIBRECUDA_ERROR_INVALID_VALUE = 1"
| "status_code LIBRECUDA_ERROR_OUT_OF_MEMORY = 2"
| "status_code LIBRECUDA_ERROR_NOT_INITIALIZED = 3"
| "status_code LIBRECUDA_ERROR_INVALID_DEVICE = 101"
| "status_code LIBRECUDA_ERROR_INVALID_IMAGE = 200"
| "status_code LIBRECUDA_ERROR_INVALID_CONTEXT = 201"
| "status_code LIBRECUDA_ERROR_NOT_FOUND = 500"
| "status_code LIBRECUDA_ERROR_NOT_READY = 600"
| "status_code LIBRECUDA_ERROR_LAUNCH_OUT_OF_RESOURCES = 701"
| "status_code LIBRECUDA_ERROR_COMPAT_NOT_SUPPORTED_ON_DEVICE = 804"
| "status_code LIBRECUDA_ERROR_UNKNOWN = 999"

text \<open>The header once more, as the expansion with \<open>status_to_name[code] = #status\<close> reads it.\<close>

definition declared_statuses :: "(string \<times> int) list" where
  "declared_statuses = [
     (''LIBRECUDA_SUCCESS'', 0),
     (''LIBRECUDA_ERROR_INVALID_VALUE'', 1),
     (''LIBRECUDA_ERROR_OUT_OF_MEMORY'', 2),
     (''LIBRECUDA_ERROR_NOT_INITIALIZED'', 3),
     (''LIBRECUDA_ERROR_INVALID_DEVICE'', 101),
     (''LIBRECUDA_ERROR_INVALID_IMAGE'', 200),
     (''LIBRECUDA_ERROR_INVALID_CONTEXT'', 201),
     (''LIBRECUDA_ERROR_NOT_FOUND'', 500),
     (''LIBRECUDA_ERROR_NOT_READY'', 600),
     (''LIBRECUDA_ERROR_LAUNCH_OUT_OF_RESOURCES'', 701),
     (''LIBRECUDA_ERROR_COMPAT_NOT_SUPPORTED_ON_DEVICE'', 804),
     (''LIBRECUDA_ERROR_UNKNOWN'', 999)]"

section \<open>The table\<close>

type_synonym name_table = "int \<rightharpoonup> string"

fun enter_names :: "(string \<times> int) list \<Rightarrow> name_table \<Rightarrow> name_table" where
  "enter_names [] t = t"
| "enter_names ((name, code) # ds) t = enter_names ds (t(code \<mapsto> name))"

definition init_status_names :: "name_table \<Rightarrow> name_table" where
  "init_status_names t = enter_names declared_statuses t"

text \<open>\<open>None\<close> is \<open>nullptr\<close>.\<close>

definition internalLibreCuGetStatusName :: "name_table \<Rightarrow> int \<Rightarrow> string option" where
  "internalLibreCuGetStatusName t code = (case t code of None \<Rightarrow> None | Some name \<Rightarrow> Some name)"

lemma get_status_name: "internalLibreCuGetStatusName t code = t code"
  by (simp add: internalLibreCuGetStatusName_def split: option.split)

section \<open>Every status has a name of its own\<close>

lemma map_of_swapped: "map_of (map (\<lambda>(n, k). (k, n)) ds) c = Some n \<Longrightarrow> (n, c) \<in> set ds"
  by (drule map_of_SomeD) auto

lemma swapped_code: "map_of (map (\<lambda>(n, k). (k, n)) ds) c = Some n \<Longrightarrow> c \<in> snd ` set ds"
  by (drule map_of_swapped) force

lemma enter_names_lookup:
  "distinct (map snd ds) \<Longrightarrow>
     enter_names ds t c = (case map_of (map (\<lambda>(n, k). (k, n)) ds) c of None \<Rightarrow> t c | Some n \<Rightarrow> Some n)"
  by (induction ds t rule: enter_names.induct) (auto split: option.split dest: swapped_code)

lemma status_code_inj: "status_code a = status_code b \<Longrightarrow> a = b"
  by (cases a; cases b) simp_all

lemma declared_codes: "set (map snd declared_statuses) = range status_code"
proof
  have "map snd declared_statuses = map status_code [LIBRECUDA_SUCCESS, LIBRECUDA_ERROR_INVALID_VALUE,
      LIBRECUDA_ERROR_OUT_OF_MEMORY, LIBRECUDA_ERROR_NOT_INITIALIZED, LIBRECUDA_ERROR_INVALID_DEVICE,
      LIBRECUDA_ERROR_INVALID_IMAGE, LIBRECUDA_ERROR_INVALID_CONTEXT, LIBRECUDA_ERROR_NOT_FOUND,
      LIBRECUDA_ERROR_NOT_READY, LIBRECUDA_ERROR_LAUNCH_OUT_OF_RESOURCES,
      LIBRECUDA_ERROR_COMPAT_NOT_SUPPORTED_ON_DEVICE, LIBRECUDA_ERROR_UNKNOWN]"
    by (simp add: declared_statuses_def)
  then show "set (map snd declared_statuses) \<subseteq> range status_code" by (metis set_map subset_UNIV image_mono)
  show "range status_code \<subseteq> set (map snd declared_statuses)"
  proof
    fix c assume "c \<in> range status_code"
    then obtain st where "c = status_code st" by blast
    then show "c \<in> set (map snd declared_statuses)" by (cases st) (simp_all add: declared_statuses_def)
  qed
qed

lemma names_of_codes:
  "init_status_names t c = (case map_of (map (\<lambda>(n, k). (k, n)) declared_statuses) c of None \<Rightarrow> t c | Some n \<Rightarrow> Some n)"
  unfolding init_status_names_def by (rule enter_names_lookup) (simp add: declared_statuses_def)

lemma undeclared_code: "c \<notin> range status_code \<Longrightarrow> init_status_names t c = t c"
  by (auto simp: names_of_codes declared_codes [symmetric] split: option.split dest: swapped_code)

lemma declared_name:
  "\<exists>n. init_status_names t (status_code st) = Some n \<and> (n, status_code st) \<in> set declared_statuses"
proof -
  have "status_code st \<in> set (map fst (map (\<lambda>(n, k). (k, n)) declared_statuses))"
    using declared_codes by (auto simp: image_iff case_prod_beta)
  then obtain n where "map_of (map (\<lambda>(n, k). (k, n)) declared_statuses) (status_code st) = Some n"
    by (metis map_of_eq_None_iff not_None_eq set_map)
  then show ?thesis by (auto simp: names_of_codes dest!: map_of_swapped)
qed

lemma declared_names_distinct: "distinct (map fst declared_statuses)"
  by (simp add: declared_statuses_def)

lemma names_injective:
  assumes "init_status_names t (status_code a) = Some n" "init_status_names t (status_code b) = Some n"
  shows "a = b"
proof -
  have "(n, status_code a) \<in> set declared_statuses" "(n, status_code b) \<in> set declared_statuses"
    using declared_name [of t a] declared_name [of t b] assms by auto
  then have "status_code a = status_code b"
    using eq_key_imp_eq_value [OF declared_names_distinct] by blast
  then show ?thesis by (rule status_code_inj)
qed

lemma init_names_idem: "init_status_names (init_status_names t) = init_status_names t"
  by (rule ext) (simp add: names_of_codes split: option.split)

end
