(* ===== verification/Device_Init.thy ===== *)
theory Device_Init
  imports Module_Loader Status_Names
begin

text \<open>
  Initialisation and enumeration of devices in \<open>driverapi/src/librecuda.cpp\<close>: \<open>libreCuInit\<close> with
  the parsing of \<open>CUDA_VISIBLE_DEVICES\<close>, \<open>libreCuDeviceGetCount\<close>, \<open>libreCuDeviceGet\<close> and
  \<open>libreCuGetErrorString\<close>. A pointer to a device is an index into \<open>public_device_handles\<close>.
\<close>

section \<open>State\<close>

datatype DriverType = OPEN_KERNEL_MODULES | NVIDIA_PROPRIETARY

text \<open>
  \<open>devices\<close> keeps of the \<open>nv_ioctl_card_info_t\<close> entries the field \<open>gpu_id\<close>, the only one that is read.
  \<open>memcpy_initialized\<close> and \<open>memcpy_module\<close> are the tables \<open>initialized\<close> and \<open>module\<close> of \<open>memcopy.cpp\<close>.
\<close>

record glob = modl +
  librecudaInitialized :: bool
  num_devices :: int
  devices :: "NvU32 list"
  device_instances :: "NvU32 list"
  driver_type :: DriverType
  status_to_name :: name_table
  names_initialized :: bool
  memcpy_initialized :: "int \<Rightarrow> bool"
  memcpy_module :: "int \<Rightarrow> nat"

text \<open>An output field of a call's structure; one that the answer leaves out keeps its value \<open>d\<close>.\<close>

definition reply_or :: "kreply \<Rightarrow> nat \<Rightarrow> NvU32 \<Rightarrow> NvU32" where
  "reply_or r i d = (if i < length (kdata r) then kdata r ! i else d)"

section \<open>Statuses by name\<close>

definition internalLibreCuInitStatusNames :: "('a glob_scheme, unit) prog" where
  "internalLibreCuInitStatusNames =
     modify (\<lambda>s. s\<lparr>status_to_name := init_status_names (status_to_name s), names_initialized := True\<rparr>)"

definition libreCuGetErrorString :: "int \<Rightarrow> bool \<Rightarrow> ('a glob_scheme, string option) prog" where
  "libreCuGetErrorString status pStatusName =
     bind (gets names_initialized) (\<lambda>ready.
     bind (run_when (\<not> ready) internalLibreCuInitStatusNames) (\<lambda>_.
     bind (gets (\<lambda>s. internalLibreCuGetStatusName (status_to_name s) status)) (\<lambda>status_name.
     bind (validate pStatusName LIBRECUDA_ERROR_INVALID_VALUE) (\<lambda>_.
     ret status_name))))"

section \<open>\<open>CUDA_VISIBLE_DEVICES\<close>\<close>

text \<open>
  The loop over the characters of the variable. Its local state is \<open>current_start\<close> and the set
  \<open>visible_ordinals\<close>; an entry that \<open>stoi\<close> does not use up leaves both as they are.
\<close>

definition substr :: "string \<Rightarrow> nat \<Rightarrow> nat \<Rightarrow> string" where
  "substr s pos n = take n (drop pos s)"

definition parse_ordinal :: "string \<Rightarrow> ('s, int \<times> nat) prog" where
  "parse_ordinal s = (case stoi s of Inl e \<Rightarrow> stop e | Inr p \<Rightarrow> ret p)"

definition visible_step :: "string \<Rightarrow> nat \<Rightarrow> (nat \<times> int set, unit) prog" where
  "visible_step env_var i =
     run_when (env_var ! i = CHR '','')
       (bind (gets fst) (\<lambda>current_start.
        let ordinal_string = substr env_var current_start (i - current_start) in
        bind (parse_ordinal ordinal_string) (\<lambda>(parsed, pos).
        run_when (pos = length ordinal_string)
          (modify (\<lambda>(_, visible_ordinals). (i + 1, insert parsed visible_ordinals))))))"

definition visible_last :: "string \<Rightarrow> (nat \<times> int set, unit) prog" where
  "visible_last env_var =
     bind (gets fst) (\<lambda>current_start.
     bind (parse_ordinal (substr env_var current_start (length env_var - current_start))) (\<lambda>(parsed, _).
     modify (\<lambda>(st, visible_ordinals). (st, insert parsed visible_ordinals))))"

definition parse_visible :: "string \<Rightarrow> (nat \<times> int set, unit) prog" where
  "parse_visible env_var =
     bind (foreach [0..<length env_var] (visible_step env_var)) (\<lambda>_. visible_last env_var)"

definition visible_ordinals :: "string option \<Rightarrow> nat \<Rightarrow> ('s, int set) prog" where
  "visible_ordinals env num_gpus =
     (case env of
        None \<Rightarrow> ret (set (map int [0..<num_gpus]))
      | Some env_var \<Rightarrow> bind (locally (parse_visible env_var) (0, {})) (\<lambda>(_, v). ret v))"

section \<open>\<open>libreCuInit\<close>\<close>

definition NV01_ROOT_CLIENT :: NvU32 where "NV01_ROOT_CLIENT = 0x41"
definition UVM_INITIALIZE :: NvU32 where "UVM_INITIALIZE = 0x30000001"
definition UVM_MM_INITIALIZE :: NvU32 where "UVM_MM_INITIALIZE = 75"
definition NV_WARN_NOTHING_TO_DO :: NvU32 where "NV_WARN_NOTHING_TO_DO = 0x00010006"
definition NV0000_CTRL_CMD_GPU_GET_ID_INFO_V2 :: NvU32 where "NV0000_CTRL_CMD_GPU_GET_ID_INFO_V2 = 0x205"

definition open_control_files :: "kern \<Rightarrow> ('a glob_scheme, unit) prog" where
  "open_control_files K =
     bind (kernel_call K (KOpen ''/dev/nvidiactl'')) (\<lambda>r.
     bind (modify (\<lambda>s. s\<lparr>fd_ctl := kret r\<rparr>)) (\<lambda>_.
     bind (validate (kret r \<noteq> - 1) LIBRECUDA_ERROR_COMPAT_NOT_SUPPORTED_ON_DEVICE) (\<lambda>_.
     bind (kernel_call K (KOpen ''/dev/nvidia-uvm'')) (\<lambda>r.
     bind (modify (\<lambda>s. s\<lparr>fd_uvm := kret r\<rparr>)) (\<lambda>_.
     validate (kret r \<noteq> - 1) LIBRECUDA_ERROR_COMPAT_NOT_SUPPORTED_ON_DEVICE)))))"

definition create_rm_client :: "kern \<Rightarrow> ('a glob_scheme, unit) prog" where
  "create_rm_client K =
     bind (gets fd_ctl) (\<lambda>ctl.
     bind (RM_ALLOC K ctl NV01_ROOT_CLIENT 0 0 0 []) (\<lambda>h. modify (\<lambda>s. s\<lparr>root := h\<rparr>)))"

definition initialize_uvm :: "kern \<Rightarrow> ('a glob_scheme, unit) prog" where
  "initialize_uvm K = bind (gets fd_uvm) (\<lambda>uvm. UVM_IOCTL K uvm UVM_INITIALIZE [(''flags'', 0)])"

text \<open>This call of \<open>UVM_MM_INITIALIZE\<close> is not made through the macro: both outcomes are looked at.\<close>

definition initialize_mm :: "kern \<Rightarrow> ('a glob_scheme, unit) prog" where
  "initialize_mm K =
     bind (kernel_call K (KOpen ''/dev/nvidia-uvm'')) (\<lambda>f.
     bind (validate (kret f \<noteq> - 1) LIBRECUDA_ERROR_INVALID_DEVICE) (\<lambda>_.
     bind (gets fd_uvm) (\<lambda>uvm.
     bind (kernel_call K (KUvm (kret f) UVM_MM_INITIALIZE [(''uvmFd'', word_of_int uvm)])) (\<lambda>r.
     if kret r \<noteq> 0 \<or> kstatus r \<noteq> 0 then
       if kstatus r = NV_WARN_NOTHING_TO_DO then
         bind (modify (\<lambda>s. s\<lparr>driver_type := NVIDIA_PROPRIETARY\<rparr>)) (\<lambda>_.
         bind (kernel_call K (KClose (kret f))) (\<lambda>_. succeed))
       else
         bind (kernel_call K (KClose (kret f))) (\<lambda>_. fail LIBRECUDA_ERROR_UNKNOWN)
     else
       bind (kernel_call K (KClose (kret f))) (\<lambda>_.
       modify (\<lambda>s. s\<lparr>driver_type := OPEN_KERNEL_MODULES\<rparr>))))))"

text \<open>
  The answer to \<open>NV_ESC_CARD_INFO\<close> lists \<open>valid\<close> and \<open>gpu_id\<close> of each entry the kernel has written. The
  array is on the stack and not cleared before the call: an entry that was not written is
  indeterminate, and the count that reads it is undefined.
\<close>

fun count_gpus :: "nat \<Rightarrow> NvU32 list \<Rightarrow> nat option" where
  "count_gpus 0 ws = Some 0"
| "count_gpus (Suc left) (valid # gpu_id # ws) =
     (if valid = 0 then Some 0 else map_option Suc (count_gpus left ws))"
| "count_gpus (Suc left) [valid] = None"
| "count_gpus (Suc left) [] = None"

definition n_infos :: nat where "n_infos = 128"

definition gpu_id_of :: "kreply \<Rightarrow> nat \<Rightarrow> NvU32" where
  "gpu_id_of r i = kdata r ! (2 * i + 1)"

definition obtain_card_info :: "kern \<Rightarrow> string option \<Rightarrow> ('a glob_scheme, unit) prog" where
  "obtain_card_info K env =
     bind (gets fd_ctl) (\<lambda>ctl.
     bind (NV_IOWR K ctl NV_ESC_CARD_INFO []) (\<lambda>card_infos.
     case count_gpus n_infos (kdata card_infos) of
       None \<Rightarrow> stop (UB ''card_infos'')
     | Some num_gpus \<Rightarrow>
         bind (visible_ordinals env num_gpus) (\<lambda>visible.
         bind (foreach [0..<num_gpus] (\<lambda>i.
           run_when (int i \<in> visible) (modify (\<lambda>s. s\<lparr>devices := devices s @ [gpu_id_of card_infos i]\<rparr>)))) (\<lambda>_.
         modify (\<lambda>s. s\<lparr>num_devices := int num_gpus\<rparr>)))))"

definition obtain_gpu_instance :: "kern \<Rightarrow> NvU32 \<Rightarrow> ('a glob_scheme, unit) prog" where
  "obtain_gpu_instance K gpu_id =
     bind (gets (\<lambda>s. (fd_ctl s, root s))) (\<lambda>(ctl, rt).
     bind (RM_CTRL K ctl NV0000_CTRL_CMD_GPU_GET_ID_INFO_V2 rt rt [(''gpuId'', ucast gpu_id)]) (\<lambda>r.
     modify (\<lambda>s. s\<lparr>device_instances := device_instances s @ [reply_or r 0 0]\<rparr>)))"

definition obtain_gpu_instances :: "kern \<Rightarrow> ('a glob_scheme, unit) prog" where
  "obtain_gpu_instances K = bind (gets devices) (\<lambda>cards. foreach cards (obtain_gpu_instance K))"

text \<open>\<open>LibreCUdevice_{.ordinal = ordinal, .instance = device_instance}\<close>: the other fields are zero.\<close>

definition new_device :: "nat \<Rightarrow> NvU32 \<Rightarrow> device" where
  "new_device ord inst = \<lparr>ordinal = int ord, instance_nr = inst, uuid = replicate 16 0, gpu_mmio = 0,
     compute_class = 0, device_info = replicate 56 (0, 0)\<rparr>"

definition create_device_handle :: "nat \<Rightarrow> ('a glob_scheme, unit) prog" where
  "create_device_handle ord =
     bind (gets device_instances) (\<lambda>insts.
     bind (guard_ub (ord < length insts) ''device_instances[ordinal]'') (\<lambda>_.
     modify (\<lambda>s. s\<lparr>public_device_handles := public_device_handles s @ [new_device ord (insts ! ord)]\<rparr>)))"

definition create_device_handles :: "('a glob_scheme, unit) prog" where
  "create_device_handles =
     bind (gets num_devices) (\<lambda>n. foreach [0..<nat n] create_device_handle)"

text \<open>\<open>env\<close> is the value of \<open>CUDA_VISIBLE_DEVICES\<close>. What is printed is not modelled.\<close>

definition libreCuInit :: "kern \<Rightarrow> string option \<Rightarrow> ('a glob_scheme, unit) prog" where
  "libreCuInit K env =
     bind (gets librecudaInitialized) (\<lambda>already.
     if already then succeed
     else block [
       internalLibreCuInitStatusNames,
       open_control_files K,
       create_rm_client K,
       initialize_uvm K,
       initialize_mm K,
       obtain_card_info K env,
       obtain_gpu_instances K,
       create_device_handles,
       modify (\<lambda>s. s\<lparr>librecudaInitialized := True\<rparr>)])"

section \<open>Enumeration\<close>

definition LIBRECUDA_VALIDATE_INITIALIZED :: "('a glob_scheme, unit) prog" where
  "LIBRECUDA_VALIDATE_INITIALIZED =
     bind (gets librecudaInitialized) (\<lambda>ok. validate ok LIBRECUDA_ERROR_NOT_INITIALIZED)"

definition libreCuDeviceGetCount :: "bool \<Rightarrow> ('a glob_scheme, int) prog" where
  "libreCuDeviceGetCount pDeviceCount =
     bind LIBRECUDA_VALIDATE_INITIALIZED (\<lambda>_.
     bind (validate pDeviceCount LIBRECUDA_ERROR_INVALID_VALUE) (\<lambda>_.
     gets num_devices))"

definition libreCuDeviceGet :: "bool \<Rightarrow> int \<Rightarrow> ('a glob_scheme, nat) prog" where
  "libreCuDeviceGet out deviceOrdinal =
     bind LIBRECUDA_VALIDATE_INITIALIZED (\<lambda>_.
     bind (validate out LIBRECUDA_ERROR_INVALID_VALUE) (\<lambda>_.
     bind (gets num_devices) (\<lambda>n.
     bind (validate (deviceOrdinal \<ge> 0 \<and> deviceOrdinal < n) LIBRECUDA_ERROR_INVALID_DEVICE) (\<lambda>_.
     bind (gets (\<lambda>s. length (public_device_handles s))) (\<lambda>k.
     bind (guard_ub (nat deviceOrdinal < k) ''public_device_handles[deviceOrdinal]'') (\<lambda>_.
     ret (nat deviceOrdinal)))))))"

section \<open>The names of the statuses\<close>

text \<open>What holds of the table before and after every call.\<close>

definition names_ok :: "'a glob_scheme \<Rightarrow> bool" where
  "names_ok s \<longleftrightarrow> status_to_name s = (if names_initialized s then init_status_names Map.empty else Map.empty)"

lemma init_status_names_run:
  "names_ok s \<Longrightarrow> internalLibreCuInitStatusNames s =
     (Inr (), s\<lparr>status_to_name := init_status_names Map.empty, names_initialized := True\<rparr>)"
  by (cases "names_initialized s") (simp_all add: internalLibreCuInitStatusNames_def names_ok_def init_names_idem)

lemma error_string_run:
  assumes "names_ok s"
  shows "\<exists>s'. libreCuGetErrorString c True s = (Inr (init_status_names Map.empty c), s') \<and> names_ok s'"
proof (cases "names_initialized s")
  case True
  then show ?thesis using assms
    by (auto simp: libreCuGetErrorString_def names_ok_def get_status_name)
next
  case False
  then show ?thesis
    by (simp add: libreCuGetErrorString_def bind_def init_status_names_run [OF assms] names_ok_def get_status_name)
qed

text \<open>
  \<open>libreCuGetErrorString\<close> never fails for a proper output pointer, whether the names have been entered
  before or not; it gives every declared status a name, different statuses different names, and the null
  pointer for any other code; and it keeps the state of the table.
\<close>

theorem error_strings:
  assumes "names_ok s"
  shows "\<exists>name. (\<forall>c. \<exists>s'. libreCuGetErrorString c True s = (Inr (name c), s') \<and> names_ok s') \<and>
     (\<forall>st. name (status_code st) \<noteq> None) \<and>
     (\<forall>a b. name (status_code a) = name (status_code b) \<longrightarrow> a = b) \<and>
     (\<forall>c. c \<notin> range status_code \<longrightarrow> name c = None)"
proof (intro exI [of _ "init_status_names Map.empty"] conjI allI impI)
  fix a b assume same: "init_status_names Map.empty (status_code a) = init_status_names Map.empty (status_code b)"
  obtain n where "init_status_names Map.empty (status_code a) = Some n" using declared_name by blast
  then show "a = b" using same names_injective by metis
qed (use error_string_run [OF assms] declared_name undeclared_code in \<open>auto, fastforce+\<close>)

section \<open>\<open>CUDA_VISIBLE_DEVICES\<close> is read back\<close>

text \<open>The value that lists some ordinals.\<close>

fun ordinal_list :: "nat list \<Rightarrow> string" where
  "ordinal_list [] = []"
| "ordinal_list [n] = to_string n"
| "ordinal_list (n # m # ns) = to_string n @ CHR '','' # ordinal_list (m # ns)"

lemma to_string_step: "to_string n = (if n < 10 then [] else to_string (n div 10)) @ [char_of (48 + n mod 10)]"
  by (subst to_string.simps) simp

lemma digit_chars: "d < 10 \<Longrightarrow> is_digit (char_of (48 + d)) \<and> (of_char (char_of (48 + d) :: char) :: int) = 48 + int d" for d :: nat
proof -
  assume "d < 10"
  then have "d \<in> {0, 1, 2, 3, 4, 5, 6, 7, 8, 9}" by auto
  then show ?thesis by (elim insertE emptyE; hypsubst; code_simp)
qed

lemma to_string_digits: "\<forall>c \<in> set (to_string n). is_digit c"
proof (induction n rule: to_string.induct)
  case (1 n)
  then show ?case by (subst to_string_step) (auto simp: digit_chars)
qed

lemma to_string_nonempty: "to_string n \<noteq> []"
  by (subst to_string_step) simp

lemma digits_value_snoc: "digits_value (ds @ [c]) = 10 * digits_value ds + (of_char c - 48)"
  by (simp add: digits_value_def)

lemma digits_value_to_string: "digits_value (to_string n) = int n"
proof (induction n rule: to_string.induct)
  case (1 n)
  show ?case
  proof (cases "n < 10")
    case True
    then show ?thesis by (subst to_string_step) (simp add: digits_value_def digit_chars)
  next
    case False
    then have "digits_value (to_string n) = 10 * int (n div 10) + int (n mod 10)"
      using 1 by (subst to_string_step) (simp add: digits_value_snoc digit_chars)
    then show ?thesis by presburger
  qed
qed

lemma digit_not_special: "is_digit c \<Longrightarrow> \<not> is_space c \<and> c \<noteq> CHR ''-'' \<and> c \<noteq> CHR ''+'' \<and> c \<noteq> CHR '',''"
  by (auto simp: is_digit_def is_space_def)

lemma stoi_to_string:
  assumes "n < 2 ^ 31"
  shows "stoi (to_string n) = Inr (int n, length (to_string n))"
proof -
  obtain c cs where s: "to_string n = c # cs" using to_string_nonempty by (meson neq_Nil_conv)
  have c: "\<not> is_space c" "c \<noteq> CHR ''-''" "c \<noteq> CHR ''+''"
    using to_string_digits [of n] digit_not_special [of c] s by auto
  have t: "takeWhile is_digit (c # cs) = c # cs" using to_string_digits [of n] s by (simp add: takeWhile_eq_all_conv)
  have v: "digits_value (c # cs) = int n" using digits_value_to_string [of n] s by simp
  have sm: "\<not> int n < - (2 ^ 31)" "\<not> 2 ^ 31 \<le> int n" using assms by simp_all
  have w: "takeWhile is_space (c # cs) = []" "dropWhile is_space (c # cs) = c # cs" using c(1) by simp_all
  show ?thesis unfolding s stoi_def Let_def w using c(2,3) sm by (simp add: t v del: takeWhile.simps)
qed

lemma visible_skip:
  "(\<And>i. i \<in> set is \<Longrightarrow> env_var ! i \<noteq> CHR '','') \<Longrightarrow> foreach is (visible_step env_var) s = (Inr (), s)"
  by (induction "is") (simp_all add: visible_step_def)

lemma upt_parts: "i \<le> j \<Longrightarrow> j = k \<Longrightarrow> k \<le> n \<Longrightarrow> [i..<n] = [i..<j] @ [k..<n]"
  using upt_add_eq_append [of i j "n - j"] by simp

lemma visible_entry:
  assumes "n < 2 ^ 31"
  shows "foreach [length pre..<length pre + length (to_string n) + 1]
       (visible_step (pre @ to_string n @ CHR '','' # rest)) (length pre, v) =
     (Inr (), length pre + length (to_string n) + 1, insert (int n) v)"
proof -
  let ?env = "pre @ to_string n @ CHR '','' # rest" and ?k = "length pre + length (to_string n)"
  have sp: "[length pre..<?k + 1] = [length pre..<?k] @ [?k]" by (simp add: upt_Suc_append)
  have digits: "foreach [length pre..<?k] (visible_step ?env) (length pre, v) = (Inr (), length pre, v)"
  proof (rule visible_skip)
    fix i assume "i \<in> set [length pre..<?k]"
    then have "?env ! i \<in> set (to_string n)" by (auto simp: nth_append)
    then show "?env ! i \<noteq> CHR '',''" using to_string_digits digit_not_special by blast
  qed
  have comma: "?env ! ?k = CHR '',''" by (simp add: nth_append)
  have entry: "substr ?env (length pre) (length (to_string n)) = to_string n" by (simp add: substr_def)
  have "visible_step ?env ?k (length pre, v) = (Inr (), ?k + 1, insert (int n) v)"
    unfolding visible_step_def comma bind_gets Let_def run_when_true fst_conv
    by (simp add: entry parse_ordinal_def stoi_to_string [OF assms])
  then show ?thesis unfolding sp by (simp add: foreach_append digits bind_def)
qed

lemma parse_visible_from:
  assumes "ns \<noteq> []" "\<forall>n \<in> set ns. n < 2 ^ 31"
  shows "\<exists>k. bind (foreach [length pre..<length (pre @ ordinal_list ns)] (visible_step (pre @ ordinal_list ns)))
       (\<lambda>_. visible_last (pre @ ordinal_list ns)) (length pre, v) = (Inr (), k, v \<union> int ` set ns)"
  using assms
proof (induction ns arbitrary: pre v rule: ordinal_list.induct)
  case (2 n)
  have "foreach [length pre..<length (pre @ to_string n)] (visible_step (pre @ to_string n)) (length pre, v) = (Inr (), length pre, v)"
  proof (rule visible_skip)
    fix i assume "i \<in> set [length pre..<length (pre @ to_string n)]"
    then have "(pre @ to_string n) ! i \<in> set (to_string n)" by (auto simp: nth_append)
    then show "(pre @ to_string n) ! i \<noteq> CHR '',''" using to_string_digits digit_not_special by blast
  qed
  then show ?case using 2
    by (simp add: bind_def visible_last_def substr_def parse_ordinal_def stoi_to_string)
next
  case (3 n m ns)
  let ?env = "pre @ ordinal_list (n # m # ns)" and ?pre = "pre @ to_string n @ [CHR '','']"
  have env: "?env = pre @ to_string n @ CHR '','' # ordinal_list (m # ns)" "?env = ?pre @ ordinal_list (m # ns)" by simp_all
  have sp: "[length pre..<length ?env] = [length pre..<length pre + length (to_string n) + 1] @ [length ?pre..<length ?env]"
    by (rule upt_parts) simp_all
  have n: "n < 2 ^ 31" using 3 by simp
  obtain k where "bind (foreach [length ?pre..<length ?env] (visible_step ?env)) (\<lambda>_. visible_last ?env)
      (length ?pre, insert (int n) v) = (Inr (), k, insert (int n) v \<union> int ` set (m # ns))"
    using "3.IH" [of ?pre "insert (int n) v"] "3.prems" unfolding env(2) by auto
  then have "bind (foreach [length pre..<length ?env] (visible_step ?env)) (\<lambda>_. visible_last ?env) (length pre, v) =
      (Inr (), k, insert (int n) v \<union> int ` set (m # ns))"
    unfolding sp foreach_append bind_assoc using visible_entry [OF n, of pre "ordinal_list (m # ns)" v]
    by (subst bind_run_Inr, simp only: env(1)) (simp add: add.assoc)
  then show ?case by auto
qed simp

text \<open>
  C16: a non-empty list of ordinals written with commas between them is read back as the set of those
  ordinals, at any place of the scan of \<open>libreCuInit\<close>; without the variable every card is visible.
\<close>

theorem visible_devices_read_back:
  assumes "ns \<noteq> []" "\<forall>n \<in> set ns. n < 2 ^ 31"
  shows "visible_ordinals (Some (ordinal_list ns)) k s = (Inr (int ` set ns), s) \<and>
     visible_ordinals None k s = (Inr (int ` {..<k}), s)"
proof -
  obtain j where "parse_visible (ordinal_list ns) (0, {}) = (Inr (), j, int ` set ns)"
    using parse_visible_from [OF assms, of "[]" "{}"] by (auto simp: parse_visible_def)
  then show ?thesis by (simp add: visible_ordinals_def locally_def bind_def atLeast0LessThan)
qed

theorem visible_devices_read_back_witness:
  "visible_ordinals (Some ''0,12'') 3 () = (Inr {0, 12}, ())"
proof -
  have "ordinal_list [0, 12] = ''0,12''" by code_simp
  then show ?thesis using visible_devices_read_back [of "[0, 12]" 3 "()"] by simp
qed

section \<open>What a successful initialisation has done\<close>

definition dev_tables :: "'a glob_scheme \<Rightarrow> NvU32 list \<times> NvU32 list \<times> device list" where
  "dev_tables s = (devices s, device_instances s, public_device_handles s)"

lemma dev_tables_log: "ignores_log (\<lambda>s. dev_tables s = x)"
  by (simp add: ignores_log_def dev_tables_def)

lemma keeps_tables:
  "preserves (\<lambda>s. dev_tables s = x) internalLibreCuInitStatusNames"
  "preserves (\<lambda>s. dev_tables s = x) (open_control_files K)"
  "preserves (\<lambda>s. dev_tables s = x) (create_rm_client K)"
  "preserves (\<lambda>s. dev_tables s = x) (initialize_uvm K)"
  "preserves (\<lambda>s. dev_tables s = x) (initialize_mm K)"
  unfolding internalLibreCuInitStatusNames_def open_control_files_def create_rm_client_def initialize_uvm_def initialize_mm_def
  by (intro presI preserves_modify dev_tables_log; simp add: dev_tables_def)+

lemma visible_cards:
  "foreach is (\<lambda>i. run_when (P i) (modify (\<lambda>s. s\<lparr>devices := devices s @ [f i]\<rparr>))) s =
     (Inr (), s\<lparr>devices := devices s @ map f (filter P is)\<rparr>)"
  by (induction "is" arbitrary: s) (auto simp: run_when_def)

lemma visible_ordinals_state: "visible_ordinals env n s = (r, s') \<Longrightarrow> s' = s"
  by (auto simp: visible_ordinals_def locally_def bind_def split: option.splits prod.splits sum.splits)

lemma card_info_run:
  assumes "obtain_card_info K env s = (Inr u, s')"
  obtains n vis l r where "count_gpus n_infos (kdata r) = Some n"
    "r = K (klog s) (KIowr (fd_ctl s) NV_ESC_CARD_INFO [])"
    "fst (visible_ordinals env n s') = Inr vis"
    "s' = s\<lparr>klog := l, num_devices := int n,
       devices := devices s @ map (gpu_id_of r) (filter (\<lambda>i. int i \<in> vis) [0..<n])\<rparr>"
proof -
  let ?r = "K (klog s) (KIowr (fd_ctl s) NV_ESC_CARD_INFO [])"
  obtain r s1 where io: "NV_IOWR K (fd_ctl s) NV_ESC_CARD_INFO [] s = (Inr r, s1)"
    and rest: "(case count_gpus n_infos (kdata r) of
       None \<Rightarrow> stop (UB ''card_infos'')
     | Some num_gpus \<Rightarrow>
         bind (visible_ordinals env num_gpus) (\<lambda>visible.
         bind (foreach [0..<num_gpus] (\<lambda>i.
           run_when (int i \<in> visible) (modify (\<lambda>s. s\<lparr>devices := devices s @ [gpu_id_of r i]\<rparr>)))) (\<lambda>_.
         modify (\<lambda>s. s\<lparr>num_devices := int num_gpus\<rparr>)))) s1 = (Inr u, s')"
    using assms by (auto simp: obtain_card_info_def bind_eq_Inr)
  have r: "r = ?r" and s1: "s1 = s\<lparr>klog := klog s @ [KIowr (fd_ctl s) NV_ESC_CARD_INFO []]\<rparr>"
    using io by (auto simp: NV_IOWR_def kernel_call_def bind_eq_Inr validate_eq_Inr)
  obtain n where n: "count_gpus n_infos (kdata r) = Some n" using rest by (cases "count_gpus n_infos (kdata r)") auto
  obtain vis s2 where v: "visible_ordinals env n s1 = (Inr vis, s2)"
    and s': "s' = s2\<lparr>devices := devices s2 @ map (gpu_id_of r) (filter (\<lambda>i. int i \<in> vis) [0..<n]), num_devices := int n\<rparr>"
    using rest by (auto simp: n bind_eq_Inr visible_cards)
  have s2: "s2 = s1" by (rule visible_ordinals_state [OF v])
  have v': "fst (visible_ordinals env n s') = Inr vis"
    using v by (cases env) (auto simp: visible_ordinals_def locally_def bind_def split: prod.splits sum.splits)
  show ?thesis
    by (rule that [OF n r v', of "klog s @ [KIowr (fd_ctl s) NV_ESC_CARD_INFO []]"]) (simp add: s' s2 s1)
qed

lemma gpu_instance_run:
  "obtain_gpu_instance K g s = (Inr u, s') \<Longrightarrow> \<exists>l i. s' = s\<lparr>klog := l, device_instances := device_instances s @ [i]\<rparr>"
  by (auto simp: obtain_gpu_instance_def bind_eq_Inr dest!: RM_CTRL_frame) (metis (no_types))

lemma gpu_instances_run:
  "foreach cards (obtain_gpu_instance K) s = (Inr u, s') \<Longrightarrow>
     \<exists>l is. length is = length cards \<and> s' = s\<lparr>klog := l, device_instances := device_instances s @ is\<rparr>"
proof (induction cards arbitrary: s)
  case Nil
  then show ?case by (auto intro!: exI [of _ "klog s"])
next
  case (Cons c cs)
  obtain s1 where c: "obtain_gpu_instance K c s = (Inr (), s1)" and cs: "foreach cs (obtain_gpu_instance K) s1 = (Inr u, s')"
    using Cons.prems by (auto simp: bind_eq_Inr)
  obtain l i where s1: "s1 = s\<lparr>klog := l, device_instances := device_instances s @ [i]\<rparr>" using gpu_instance_run [OF c] by blast
  obtain l' "is" where "length is = length cs" "s' = s1\<lparr>klog := l', device_instances := device_instances s1 @ is\<rparr>"
    using Cons.IH [OF cs] by blast
  then show ?case by (intro exI [of _ l'] exI [of _ "i # is"]) (simp add: s1)
qed

lemma device_handles_run:
  "foreach is create_device_handle s = (Inr u, s') \<Longrightarrow>
     (\<forall>i \<in> set is. i < length (device_instances s)) \<and>
     s' = s\<lparr>public_device_handles := public_device_handles s @ map (\<lambda>i. new_device i (device_instances s ! i)) is\<rparr>"
proof (induction "is" arbitrary: s)
  case (Cons i "is")
  obtain s1 where i: "create_device_handle i s = (Inr (), s1)" and r: "foreach is create_device_handle s1 = (Inr u, s')"
    using Cons.prems by (auto simp: bind_eq_Inr)
  have "i < length (device_instances s)"
    "s1 = s\<lparr>public_device_handles := public_device_handles s @ [new_device i (device_instances s ! i)]\<rparr>"
    using i by (auto simp: create_device_handle_def bind_eq_Inr guard_ub_eq_Inr)
  then show ?case using Cons.IH [OF r] by auto
qed simp

definition fresh :: "'a glob_scheme \<Rightarrow> bool" where
  "fresh s \<longleftrightarrow> \<not> librecudaInitialized s \<and> dev_tables s = ([], [], [])"

lemma init_run:
  assumes "fresh s" "libreCuInit K env s = (Inr u, s')"
  obtains n l vis where
    "count_gpus n_infos (kdata (K l (KIowr (fd_ctl s') NV_ESC_CARD_INFO []))) = Some n"
    "fst (visible_ordinals env n s') = Inr vis" "\<forall>i < n. int i \<in> vis"
    "librecudaInitialized s'" "num_devices s' = int n" "length (device_instances s') = n"
    "public_device_handles s' = map (\<lambda>i. new_device i (device_instances s' ! i)) [0..<n]"
proof -
  have "\<not> librecudaInitialized s" using assms(1) by (simp add: fresh_def)
  then obtain s1 s2 s3 s4 s5 s6 s7 s8 :: "'a glob_scheme" where
    r: "internalLibreCuInitStatusNames s = (Inr (), s1)" "open_control_files K s1 = (Inr (), s2)"
      "create_rm_client K s2 = (Inr (), s3)" "initialize_uvm K s3 = (Inr (), s4)" "initialize_mm K s4 = (Inr (), s5)"
    and card: "obtain_card_info K env s5 = (Inr (), s6)" and gpus: "obtain_gpu_instances K s6 = (Inr (), s7)"
    and hand: "create_device_handles s7 = (Inr (), s8)" and s': "s' = s8\<lparr>librecudaInitialized := True\<rparr>"
    using assms(2) by (auto simp: libreCuInit_def bind_eq_Inr)
  have tabs: "dev_tables s5 = ([], [], [])"
    using assms(1) preservesD [OF keeps_tables(1) _ r(1)] preservesD [OF keeps_tables(2) _ r(2)] preservesD [OF keeps_tables(3) _ r(3)]
      preservesD [OF keeps_tables(4) _ r(4)] preservesD [OF keeps_tables(5) _ r(5)] by (simp add: fresh_def)
  obtain n vis l rp where n: "count_gpus n_infos (kdata rp) = Some n" and rp: "rp = K (klog s5) (KIowr (fd_ctl s5) NV_ESC_CARD_INFO [])"
    and v: "fst (visible_ordinals env n s6) = Inr vis" and s6: "s6 = s5\<lparr>klog := l, num_devices := int n,
       devices := devices s5 @ map (gpu_id_of rp) (filter (\<lambda>i. int i \<in> vis) [0..<n])\<rparr>"
    by (rule card_info_run [OF card])
  let ?seen = "filter (\<lambda>i. int i \<in> vis) [0..<n]"
  obtain l' insts where insts: "length insts = length ?seen"
    and s7: "s7 = s6\<lparr>klog := l', device_instances := insts\<rparr>"
    using gpus gpu_instances_run [of "devices s6" K s6 "()" s7] tabs by (auto simp: obtain_gpu_instances_def s6 dev_tables_def)
  have in_range: "\<forall>i < n. i < length insts"
    and s8: "s8 = s7\<lparr>public_device_handles := map (\<lambda>i. new_device i (insts ! i)) [0..<n]\<rparr>"
    using hand device_handles_run [of "[0..<n]" s7 "()" s8] tabs by (auto simp: create_device_handles_def s7 s6 dev_tables_def)
  have len: "length insts = n"
    using in_range insts length_filter_le [of "\<lambda>i. int i \<in> vis" "[0..<n]"]
    by (cases n) (auto simp: le_antisym Suc_le_eq)
  then have "filter (\<lambda>i. int i \<in> vis) [0..<n] = [0..<n]" using insts by (metis filter_True length_filter_less less_irrefl length_upt minus_nat.diff_0)
  then have all: "\<forall>i < n. int i \<in> vis" by (metis (mono_tags, lifting) atLeastLessThan_iff filter_id_conv set_upt zero_le)
  have v': "fst (visible_ordinals env n s') = Inr vis"
    using v by (cases env) (auto simp: visible_ordinals_def locally_def bind_def split: prod.splits sum.splits)
  show ?thesis
    by (rule that [of "klog s5" n vis, OF _ v' all]) (simp_all add: n [unfolded rp] s' s8 s7 s6 len)
qed

text \<open>
  C10: after a successful \<open>libreCuInit\<close> the driver knows exactly the cards the kernel reported as valid:
  \<open>libreCuDeviceGetCount\<close> is their number, \<open>libreCuDeviceGet\<close> succeeds exactly for the ordinals below it
  and gives the handle with that ordinal and the instance number obtained for it; and none of the cards
  was hidden by \<open>CUDA_VISIBLE_DEVICES\<close>.
\<close>

theorem init_enumerates:
  assumes "fresh s" "libreCuInit K env s = (Inr (), s')"
  shows "\<exists>n l vis. count_gpus n_infos (kdata (K l (KIowr (fd_ctl s') NV_ESC_CARD_INFO []))) = Some n \<and>
     fst (visible_ordinals env n s') = Inr vis \<and>
     librecudaInitialized s' \<and> libreCuDeviceGetCount True s' = (Inr (int n), s') \<and>
     (\<forall>i. libreCuDeviceGet True i s' =
        (if 0 \<le> i \<and> i < int n then Inr (nat i) else Inl (Fail LIBRECUDA_ERROR_INVALID_DEVICE), s')) \<and>
     (\<forall>i < n. int i \<in> vis \<and> ordinal (public_device_handles s' ! i) = int i \<and>
        instance_nr (public_device_handles s' ! i) = device_instances s' ! i)"
proof -
  obtain n l vis where n: "count_gpus n_infos (kdata (K l (KIowr (fd_ctl s') NV_ESC_CARD_INFO []))) = Some n"
    and v: "fst (visible_ordinals env n s') = Inr vis" "\<forall>i < n. int i \<in> vis"
    and ini: "librecudaInitialized s'" "num_devices s' = int n"
    and h: "public_device_handles s' = map (\<lambda>i. new_device i (device_instances s' ! i)) [0..<n]"
    by (rule init_run [OF assms])
  have cnt: "libreCuDeviceGetCount True s' = (Inr (int n), s')"
    by (simp add: libreCuDeviceGetCount_def LIBRECUDA_VALIDATE_INITIALIZED_def ini bind_def)
  have get: "libreCuDeviceGet True i s' =
        (if 0 \<le> i \<and> i < int n then Inr (nat i) else Inl (Fail LIBRECUDA_ERROR_INVALID_DEVICE), s')" for i
    by (simp add: libreCuDeviceGet_def LIBRECUDA_VALIDATE_INITIALIZED_def ini h bind_assoc validate_def zless_nat_conj nat_less_iff)
  show ?thesis using n v ini cnt get by (intro exI [of _ n] exI [of _ l] exI [of _ vis]) (simp add: h new_device_def)
qed

section \<open>A hidden card\<close>

text \<open>The errors a statement can end with, from whatever state.\<close>

definition errs_in :: "(error \<Rightarrow> bool) \<Rightarrow> ('s, 'a) prog \<Rightarrow> bool" where
  "errs_in E m \<longleftrightarrow> (\<forall>s e s'. m s = (Inl e, s') \<longrightarrow> E e)"

lemma errs_in_rules:
  "errs_in E (ret a)" "errs_in E succeed" "errs_in E (gets h)" "errs_in E (modify g)" "errs_in E (kernel_call K call)"
  "E e \<Longrightarrow> errs_in E (stop e)"
  "E (Fail st) \<Longrightarrow> errs_in E (fail st)"
  "E (Fail st) \<Longrightarrow> errs_in E (validate c st)"
  "E (UB w) \<Longrightarrow> errs_in E (guard_ub c w)"
  "errs_in E m \<Longrightarrow> (\<And>a. errs_in E (f a)) \<Longrightarrow> errs_in E (bind m f)"
  "errs_in E m \<Longrightarrow> errs_in E n \<Longrightarrow> errs_in E (if c then m else n)"
  "errs_in E m1 \<Longrightarrow> errs_in E (run_when c m1)"
  "E (Fail LIBRECUDA_ERROR_UNKNOWN) \<Longrightarrow> errs_in E m \<Longrightarrow> errs_in E (as_unknown m)"
  by (auto simp: errs_in_def kernel_call_def bind_eq_Inl validate_def guard_ub_def run_when_def as_unknown_def
      split: prod.splits sum.splits error.splits if_splits) blast+

lemma errs_in_pair: "(\<And>a b. errs_in E (f a b)) \<Longrightarrow> errs_in E (case p of (a, b) \<Rightarrow> f a b)"
  by (cases p) simp

lemma errs_in_call:
  "(\<And>l. errs_in E (f (K l (KIowr fd nr ps)))) \<Longrightarrow> E (Fail LIBRECUDA_ERROR_UNKNOWN) \<Longrightarrow> errs_in E (bind (NV_IOWR K fd nr ps) f)"
  unfolding errs_in_def by (fastforce simp: NV_IOWR_def kernel_call_def bind_def validate_def split: if_splits)

lemma errs_in_foreach: "(\<And>x. errs_in E (f x)) \<Longrightarrow> errs_in E (foreach xs f)"
  by (induction xs) (simp_all add: errs_in_rules)

definition init_errors :: "error \<Rightarrow> bool" where
  "init_errors e \<longleftrightarrow> e = UB ''device_instances[ordinal]'' \<or> (\<exists>st. e = Fail st)"

lemma init_errorsI [simp]: "init_errors (Fail st)" "init_errors (UB ''device_instances[ordinal]'')"
  by (simp_all add: init_errors_def)

lemma card_info_errors:
  assumes "\<And>l fd. count_gpus n_infos (kdata (K l (KIowr fd NV_ESC_CARD_INFO []))) \<noteq> None"
    and "parse_visible v (0, {}) = (Inr (), j, vis)"
  shows "errs_in init_errors (obtain_card_info K (Some v))"
proof -
  have v: "errs_in init_errors (visible_ordinals (Some v) n)" for n
    by (simp add: visible_ordinals_def locally_def assms(2) errs_in_def bind_def)
  have "errs_in init_errors (case count_gpus n_infos (kdata (K l (KIowr ctl NV_ESC_CARD_INFO []))) of
       None \<Rightarrow> stop (UB ''card_infos'')
     | Some num_gpus \<Rightarrow>
         bind (visible_ordinals (Some v) num_gpus) (\<lambda>visible.
         bind (foreach [0..<num_gpus] (\<lambda>i.
           run_when (int i \<in> visible) (modify (\<lambda>s. s\<lparr>devices := devices s @ [gpu_id_of (K l (KIowr ctl NV_ESC_CARD_INFO [])) i]\<rparr>)))) (\<lambda>_.
         modify (\<lambda>s. s\<lparr>num_devices := int num_gpus\<rparr>))))" for l ctl
    using assms(1) [of l ctl] by (auto intro!: errs_in_rules errs_in_foreach v)
  then show ?thesis unfolding obtain_card_info_def
    by (intro errs_in_rules(3,10) errs_in_call init_errorsI)
qed

lemma init_error_cases:
  assumes "errs_in init_errors (obtain_card_info K env :: ('a glob_scheme, unit) prog)"
  shows "errs_in init_errors (libreCuInit K env :: ('a glob_scheme, unit) prog)"
  unfolding libreCuInit_def block.simps internalLibreCuInitStatusNames_def open_control_files_def create_rm_client_def
    initialize_uvm_def initialize_mm_def obtain_gpu_instances_def obtain_gpu_instance_def create_device_handles_def
    create_device_handle_def RM_ALLOC_def rm_alloc_def RM_CTRL_def rm_ctrl_def NV_IOWR_def UVM_IOCTL_def
  by (intro errs_in_rules errs_in_pair errs_in_foreach assms init_errorsI)

text \<open>
  C17: when \<open>CUDA_VISIBLE_DEVICES\<close> leaves out the ordinal of a card that is present, \<open>libreCuInit\<close> never
  succeeds: unless a call to the kernel fails first, the loop that makes the device handles, which runs
  over all cards, reads behind the end of \<open>device_instances\<close>, which has the visible ones only.
\<close>

theorem hidden_card_undefined:
  assumes "fresh s" "parse_visible v (0, {}) = (Inr (), j, vis)"
    and "\<forall>l fd. \<exists>n i. count_gpus n_infos (kdata (K l (KIowr fd NV_ESC_CARD_INFO []))) = Some n \<and> i < n \<and> int i \<notin> vis"
  shows "\<exists>e s'. libreCuInit K (Some v) s = (Inl e, s') \<and>
     (e = UB ''device_instances[ordinal]'' \<or> (\<exists>st. e = Fail st))"
proof (cases "libreCuInit K (Some v) s")
  case (Pair r s')
  show ?thesis
  proof (cases r)
    case (Inl e)
    have "errs_in init_errors (libreCuInit K (Some v))"
      by (rule init_error_cases, rule card_info_errors [OF _ assms(2)]) (use assms(3) in fastforce)
    then show ?thesis
      using Pair Inl by (auto simp: errs_in_def init_errors_def)
  next
    case (Inr u)
    obtain n l w where n: "count_gpus n_infos (kdata (K l (KIowr (fd_ctl s') NV_ESC_CARD_INFO []))) = Some n"
      and w: "fst (visible_ordinals (Some v) n s') = Inr w" "\<forall>i < n. int i \<in> w"
      by (rule init_run [OF assms(1) Pair [unfolded Inr]])
    have "w = vis" using w(1) by (simp add: visible_ordinals_def locally_def assms(2))
    then show ?thesis using w(2) n assms(3) [rule_format, of l "fd_ctl s'"] by auto
  qed
qed

subsection \<open>Concrete machines\<close>

text \<open>
  A kernel that grants everything and lists cards; the instance number of a card is its \<open>gpu_id\<close>.
  \<open>faulty\<close> is the position in the call log at which a call fails.
\<close>

definition listing :: "NvU32 list \<Rightarrow> nat \<Rightarrow> kern" where
  "listing cards faulty l c = \<lparr>kret = (case c of KOpen _ \<Rightarrow> 7 | _ \<Rightarrow> if length l = faulty then 1 else 0),
     kstatus = 0, khandle = 0x100, kaddr = 0x7000,
     kdata = (case c of KIowr _ nr ps \<Rightarrow>
         if nr = NV_ESC_CARD_INFO then concat (map (\<lambda>g. [1, g]) cards) @ [0, 0]
         else (case map_of ps ''gpuId'' of None \<Rightarrow> [] | Some g \<Rightarrow> [ucast g])
       | _ \<Rightarrow> [])\<rparr>"

definition demo_glob :: glob where
  "demo_glob = modl.extend (demo_modl\<lparr>public_device_handles := []\<rparr>)
     (glob.fields False 0 [] [] OPEN_KERNEL_MODULES Map.empty False (\<lambda>_. False) (\<lambda>_. 0))"

lemma demo_fresh: "fresh demo_glob"
  by (simp add: fresh_def dev_tables_def demo_glob_def modl.extend_def glob.fields_def)

lemma demo_names: "names_ok demo_glob"
  by (simp add: names_ok_def demo_glob_def modl.extend_def glob.fields_def)

theorem error_strings_witness:
  "\<exists>name s'. libreCuGetErrorString 500 True demo_glob = (Inr (Some name), s') \<and> name = ''LIBRECUDA_ERROR_NOT_FOUND''"
proof -
  obtain f where f: "\<forall>c. \<exists>s'. libreCuGetErrorString c True demo_glob = (Inr (f c), s') \<and> names_ok s'"
    "f (status_code LIBRECUDA_ERROR_NOT_FOUND) \<noteq> None"
    using error_strings [OF demo_names] by blast
  have "fst (libreCuGetErrorString 500 True demo_glob) = Inr (Some ''LIBRECUDA_ERROR_NOT_FOUND'')" by code_simp
  then show ?thesis using f(1) by (metis fst_conv prod.collapse)
qed

lemma demo_init:
  "(case libreCuInit (listing [5, 6] 1000) None demo_glob of (r, s') \<Rightarrow>
     (r, map instance_nr (public_device_handles s'))) = (Inr (), [5, 6])"
  by code_simp

theorem init_enumerates_witness:
  "\<exists>s'. libreCuInit (listing [5, 6] 1000) None demo_glob = (Inr (), s') \<and>
     libreCuDeviceGetCount True s' = (Inr 2, s') \<and> libreCuDeviceGet True 1 s' = (Inr 1, s')"
proof -
  obtain s' where run: "libreCuInit (listing [5, 6] 1000) None demo_glob = (Inr (), s')"
    using demo_init by (auto split: prod.splits)
  have "count_gpus n_infos (kdata (listing [5, 6] 1000 l (KIowr fd NV_ESC_CARD_INFO []))) = Some 2" for l fd
    by (simp add: listing_def n_infos_def eval_nat_numeral)
  then show ?thesis using init_enumerates [OF demo_fresh run] run by auto
qed

theorem hidden_card_undefined_witness:
  "libreCuInit (listing [5, 6] 1000) (Some ''1'') demo_glob =
     (Inl (UB ''device_instances[ordinal]''), snd (libreCuInit (listing [5, 6] 1000) (Some ''1'') demo_glob))"
proof -
  have vis: "parse_visible ''1'' (0, {}) = (Inr (), 0, {1})" by code_simp
  have "\<forall>l fd. \<exists>n i. count_gpus n_infos (kdata (listing [5, 6] 1000 l (KIowr fd NV_ESC_CARD_INFO []))) = Some n \<and> i < n \<and> int i \<notin> {1}"
    by (intro allI exI [of _ 2] exI [of _ 0]) (simp add: listing_def n_infos_def eval_nat_numeral)
  from hidden_card_undefined [OF demo_fresh vis this]
  obtain e s' where run: "libreCuInit (listing [5, 6] 1000) (Some ''1'') demo_glob = (Inl e, s')" by blast
  have "fst (libreCuInit (listing [5, 6] 1000) (Some ''1'') demo_glob) = Inl (UB ''device_instances[ordinal]'')" by code_simp
  then show ?thesis using run by (simp add: prod_eq_iff)
qed

text \<open>
  A failed initialisation leaves what it had entered: when the information on the second card fails and
  \<open>libreCuInit\<close> is called again, the first card is listed twice and the second device is the first card.
\<close>

lemma init_retry_duplicates:
  "(case libreCuInit (listing [5, 6] 9) None demo_glob of (r, s1) \<Rightarrow>
     case libreCuInit (listing [5, 6] 9) None s1 of (r', s2) \<Rightarrow>
       (r, r', map instance_nr (public_device_handles s2))) = (Inl (Fail LIBRECUDA_ERROR_UNKNOWN), Inr (), [5, 5])"
  by code_simp

text \<open>
  An entry that is no number swallows the ones behind it, and an empty value ends the program.
\<close>

lemma visible_after_bad_entry: "fst (visible_ordinals (Some ''0x,1'') 2 ()) = Inr {0}"
  by code_simp

lemma visible_empty: "fst (visible_ordinals (Some []) 2 ()) = Inl (Throw ''invalid_argument'')"
  by code_simp

end
