(* ===== verification/Contexts.thy ===== *)
theory Contexts
  imports Device_Init
begin

text \<open>
  Contexts of \<open>driverapi/src/librecuda.cpp\<close>: the channels (\<open>makeGpuFifo\<close>), \<open>libreCuCtxCreate_v2\<close>,
  \<open>libreCuCtxDestroy\<close>, \<open>libreCuCtxSetCurrent\<close> and \<open>libreCuCtxGetCurrent\<close>; the attributes of devices and
  functions; and \<open>loadMemcpyKernelsIfNeeded\<close> of \<open>driverapi/src/memcopy.cpp\<close>, with which the creation of a
  context ends.
\<close>

section \<open>Attributes\<close>

definition CU_DEVICE_ATTRIBUTE_MAX_SHARED_MEMORY_PER_BLOCK :: int where "CU_DEVICE_ATTRIBUTE_MAX_SHARED_MEMORY_PER_BLOCK = 8"
definition CU_DEVICE_ATTRIBUTE_COMPUTE_CAPABILITY_MAJOR :: int where "CU_DEVICE_ATTRIBUTE_COMPUTE_CAPABILITY_MAJOR = 75"
definition CU_DEVICE_ATTRIBUTE_COMPUTE_CAPABILITY_MINOR :: int where "CU_DEVICE_ATTRIBUTE_COMPUTE_CAPABILITY_MINOR = 76"
definition CU_DEVICE_ATTRIBUTE_MAX_SHARED_MEMORY_PER_BLOCK_OPTIN :: int where
  "CU_DEVICE_ATTRIBUTE_MAX_SHARED_MEMORY_PER_BLOCK_OPTIN = 97"
definition CU_FUNC_ATTRIBUTE_MAX_DYNAMIC_SHARED_SIZE_BYTES :: int where "CU_FUNC_ATTRIBUTE_MAX_DYNAMIC_SHARED_SIZE_BYTES = 8"

definition NV2080_CTRL_GR_INFO_INDEX_SM_VERSION :: NvU32 where "NV2080_CTRL_GR_INFO_INDEX_SM_VERSION = 0xC"
definition NV2080_CTRL_CMD_GPU_GET_NAME_STRING :: NvU32 where "NV2080_CTRL_CMD_GPU_GET_NAME_STRING = 0x20800110"
definition NV2080_CTRL_CMD_MC_GET_ARCH_INFO :: NvU32 where "NV2080_CTRL_CMD_MC_GET_ARCH_INFO = 0x20801701"
definition NV2080_CTRL_MC_ARCH_INFO_ARCHITECTURE_GV100 :: NvU32 where "NV2080_CTRL_MC_ARCH_INFO_ARCHITECTURE_GV100 = 0x140"
definition NV2080_CTRL_MC_ARCH_INFO_ARCHITECTURE_TU100 :: NvU32 where "NV2080_CTRL_MC_ARCH_INFO_ARCHITECTURE_TU100 = 0x160"
definition NV2080_CTRL_MC_ARCH_INFO_ARCHITECTURE_GA100 :: NvU32 where "NV2080_CTRL_MC_ARCH_INFO_ARCHITECTURE_GA100 = 0x170"
definition NV2080_CTRL_MC_ARCH_INFO_ARCHITECTURE_AD100 :: NvU32 where "NV2080_CTRL_MC_ARCH_INFO_ARCHITECTURE_AD100 = 0x190"

lemmas attribute_consts = CU_DEVICE_ATTRIBUTE_MAX_SHARED_MEMORY_PER_BLOCK_def
  CU_DEVICE_ATTRIBUTE_COMPUTE_CAPABILITY_MAJOR_def CU_DEVICE_ATTRIBUTE_COMPUTE_CAPABILITY_MINOR_def
  CU_DEVICE_ATTRIBUTE_MAX_SHARED_MEMORY_PER_BLOCK_OPTIN_def CU_FUNC_ATTRIBUTE_MAX_DYNAMIC_SHARED_SIZE_BYTES_def

definition un_hexed :: "NvU32 \<Rightarrow> NvU32" where
  "un_hexed data = data mod 16 + data div 16 mod 16 * 10 + data div (16 * 16) mod 16 * 100"

definition sm_version_info :: "device \<Rightarrow> NvU32 \<times> NvU32" where
  "sm_version_info d = device_info d ! unat NV2080_CTRL_GR_INFO_INDEX_SM_VERSION"

definition optin_shared_memory :: "NvU32 \<Rightarrow> int" where
  "optin_shared_memory architecture =
     (if architecture = NV2080_CTRL_MC_ARCH_INFO_ARCHITECTURE_TU100 then 65536
      else if architecture = NV2080_CTRL_MC_ARCH_INFO_ARCHITECTURE_GV100 then 98304
      else if architecture = NV2080_CTRL_MC_ARCH_INFO_ARCHITECTURE_GA100 \<or>
        architecture = NV2080_CTRL_MC_ARCH_INFO_ARCHITECTURE_AD100 then 101376
      else 49152)"

text \<open>A device pointer is an index into \<open>public_device_handles\<close>, \<open>None\<close> the null pointer.\<close>

definition libreCuDeviceGetAttribute :: "kern \<Rightarrow> bool \<Rightarrow> int \<Rightarrow> nat option \<Rightarrow> ('a glob_scheme, int) prog" where
  "libreCuDeviceGetAttribute K pValOut attribute device =
     bind (validate pValOut LIBRECUDA_ERROR_INVALID_VALUE) (\<lambda>_.
     bind (validate (device \<noteq> None) LIBRECUDA_ERROR_INVALID_VALUE) (\<lambda>_.
     bind LIBRECUDA_ENSURE_CTX_VALID (\<lambda>_.
     if attribute = CU_DEVICE_ATTRIBUTE_COMPUTE_CAPABILITY_MAJOR \<or>
        attribute = CU_DEVICE_ATTRIBUTE_COMPUTE_CAPABILITY_MINOR then
       bind (gets (\<lambda>s. sm_version_info (public_device_handles s ! the device))) (\<lambda>(index, data).
       bind (validate (index = NV2080_CTRL_GR_INFO_INDEX_SM_VERSION) LIBRECUDA_ERROR_UNKNOWN) (\<lambda>_.
       let sm_version = un_hexed data; major = sint sm_version div 100; minor = sint sm_version mod 100 in
       if major = 0 then fail LIBRECUDA_ERROR_NOT_FOUND
       else ret (if attribute = CU_DEVICE_ATTRIBUTE_COMPUTE_CAPABILITY_MAJOR then major else minor)))
     else if attribute = CU_DEVICE_ATTRIBUTE_MAX_SHARED_MEMORY_PER_BLOCK then ret 49152
     else if attribute = CU_DEVICE_ATTRIBUTE_MAX_SHARED_MEMORY_PER_BLOCK_OPTIN then
       bind (gets (\<lambda>s. (fd_ctl s, root s, device_handle (ctxs s (current_ctx s))))) (\<lambda>(ctl, rt, dev).
       bind (RM_CTRL K ctl NV2080_CTRL_CMD_MC_GET_ARCH_INFO rt dev []) (\<lambda>r.
       ret (optin_shared_memory (reply_or r 0 0))))
     else fail LIBRECUDA_ERROR_INVALID_VALUE)))"

text \<open>\<open>maxOf\<close> works on 64 bits: the \<open>int\<close> is extended with its sign, and the field takes the low half.\<close>

definition libreCuFuncSetAttribute :: "kern \<Rightarrow> nat \<Rightarrow> int \<Rightarrow> int \<Rightarrow> ('a glob_scheme, unit) prog" where
  "libreCuFuncSetAttribute K f attribute v =
     bind (validate (f \<noteq> 0) LIBRECUDA_ERROR_INVALID_VALUE) (\<lambda>_.
     bind LIBRECUDA_ENSURE_CTX_VALID (\<lambda>_.
     if attribute = CU_FUNC_ATTRIBUTE_MAX_DYNAMIC_SHARED_SIZE_BYTES then
       bind (gets (\<lambda>s. ctx_device (ctxs s (current_ctx s)))) (\<lambda>d.
       bind (libreCuDeviceGetAttribute K True CU_DEVICE_ATTRIBUTE_MAX_SHARED_MEMORY_PER_BLOCK_OPTIN (Some d)) (\<lambda>max_smem.
       if v > max_smem then fail LIBRECUDA_ERROR_INVALID_VALUE
       else modify (\<lambda>s. s\<lparr>funcs := (funcs s)(f := (funcs s f)\<lparr>shared_mem :=
              ucast (maxOf64 (ucast (shared_mem (funcs s f))) (word_of_int v))\<rparr>)\<rparr>)))
     else fail LIBRECUDA_ERROR_INVALID_VALUE))"

text \<open>
  The name is copied out of a union of 128 bytes; the length is the caller's.
\<close>

definition libreCuDeviceGetName :: "kern \<Rightarrow> bool \<Rightarrow> int \<Rightarrow> nat option \<Rightarrow> ('a glob_scheme, NvU8 list) prog" where
  "libreCuDeviceGetName K pDeviceName len device =
     bind (validate pDeviceName LIBRECUDA_ERROR_INVALID_VALUE) (\<lambda>_.
     bind (validate (device \<noteq> None) LIBRECUDA_ERROR_INVALID_VALUE) (\<lambda>_.
     bind LIBRECUDA_ENSURE_CTX_VALID (\<lambda>_.
     bind (gets (\<lambda>s. (fd_ctl s, root s, device_handle (ctxs s (current_ctx s))))) (\<lambda>(ctl, rt, dev).
     bind (RM_CTRL K ctl NV2080_CTRL_CMD_GPU_GET_NAME_STRING rt dev []) (\<lambda>r.
     bind (guard_ub (0 \<le> len \<and> len \<le> 128) ''memcpy from gpuNameString'') (\<lambda>_.
     ret (map (\<lambda>i. ucast (reply_or r i 0)) [0..<nat len])))))))"

section \<open>The copy kernels of a device\<close>

text \<open>
  \<open>cubin\<close> stands for the arrays of \<open>memcopy_kernels.h\<close>, by compute capability.
\<close>

definition memcpy_archs :: "int list" where
  "memcpy_archs = [50, 53, 60, 61, 62, 70, 72, 75, 80, 86, 87, 89, 90]"

definition loadMemcpyKernelsIfNeeded ::
  "kern \<Rightarrow> (NvU8 list \<Rightarrow> elf) \<Rightarrow> (string list \<Rightarrow> string list) \<Rightarrow> (int \<Rightarrow> NvU8 list) \<Rightarrow> nat \<Rightarrow> ('a glob_scheme, unit) prog" where
  "loadMemcpyKernelsIfNeeded K elfio names cubin device =
     bind (gets (\<lambda>s. ordinal (public_device_handles s ! device))) (\<lambda>ord.
     bind (gets (\<lambda>s. memcpy_initialized s ord)) (\<lambda>already.
     if already then succeed
     else
       bind (libreCuDeviceGetAttribute K True CU_DEVICE_ATTRIBUTE_COMPUTE_CAPABILITY_MAJOR (Some device)) (\<lambda>major.
       bind (libreCuDeviceGetAttribute K True CU_DEVICE_ATTRIBUTE_COMPUTE_CAPABILITY_MINOR (Some device)) (\<lambda>minor.
       let compute_capability = major * 10 + minor in
       bind (validate (compute_capability \<in> set memcpy_archs) LIBRECUDA_ERROR_COMPAT_NOT_SUPPORTED_ON_DEVICE) (\<lambda>_.
       bind (libreCuModuleLoadData K elfio names True (Some (cubin compute_capability))) (\<lambda>m.
       bind (modify (\<lambda>s. s\<lparr>memcpy_module := (memcpy_module s)(ord := m)\<rparr>)) (\<lambda>_.
       bind (libreCuModuleGetFunction True m ''memcpyKernelHighBW'') (\<lambda>f.
       bind (modify (\<lambda>s. s\<lparr>kernelHighBW := (kernelHighBW s)(ord := f)\<rparr>)) (\<lambda>_.
       bind (libreCuModuleGetFunction True m ''memcpyKernelLowLatency'') (\<lambda>f.
       bind (modify (\<lambda>s. s\<lparr>kernelLowLatency := (kernelLowLatency s)(ord := f)\<rparr>)) (\<lambda>_.
       bind (libreCuModuleGetFunction True m ''memcpyKernelTrailing'') (\<lambda>f.
       bind (modify (\<lambda>s. s\<lparr>kernelTrailingCpy := (kernelTrailingCpy s)(ord := f)\<rparr>)) (\<lambda>_.
       modify (\<lambda>s. s\<lparr>memcpy_initialized := (memcpy_initialized s)(ord := True)\<rparr>))))))))))))))"

section \<open>Channels\<close>

definition AMPERE_CHANNEL_GPFIFO_A :: NvU32 where "AMPERE_CHANNEL_GPFIFO_A = 0xc56f"
definition NVC36F_CTRL_CMD_GPFIFO_GET_WORK_SUBMIT_TOKEN :: NvU32 where
  "NVC36F_CTRL_CMD_GPFIFO_GET_WORK_SUBMIT_TOKEN = 0xc36f0108"
definition UVM_REGISTER_CHANNEL :: NvU32 where "UVM_REGISTER_CHANNEL = 27"

text \<open>The channel at some addresses, with what the mapped memory holds there.\<close>

definition fifo_at :: "(NvU64 \<Rightarrow> NvU32) \<Rightarrow> NvU64 \<Rightarrow> NvU64 \<Rightarrow> NvU32 \<Rightarrow> NvU32 \<Rightarrow> gpfifo" where
  "fifo_at mem ring_addr controls_addr entries tok = \<lparr>ring_va = ring_addr, controls_va = controls_addr,
     ring = (\<lambda>i. join_32 (mem (ring_addr + ucast i * 8 + 4)) (mem (ring_addr + ucast i * 8))),
     entries_count = entries, token = tok, GPGet = mem (controls_addr + 0x88), GPPut = mem (controls_addr + 0x8c),
     put_value = 0\<rparr>"

text \<open>The channel object, the objects of its two engines, and the token of its doorbell.\<close>

definition create_channel ::
  "kern \<Rightarrow> nat \<Rightarrow> NvU64 \<Rightarrow> NvU32 \<Rightarrow> NvU32 \<Rightarrow> NvU32 \<Rightarrow> NvU64 \<Rightarrow> NvU32 \<Rightarrow> NvU32 \<Rightarrow> ('a glob_scheme, NvU32 \<times> NvU32) prog" where
  "create_channel K ctx gpfifoAreaVa gpfifoAreaHandle ctxShare channelGroup offset entries notifier_memory_handle =
     bind (gets (\<lambda>s. (fd_ctl s, root s, compute_class (public_device_handles s ! ctx_device (ctxs s ctx))))) (\<lambda>(ctl, rt, cls).
     bind (RM_ALLOC K ctl AMPERE_CHANNEL_GPFIFO_A rt channelGroup 0
       [(''hObjectError'', ucast notifier_memory_handle), (''hObjectBuffer'', ucast gpfifoAreaHandle),
        (''gpFifoOffset'', gpfifoAreaVa + offset), (''gpFifoEntries'', ucast entries),
        (''hContextShare'', ucast ctxShare), (''hUserdMemory'', ucast gpfifoAreaHandle),
        (''userdOffset'', ucast (entries * 8) + offset)]) (\<lambda>gpfifo.
     bind (RM_ALLOC K ctl cls rt gpfifo 0 []) (\<lambda>_.
     bind (RM_ALLOC K ctl AMPERE_DMA_COPY_B rt gpfifo 0 []) (\<lambda>_.
     bind (RM_CTRL K ctl NVC36F_CTRL_CMD_GPFIFO_GET_WORK_SUBMIT_TOKEN rt gpfifo [(''workSubmitToken'', 0xFFFFFFFF)]) (\<lambda>r.
     let work_submit_token = reply_or r 0 0xFFFFFFFF in
     bind (validate (work_submit_token \<noteq> 0xFFFFFFFF) LIBRECUDA_ERROR_UNKNOWN) (\<lambda>_.
     ret (gpfifo, work_submit_token)))))))"

definition makeGpuFifo ::
  "kern \<Rightarrow> nat \<Rightarrow> NvU64 \<Rightarrow> NvU32 \<Rightarrow> NvU32 \<Rightarrow> NvU32 \<Rightarrow> NvU64 \<Rightarrow> NvU32 \<Rightarrow> ('a glob_scheme, gpfifo) prog" where
  "makeGpuFifo K ctx gpfifoAreaVa gpfifoAreaHandle ctxShare channelGroup offset entries =
     bind (validate (ctx \<noteq> 0) LIBRECUDA_ERROR_UNKNOWN) (\<lambda>_.
     bind (validate (gpfifoAreaVa \<noteq> 0) LIBRECUDA_ERROR_UNKNOWN) (\<lambda>_.
     bind (validate (gpfifoAreaHandle \<noteq> 0) LIBRECUDA_ERROR_UNKNOWN) (\<lambda>_.
     bind (gpuSystemAlloc K ctx (push_bit 20 48) True 0) (\<lambda>(notifier_va, notifier_memory_handle).
     bind (create_channel K ctx gpfifoAreaVa gpfifoAreaHandle ctxShare channelGroup offset entries notifier_memory_handle)
       (\<lambda>(gpfifo, work_submit_token).
     bind (bump_alloc_virtual_addr ctx 0x4000000 (push_bit 10 4)) (\<lambda>channel_base_va.
     bind (gets (\<lambda>s. (fd_ctl s, fd_uvm s, root s, uuid (public_device_handles s ! ctx_device (ctxs s ctx))))) (\<lambda>(ctl, uvm, rt, id).
     bind (UVM_IOCTL K uvm UVM_REGISTER_CHANNEL
       (map (\<lambda>b. (''gpuUuid'', ucast b)) id @
        [(''rmCtrlFd'', word_of_int ctl), (''hClient'', ucast rt), (''hChannel'', ucast gpfifo),
         (''base'', channel_base_va), (''length'', 0x4000000)])) (\<lambda>_.
     gets (\<lambda>s. fifo_at (wmem s) (gpfifoAreaVa + offset) (gpfifoAreaVa + offset + ucast (entries * 8))
       entries work_submit_token)))))))))"

section \<open>Creating a context\<close>

definition NV01_DEVICE_0 :: NvU32 where "NV01_DEVICE_0 = 0x80"
definition NV20_SUBDEVICE_0 :: NvU32 where "NV20_SUBDEVICE_0 = 0x2080"
definition TURING_USERMODE_A :: NvU32 where "TURING_USERMODE_A = 0xc461"
definition FERMI_VASPACE_A :: NvU32 where "FERMI_VASPACE_A = 0x90f1"
definition KEPLER_CHANNEL_GROUP_A :: NvU32 where "KEPLER_CHANNEL_GROUP_A = 0xa06c"
definition FERMI_CONTEXT_SHARE_A :: NvU32 where "FERMI_CONTEXT_SHARE_A = 0x9067"
definition ADA_COMPUTE_A :: NvU32 where "ADA_COMPUTE_A = 0xc9c0"
definition AMPERE_COMPUTE_B :: NvU32 where "AMPERE_COMPUTE_B = 0xc7c0"
definition NV_DEVICE_ALLOCATION_VAMODE_MULTIPLE_VASPACES :: NvU64 where "NV_DEVICE_ALLOCATION_VAMODE_MULTIPLE_VASPACES = 2"
definition NV2080_CTRL_CMD_GPU_GET_GID_INFO :: NvU32 where "NV2080_CTRL_CMD_GPU_GET_GID_INFO = 0x2080014a"
definition NV2080_GPU_CMD_GPU_GET_GID_FLAGS_FORMAT_BINARY :: NvU64 where "NV2080_GPU_CMD_GPU_GET_GID_FLAGS_FORMAT_BINARY = 2"
definition NV_VASPACE_ALLOCATION_INDEX_GPU_NEW :: NvU64 where "NV_VASPACE_ALLOCATION_INDEX_GPU_NEW = 0"
definition NV_VASPACE_ALLOCATION_FLAGS_IS_EXTERNALLY_OWNED :: NvU64 where
  "NV_VASPACE_ALLOCATION_FLAGS_IS_EXTERNALLY_OWNED = push_bit 3 1"
definition NV_VASPACE_ALLOCATION_FLAGS_ENABLE_PAGE_FAULTING :: NvU64 where
  "NV_VASPACE_ALLOCATION_FLAGS_ENABLE_PAGE_FAULTING = push_bit 6 1"
definition UVM_REGISTER_GPU :: NvU32 where "UVM_REGISTER_GPU = 37"
definition UVM_REGISTER_GPU_VASPACE :: NvU32 where "UVM_REGISTER_GPU_VASPACE = 25"
definition NV2080_ENGINE_TYPE_GRAPHICS :: NvU64 where "NV2080_ENGINE_TYPE_GRAPHICS = 1"
definition NV_CTXSHARE_ALLOCATION_FLAGS_SUBCONTEXT_ASYNC :: NvU64 where "NV_CTXSHARE_ALLOCATION_FLAGS_SUBCONTEXT_ASYNC = 1"
definition NV0080_CTRL_CMD_GPU_GET_CLASSLIST :: NvU32 where "NV0080_CTRL_CMD_GPU_GET_CLASSLIST = 0x800201"
definition NV0080_CTRL_GPU_CLASSLIST_MAX_SIZE :: nat where "NV0080_CTRL_GPU_CLASSLIST_MAX_SIZE = 100"
definition NV2080_CTRL_CMD_GR_GET_INFO :: NvU32 where "NV2080_CTRL_CMD_GR_GET_INFO = 0x20801201"
definition NV2080_CTRL_GR_INFO_INDEX_MAX :: nat where "NV2080_CTRL_GR_INFO_INDEX_MAX = 0x37"
definition NV2080_CTRL_GR_ROUTE_INFO_FLAGS_TYPE_NONE :: NvU64 where "NV2080_CTRL_GR_ROUTE_INFO_FLAGS_TYPE_NONE = 0"
definition NVA06C_CTRL_CMD_GPFIFO_SCHEDULE :: NvU32 where "NVA06C_CTRL_CMD_GPFIFO_SCHEDULE = 0xa06c0101"
definition NVOS33_FLAGS_MAPPING_DIRECT :: NvU32 where "NVOS33_FLAGS_MAPPING_DIRECT = 1"
definition NVOS33_FLAGS_MAP_FIXED_ENABLE :: NvU32 where "NVOS33_FLAGS_MAP_FIXED_ENABLE = 1"
definition NVOS33_FLAGS_RESERVE_ON_UNMAP_ENABLE :: NvU32 where "NVOS33_FLAGS_RESERVE_ON_UNMAP_ENABLE = 1"
definition NVOS33_FLAGS_CACHING_TYPE_WRITECOMBINED :: NvU32 where "NVOS33_FLAGS_CACHING_TYPE_WRITECOMBINED = 2"
definition GPU_FIFO_AREA_SIZE :: NvU64 where "GPU_FIFO_AREA_SIZE = 0x200000"

text \<open>\<open>new LibreCUcontext_{.flags = flags, .device = ...}\<close>.\<close>

definition new_context :: "int \<Rightarrow> nat \<Rightarrow> cu_context" where
  "new_context flags d = \<lparr>device_fd = 0, ctx_flags = word_of_int flags, ctx_device = d, device_handle = 0,
     uvm_vaddr = UVM_HEAP_START, va_space_handle = 0, compute_gpfifo = fifo_at (\<lambda>_. 0) 0 0 0 0,
     dma_gpfifo = fifo_at (\<lambda>_. 0) 0 0 0 0, ctx_share = 0, channel_group = 0\<rparr>"

definition modify_device :: "nat \<Rightarrow> (device \<Rightarrow> device) \<Rightarrow> ('a vm_scheme, unit) prog" where
  "modify_device d f = modify (\<lambda>s. s\<lparr>public_device_handles :=
     (public_device_handles s)[d := f (public_device_handles s ! d)]\<rparr>)"

text \<open>The descriptor of the device file is not checked: a failed \<open>open\<close> shows in the call after it.\<close>

definition register_device_fd :: "kern \<Rightarrow> nat \<Rightarrow> nat \<Rightarrow> ('a glob_scheme, unit) prog" where
  "register_device_fd K ctx d =
     bind (gets (\<lambda>s. (fd_ctl s, getDeviceFile (public_device_handles s ! d)))) (\<lambda>(ctl, device_file).
     bind (kernel_call K (KOpen device_file)) (\<lambda>f.
     bind (NV_IOWR K (kret f) NV_ESC_REGISTER_FD [(''ctl_fd'', word_of_int ctl)]) (\<lambda>_.
     modify_ctx ctx (\<lambda>c. c\<lparr>device_fd := kret f\<rparr>))))"

definition create_device_object :: "kern \<Rightarrow> nat \<Rightarrow> nat \<Rightarrow> ('a glob_scheme, NvU32) prog" where
  "create_device_object K ctx d =
     bind (gets (\<lambda>s. (fd_ctl s, root s, instance_nr (public_device_handles s ! d)))) (\<lambda>(ctl, rt, inst).
     bind (RM_ALLOC K ctl NV01_DEVICE_0 rt rt 0
       [(''deviceId'', ucast inst), (''hClientShare'', ucast rt),
        (''vaMode'', NV_DEVICE_ALLOCATION_VAMODE_MULTIPLE_VASPACES)]) (\<lambda>device_handle.
     bind (modify_ctx ctx (\<lambda>c. c\<lparr>device_handle := device_handle\<rparr>)) (\<lambda>_.
     ret device_handle)))"

definition map_mmio :: "kern \<Rightarrow> nat \<Rightarrow> nat \<Rightarrow> NvU32 \<Rightarrow> ('a glob_scheme, unit) prog" where
  "map_mmio K ctx d sub_device_handle =
     bind (gets (\<lambda>s. (fd_ctl s, root s))) (\<lambda>(ctl, rt).
     bind (RM_ALLOC K ctl TURING_USERMODE_A rt sub_device_handle 0 []) (\<lambda>user_mode_handle.
     bind (memMapToCpu K ctx user_mode_handle 0x10000 0 2 False) (\<lambda>gpu_mmio.
     modify_device d (\<lambda>dv. dv\<lparr>gpu_mmio := gpu_mmio\<rparr>))))"

definition obtain_uuid :: "kern \<Rightarrow> nat \<Rightarrow> NvU32 \<Rightarrow> ('a glob_scheme, unit) prog" where
  "obtain_uuid K d sub_device_handle =
     bind (gets (\<lambda>s. (fd_ctl s, root s))) (\<lambda>(ctl, rt).
     bind (RM_CTRL K ctl NV2080_CTRL_CMD_GPU_GET_GID_INFO rt sub_device_handle
       [(''flags'', NV2080_GPU_CMD_GPU_GET_GID_FLAGS_FORMAT_BINARY), (''length'', 16)]) (\<lambda>r.
     modify_device d (\<lambda>dv. dv\<lparr>uuid := map (\<lambda>i. reply_or r i 0) [0..<16]\<rparr>)))"

definition create_va_space :: "kern \<Rightarrow> nat \<Rightarrow> nat \<Rightarrow> NvU32 \<Rightarrow> ('a glob_scheme, unit) prog" where
  "create_va_space K ctx d dev_handle =
     bind (gets (\<lambda>s. (fd_ctl s, fd_uvm s, root s, map (\<lambda>b. (''gpuUuid'', ucast b)) (uuid (public_device_handles s ! d)))))
       (\<lambda>(ctl, uvm, rt, id).
     bind (RM_ALLOC K ctl FERMI_VASPACE_A rt dev_handle 0
       [(''index'', NV_VASPACE_ALLOCATION_INDEX_GPU_NEW),
        (''flags'', NV_VASPACE_ALLOCATION_FLAGS_ENABLE_PAGE_FAULTING OR NV_VASPACE_ALLOCATION_FLAGS_IS_EXTERNALLY_OWNED),
        (''vaSize'', 0x1fffffb000000), (''bigPageSize'', 0), (''vaBase'', 0x1000)]) (\<lambda>va_space.
     bind (UVM_IOCTL K uvm UVM_REGISTER_GPU (id @ [(''rmCtrlFd'', - 1)])) (\<lambda>_.
     bind (UVM_IOCTL K uvm UVM_REGISTER_GPU_VASPACE
       (id @ [(''rmCtrlFd'', word_of_int ctl), (''hClient'', ucast rt), (''hVaSpace'', ucast va_space)])) (\<lambda>_.
     modify_ctx ctx (\<lambda>c. c\<lparr>va_space_handle := va_space\<rparr>)))))"

definition create_channel_group :: "kern \<Rightarrow> nat \<Rightarrow> NvU32 \<Rightarrow> ('a glob_scheme, unit) prog" where
  "create_channel_group K ctx dev_handle =
     bind (gets (\<lambda>s. (fd_ctl s, root s))) (\<lambda>(ctl, rt).
     bind (RM_ALLOC K ctl KEPLER_CHANNEL_GROUP_A rt dev_handle 0 [(''engineType'', NV2080_ENGINE_TYPE_GRAPHICS)]) (\<lambda>group.
     bind (modify_ctx ctx (\<lambda>c. c\<lparr>channel_group := group\<rparr>)) (\<lambda>_.
     bind (gets (\<lambda>s. va_space_handle (ctxs s ctx))) (\<lambda>vas.
     bind (RM_ALLOC K ctl FERMI_CONTEXT_SHARE_A rt group 0
       [(''hVASpace'', ucast vas), (''flags'', NV_CTXSHARE_ALLOCATION_FLAGS_SUBCONTEXT_ASYNC)]) (\<lambda>share.
     modify_ctx ctx (\<lambda>c. c\<lparr>ctx_share := share\<rparr>))))))"

text \<open>
  \<open>class_list\<close> is an array on the stack of which the kernel writes what \<open>kdata\<close> lists: a search that
  goes on behind that reads indeterminate values.
\<close>

definition is_compute_class :: "NvU32 \<Rightarrow> bool" where
  "is_compute_class class_id \<longleftrightarrow> class_id = ADA_COMPUTE_A \<or> class_id = AMPERE_COMPUTE_B"

definition find_compute_class :: "NvU32 list \<Rightarrow> NvU32 option" where
  "find_compute_class written =
     (let class_list = take NV0080_CTRL_GPU_CLASSLIST_MAX_SIZE written in
      case find is_compute_class class_list of
        Some class_id \<Rightarrow> Some class_id
      | None \<Rightarrow> if length class_list < NV0080_CTRL_GPU_CLASSLIST_MAX_SIZE then None else Some 0)"

definition obtain_compute_class :: "kern \<Rightarrow> nat \<Rightarrow> NvU32 \<Rightarrow> ('a glob_scheme, unit) prog" where
  "obtain_compute_class K ctx dev_handle =
     bind (gets (\<lambda>s. (fd_ctl s, root s, ctx_device (ctxs s ctx)))) (\<lambda>(ctl, rt, d).
     bind (RM_CTRL K ctl NV0080_CTRL_CMD_GPU_GET_CLASSLIST rt dev_handle
       [(''numClasses'', of_nat NV0080_CTRL_GPU_CLASSLIST_MAX_SIZE)]) (\<lambda>r.
     case find_compute_class (kdata r) of
       None \<Rightarrow> stop (UB ''class_list'')
     | Some cls \<Rightarrow> modify_device d (\<lambda>dv. dv\<lparr>compute_class := cls\<rparr>)))"

text \<open>The answer lists \<open>index\<close> and \<open>data\<close> of each entry of \<open>grInfoList\<close>.\<close>

definition gr_infos :: "kreply \<Rightarrow> (NvU32 \<times> NvU32) list" where
  "gr_infos r = map (\<lambda>i. (kdata r ! (2 * i), kdata r ! (2 * i + 1))) [0..<NV2080_CTRL_GR_INFO_INDEX_MAX + 1]"

definition obtain_device_info :: "kern \<Rightarrow> nat \<Rightarrow> NvU32 \<Rightarrow> ('a glob_scheme, unit) prog" where
  "obtain_device_info K d sub_device_handle =
     bind (gets (\<lambda>s. (fd_ctl s, root s))) (\<lambda>(ctl, rt).
     bind (RM_CTRL K ctl NV2080_CTRL_CMD_GR_GET_INFO rt sub_device_handle
       (map (\<lambda>i. (''index'', of_nat i)) [0..<NV2080_CTRL_GR_INFO_INDEX_MAX + 1] @
        [(''grInfoListSize'', of_nat (NV2080_CTRL_GR_INFO_INDEX_MAX + 1)),
         (''grRouteInfo.flags'', NV2080_CTRL_GR_ROUTE_INFO_FLAGS_TYPE_NONE), (''grRouteInfo.route'', 0)])) (\<lambda>r.
     bind (guard_ub (2 * (NV2080_CTRL_GR_INFO_INDEX_MAX + 1) \<le> length (kdata r)) ''grInfoList'') (\<lambda>_.
     modify_device d (\<lambda>dv. dv\<lparr>device_info := gr_infos r\<rparr>))))"

definition fifo_map_flags :: NvU32 where
  "fifo_map_flags = push_bit 16 NVOS33_FLAGS_MAPPING_DIRECT OR push_bit 18 NVOS33_FLAGS_MAP_FIXED_ENABLE OR
     push_bit 19 NVOS33_FLAGS_RESERVE_ON_UNMAP_ENABLE OR push_bit 23 NVOS33_FLAGS_CACHING_TYPE_WRITECOMBINED"

definition create_fifos :: "kern \<Rightarrow> nat \<Rightarrow> ('a glob_scheme, gpfifo \<times> gpfifo) prog" where
  "create_fifos K ctx =
     bind (gets (\<lambda>s. (ctx_share (ctxs s ctx), channel_group (ctxs s ctx)))) (\<lambda>(share, group).
     bind (gpuAlloc K ctx GPU_FIFO_AREA_SIZE True True True fifo_map_flags) (\<lambda>(gpfifo_area_va, gpfifo_area_handle).
     bind (makeGpuFifo K ctx gpfifo_area_va gpfifo_area_handle share group 0 0x10000) (\<lambda>compute.
     bind (makeGpuFifo K ctx gpfifo_area_va gpfifo_area_handle share group 0x100000 0x10000) (\<lambda>dma.
     ret (compute, dma)))))"

definition enable_schedule :: "kern \<Rightarrow> nat \<Rightarrow> ('a glob_scheme, unit) prog" where
  "enable_schedule K ctx =
     bind (gets (\<lambda>s. (fd_ctl s, root s, channel_group (ctxs s ctx)))) (\<lambda>(ctl, rt, group).
     bind (RM_CTRL K ctl NVA06C_CTRL_CMD_GPFIFO_SCHEDULE rt group [(''bEnable'', 1)]) (\<lambda>_. succeed))"

text \<open>The objects of the resource manager a context needs, and what is asked about the device.\<close>

definition create_objects :: "kern \<Rightarrow> nat \<Rightarrow> nat \<Rightarrow> ('a glob_scheme, unit) prog" where
  "create_objects K ctx d =
     bind (register_device_fd K ctx d) (\<lambda>_.
     bind (create_device_object K ctx d) (\<lambda>dev_handle.
     bind (gets (\<lambda>s. (fd_ctl s, root s))) (\<lambda>(ctl, rt).
     bind (RM_ALLOC K ctl NV20_SUBDEVICE_0 rt dev_handle 0 []) (\<lambda>sub_device_handle.
     bind (map_mmio K ctx d sub_device_handle) (\<lambda>_.
     bind (obtain_uuid K d sub_device_handle) (\<lambda>_.
     bind (create_va_space K ctx d dev_handle) (\<lambda>_.
     bind (create_channel_group K ctx dev_handle) (\<lambda>_.
     bind (obtain_compute_class K ctx dev_handle) (\<lambda>_.
     obtain_device_info K d sub_device_handle)))))))))"

definition build_context :: "kern \<Rightarrow> nat \<Rightarrow> nat \<Rightarrow> ('a glob_scheme, unit) prog" where
  "build_context K ctx d =
     bind (create_objects K ctx d) (\<lambda>_.
     bind (create_fifos K ctx) (\<lambda>(compute, dma).
     bind (enable_schedule K ctx) (\<lambda>_.
     modify_ctx ctx (\<lambda>c. c\<lparr>compute_gpfifo := compute, dma_gpfifo := dma\<rparr>))))"

text \<open>
  The caller's pointer and \<open>current_ctx\<close> are set before the copy kernels are loaded, and stay when that
  fails; a failure before that leaves the memory of the context behind.
\<close>

definition libreCuCtxCreate_v2 ::
  "kern \<Rightarrow> (NvU8 list \<Rightarrow> elf) \<Rightarrow> (string list \<Rightarrow> string list) \<Rightarrow> (int \<Rightarrow> NvU8 list) \<Rightarrow> bool \<Rightarrow> int \<Rightarrow> nat option \<Rightarrow>
     ('a glob_scheme, nat) prog" where
  "libreCuCtxCreate_v2 K elfio names cubin pCtx flags device =
     bind LIBRECUDA_VALIDATE_INITIALIZED (\<lambda>_.
     bind (validate pCtx LIBRECUDA_ERROR_INVALID_VALUE) (\<lambda>_.
     bind (validate (device \<noteq> None) LIBRECUDA_ERROR_INVALID_DEVICE) (\<lambda>_.
     let d = the device in
     bind (gets (\<lambda>s. length (public_device_handles s))) (\<lambda>k.
     bind (guard_ub (d < k) ''device'') (\<lambda>_.
     bind (gets (\<lambda>s. (public_device_handles s ! d, num_devices s, device_instances s))) (\<lambda>(dev, n, insts).
     bind (validate (ordinal dev \<ge> 0 \<and> ordinal dev < n) LIBRECUDA_ERROR_INVALID_DEVICE) (\<lambda>_.
     bind (validate (instance_nr dev \<in> set insts) LIBRECUDA_ERROR_INVALID_DEVICE) (\<lambda>_.
     bind new_ptr (\<lambda>ctx.
     bind (modify_ctx ctx (\<lambda>_. new_context flags (nat (ordinal dev)))) (\<lambda>_.
     bind (build_context K ctx d) (\<lambda>_.
     bind (modify (\<lambda>s. s\<lparr>current_ctx := ctx\<rparr>)) (\<lambda>_.
     bind (loadMemcpyKernelsIfNeeded K elfio names cubin d) (\<lambda>_.
     ret ctx)))))))))))))"

section \<open>Destroying and choosing a context\<close>

definition libreCuCtxDestroy :: "kern \<Rightarrow> nat \<Rightarrow> ('a glob_scheme, unit) prog" where
  "libreCuCtxDestroy K ctx =
     bind (validate (ctx \<noteq> 0) LIBRECUDA_ERROR_INVALID_CONTEXT) (\<lambda>_.
     bind (gets current_ctx) (\<lambda>c.
     bind (run_when (c = ctx) (modify (\<lambda>s. s\<lparr>current_ctx := 0\<rparr>))) (\<lambda>_.
     bind (gets (\<lambda>s. device_fd (ctxs s ctx))) (\<lambda>fd.
     bind (kernel_call K (KClose fd)) (\<lambda>_. succeed)))))"

definition libreCuCtxSetCurrent :: "nat \<Rightarrow> ('a glob_scheme, unit) prog" where
  "libreCuCtxSetCurrent ctx =
     bind (validate (ctx \<noteq> 0) LIBRECUDA_ERROR_INVALID_CONTEXT) (\<lambda>_.
     modify (\<lambda>s. s\<lparr>current_ctx := ctx\<rparr>))"

definition libreCuCtxGetCurrent :: "bool \<Rightarrow> ('a glob_scheme, nat) prog" where
  "libreCuCtxGetCurrent pCtxOut =
     bind (validate pCtxOut LIBRECUDA_ERROR_INVALID_VALUE) (\<lambda>_. gets current_ctx)"

section \<open>The attributes\<close>

lemma unat_un_hexed: "unat (un_hexed d) = unat d mod 16 + unat d div 16 mod 16 * 10 + unat d div 256 mod 16 * 100"
proof -
  define a b c where abc: "a = unat (d mod 16)" "b = unat (d div 16 mod 16)" "c = unat (d div (16 * 16) mod 16)"
  have v: "a = unat d mod 16" "b = unat d div 16 mod 16" "c = unat d div 256 mod 16" by (simp_all add: abc unat_mod unat_div)
  have lt: "a < 16" "b < 16" "c < 16" by (simp_all add: v)
  have w: "d mod 16 = word_of_nat a" "d div 16 mod 16 = word_of_nat b" "d div (16 * 16) mod 16 = word_of_nat c"
    unfolding abc by simp_all
  have "un_hexed d = word_of_nat (a + b * 10 + c * 100)" unfolding un_hexed_def w by simp
  then have "unat (un_hexed d) = (a + b * 10 + c * 100) mod 2 ^ 32" by (simp only: unat_of_nat len_of_numeral_defs) simp
  then show ?thesis using lt unfolding v by simp
qed

lemma hex_digits:
  assumes "n mod 4096 = 256 * M + 16 * t + u" "t < 10" "u < 10"
  shows "n mod 16 = u" "n div 16 mod 16 = t" "n div 256 mod 16 = (M :: nat)"
proof -
  define q where "q = n div 4096"
  have n: "n = 4096 * q + (256 * M + 16 * t + u)" using assms(1) unfolding q_def by (metis mult_div_mod_eq)
  have M: "M < 16" using mod_less_divisor [of 4096 n] assms(1) by linarith
  have "n = u + 16 * (256 * q + 16 * M + t)" using n by simp
  then obtain k where "n = u + 16 * k" by blast
  then show "n mod 16 = u" using assms(3) by simp
  have d: "n div 16 = 256 * q + 16 * M + t" using n assms(3) by simp
  then have "n div 16 = t + 16 * (16 * q + M)" by simp
  then obtain j where "n div 16 = t + 16 * j" by blast
  then show "n div 16 mod 16 = t" using assms(2) by simp
  have "n div 256 = 16 * q + M" using n assms by simp
  then show "n div 256 mod 16 = M" using M by simp
qed

lemma sint_un_hexed: "sint (un_hexed d) = int (unat (un_hexed d))"
proof -
  have "unat d mod 16 < 16" "unat d div 16 mod 16 < 16" "unat d div 256 mod 16 < 16" by simp_all
  then have "unat (un_hexed d) < 2 ^ 31" unfolding unat_un_hexed by simp
  then have u: "int (unat (un_hexed d)) < 2 ^ 31" by (simp only: of_nat_less_iff [symmetric, where 'a = int]) simp
  have "sint (un_hexed d) = signed_take_bit 31 (int (unat (un_hexed d)))" by (simp add: sint_uint)
  also have "\<dots> = int (unat (un_hexed d))" by (rule signed_take_bit_int_eq_self [OF _ u]) (rule order_trans [of _ 0], simp_all del: uint_nat)
  finally show ?thesis .
qed

lemma capability_run:
  assumes "current_ctx s \<noteq> 0" "sm_version_info (public_device_handles s ! d) = (NV2080_CTRL_GR_INFO_INDEX_SM_VERSION, data)"
    and "unat data mod 4096 = 256 * M + 16 * t + u" "0 < M" "t < 10" "u < 10"
  shows "libreCuDeviceGetAttribute K True CU_DEVICE_ATTRIBUTE_COMPUTE_CAPABILITY_MAJOR (Some d) s = (Inr (int M), s)"
    "libreCuDeviceGetAttribute K True CU_DEVICE_ATTRIBUTE_COMPUTE_CAPABILITY_MINOR (Some d) s = (Inr (int (10 * t + u)), s)"
proof -
  note h = hex_digits [OF assms(3,5,6)]
  have v: "sint (un_hexed data) = int (100 * M + (10 * t + u))"
    unfolding sint_un_hexed unat_un_hexed h by simp
  have n: "(100 * M + (10 * t + u)) div 100 = M" "(100 * M + (10 * t + u)) mod 100 = 10 * t + u"
    using assms(5,6) by simp_all
  have dm: "int (100 * M + (10 * t + u)) div 100 = int M" "int (100 * M + (10 * t + u)) mod 100 = int (10 * t + u)"
    by (metis n(1) of_nat_numeral zdiv_int) (metis n(2) of_nat_numeral zmod_int)
  show "libreCuDeviceGetAttribute K True CU_DEVICE_ATTRIBUTE_COMPUTE_CAPABILITY_MAJOR (Some d) s = (Inr (int M), s)"
    using assms(1,2,4) by (simp add: libreCuDeviceGetAttribute_def LIBRECUDA_ENSURE_CTX_VALID_def bind_assoc Let_def v [simplified] dm [simplified])
  show "libreCuDeviceGetAttribute K True CU_DEVICE_ATTRIBUTE_COMPUTE_CAPABILITY_MINOR (Some d) s = (Inr (int (10 * t + u)), s)"
    using assms(1,2,4) by (simp add: libreCuDeviceGetAttribute_def LIBRECUDA_ENSURE_CTX_VALID_def bind_assoc Let_def v [simplified] dm [simplified]
      attribute_consts)
qed

text \<open>
  The compute capability is read off the hexadecimal digits of the SM version the kernel reported:
  the third digit is the major version, the two below it are the minor version in decimal. Neither call
  changes the state.
\<close>

theorem compute_capability_decoded:
  assumes "current_ctx s \<noteq> 0" "sm_version_info (public_device_handles s ! d) = (NV2080_CTRL_GR_INFO_INDEX_SM_VERSION, data)"
    and "unat data mod 4096 = 256 * M + 16 * t + u" "0 < M" "t < 10" "u < 10"
  shows "libreCuDeviceGetAttribute K True CU_DEVICE_ATTRIBUTE_COMPUTE_CAPABILITY_MAJOR (Some d) s = (Inr (int M), s) \<and>
    libreCuDeviceGetAttribute K True CU_DEVICE_ATTRIBUTE_COMPUTE_CAPABILITY_MINOR (Some d) s = (Inr (int (10 * t + u)), s)"
  by (rule conjI [OF capability_run [OF assms]])

definition sm_device :: "NvU32 \<Rightarrow> device" where
  "sm_device data = (new_device 0 5)\<lparr>device_info := (replicate 56 (0, 0)) [12 := (0xC, data)]\<rparr>"

lemma sm_device_info: "sm_version_info (sm_device data) = (NV2080_CTRL_GR_INFO_INDEX_SM_VERSION, data)"
  by (simp add: sm_version_info_def sm_device_def NV2080_CTRL_GR_INFO_INDEX_SM_VERSION_def)

definition sm_glob :: "NvU32 \<Rightarrow> glob" where
  "sm_glob data = demo_glob\<lparr>public_device_handles := [sm_device data]\<rparr>"

lemma sm_glob_fields: "current_ctx (sm_glob data) = 1" "public_device_handles (sm_glob data) = [sm_device data]"
  by (simp_all add: sm_glob_def demo_glob_def modl.extend_def glob.fields_def demo_modl_def)

theorem compute_capability_decoded_witness:
  "fst (libreCuDeviceGetAttribute granting True CU_DEVICE_ATTRIBUTE_COMPUTE_CAPABILITY_MINOR (Some 0) (sm_glob 0x809)) = Inr 9"
  using compute_capability_decoded [of "sm_glob 0x809" 0 "0x809" 8 0 9 granting] by (simp add: sm_glob_fields sm_device_info)

text \<open>The dynamic shared memory of a function.\<close>

lemma maxOf64_nonneg:
  assumes "0 \<le> v" "v < 2 ^ 31"
  shows "unat (ucast (maxOf64 (ucast a) (word_of_int v)) :: NvU32) = max (unat (a :: NvU32)) (nat v)"
proof -
  have v: "unat (word_of_int v :: NvU64) = nat v"
    using assms by (simp add: unsigned_of_int take_bit_int_eq_self)
  have w: "unat (ucast (word_of_int v :: NvU64) :: NvU32) = nat v"
    using assms v by (simp add: unsigned_ucast_eq take_bit_nat_eq_self)
  have a: "(ucast (ucast a :: NvU64) :: NvU32) = a" by (rule bit_word_eqI) (simp add: bit_simps)
  have "(ucast a :: NvU64) > word_of_int v \<longleftrightarrow> unat a > nat v" by (simp add: word_less_nat_alt v)
  then show ?thesis using v w a by (simp add: maxOf64_def max_def)
qed

lemma mod_below_zero: "v < 0 \<Longrightarrow> - m \<le> v \<Longrightarrow> v mod m = m + (v :: int)"
  using mod_pos_pos_trivial [of "m + v" m] by simp

lemma maxOf64_neg:
  assumes "v < 0" "- (2 ^ 31) \<le> v"
  shows "unat (ucast (maxOf64 (ucast (a :: NvU32)) (word_of_int v)) :: NvU32) = nat (2 ^ 32 + v)"
proof -
  have m: "take_bit 64 v = 2 ^ 64 + v" using assms by (simp add: take_bit_eq_mod mod_below_zero)
  have v: "unat (word_of_int v :: NvU64) = nat (2 ^ 64 + v)"
    using assms m by (simp add: unsigned_of_int)
  have "unat a < 2 ^ LENGTH(32)" by (rule unsigned_less)
  then have "unat (ucast a :: NvU64) < 4294967296" by simp
  then have "\<not> (ucast a :: NvU64) > word_of_int v" using assms v by (simp add: word_less_nat_alt)
  moreover have "unat (ucast (word_of_int v :: NvU64) :: NvU32) = nat (2 ^ 32 + v)"
  proof -
    have "(ucast (word_of_int v :: NvU64) :: NvU32) = word_of_int v"
      by (rule bit_word_eqI) (simp add: bit_simps)
    moreover have "take_bit 32 v = 2 ^ 32 + v" using assms by (simp add: take_bit_eq_mod mod_below_zero)
    ultimately show ?thesis by (simp add: unsigned_of_int)
  qed
  ultimately show ?thesis by (simp add: maxOf64_def)
qed



section \<open>The copy kernels are loaded once\<close>

lemma get_function_run:
  "libreCuModuleGetFunction True m name s = (Inr p, s') \<Longrightarrow>
     s' = s \<and> func_name (funcs s p) = name \<and> p \<in> set (mod_functions (modules s m))"
  by (auto simp: libreCuModuleGetFunction_def bind_eq_Inr validate_eq_Inr find_Some_iff split: option.splits)

lemma capability_frame:
  assumes "libreCuDeviceGetAttribute K b a d s = (Inr v, s')"
    "a = CU_DEVICE_ATTRIBUTE_COMPUTE_CAPABILITY_MAJOR \<or> a = CU_DEVICE_ATTRIBUTE_COMPUTE_CAPABILITY_MINOR"
  shows "s' = s"
  using assms by (auto simp: libreCuDeviceGetAttribute_def LIBRECUDA_ENSURE_CTX_VALID_def bind_assoc bind_eq_Inr validate_eq_Inr
      Let_def attribute_consts split: if_splits prod.splits)

lemma preserves_case_prod: "(\<And>a b. preserves I (f a b)) \<Longrightarrow> preserves I (case p of (a, b) \<Rightarrow> f a b)"
  by (cases p) simp

lemma preserves_locally: "preserves I (locally m l)"
  by (auto simp: preserves_def locally_def split: prod.splits sum.splits)

text \<open>What loading a module does not touch.\<close>

definition ctx_view :: "nat \<Rightarrow> 'a glob_scheme \<Rightarrow> gpfifo \<times> gpfifo \<times> nat \<times> device list \<times> (int \<Rightarrow> bool)" where
  "ctx_view c s = (compute_gpfifo (ctxs s c), dma_gpfifo (ctxs s c), current_ctx s, public_device_handles s, memcpy_initialized s)"

lemma ctx_view_log: "ignores_log (\<lambda>s. ctx_view c s = x)"
  by (simp add: ignores_log_def ctx_view_def)

lemma keeps_view_alloc: "preserves (\<lambda>s. ctx_view c s = x) (gpuAlloc K ctx sz ph hp host fl)"
  unfolding gpuAlloc_def memUVMMap_def memMapToCpu_def open_for_map_def bump_alloc_virtual_addr_def modify_ctx_def Let_def
  by (intro presI preserves_case_prod preserves_modify ctx_view_log; auto simp: ctx_view_def)

lemma keeps_view_new_functions: "preserves (\<lambda>s. ctx_view c s = x) (new_functions info fs)"
proof (induction fs)
  case (Cons f fs)
  then show ?case unfolding new_functions.simps new_ptr_def
    by (intro presI preserves_modify; simp add: ctx_view_def preserves_def)
qed (simp add: ret_def preserves_Pair)

lemma keeps_view_load: "preserves (\<lambda>s. ctx_view c s = x) (libreCuModuleLoadData K elfio names b bin)"
  unfolding libreCuModuleLoadData_def Let_def LIBRECUDA_ENSURE_CTX_VALID_def memcpy_to_gpu_def new_ptr_def
  by (intro presI preserves_case_prod preserves_locally keeps_view_alloc keeps_view_new_functions preserves_modify;
      simp add: ctx_view_def preserves_def)

lemma bindE:
  assumes "bind m f s = (Inr b, s'')"
  obtains a s' where "m s = (Inr a, s')" "f a s' = (Inr b, s'')"
  using assms by (auto simp: bind_eq_Inr)

lemma load_kernels_run:
  assumes "loadMemcpyKernelsIfNeeded K elfio names cubin d s = (Inr (), s')" "ord = ordinal (public_device_handles s ! d)"
    and "\<not> memcpy_initialized s ord"
  obtains M m s1 mo f g h where
    "libreCuDeviceGetAttribute K True CU_DEVICE_ATTRIBUTE_COMPUTE_CAPABILITY_MAJOR (Some d) s = (Inr M, s)"
    "libreCuDeviceGetAttribute K True CU_DEVICE_ATTRIBUTE_COMPUTE_CAPABILITY_MINOR (Some d) s = (Inr m, s)"
    "M * 10 + m \<in> set memcpy_archs"
    "libreCuModuleLoadData K elfio names True (Some (cubin (M * 10 + m))) s = (Inr mo, s1)"
    "func_name (funcs s1 f) = ''memcpyKernelHighBW''" "f \<in> set (mod_functions (modules s1 mo))"
    "func_name (funcs s1 g) = ''memcpyKernelLowLatency''" "g \<in> set (mod_functions (modules s1 mo))"
    "func_name (funcs s1 h) = ''memcpyKernelTrailing''" "h \<in> set (mod_functions (modules s1 mo))"
    "s' = s1\<lparr>memcpy_module := (memcpy_module s1)(ord := mo), kernelHighBW := (kernelHighBW s1)(ord := f),
       kernelLowLatency := (kernelLowLatency s1)(ord := g), kernelTrailingCpy := (kernelTrailingCpy s1)(ord := h),
       memcpy_initialized := (memcpy_initialized s1)(ord := True)\<rparr>"
proof -
  obtain M m sa sb s1 mo f g h and t2 t4 t6 :: "'a glob_scheme" where
    a: "libreCuDeviceGetAttribute K True CU_DEVICE_ATTRIBUTE_COMPUTE_CAPABILITY_MAJOR (Some d) s = (Inr M, sa)"
    and b: "libreCuDeviceGetAttribute K True CU_DEVICE_ATTRIBUTE_COMPUTE_CAPABILITY_MINOR (Some d) sa = (Inr m, sb)"
    and c: "M * 10 + m \<in> set memcpy_archs"
    and l: "libreCuModuleLoadData K elfio names True (Some (cubin (M * 10 + m))) sb = (Inr mo, s1)"
    and f: "libreCuModuleGetFunction True mo ''memcpyKernelHighBW'' (s1\<lparr>memcpy_module := (memcpy_module s1)(ord := mo)\<rparr>) = (Inr f, t2)"
    and g: "libreCuModuleGetFunction True mo ''memcpyKernelLowLatency'' (t2\<lparr>kernelHighBW := (kernelHighBW t2)(ord := f)\<rparr>) = (Inr g, t4)"
    and h: "libreCuModuleGetFunction True mo ''memcpyKernelTrailing'' (t4\<lparr>kernelLowLatency := (kernelLowLatency t4)(ord := g)\<rparr>) = (Inr h, t6)"
    and s': "s' = t6\<lparr>kernelTrailingCpy := (kernelTrailingCpy t6)(ord := h),
       memcpy_initialized := (memcpy_initialized t6)(ord := True)\<rparr>"
    using assms(1) unfolding loadMemcpyKernelsIfNeeded_def bind_gets assms(2) [symmetric] if_not_P [OF assms(3)] Let_def bind_modify
    by (elim bindE) (simp (no_asm_use) only: modify_run validate_eq_Inr prod.inject, elim conjE, hypsubst, rule that, assumption+, simp)
  have "sa = s" "sb = sa" using capability_frame [OF a] capability_frame [OF b] by simp_all
  then show ?thesis using get_function_run [OF f] get_function_run [OF g] get_function_run [OF h] a b c l
    by (intro that [of M m mo s1 f g h]) (simp_all add: s')
qed

lemma load_kernels_again:
  "memcpy_initialized s (ordinal (public_device_handles s ! d)) \<Longrightarrow>
     loadMemcpyKernelsIfNeeded K elfio names cubin d s = (Inr (), s)"
  by (simp add: loadMemcpyKernelsIfNeeded_def)

text \<open>
  C9: when the copy kernels of a device are loaded for the first time and that succeeds, the device's
  compute capability is one of those compiled, the module was loaded from the image compiled for it, and
  the three entries the copies launch are functions of that module with the names of the three kernels;
  a later call, whatever the kernel would answer, does nothing.
\<close>

theorem copy_kernels_loaded:
  assumes "loadMemcpyKernelsIfNeeded K elfio names cubin d s = (Inr (), s')" "ord = ordinal (public_device_handles s ! d)"
    and "\<not> memcpy_initialized s ord"
  shows "(\<exists>M m s1. libreCuDeviceGetAttribute K True CU_DEVICE_ATTRIBUTE_COMPUTE_CAPABILITY_MAJOR (Some d) s = (Inr M, s) \<and>
      libreCuDeviceGetAttribute K True CU_DEVICE_ATTRIBUTE_COMPUTE_CAPABILITY_MINOR (Some d) s = (Inr m, s) \<and>
      M * 10 + m \<in> set memcpy_archs \<and>
      libreCuModuleLoadData K elfio names True (Some (cubin (M * 10 + m))) s = (Inr (memcpy_module s' ord), s1)) \<and>
    (\<forall>(f, name) \<in> {(kernelHighBW s' ord, ''memcpyKernelHighBW''), (kernelLowLatency s' ord, ''memcpyKernelLowLatency''),
        (kernelTrailingCpy s' ord, ''memcpyKernelTrailing'')}.
      func_name (funcs s' f) = name \<and> f \<in> set (mod_functions (modules s' (memcpy_module s' ord)))) \<and>
    loadMemcpyKernelsIfNeeded K' elfio names cubin d s' = (Inr (), s')"
proof -
  obtain M m mo s1 f g h where r: "libreCuDeviceGetAttribute K True CU_DEVICE_ATTRIBUTE_COMPUTE_CAPABILITY_MAJOR (Some d) s = (Inr M, s)"
    "libreCuDeviceGetAttribute K True CU_DEVICE_ATTRIBUTE_COMPUTE_CAPABILITY_MINOR (Some d) s = (Inr m, s)"
    "M * 10 + m \<in> set memcpy_archs"
    and l: "libreCuModuleLoadData K elfio names True (Some (cubin (M * 10 + m))) s = (Inr mo, s1)"
    and f: "func_name (funcs s1 f) = ''memcpyKernelHighBW''" "f \<in> set (mod_functions (modules s1 mo))"
      "func_name (funcs s1 g) = ''memcpyKernelLowLatency''" "g \<in> set (mod_functions (modules s1 mo))"
      "func_name (funcs s1 h) = ''memcpyKernelTrailing''" "h \<in> set (mod_functions (modules s1 mo))"
    and s': "s' = s1\<lparr>memcpy_module := (memcpy_module s1)(ord := mo), kernelHighBW := (kernelHighBW s1)(ord := f),
       kernelLowLatency := (kernelLowLatency s1)(ord := g), kernelTrailingCpy := (kernelTrailingCpy s1)(ord := h),
       memcpy_initialized := (memcpy_initialized s1)(ord := True)\<rparr>"
    by (rule load_kernels_run [OF assms])
  have "ctx_view 0 s1 = ctx_view 0 s" using preservesD [OF keeps_view_load [of 0 "ctx_view 0 s"] _ l] by simp
  then have dev: "public_device_handles s' = public_device_handles s" by (simp add: s' ctx_view_def)
  have again: "loadMemcpyKernelsIfNeeded K' elfio names cubin d s' = (Inr (), s')"
    by (rule load_kernels_again) (unfold dev, simp add: s' assms(2))
  show ?thesis using r l f again by (auto simp: s')
qed

text \<open>An image with the three kernels.\<close>

definition copy_section :: "string \<Rightarrow> elf_section" where
  "copy_section name = \<lparr>sec_name = ''.text.'' @ name, sec_type = 1, sec_address = 0, sec_data = [1, 2, 3, 4],
     sec_info = 0x0a000000, sec_addr_align = 4\<rparr>"

definition copy_elf :: elf where
  "copy_elf = \<lparr>sections = map copy_section [''memcpyKernelHighBW'', ''memcpyKernelLowLatency'', ''memcpyKernelTrailing''],
     section_entry_size = 64, rel_entries = (\<lambda>_. []), symbols = (\<lambda>_. [])\<rparr>"

lemma copy_image:
  "\<exists>img secs i. place_sections (sections copy_elf) (image_start (sections copy_elf)) = (Inr (), img, secs) \<and> length img = 260 \<and>
     read_sections copy_elf secs 0x1000000000 no_info = (Inr (), i) \<and> relocs (load_result id i) = [] \<and>
     function_names i = [''memcpyKernelTrailing'', ''memcpyKernelLowLatency'', ''memcpyKernelHighBW'']"
proof -
  define r where "r = place_sections (sections copy_elf) (image_start (sections copy_elf))"
  have a: "(fst r, length (fst (snd r))) = (Inr (), 260)" unfolding r_def by code_simp
  define q where "q = read_sections copy_elf (snd (snd r)) 0x1000000000 no_info"
  have b: "(fst q, relocs (load_result id (snd q)), function_names (snd q)) =
      (Inr (), [], [''memcpyKernelTrailing'', ''memcpyKernelLowLatency'', ''memcpyKernelHighBW''])"
    unfolding q_def r_def by code_simp
  obtain img secs where r: "r = (Inr (), img, secs)" "length img = 260" using a by (cases r) auto
  obtain i where "q = (Inr (), i)" "relocs (load_result id i) = []"
    "function_names i = [''memcpyKernelTrailing'', ''memcpyKernelLowLatency'', ''memcpyKernelHighBW'']"
    using b by (cases q) auto
  then show ?thesis using r unfolding q_def r_def by auto
qed

lemma get_function_found:
  assumes "map (\<lambda>p. func_name (funcs s p)) (mod_functions (modules s m)) = ns" "name \<in> set ns" "m \<noteq> 0"
  shows "\<exists>p. libreCuModuleGetFunction True m name s = (Inr p, s)"
proof -
  obtain q where "q \<in> set (mod_functions (modules s m))" "func_name (funcs s q) = name"
    using assms(2) unfolding assms(1) [symmetric] by auto
  then have "find (\<lambda>p. func_name (funcs s p) = name) (mod_functions (modules s m)) \<noteq> None"
    by (auto simp: find_None_iff)
  then show ?thesis using assms(3) by (auto simp: libreCuModuleGetFunction_def)
qed

lemma load_kernels_granted:
  "\<exists>s'. loadMemcpyKernelsIfNeeded granting (\<lambda>_. copy_elf) id cubin 0 (sm_glob 0x806) = (Inr (), s')"
proof -
  let ?s = "sm_glob 0x806" and ?ns = "[''memcpyKernelTrailing'', ''memcpyKernelLowLatency'', ''memcpyKernelHighBW'']"
  obtain img secs i where im: "place_sections (sections copy_elf) (image_start (sections copy_elf)) = (Inr (), img, secs)" "length img = 260"
    "read_sections copy_elf secs 0x1000000000 no_info = (Inr (), i)" "relocs (load_result id i) = []" "function_names i = ?ns"
    using copy_image by blast
  have st: "fd_ctl ?s = 3" "uvm_vaddr (ctxs ?s 1) = UVM_HEAP_START" "next_ptr ?s = 3" "memcpy_initialized ?s = (\<lambda>_. False)"
    by (simp_all add: sm_glob_def demo_glob_def modl.extend_def glob.fields_def demo_modl_def demo_context_def)
  have base: "alloc_base (current_ctx ?s) False ?s = 0x1000000000"
    by (simp add: alloc_base_small sm_glob_fields st UVM_HEAP_START_def bump_va_def Let_def push_bit_eq_mult del: One_nat_def)
  have "\<exists>m s'. libreCuModuleLoadData granting (\<lambda>_. copy_elf) id True (Some (cubin 86)) ?s = (Inr m, s') \<and> next_ptr ?s \<le> m \<and>
     map (\<lambda>p. func_name (funcs s' p)) (mod_functions (modules s' m)) = id (function_names i) \<and>
     module_va_addr (modules s' m) = alloc_base (current_ctx ?s) False ?s"
    by (rule load_granted [where sz = "0x2000", OF _ _ im(1) _ _ im(3) [folded base] im(4)])
      (simp_all add: st sm_glob_fields im(2) ceilDiv64_def va_fits_def UVM_HEAP_START_def del: One_nat_def)
  then obtain m s' where l: "libreCuModuleLoadData granting (\<lambda>_. copy_elf) id True (Some (cubin 86)) ?s = (Inr m, s')" "m \<noteq> 0"
    and ns: "map (\<lambda>p. func_name (funcs s' p)) (mod_functions (modules s' m)) = ?ns"
    by (auto simp: st im(5))
  let ?t1 = "s'\<lparr>memcpy_module := (memcpy_module s')(0 := m)\<rparr>"
  obtain f where f: "libreCuModuleGetFunction True m ''memcpyKernelHighBW'' ?t1 = (Inr f, ?t1)"
    using get_function_found [of ?t1 m ?ns "''memcpyKernelHighBW''"] ns l(2) by auto
  let ?t2 = "?t1\<lparr>kernelHighBW := (kernelHighBW s')(0 := f)\<rparr>"
  obtain g where g: "libreCuModuleGetFunction True m ''memcpyKernelLowLatency'' ?t2 = (Inr g, ?t2)"
    using get_function_found [of ?t2 m ?ns "''memcpyKernelLowLatency''"] ns l(2) by auto
  let ?t3 = "?t2\<lparr>kernelLowLatency := (kernelLowLatency s')(0 := g)\<rparr>"
  obtain h where h: "libreCuModuleGetFunction True m ''memcpyKernelTrailing'' ?t3 = (Inr h, ?t3)"
    using get_function_found [of ?t3 m ?ns "''memcpyKernelTrailing''"] ns l(2) by auto
  note cap = capability_run [of ?s 0 "0x806" 8 0 6 granting, simplified sm_glob_fields sm_device_info nth_Cons_0, simplified]
  have ord: "ordinal (public_device_handles ?s ! 0) = 0" by (simp add: sm_glob_fields sm_device_def new_device_def)
  show ?thesis
    by (simp add: loadMemcpyKernelsIfNeeded_def ord st cap bind_def memcpy_archs_def l f g h)
qed

theorem copy_kernels_loaded_witness:
  "\<exists>s'. loadMemcpyKernelsIfNeeded granting (\<lambda>_. copy_elf) id (\<lambda>_. []) 0 (sm_glob 0x806) = (Inr (), s') \<and>
     func_name (funcs s' (kernelTrailingCpy s' 0)) = ''memcpyKernelTrailing''"
proof -
  obtain s' where run: "loadMemcpyKernelsIfNeeded granting (\<lambda>_. copy_elf) id (\<lambda>_. []) 0 (sm_glob 0x806) = (Inr (), s')"
    using load_kernels_granted by blast
  have "0 = ordinal (public_device_handles (sm_glob 0x806) ! 0)" "\<not> memcpy_initialized (sm_glob 0x806) 0"
    by (simp_all add: sm_glob_fields sm_device_def new_device_def)
      (simp add: sm_glob_def demo_glob_def modl.extend_def glob.fields_def)
  from copy_kernels_loaded [OF run this] show ?thesis using run by auto
qed

end
