(* ===== verification/Context_Channels.thy ===== *)
theory Context_Channels
  imports Contexts
begin

text \<open>
  What the creation of a context establishes: where its two channels lie, what it leaves alone, and the
  life of a context after that. The last part runs it on a concrete machine.
\<close>

section \<open>The channels of a new context\<close>

text \<open>The state after addresses up to \<open>a\<close> have been handed out.\<close>

definition bumped :: "nat \<Rightarrow> NvU64 \<Rightarrow> 'a vm_scheme \<Rightarrow> 'a vm_scheme" where
  "bumped c a s = s\<lparr>ctxs := (ctxs s)(c := (ctxs s c)\<lparr>uvm_vaddr := a\<rparr>)\<rparr>"

lemma bump_va_same: "a mod 4096 = 0 \<Longrightarrow> bump_va a 4096 = a"
  by (simp add: bump_va_def)

lemma bump_at:
  assumes "uvm_vaddr (ctxs s c) = a" "a mod 4096 = 0"
  shows "bump_alloc_virtual_addr c sz (push_bit 10 4) s = (Inr a, bumped c (a + sz) s)"
  using assms by (simp add: bump_alloc_virtual_addr_def modify_ctx_def bump_va_same bumped_def)

lemma system_alloc_at:
  assumes run: "gpuSystemAlloc K c sz host fl s = (Inr (va, h), s')"
    and a: "uvm_vaddr (ctxs s c) = a" "a mod 4096 = 0" "a \<noteq> 0" "unat a + 0x200000 < 2 ^ 64"
  shows "va = a \<and> (\<exists>l. s' = (bumped c (a + sz) s)\<lparr>klog := l\<rparr>)"
proof -
  have base: "alloc_base c False s = a" using bump_va_same [OF a(2)] by (simp add: alloc_base_small a(1))
  have fit: "unat (uvm_vaddr (ctxs s c)) + 0x200000 < 2 ^ 64" using a by simp
  have nz: "alloc_base c False s \<noteq> 0" using base a(3) by simp
  obtain l where "va = a" "s' = (alloc_effect c a sz False None s)\<lparr>klog := l\<rparr>"
    by (rule gpuSystemAlloc_outcome [OF run fit nz]) (auto simp: base)
  then show ?thesis by (auto simp: alloc_effect_def bumped_def)
qed

lemma create_channel_frame:
  "create_channel K c area h share grp off n nh s = (r, s') \<Longrightarrow> \<exists>l. s' = s\<lparr>klog := l\<rparr>"
  unfolding create_channel_def Let_def
  by (erule same_but_log_frame) (intro presI ignores_log_same preserves_case_prod)

lemma create_channel_token:
  "create_channel K c area h share grp off n nh s = (Inr (gp, tok), s') \<Longrightarrow> tok \<noteq> 0xFFFFFFFF"
  by (auto simp: create_channel_def Let_def bind_eq_Inr validate_eq_Inr)

lemma make_fifo_run:
  assumes run: "makeGpuFifo K c area h share grp off n s = (Inr fifo, s')"
    and a: "uvm_vaddr (ctxs s c) = a" "a mod 4096 = 0" "(a + 0x3000000) mod 4096 = 0" "a \<noteq> 0" "unat a + 0x200000 < 2 ^ 64"
  shows "\<exists>tok l. tok \<noteq> 0xFFFFFFFF \<and> fifo = fifo_at (wmem s) (area + off) (area + off + ucast (n * 8)) n tok \<and>
     s' = (bumped c (a + 0x7000000) s)\<lparr>klog := l\<rparr>"
proof -
  obtain va nh s1 gp tok s2 base s3 u fd where sys: "gpuSystemAlloc K c (push_bit 20 48) True 0 s = (Inr (va, nh), s1)"
    and ch: "create_channel K c area h share grp off n nh s1 = (Inr (gp, tok), s2)"
    and bp: "bump_alloc_virtual_addr c 0x4000000 (push_bit 10 4) s2 = (Inr base, s3)"
    and io: "UVM_IOCTL K fd UVM_REGISTER_CHANNEL u s3 = (Inr (), s')"
    and fifo: "fifo = fifo_at (wmem s') (area + off) (area + off + ucast (n * 8)) n tok"
    using run by (auto simp: makeGpuFifo_def bind_eq_Inr validate_eq_Inr)
  have "push_bit 20 48 = (0x3000000 :: NvU64)" by (simp add: push_bit_eq_mult)
  then obtain l1 where s1: "s1 = (bumped c (a + 0x3000000) s)\<lparr>klog := l1\<rparr>" using system_alloc_at [OF sys a(1,2,4,5)] by auto
  obtain l2 where s2: "s2 = s1\<lparr>klog := l2\<rparr>" using create_channel_frame [OF ch] by blast
  have u2: "uvm_vaddr (ctxs s2 c) = a + 0x3000000" by (simp add: s2 s1 bumped_def)
  have s3: "s3 = bumped c (a + 0x7000000) s2" using bp bump_at [OF u2 a(3)] by (simp add: add.assoc)
  obtain l3 where s': "s' = s3\<lparr>klog := l3\<rparr>" using UVM_IOCTL_frame [OF io] by blast
  have "s' = (bumped c (a + 0x7000000) s)\<lparr>klog := l3\<rparr>" by (simp add: s' s3 s2 s1 bumped_def)
  then show ?thesis using create_channel_token [OF ch] fifo by (auto simp: bumped_def)
qed

text \<open>
  The mapping flags of the area are the ones the comment in the code gives as CUDA's. The mapping field
  is in bits 16:15 (\<open>NVOS33_FLAGS_MAPPING\<close>), so shifting \<open>NVOS33_FLAGS_MAPPING_DIRECT\<close> by 16 asks for
  the value 2, \<open>NVOS33_FLAGS_MAPPING_REFLECTED\<close>.
\<close>

lemma fifo_map_flags_value: "fifo_map_flags = 0x10d0000" "drop_bit 15 fifo_map_flags AND 3 = 2"
  by code_simp+

text \<open>The area for the channels comes first in the new address space.\<close>

lemma fifo_area_run:
  assumes run: "gpuAlloc K c GPU_FIFO_AREA_SIZE True True True fl s = (Inr (va, h), s')" and u: "uvm_vaddr (ctxs s c) = UVM_HEAP_START"
  shows "va = 0x1000000000 \<and> uvm_vaddr (ctxs s' c) = 0x1000200000 \<and> wmem s' = wmem s"
proof -
  have fits: "va_fits c GPU_FIFO_AREA_SIZE s" by (simp add: va_fits_def u UVM_HEAP_START_def GPU_FIFO_AREA_SIZE_def)
  note bo = alloc_base_bounds [OF fits]
  obtain l h' where v: "va = alloc_base c True s"
    and s': "s' = (alloc_effect c (alloc_base c True s) (alloc_size True GPU_FIFO_AREA_SIZE) True (Some h') s)\<lparr>klog := l\<rparr>"
    by (rule gpuAlloc_outcome [OF run bo(8) bo(7)]) auto
  have base: "alloc_base c True s = 0x1000000000"
    by (simp add: alloc_base_def u UVM_HEAP_START_def page_alignment_values bump_va_def)
  have size: "alloc_size True GPU_FIFO_AREA_SIZE = 0x200000" by code_simp
  show ?thesis by (simp add: v s' base size alloc_effect_def)
qed

lemma create_fifos_run:
  fixes s :: "'a glob_scheme"
  assumes run: "create_fifos K c s = (Inr (compute, dma), s')" and u: "uvm_vaddr (ctxs s c) = UVM_HEAP_START"
  shows "\<exists>t1 t2. t1 \<noteq> 0xFFFFFFFF \<and> t2 \<noteq> 0xFFFFFFFF \<and>
     compute = fifo_at (wmem s) 0x1000000000 0x1000080000 0x10000 t1 \<and>
     dma = fifo_at (wmem s) 0x1000100000 0x1000180000 0x10000 t2 \<and> uvm_vaddr (ctxs s' c) = 0x100E200000"
proof -
  obtain share grp va h and s1 s2 :: "'a glob_scheme" where al: "gpuAlloc K c GPU_FIFO_AREA_SIZE True True True fifo_map_flags s = (Inr (va, h), s1)"
    and f1: "makeGpuFifo K c va h share grp 0 0x10000 s1 = (Inr compute, s2)"
    and f2: "makeGpuFifo K c va h share grp 0x100000 0x10000 s2 = (Inr dma, s')"
    using run by (auto simp: create_fifos_def bind_eq_Inr)
  note ar = fifo_area_run [OF al u]
  obtain t1 l1 where t1: "t1 \<noteq> 0xFFFFFFFF" "compute = fifo_at (wmem s1) (va + 0) (va + 0 + ucast (0x10000 * 8 :: NvU32)) 0x10000 t1"
    and s2: "s2 = (bumped c (0x1000200000 + 0x7000000) s1)\<lparr>klog := l1\<rparr>"
    using make_fifo_run [OF f1, where a = "0x1000200000"] ar by auto
  have u2: "uvm_vaddr (ctxs s2 c) = 0x1007200000" by (simp add: s2 bumped_def)
  obtain t2 l2 where t2: "t2 \<noteq> 0xFFFFFFFF" "dma = fifo_at (wmem s2) (va + 0x100000) (va + 0x100000 + ucast (0x10000 * 8 :: NvU32)) 0x10000 t2"
    and s': "s' = (bumped c (0x1007200000 + 0x7000000) s2)\<lparr>klog := l2\<rparr>"
    using make_fifo_run [OF f2 u2] by auto
  have w: "wmem s2 = wmem s" using ar by (simp add: s2 bumped_def)
  show ?thesis using t1 t2 ar w by (intro exI [of _ t1] exI [of _ t2]) (simp add: s' bumped_def)
qed

lemma preserves_case_option: "preserves I a \<Longrightarrow> (\<And>x. preserves I (f x)) \<Longrightarrow> preserves I (case p of None \<Rightarrow> a | Some x \<Rightarrow> f x)"
  by (cases p) simp_all

text \<open>What the creation of a context leaves alone before its kernels are loaded.\<close>

definition copy_view :: "'a glob_scheme \<Rightarrow>
    (nat \<Rightarrow> func) \<times> (nat \<Rightarrow> cu_module) \<times> (int \<Rightarrow> nat) \<times> (int \<Rightarrow> nat) \<times> (int \<Rightarrow> nat) \<times> (int \<Rightarrow> bool) \<times> int list \<times> int" where
  "copy_view s = (funcs s, modules s, kernelHighBW s, kernelLowLatency s, kernelTrailingCpy s, memcpy_initialized s,
     map ordinal (public_device_handles s), fd_ctl s)"

definition heap_start :: "nat \<Rightarrow> 'a glob_scheme \<Rightarrow> bool" where
  "heap_start c s \<longleftrightarrow> uvm_vaddr (ctxs s c) = UVM_HEAP_START"

lemma view_log: "ignores_log (\<lambda>s. copy_view s = x \<and> heap_start c s)" "ignores_log (\<lambda>s. copy_view s = x)"
  by (simp_all add: ignores_log_def copy_view_def heap_start_def)

lemma map_ordinal_update: "(\<And>d. ordinal (f d) = ordinal d) \<Longrightarrow> map ordinal (xs[i := f (xs ! i)]) = map ordinal xs"
  by (metis list_update_id map_update)

lemma keeps_modify_device:
  "(\<And>d. ordinal (f d) = ordinal d) \<Longrightarrow> preserves (\<lambda>s. copy_view s = x \<and> heap_start c s) (modify_device d f)"
  unfolding modify_device_def
  by (rule preserves_modify) (simp add: copy_view_def heap_start_def map_ordinal_update)

lemma keeps_modify_ctx:
  "(\<And>x. uvm_vaddr (f x) = uvm_vaddr x) \<Longrightarrow> preserves (\<lambda>s. copy_view s = x \<and> heap_start c s) (modify_ctx c' f)"
  unfolding modify_ctx_def by (rule preserves_modify) (auto simp: copy_view_def heap_start_def)

lemma keeps_parts:
  "preserves (\<lambda>s. copy_view s = x \<and> heap_start c s) (register_device_fd K c' d)"
  "preserves (\<lambda>s. copy_view s = x \<and> heap_start c s) (create_device_object K c' d)"
  "preserves (\<lambda>s. copy_view s = x \<and> heap_start c s) (map_mmio K c' d h)"
  "preserves (\<lambda>s. copy_view s = x \<and> heap_start c s) (obtain_uuid K d h)"
  "preserves (\<lambda>s. copy_view s = x \<and> heap_start c s) (create_va_space K c' d h)"
  "preserves (\<lambda>s. copy_view s = x \<and> heap_start c s) (create_channel_group K c' h)"
  "preserves (\<lambda>s. copy_view s = x \<and> heap_start c s) (obtain_compute_class K c' h)"
  "preserves (\<lambda>s. copy_view s = x \<and> heap_start c s) (obtain_device_info K d h)"
  unfolding register_device_fd_def create_device_object_def map_mmio_def obtain_uuid_def create_va_space_def
    create_channel_group_def obtain_compute_class_def obtain_device_info_def memMapToCpu_def open_for_map_def
  by (intro presI preserves_case_prod preserves_case_option keeps_modify_device keeps_modify_ctx view_log; simp)+

lemma keeps_objects: "preserves (\<lambda>s. copy_view s = x \<and> heap_start c s) (create_objects K c' d)"
  unfolding create_objects_def by (intro presI preserves_case_prod keeps_parts view_log)

lemma keeps_fifos: "preserves (\<lambda>s. copy_view s = x) (create_fifos K c)" "preserves (\<lambda>s. copy_view s = x) (enable_schedule K c)"
  unfolding create_fifos_def gpuAlloc_def memUVMMap_def memMapToCpu_def open_for_map_def bump_alloc_virtual_addr_def modify_ctx_def
    makeGpuFifo_def gpuSystemAlloc_def create_channel_def enable_schedule_def Let_def
  by (intro presI preserves_case_prod preserves_modify view_log; simp add: copy_view_def)+

lemma build_context_run:
  fixes s s' :: "'a glob_scheme"
  assumes run: "build_context K c d s = (Inr (), s')" and u: "heap_start c s"
  obtains t1 t2 and mem :: "NvU64 \<Rightarrow> NvU32" where "t1 \<noteq> 0xFFFFFFFF" "t2 \<noteq> 0xFFFFFFFF"
    "compute_gpfifo (ctxs s' c) = fifo_at mem 0x1000000000 0x1000080000 0x10000 t1"
    "dma_gpfifo (ctxs s' c) = fifo_at mem 0x1000100000 0x1000180000 0x10000 t2"
    "uvm_vaddr (ctxs s' c) = 0x100E200000" "copy_view s' = copy_view s"
proof -
  obtain compute dma and s9 sa sb :: "'a glob_scheme" where o: "create_objects K c d s = (Inr (), s9)"
    and f: "create_fifos K c s9 = (Inr (compute, dma), sa)" and e: "enable_schedule K c sa = (Inr (), sb)"
    and s': "s' = sb\<lparr>ctxs := (ctxs sb)(c := (ctxs sb c)\<lparr>compute_gpfifo := compute, dma_gpfifo := dma\<rparr>)\<rparr>"
    using run by (auto simp: build_context_def bind_eq_Inr modify_ctx_def)
  have I: "copy_view s9 = copy_view s \<and> heap_start c s9"
    by (rule preservesD [OF keeps_objects _ o]) (simp add: u)
  obtain t1 t2 where t: "t1 \<noteq> 0xFFFFFFFF" "t2 \<noteq> 0xFFFFFFFF" "compute = fifo_at (wmem s9) 0x1000000000 0x1000080000 0x10000 t1"
    "dma = fifo_at (wmem s9) 0x1000100000 0x1000180000 0x10000 t2" "uvm_vaddr (ctxs sa c) = 0x100E200000"
    using create_fifos_run [OF f] I by (auto simp: heap_start_def)
  have "copy_view sb = copy_view s"
    using preservesD [OF keeps_fifos(2) preservesD [OF keeps_fifos(1) conjunct1 [OF I] f] e] .
  moreover obtain l where "sb = sa\<lparr>klog := l\<rparr>"
    using e by (auto simp: enable_schedule_def bind_eq_Inr dest!: RM_CTRL_frame)
  ultimately show ?thesis using t(1,2)
    by (intro that [of t1 t2 "wmem s9"]) (simp_all add: t s' copy_view_def)
qed

lemma create_run:
  fixes s s' :: "'a glob_scheme"
  assumes "libreCuCtxCreate_v2 K elfio names cubin True flags (Some d) s = (Inr c, s')"
  obtains s1 s2 :: "'a glob_scheme" where "c = next_ptr s" "build_context K c d s1 = (Inr (), s2)"
    "heap_start c s1" "copy_view s1 = copy_view s" "d < length (public_device_handles s)"
    "loadMemcpyKernelsIfNeeded K elfio names cubin d (s2\<lparr>current_ctx := c\<rparr>) = (Inr (), s')"
proof -
  let ?s1 = "s\<lparr>next_ptr := next_ptr s + 1,
       ctxs := (ctxs s)(c := new_context flags (nat (ordinal (public_device_handles s ! d))))\<rparr>"
  obtain s2 :: "'a glob_scheme" where r: "c = next_ptr s" "d < length (public_device_handles s)"
    "build_context K c d ?s1 = (Inr (), s2)"
    "loadMemcpyKernelsIfNeeded K elfio names cubin d (s2\<lparr>current_ctx := c\<rparr>) = (Inr (), s')"
    using assms by (auto simp: libreCuCtxCreate_v2_def LIBRECUDA_VALIDATE_INITIALIZED_def bind_assoc bind_eq_Inr validate_eq_Inr
        guard_ub_eq_Inr new_ptr_def modify_ctx_def)
  have "heap_start c ?s1" "copy_view ?s1 = copy_view s" by (simp_all add: heap_start_def new_context_def copy_view_def)
  then show ?thesis using r by (intro that [of ?s1 s2])
qed

lemma load_kernels_view:
  assumes "loadMemcpyKernelsIfNeeded K elfio names cubin d s = (Inr (), s')"
  shows "compute_gpfifo (ctxs s' c) = compute_gpfifo (ctxs s c) \<and> dma_gpfifo (ctxs s' c) = dma_gpfifo (ctxs s c) \<and>
    current_ctx s' = current_ctx s"
proof (cases "memcpy_initialized s (ordinal (public_device_handles s ! d))")
  case True
  then show ?thesis using assms by (simp add: load_kernels_again)
next
  case False
  obtain M m mo s1 f g h where l: "libreCuModuleLoadData K elfio names True (Some (cubin (M * 10 + m))) s = (Inr mo, s1)"
    and s': "s' = s1\<lparr>memcpy_module := (memcpy_module s1)(ordinal (public_device_handles s ! d) := mo),
       kernelHighBW := (kernelHighBW s1)(ordinal (public_device_handles s ! d) := f),
       kernelLowLatency := (kernelLowLatency s1)(ordinal (public_device_handles s ! d) := g),
       kernelTrailingCpy := (kernelTrailingCpy s1)(ordinal (public_device_handles s ! d) := h),
       memcpy_initialized := (memcpy_initialized s1)(ordinal (public_device_handles s ! d) := True)\<rparr>"
    by (rule load_kernels_run [OF assms refl False])
  have "ctx_view c s1 = ctx_view c s" using preservesD [OF keeps_view_load [of c "ctx_view c s"] _ l] by simp
  then show ?thesis by (simp add: s' ctx_view_def)
qed

text \<open>The bytes a channel occupies: its ring of eight-byte entries and its control block.\<close>

definition fifo_ranges :: "gpfifo \<Rightarrow> (nat \<times> nat) list" where
  "fifo_ranges f = [(unat (ring_va f), 8 * unat (entries_count f)), (unat (controls_va f), 0x200)]"

text \<open>
  C8: a new context is the current one, and its two channels are usable: each has a doorbell token and
  65536 entries, and the rings and control blocks of both are disjoint and lie in the two megabytes
  allocated for them at the start of the context's address space, below everything allocated later.
\<close>

theorem context_channels:
  assumes "libreCuCtxCreate_v2 K elfio names cubin True flags (Some d) s = (Inr c, s')"
  shows "c = next_ptr s \<and> libreCuCtxGetCurrent True s' = (Inr c, s') \<and>
    (\<forall>f \<in> {compute_gpfifo (ctxs s' c), dma_gpfifo (ctxs s' c)}. token f \<noteq> 0xFFFFFFFF \<and> entries_count f = 0x10000 \<and> put_value f = 0) \<and>
    (let ranges = fifo_ranges (compute_gpfifo (ctxs s' c)) @ fifo_ranges (dma_gpfifo (ctxs s' c)) in
      sorted_wrt (\<lambda>(a, n) (b, m). a + n \<le> b) ranges \<and>
      (\<forall>(a, n) \<in> set ranges. unat UVM_HEAP_START \<le> a \<and> a + n \<le> unat UVM_HEAP_START + unat GPU_FIFO_AREA_SIZE))"
proof -
  obtain s1 s2 where c: "c = next_ptr s" and b: "build_context K c d s1 = (Inr (), s2)" "heap_start c s1"
    and l: "loadMemcpyKernelsIfNeeded K elfio names cubin d (s2\<lparr>current_ctx := c\<rparr>) = (Inr (), s')"
    by (rule create_run [OF assms])
  obtain t1 t2 and mem :: "NvU64 \<Rightarrow> NvU32" where t: "t1 \<noteq> 0xFFFFFFFF" "t2 \<noteq> 0xFFFFFFFF"
    and f: "compute_gpfifo (ctxs s2 c) = fifo_at mem 0x1000000000 0x1000080000 0x10000 t1"
    "dma_gpfifo (ctxs s2 c) = fifo_at mem 0x1000100000 0x1000180000 0x10000 t2"
    by (rule build_context_run [OF b])
  note v = load_kernels_view [OF l, of c]
  have g: "compute_gpfifo (ctxs s' c) = fifo_at mem 0x1000000000 0x1000080000 0x10000 t1"
    "dma_gpfifo (ctxs s' c) = fifo_at mem 0x1000100000 0x1000180000 0x10000 t2" "current_ctx s' = c" using v f by simp_all
  show ?thesis unfolding c [symmetric]
    using t by (simp add: g libreCuCtxGetCurrent_def fifo_ranges_def fifo_at_def UVM_HEAP_START_def GPU_FIFO_AREA_SIZE_def)
qed

text \<open>
  C32: the copy kernels are kept by device, not by context. A context created on a device whose kernels
  were loaded for an earlier context keeps those functions, loads nothing into its own address space,
  and has handed out no address from 0x100E200000 on: there is nothing at the address of a copy kernel
  behind that, until a later allocation puts something else there.
\<close>

theorem second_context_keeps_kernels:
  assumes "libreCuCtxCreate_v2 K elfio names cubin True flags (Some d) s = (Inr c, s')"
    and "memcpy_initialized s ord" "ord = ordinal (public_device_handles s ! d)"
  shows "kernelHighBW s' ord = kernelHighBW s ord \<and> kernelLowLatency s' ord = kernelLowLatency s ord \<and>
    kernelTrailingCpy s' ord = kernelTrailingCpy s ord \<and> funcs s' = funcs s \<and> modules s' = modules s \<and>
    uvm_vaddr (ctxs s' c) = 0x100E200000"
proof -
  obtain s1 s2 where b: "build_context K c d s1 = (Inr (), s2)" "heap_start c s1" and v1: "copy_view s1 = copy_view s"
    and d: "d < length (public_device_handles s)"
    and l: "loadMemcpyKernelsIfNeeded K elfio names cubin d (s2\<lparr>current_ctx := c\<rparr>) = (Inr (), s')"
    by (rule create_run [OF assms(1)])
  have v: "copy_view s2 = copy_view s" and u: "uvm_vaddr (ctxs s2 c) = 0x100E200000"
    by (rule build_context_run [OF b], simp add: v1)+
  have "map ordinal (public_device_handles s2) = map ordinal (public_device_handles s)" using v by (simp add: copy_view_def)
  then have "ordinal (public_device_handles s2 ! d) = ord" using d assms(3) by (metis length_map nth_map)
  then have "s' = s2\<lparr>current_ctx := c\<rparr>"
    using l assms(2) v by (simp add: load_kernels_again copy_view_def)
  then show ?thesis using v u by (simp add: copy_view_def)
qed

text \<open>A machine with one card of compute capability 8.6, whose copy kernels have been loaded already.\<close>

definition machine :: kern where
  "machine l c = \<lparr>kret = (case c of KOpen _ \<Rightarrow> 7 | _ \<Rightarrow> 0), kstatus = 0, khandle = 0x100, kaddr = 0x7000,
     kdata = (case c of KIowr _ _ ps \<Rightarrow>
         if map_of ps ''cmd'' = Some (ucast NV2080_CTRL_CMD_GR_GET_INFO)
         then concat (map (\<lambda>i. [of_nat i, if i = 12 then 0x806 else 0]) [0..<56])
         else if map_of ps ''cmd'' = Some (ucast NV0080_CTRL_CMD_GPU_GET_CLASSLIST) then [0x2080, 0xc7c0]
         else [9]
       | _ \<Rightarrow> [])\<rparr>"

definition started_glob :: glob where
  "started_glob = (sm_glob 0x806)\<lparr>librecudaInitialized := True, num_devices := 1, device_instances := [5],
     memcpy_initialized := (\<lambda>_. True)\<rparr>"

text \<open>Apart from the data it answers with, it is the kernel that grants everything.\<close>

lemma machine_same:
  "RM_ALLOC machine = RM_ALLOC granting" "UVM_IOCTL machine = UVM_IOCTL granting" "memMapToCpu machine = memMapToCpu granting"
  by (simp_all add: fun_eq_iff RM_ALLOC_def as_unknown_def rm_alloc_def NV_IOWR_def UVM_IOCTL_def kernel_call_def bind_def
      memMapToCpu_def open_for_map_def machine_def granting_def validate_def split: prod.splits)

lemma machine_alloc: "gpuAlloc machine = gpuAlloc granting" "gpuSystemAlloc machine = gpuSystemAlloc granting"
proof -
  have u: "memUVMMap machine = memUVMMap granting" by (intro ext) (simp only: memUVMMap_def machine_same)
  show "gpuAlloc machine = gpuAlloc granting" "gpuSystemAlloc machine = gpuSystemAlloc granting"
    by (intro ext, simp only: gpuAlloc_def gpuSystemAlloc_def machine_same u)+
qed

lemma granted_at:
  "fd > 0 \<Longrightarrow> RM_ALLOC granting fd cl r p ob ps s = (Inr 0x100, s\<lparr>klog := klog s @ [KIowr fd NV_ESC_RM_ALLOC
      ([(''hRoot'', ucast r), (''hObjectParent'', ucast p), (''hObjectNew'', ucast ob), (''hClass'', ucast cl)] @ ps)]\<rparr>)"
  by (simp add: RM_ALLOC_def as_unknown_def rm_alloc_def NV_IOWR_def kernel_call_def bind_def granting_def)

lemma machine_token:
  "RM_CTRL machine fd NVC36F_CTRL_CMD_GPFIFO_GET_WORK_SUBMIT_TOKEN rt gp ps s = (Inr r, s') \<Longrightarrow> reply_or r 0 d = 9"
  "\<exists>r s'. RM_CTRL machine fd cmd rt gp ps s = (Inr r, s')"
  by (auto simp: RM_CTRL_def rm_ctrl_def as_unknown_def NV_IOWR_def kernel_call_def bind_def
      machine_def reply_or_def NVC36F_CTRL_CMD_GPFIFO_GET_WORK_SUBMIT_TOKEN_def NV2080_CTRL_CMD_GR_GET_INFO_def
      NV0080_CTRL_CMD_GPU_GET_CLASSLIST_def)

lemma machine_channel:
  assumes "fd_ctl s > 0"
  shows "\<exists>gp s'. create_channel machine c area h share grp off n nh s = (Inr (gp, 9), s')"
proof -
  obtain s1 where r1: "RM_ALLOC granting (fd_ctl s) AMPERE_CHANNEL_GPFIFO_A (root s) grp 0
       [(''hObjectError'', ucast nh), (''hObjectBuffer'', ucast h), (''gpFifoOffset'', area + off), (''gpFifoEntries'', ucast n),
        (''hContextShare'', ucast share), (''hUserdMemory'', ucast h), (''userdOffset'', ucast (n * 8) + off)] s = (Inr 0x100, s1)"
    using granted_at [OF assms] by blast
  obtain s2 where r2: "RM_ALLOC granting (fd_ctl s) (compute_class (public_device_handles s ! ctx_device (ctxs s c))) (root s) 0x100 0 [] s1 =
      (Inr 0x100, s2)" using granted_at [OF assms] by blast
  obtain s3 where r3: "RM_ALLOC granting (fd_ctl s) AMPERE_DMA_COPY_B (root s) 0x100 0 [] s2 = (Inr 0x100, s3)"
    using granted_at [OF assms] by blast
  obtain r s4 where r4: "RM_CTRL machine (fd_ctl s) NVC36F_CTRL_CMD_GPFIFO_GET_WORK_SUBMIT_TOKEN (root s) 0x100
      [(''workSubmitToken'', 0xFFFFFFFF)] s3 = (Inr r, s4)" using machine_token(2) by blast
  have "create_channel machine c area h share grp off n nh s = (Inr (0x100, 9), s4)"
    unfolding create_channel_def bind_gets prod.case machine_same
    by (subst bind_run_Inr, rule r1, subst bind_run_Inr, rule r2, subst bind_run_Inr, rule r3, subst bind_run_Inr, rule r4)
      (simp add: machine_token(1) [OF r4] Let_def)
  then show ?thesis by blast
qed

lemma granted_uvm_run: "UVM_IOCTL granting fd nr ps s = (Inr (), s\<lparr>klog := klog s @ [KUvm fd nr ps]\<rparr>)"
  by (simp add: UVM_IOCTL_def kernel_call_def bind_def granting_def)

lemma machine_fifo:
  fixes s :: "'a glob_scheme"
  assumes "fd_ctl s > 0" "c \<noteq> 0" "area \<noteq> 0" "h \<noteq> 0" "va_fits c 0x3000000 s" "uvm_vaddr (ctxs s c) = a"
    "a mod 4096 = 0" "(a + 0x3000000) mod 4096 = 0" "a \<noteq> 0" "unat a + 0x200000 < 2 ^ 64"
  shows "\<exists>fifo s'. makeGpuFifo machine c area h share grp off n s = (Inr fifo, s') \<and> fd_ctl s' = fd_ctl s"
proof -
  have sz: "push_bit 20 48 = (0x3000000 :: NvU64)" by (simp add: push_bit_eq_mult)
  obtain s1 where s1: "gpuSystemAlloc granting c 0x3000000 True 0 s = (Inr (alloc_base c False s, 0x100), s1)"
    using system_granted [OF assms(1,2,5)] by blast
  obtain l1 where l1: "s1 = (bumped c (a + 0x3000000) s)\<lparr>klog := l1\<rparr>" using system_alloc_at [OF s1 assms(6,7,9,10)] by blast
  have "fd_ctl s1 > 0" using assms(1) by (simp add: l1 bumped_def)
  then obtain gp s2 where s2: "create_channel machine c area h share grp off n 0x100 s1 = (Inr (gp, 9), s2)" using machine_channel by blast
  obtain l2 where l2: "s2 = s1\<lparr>klog := l2\<rparr>" using create_channel_frame [OF s2] by blast
  have "uvm_vaddr (ctxs s2 c) = a + 0x3000000" by (simp add: l2 l1 bumped_def)
  note bp = bump_at [OF this assms(8)]
  have fd: "fd_ctl s2 = fd_ctl s" "fd_ctl (bumped c x t) = fd_ctl t" for x and t :: "'a glob_scheme"
    by (simp_all add: l2 l1 bumped_def)
  show ?thesis
    using assms(2-4) by (simp add: makeGpuFifo_def machine_alloc machine_same sz bind_def s1 s2 bp [simplified] granted_uvm_run fd)
qed


lemma machine_fifos:
  fixes s :: "'a glob_scheme"
  assumes "fd_ctl s > 0" "c \<noteq> 0" "heap_start c s"
  shows "\<exists>f g s'. create_fifos machine c s = (Inr (f, g), s') \<and> fd_ctl s' = fd_ctl s"
proof -
  have u: "uvm_vaddr (ctxs s c) = UVM_HEAP_START" using assms(3) by (simp add: heap_start_def)
  have fits: "va_fits c GPU_FIFO_AREA_SIZE s" by (simp add: va_fits_def u UVM_HEAP_START_def GPU_FIFO_AREA_SIZE_def)
  obtain va s1 where al: "gpuAlloc granting c GPU_FIFO_AREA_SIZE True True True fifo_map_flags s = (Inr (va, 0x100), s1)"
    using alloc_granted [OF assms(1,2) fits] by blast
  note ar = fifo_area_run [OF al u]
  have fd1: "fd_ctl s1 = fd_ctl s"
    by (rule gpuAlloc_outcome [OF al]) (use alloc_base_bounds [OF fits] in \<open>auto simp: alloc_effect_def u UVM_HEAP_START_def\<close>)
  let ?share = "ctx_share (ctxs s c)" and ?grp = "channel_group (ctxs s c)"
  obtain f s2 where f: "makeGpuFifo machine c va 0x100 ?share ?grp 0 0x10000 s1 = (Inr f, s2)" "fd_ctl s2 = fd_ctl s1"
    using machine_fifo [of s1 c va "0x100" "0x1000200000" ?share ?grp 0 "0x10000"] assms(1,2) fd1 ar by (auto simp: va_fits_def)
  obtain l2 where s2: "s2 = (bumped c 0x1007200000 s1)\<lparr>klog := l2\<rparr>"
    using make_fifo_run [OF f(1), where a = "0x1000200000"] ar by auto
  have u2: "uvm_vaddr (ctxs s2 c) = 0x1007200000" by (simp add: s2 bumped_def)
  obtain g s3 where g: "makeGpuFifo machine c va 0x100 ?share ?grp 0x100000 0x10000 s2 = (Inr g, s3)" "fd_ctl s3 = fd_ctl s2"
    using machine_fifo [of s2 c va "0x100" "0x1007200000" ?share ?grp "0x100000" "0x10000"] assms(1,2) fd1 ar u2 f(2)
    by (auto simp: va_fits_def)
  show ?thesis using f g fd1 by (simp add: create_fifos_def machine_alloc bind_def al)
qed

lemmas machine_calls = RM_ALLOC_def as_unknown_def rm_alloc_def RM_CTRL_def rm_ctrl_def NV_IOWR_def UVM_IOCTL_def kernel_call_def
  bind_def machine_def modify_ctx_def modify_device_def

lemma machine_parts:
  assumes "fd_ctl s > 0" "c \<noteq> 0"
  shows "\<exists>s'. register_device_fd machine c d s = (Inr (), s') \<and> fd_ctl s' = fd_ctl s"
    "\<exists>s'. create_device_object machine c d s = (Inr 0x100, s') \<and> fd_ctl s' = fd_ctl s"
    "\<exists>s'. map_mmio machine c d h s = (Inr (), s') \<and> fd_ctl s' = fd_ctl s"
    "\<exists>s'. obtain_uuid machine d h s = (Inr (), s') \<and> fd_ctl s' = fd_ctl s"
    "\<exists>s'. create_va_space machine c d h s = (Inr (), s') \<and> fd_ctl s' = fd_ctl s"
    "\<exists>s'. create_channel_group machine c h s = (Inr (), s') \<and> fd_ctl s' = fd_ctl s"
  using assms
  by (simp_all add: register_device_fd_def create_device_object_def map_mmio_def obtain_uuid_def create_va_space_def
      create_channel_group_def memMapToCpu_def open_for_map_def MAP_FAILED_def machine_calls)

lemma machine_class:
  assumes "fd_ctl s > 0" "c \<noteq> 0"
  shows "\<exists>s'. obtain_compute_class machine c h s = (Inr (), s') \<and> fd_ctl s' = fd_ctl s"
proof -
  have "find_compute_class [0x2080, 0xc7c0] = Some 0xc7c0" by code_simp
  then show ?thesis
    by (simp add: obtain_compute_class_def machine_calls NV0080_CTRL_CMD_GPU_GET_CLASSLIST_def NV2080_CTRL_CMD_GR_GET_INFO_def)
qed

lemma machine_info: "\<exists>s'. obtain_device_info machine d h s = (Inr (), s') \<and> fd_ctl s' = fd_ctl s"
proof -
  have "length (concat (map (\<lambda>i. [of_nat i, if i = 12 then 0x806 else 0 :: NvU32]) [0..<56])) = 112" by code_simp
  then show ?thesis
    by (simp add: obtain_device_info_def machine_calls NV2080_CTRL_GR_INFO_INDEX_MAX_def del: upt_Suc upt_rec_numeral)
qed

lemma machine_objects:
  fixes s :: "'a glob_scheme"
  assumes "fd_ctl s > 0" "c \<noteq> 0"
  shows "\<exists>s'. create_objects machine c d s = (Inr (), s') \<and> fd_ctl s' = fd_ctl s"
proof -
  obtain s1 where s1: "register_device_fd machine c d s = (Inr (), s1)" "fd_ctl s1 = fd_ctl s" using machine_parts(1) [OF assms] by blast
  obtain s2 where s2: "create_device_object machine c d s1 = (Inr 0x100, s2)" "fd_ctl s2 = fd_ctl s"
    using machine_parts(2) [of s1 c d] assms s1(2) by auto
  obtain s3 where s3: "RM_ALLOC machine (fd_ctl s2) NV20_SUBDEVICE_0 (root s2) 0x100 0 [] s2 = (Inr 0x100, s3)" "fd_ctl s3 = fd_ctl s"
    using granted_at [of "fd_ctl s2" NV20_SUBDEVICE_0 "root s2" "0x100" 0 "[]" s2] assms s2(2) by (simp add: machine_same)
  obtain s4 where s4: "map_mmio machine c d 0x100 s3 = (Inr (), s4)" "fd_ctl s4 = fd_ctl s"
    using machine_parts(3) [of s3 c d] assms s3(2) by auto
  obtain s5 where s5: "obtain_uuid machine d 0x100 s4 = (Inr (), s5)" "fd_ctl s5 = fd_ctl s"
    using machine_parts(4) [of s4 c d] assms s4(2) by auto
  obtain s6 where s6: "create_va_space machine c d 0x100 s5 = (Inr (), s6)" "fd_ctl s6 = fd_ctl s"
    using machine_parts(5) [of s5 c d] assms s5(2) by auto
  obtain s7 where s7: "create_channel_group machine c 0x100 s6 = (Inr (), s7)" "fd_ctl s7 = fd_ctl s"
    using machine_parts(6) [of s6 c] assms s6(2) by auto
  obtain s8 where s8: "obtain_compute_class machine c 0x100 s7 = (Inr (), s8)" "fd_ctl s8 = fd_ctl s"
    using machine_class [of s7 c] assms s7(2) by auto
  obtain s9 where s9: "obtain_device_info machine d 0x100 s8 = (Inr (), s9)" "fd_ctl s9 = fd_ctl s"
    using machine_info [of d "0x100" s8] s8(2) by auto
  show ?thesis by (simp add: create_objects_def bind_def s1 s2 s3 [unfolded s2(2)] s4 s5 s6 s7 s8 s9)
qed

lemma machine_schedule: "\<exists>s'. enable_schedule machine c s = (Inr (), s')"
  by (simp add: enable_schedule_def machine_calls)

lemma machine_creates:
  "\<exists>s'. libreCuCtxCreate_v2 machine (\<lambda>_. copy_elf) id (\<lambda>_. []) True 0 (Some 0) started_glob = (Inr 3, s')"
proof -
  let ?s0 = "started_glob\<lparr>next_ptr := 4, ctxs := (ctxs started_glob)(3 := new_context 0 0)\<rparr>"
  have st: "copy_view ?s0 = copy_view started_glob" "fd_ctl started_glob = 3" "next_ptr started_glob = 3"
    "librecudaInitialized started_glob" "num_devices started_glob = 1" "device_instances started_glob = [5]"
    "public_device_handles started_glob = [sm_device 0x806]" "ordinal (sm_device 0x806) = 0" "instance_nr (sm_device 0x806) = 5"
    "memcpy_initialized started_glob = (\<lambda>_. True)"
    by (simp_all add: copy_view_def started_glob_def sm_glob_def demo_glob_def modl.extend_def glob.fields_def demo_modl_def sm_device_def new_device_def)
  obtain s1 where o: "create_objects machine 3 0 ?s0 = (Inr (), s1)" "fd_ctl s1 = 3"
    using machine_objects [of ?s0 3 0] by (auto simp: st)
  have v1: "copy_view s1 = copy_view ?s0 \<and> heap_start 3 s1"
    by (rule preservesD [OF keeps_objects _ o(1)]) (simp add: heap_start_def new_context_def)
  obtain f g s2 where f: "create_fifos machine 3 s1 = (Inr (f, g), s2)" using machine_fifos [of s1 3] o(2) v1 by auto
  have v2: "copy_view s2 = copy_view started_glob"
    by (rule preservesD [OF keeps_fifos(1) _ f]) (use v1 st(1) in simp)
  obtain s3 where e: "enable_schedule machine 3 s2 = (Inr (), s3)"
    using machine_schedule by blast
  have "copy_view s3 = copy_view started_glob" by (rule preservesD [OF keeps_fifos(2) v2 e])
  then have i: "memcpy_initialized s3 = (\<lambda>_. True)" by (simp add: copy_view_def st)
  show ?thesis
    by (simp add: libreCuCtxCreate_v2_def LIBRECUDA_VALIDATE_INITIALIZED_def bind_assoc Let_def st new_ptr_def modify_ctx_def
        build_context_def bind_def o f e load_kernels_again i)
qed

theorem context_channels_witness:
  "\<exists>s'. libreCuCtxCreate_v2 machine (\<lambda>_. copy_elf) id (\<lambda>_. []) True 0 (Some 0) started_glob = (Inr 3, s') \<and>
     libreCuCtxGetCurrent True s' = (Inr 3, s') \<and> entries_count (dma_gpfifo (ctxs s' 3)) = 0x10000"
proof -
  obtain s' where run: "libreCuCtxCreate_v2 machine (\<lambda>_. copy_elf) id (\<lambda>_. []) True 0 (Some 0) started_glob = (Inr 3, s')"
    using machine_creates by blast
  show ?thesis using context_channels [OF run] run by auto
qed

theorem second_context_keeps_kernels_witness:
  "\<exists>s'. libreCuCtxCreate_v2 machine (\<lambda>_. copy_elf) id (\<lambda>_. []) True 0 (Some 0) started_glob = (Inr 3, s') \<and>
     funcs s' = funcs started_glob \<and> uvm_vaddr (ctxs s' 3) = 0x100E200000"
proof -
  obtain s' where run: "libreCuCtxCreate_v2 machine (\<lambda>_. copy_elf) id (\<lambda>_. []) True 0 (Some 0) started_glob = (Inr 3, s')"
    using machine_creates by blast
  have "memcpy_initialized started_glob 0" "0 = ordinal (public_device_handles started_glob ! 0)"
    by (simp_all add: started_glob_def sm_glob_fields sm_device_def new_device_def)
  from second_context_keeps_kernels [OF run this] show ?thesis using run by auto
qed

text \<open>
  a context that is made current is the current one; destroying another leaves it; destroying it
  closes its descriptor and leaves no current context, so that every call that needs one is refused. It
  releases nothing else: the allocations of the context stay in the driver's tables.
\<close>

theorem context_lifecycle:
  assumes "c \<noteq> 0"
  shows "\<exists>s1 s2. libreCuCtxSetCurrent c s = (Inr (), s1) \<and> libreCuCtxGetCurrent True s1 = (Inr c, s1) \<and>
    (\<forall>c'. c' \<noteq> c \<longrightarrow> current_ctx (snd (libreCuCtxDestroy K c' s1)) = c) \<and>
    libreCuCtxDestroy K c s1 = (Inr (), s2) \<and> klog s2 = klog s @ [KClose (device_fd (ctxs s c))] \<and>
    LIBRECUDA_ENSURE_CTX_VALID s2 = (Inl (Fail LIBRECUDA_ERROR_INVALID_CONTEXT), s2) \<and>
    va_to_mem_handle s2 = va_to_mem_handle s \<and> hostMappedPtrs s2 = hostMappedPtrs s"
proof -
  let ?s1 = "s\<lparr>current_ctx := c\<rparr>"
  have other: "current_ctx (snd (libreCuCtxDestroy K c' ?s1)) = c" if "c' \<noteq> c" for c'
    using that by (cases "c' = 0") (simp_all add: libreCuCtxDestroy_def kernel_call_def bind_def)
  have own: "libreCuCtxDestroy K c ?s1 =
      (Inr (), s\<lparr>current_ctx := 0, klog := klog s @ [KClose (device_fd (ctxs s c))]\<rparr>)"
    using assms by (simp add: libreCuCtxDestroy_def kernel_call_def bind_def)
  show ?thesis
    by (rule exI [of _ ?s1], rule exI [of _ "s\<lparr>current_ctx := 0, klog := klog s @ [KClose (device_fd (ctxs s c))]\<rparr>"])
      (use assms other own in \<open>simp add: libreCuCtxSetCurrent_def libreCuCtxGetCurrent_def LIBRECUDA_ENSURE_CTX_VALID_def\<close>)
qed

theorem context_lifecycle_witness:
  "\<exists>s2. libreCuCtxDestroy machine 1 (started_glob\<lparr>current_ctx := 1\<rparr>) = (Inr (), s2) \<and> current_ctx s2 = 0"
  using context_lifecycle [of 1 started_glob machine]
  by (auto simp: libreCuCtxSetCurrent_def LIBRECUDA_ENSURE_CTX_VALID_def validate_def split: if_splits)

end
