(* ===== verification/Session.thy ===== *)
theory Session
  imports Context_Channels
begin

text \<open>
  What the components give together: a module is loaded, a function of it is looked up by name and
  launched on a stream. The theories below follow the pieces; here the bytes of the file are followed
  up to the words that tell the GPU where to start.
\<close>

section \<open>Loading a module leaves the streams alone\<close>

lemma same_more:
  assumes "drv.more (s' :: 'a modl_scheme) = drv.more s"
  shows "streams s' = streams s \<and> next_ptr s' = next_ptr s \<and> gbytes s' = gbytes s \<and> modules s' = modules s"
  using assms by (cases s; cases s') simp

lemma load_keeps_streams:
  fixes s s' :: "'a modl_scheme"
  assumes "libreCuModuleLoadData K elfio names True (Some b) s = (Inr m, s')"
  shows "queues s' = queues s \<and> events s' = events s \<and> streams s' = streams s \<and>
    (\<forall>p \<in> set (mod_functions (modules s' m)). next_ptr s \<le> p)"
proof -
  obtain va h sz info fs ps and s1 s2 :: "'a modl_scheme" and img where
    al: "gpuAlloc K (current_ctx s) sz False False True 0 s = (Inr (va, h), s1)" and
    nf: "new_functions info fs s1 = (Inr ps, s2)" and
    s': "memcpy_to_gpu va img (s2\<lparr>next_ptr := next_ptr s2 + 1,
      modules := (modules s2)(m := \<lparr>mod_functions = ps, module_va_addr = va\<rparr>)\<rparr>) = (Inr (), s')"
    using assms by (auto simp: libreCuModuleLoadData_def Let_def bind_eq_Inr locally_eq_Inr new_ptr_def
        LIBRECUDA_ENSURE_CTX_VALID_def validate_eq_Inr)
  have "queues s2 = queues s1 \<and> events s2 = events s1 \<and> streams s2 = streams s1"
    using nf
  proof (induction fs arbitrary: s1 ps)
    case (Cons f fs)
    then show ?case by (fastforce simp: new_ptr_def bind_eq_Inr)
  qed simp
  then show ?thesis
    using gpuAlloc_same_drv [OF al] same_more [of s1 s] s' new_functions_run [OF nf]
    by (auto simp: same_drv_def memcpy_to_gpu_def)
qed

section \<open>Running code of a module\<close>

text \<open>The descriptor that the GPU reads at an address.\<close>

definition descriptor_at :: "NvU64 \<Rightarrow> (NvU64 \<Rightarrow> NvU32) \<Rightarrow> drf \<Rightarrow> NvU32" where
  "descriptor_at a m g = DRF_VAL_MW g (load_words a 64 m)"

lemma launch_places_descriptor:
  fixes s s' :: "'a modl_scheme"
  assumes inv: "order_inv q s" and run: "launchFunction K q p d sm params n async s = (Inr (), s')"
    and fn: "fn = funcs s p" "constants_ok fn" "\<forall>k \<in> set (constants fn). const_address k < 2 ^ 49"
      "num_registers fn < 512" "func_va_addr fn < 2 ^ 49"
    and kp: "kp = kernArgsPageVa (queues s q) + kernArgsWriteIdx (queues s q)"
    and args: "args_words (zip (param_info fn) params) = Some args" "bank0_holds fn args"
    and page: "unat kp + unat (kernargs_size fn) \<le> 2 ^ 64" "take_bit 8 (qmd_address fn kp) = 0" "qmd_address fn kp < 2 ^ 40"
    and v: "v = descriptor_at (qmd_address fn kp) (wmem s')"
  shows "order_inv q s' \<and> user_ops (queues s' q) = user_ops (queues s q) @ [LaunchQmd (qmd_address fn kp)] \<and>
    gbytes s' = gbytes s \<and>
    v CTA_RASTER_WIDTH = gridDimX d \<and> v CTA_RASTER_HEIGHT = gridDimY d \<and> v CTA_RASTER_DEPTH = gridDimZ d \<and>
    v CTA_THREAD_DIMENSION0 = blockDimX d \<and> v CTA_THREAD_DIMENSION1 = blockDimY d \<and>
    v CTA_THREAD_DIMENSION2 = blockDimZ d \<and> v REGISTER_COUNT_V = num_registers fn \<and>
    join_32 (v PROGRAM_ADDRESS_UPPER) (v PROGRAM_ADDRESS_LOWER) = func_va_addr fn \<and>
    join_32 (v (CONSTANT_BUFFER_ADDR_UPPER 0)) (v (CONSTANT_BUFFER_ADDR_LOWER 0)) = kp \<and>
    load_words kp 88 (wmem s') = cb0_of d \<and> load_words (kp + 352) (length args) (wmem s') = args"
proof -
  have p: "timelineSignal (queues s q) \<noteq> 0" by (rule order_invD(3) [OF inv])
  obtain x where ok: "launch_ok fn d sm"
    and mem: "wmem s' = store_words (qmd_address fn kp) (qmd_data fn d (maxOf32 (shared_mem fn) sm) x kp)
        (store_words kp (cb0_of d @ args) (wmem s))"
    using launch_success [OF run p] args(1) by (auto simp: fn(1) kp)
  note m = launch_memory [OF args(2) page(1) mem]
  have steps: "order_inv q s'" "user_ops (queues s' q) = user_ops (queues s q) @ [LaunchQmd (qmd_address fn kp)]"
    using launch_step [OF inv run] pcas_address [OF page(2,3)] by (simp_all add: launch_target_def fn(1) kp)
  have "unat kp \<le> unat (qmd_address fn kp)"
    using bank0_rounded [OF args(2)] page(1) unat_word_sum [of kp "roundUp64 (const_size (constants fn ! 0)) (push_bit 8 1)"]
    by (simp add: qmd_address_def)
  then have "kp < 2 ^ 49" using page(3) by (simp add: word_less_nat_alt)
  from launch_descriptor [OF fn(2) ok fn(4,5) this fn(3), of v "maxOf32 (shared_mem fn) sm" x]
  show ?thesis
    using m steps launch_outside [OF run] same_more [of s' s] by (simp add: v descriptor_at_def fun_eq_iff)
qed


text \<open>A file with one kernel without parameters, loaded and launched beside a ready stream.\<close>

definition run_elf :: elf where
  "run_elf = \<lparr>sections = [
     \<lparr>sec_name = ''.text.f'', sec_type = 1, sec_address = 0, sec_data = [1, 2, 3, 4], sec_info = 0x0a000000, sec_addr_align = 128\<rparr>,
     \<lparr>sec_name = ''.nv.constant0.f'', sec_type = 1, sec_address = 0, sec_data = replicate 352 0, sec_info = 0, sec_addr_align = 4\<rparr>],
     section_entry_size = 64, rel_entries = (\<lambda>_. []), symbols = (\<lambda>_. [])\<rparr>"

definition run_modl :: modl where
  "run_modl = demo_modl\<lparr>queues := (\<lambda>_. demo_queue)\<rparr>"

lemma run_image:
  "\<exists>img secs i. place_sections (sections run_elf) (image_start (sections run_elf)) = (Inr (), img, secs) \<and> length img = 480 \<and>
     read_sections run_elf secs 0x1000000000 no_info = (Inr (), i) \<and> relocs (load_result id i) = [] \<and> function_names i = [''f''] \<and>
     make_function (load_result id i) ''f'' = \<lparr>func_name = ''f'', func_va_addr = 0x1000000000, shared_mem = 0, num_registers = 10,
       local_mem_req = 0, function_size = 4, constants = [\<lparr>const_nr = 0, const_address = 0x1000000080, const_size = 352\<rparr>],
       param_info = [], shader_local_memory_va = 0\<rparr>"
proof -
  define r where "r = place_sections (sections run_elf) (image_start (sections run_elf))"
  have a: "(fst r, length (fst (snd r))) = (Inr (), 480)" unfolding r_def by code_simp
  define q where "q = read_sections run_elf (snd (snd r)) 0x1000000000 no_info"
  have b: "(fst q, relocs (load_result id (snd q)), function_names (snd q), make_function (load_result id (snd q)) ''f'') =
      (Inr (), [], [''f''], \<lparr>func_name = ''f'', func_va_addr = 0x1000000000, shared_mem = 0, num_registers = 10,
       local_mem_req = 0, function_size = 4, constants = [\<lparr>const_nr = 0, const_address = 0x1000000080, const_size = 352\<rparr>],
       param_info = [], shader_local_memory_va = 0\<rparr>)"
    unfolding q_def r_def by code_simp
  obtain img secs where r: "r = (Inr (), img, secs)" "length img = 480" using a by (cases r) auto
  obtain i where q: "q = (Inr (), i)" using b by (cases q) auto
  show ?thesis
    using b q unfolding r_def [symmetric] r(1) by (simp add: r q_def)
qed

definition run_func :: func where
  "run_func = \<lparr>func_name = ''f'', func_va_addr = 0x1000000000, shared_mem = 0, num_registers = 10,
     local_mem_req = 0, function_size = 4, constants = [\<lparr>const_nr = 0, const_address = 0x1000000080, const_size = 352\<rparr>],
     param_info = [], shader_local_memory_va = 0\<rparr>"

lemma run_file:
  "elf_ok (sections run_elf)" "text_names_distinct (sections run_elf)" "image_size (sections run_elf) = 480"
  "\<forall>t \<in> set (sections run_elf). text_name t \<noteq> None \<longrightarrow> sec_type t = SHT_PROGBITS"
  "hd (sections run_elf) \<in> set (sections run_elf)" "text_name (hd (sections run_elf)) = Some ''f''"
  "moved_section (hd (sections run_elf))" "sec_data (hd (sections run_elf)) = [1, 2, 3, 4]" "module_relocs run_elf 0x1000000000 = []"
  "make_function (load_result id (module_info run_elf 0x1000000000)) ''f'' = run_func"
proof -
  obtain img secs i where im: "place_sections (sections run_elf) (image_start (sections run_elf)) = (Inr (), img, secs)" "length img = 480"
     "read_sections run_elf secs 0x1000000000 no_info = (Inr (), i)" "relocs (load_result id i) = []"
     "make_function (load_result id i) ''f'' = run_func"
    using run_image unfolding run_func_def by blast
  have info: "module_info run_elf 0x1000000000 = i" by (simp add: module_info_def im(1,3))
  show "image_size (sections run_elf) = 480" by (simp add: image_size_def im(1,2))
  show "module_relocs run_elf 0x1000000000 = []" using im(4) by (simp add: module_relocs_def info load_result_relocs)
  show "make_function (load_result id (module_info run_elf 0x1000000000)) ''f'' = run_func" by (simp add: info im(5))
  show "elf_ok (sections run_elf)"
    by (auto simp: elf_ok_def run_elf_def sections_apart_def fixed_section_def sec_end_def SHT_PROGBITS_def
        intro: exI [of _ 0] exI [of _ 2] exI [of _ 7])
  show "text_names_distinct (sections run_elf)"
    "\<forall>t \<in> set (sections run_elf). text_name t \<noteq> None \<longrightarrow> sec_type t = SHT_PROGBITS"
    by (simp_all add: run_elf_def text_names_distinct_def text_name_def name_prefix_def SHT_PROGBITS_def)
  show "hd (sections run_elf) \<in> set (sections run_elf)" "text_name (hd (sections run_elf)) = Some ''f''"
    "moved_section (hd (sections run_elf))" "sec_data (hd (sections run_elf)) = [1, 2, 3, 4]"
    by (simp_all add: run_elf_def text_name_def name_prefix_def moved_section_def SHT_PROGBITS_def)
qed

lemma run_loads:
  "\<exists>m s1 p. libreCuModuleLoadData granting (\<lambda>_. run_elf) id True (Some []) run_modl = (Inr m, s1) \<and> m \<noteq> 0 \<and>
     module_va_addr (modules s1 m) = 0x1000000000 \<and> libreCuModuleGetFunction True m ''f'' s1 = (Inr p, s1) \<and>
     funcs s1 p = run_func"
proof -
  obtain img secs i where im: "place_sections (sections run_elf) (image_start (sections run_elf)) = (Inr (), img, secs)" "length img = 480"
    "read_sections run_elf secs 0x1000000000 no_info = (Inr (), i)" "relocs (load_result id i) = []"
    using run_image by blast
  have st: "fd_ctl run_modl = 3" "uvm_vaddr (ctxs run_modl 1) = UVM_HEAP_START" "next_ptr run_modl = 3" "current_ctx run_modl = 1"
    by (simp_all add: run_modl_def demo_modl_def demo_context_def)
  have base: "alloc_base (current_ctx run_modl) False run_modl = 0x1000000000" by code_simp
  have "\<exists>m s1. libreCuModuleLoadData granting (\<lambda>_. run_elf) id True (Some []) run_modl = (Inr m, s1) \<and> next_ptr run_modl \<le> m \<and>
     map (\<lambda>p. func_name (funcs s1 p)) (mod_functions (modules s1 m)) = id (function_names i) \<and>
     module_va_addr (modules s1 m) = 0x1000000000"
    by (rule load_granted [where sz = "0x2000", OF _ _ im(1) _ _ im(3) [folded base] im(4), unfolded base])
      (simp_all add: st im(2) ceilDiv64_def va_fits_def UVM_HEAP_START_def del: One_nat_def)
  then obtain m s1 where l: "libreCuModuleLoadData granting (\<lambda>_. run_elf) id True (Some []) run_modl = (Inr m, s1)" "m \<noteq> 0"
    and va: "module_va_addr (modules s1 m) = 0x1000000000" by (auto simp: st)
  obtain p where "libreCuModuleGetFunction True m ''f'' s1 = (Inr p, s1)"
    "funcs s1 p = make_function (load_result id (module_info run_elf (module_va_addr (modules s1 m)))) ''f''"
    by (rule loaded_code [OF l]) (use run_file in auto)
  then show ?thesis using l va run_file(10) by auto
qed

definition run_dims :: launch_dims where
  "run_dims = \<lparr>gridDimX = 4, gridDimY = 1, gridDimZ = 1, blockDimX = 32, blockDimY = 1, blockDimZ = 1\<rparr>"


end
