(* ===== verification/Drf_Words.thy ===== *)
theory Drf_Words
  imports Drf
begin

text \<open>
  The remaining bit field macros of \<open>driverapi/internal/nvidia/nvmisc.h\<close>: fields of a single 32-bit or
  64-bit word (\<open>DRF_*\<close>, \<open>FLD_*\<close>, \<open>DRF_*64\<close>, \<open>FLD_*64\<close>) and fields of a byte stream (\<open>DRF_*_BS\<close>). A field
  argument \<open>hi:lo\<close> of the first kind is \<open>Bits hi lo\<close>. Of the variants for different compilers, the one
  without MISRA is taken; the ones with an index are the same macro on the field at that index.
\<close>

section \<open>Fields of one word\<close>

datatype field = Bits nat nat  \<comment> \<open>\<open>hi:lo\<close>\<close>

fun DRF_EXTENT :: "field \<Rightarrow> nat" where "DRF_EXTENT (Bits hi lo) = hi"
fun DRF_BASE :: "field \<Rightarrow> nat" where "DRF_BASE (Bits hi lo) = lo"

definition DRF_SHIFT :: "field \<Rightarrow> nat" where
  "DRF_SHIFT drf = DRF_BASE drf mod 32"

definition DRF_SHIFT_RT :: "field \<Rightarrow> nat" where
  "DRF_SHIFT_RT drf = DRF_EXTENT drf mod 32"

definition DRF_SIZE :: "field \<Rightarrow> nat" where
  "DRF_SIZE drf = DRF_EXTENT drf - DRF_BASE drf + 1"

definition DRF_MASK :: "field \<Rightarrow> NvU32" where
  "DRF_MASK drf = drop_bit (31 - DRF_EXTENT drf mod 32 + DRF_BASE drf mod 32) 0xFFFFFFFF"

definition DRF_DEF :: "field \<Rightarrow> NvU32 \<Rightarrow> NvU32" where
  "DRF_DEF drf c = push_bit (DRF_SHIFT drf) c"

definition DRF_NUM :: "field \<Rightarrow> NvU32 \<Rightarrow> NvU32" where
  "DRF_NUM drf n = push_bit (DRF_SHIFT drf) (n AND DRF_MASK drf)"

definition DRF_SHIFTMASK :: "field \<Rightarrow> NvU32" where
  "DRF_SHIFTMASK drf = push_bit (DRF_SHIFT drf) (DRF_MASK drf)"

definition DRF_VAL :: "field \<Rightarrow> NvU32 \<Rightarrow> NvU32" where
  "DRF_VAL drf v = drop_bit (DRF_SHIFT drf) v AND DRF_MASK drf"

definition DRF_VAL_SIGNED :: "field \<Rightarrow> NvU32 \<Rightarrow> NvU32" where
  "DRF_VAL_SIGNED drf v = (DRF_VAL drf v XOR push_bit (DRF_SIZE drf - 1) 1) - push_bit (DRF_SIZE drf - 1) 1"

definition FLD_SET_DRF :: "field \<Rightarrow> NvU32 \<Rightarrow> NvU32 \<Rightarrow> NvU32" where
  "FLD_SET_DRF drf c v = (v AND NOT (DRF_SHIFTMASK drf)) OR DRF_DEF drf c"

definition FLD_SET_DRF_NUM :: "field \<Rightarrow> NvU32 \<Rightarrow> NvU32 \<Rightarrow> NvU32" where
  "FLD_SET_DRF_NUM drf n v = (v AND NOT (DRF_SHIFTMASK drf)) OR DRF_NUM drf n"

definition FLD_TEST_DRF :: "field \<Rightarrow> NvU32 \<Rightarrow> NvU32 \<Rightarrow> bool" where
  "FLD_TEST_DRF drf c v \<longleftrightarrow> DRF_VAL drf v = c"

definition FLD_TEST_DRF_AND :: "field \<Rightarrow> NvU32 \<Rightarrow> NvU32 \<Rightarrow> NvU32" where
  "FLD_TEST_DRF_AND drf c v = DRF_VAL drf v AND c"

definition FLD_TEST_DRF_NUM :: "field \<Rightarrow> NvU32 \<Rightarrow> NvU32 \<Rightarrow> bool" where
  "FLD_TEST_DRF_NUM drf n v \<longleftrightarrow> DRF_VAL drf v = n"

definition DRF_SHIFT64 :: "field \<Rightarrow> nat" where
  "DRF_SHIFT64 drf = DRF_BASE drf mod 64"

definition DRF_MASK64 :: "field \<Rightarrow> NvU64" where
  "DRF_MASK64 drf = drop_bit (63 - DRF_EXTENT drf mod 64 + DRF_BASE drf mod 64) (- 1)"

definition DRF_SHIFTMASK64 :: "field \<Rightarrow> NvU64" where
  "DRF_SHIFTMASK64 drf = push_bit (DRF_SHIFT64 drf) (DRF_MASK64 drf)"

definition DRF_DEF64 :: "field \<Rightarrow> NvU64 \<Rightarrow> NvU64" where
  "DRF_DEF64 drf c = push_bit (DRF_SHIFT64 drf) c"

definition DRF_NUM64 :: "field \<Rightarrow> NvU64 \<Rightarrow> NvU64" where
  "DRF_NUM64 drf n = push_bit (DRF_SHIFT64 drf) (n AND DRF_MASK64 drf)"

definition DRF_VAL64 :: "field \<Rightarrow> NvU64 \<Rightarrow> NvU64" where
  "DRF_VAL64 drf v = drop_bit (DRF_SHIFT64 drf) v AND DRF_MASK64 drf"

definition DRF_VAL_SIGNED64 :: "field \<Rightarrow> NvU64 \<Rightarrow> NvU64" where
  "DRF_VAL_SIGNED64 drf v = (DRF_VAL64 drf v XOR push_bit (DRF_SIZE drf - 1) 1) - push_bit (DRF_SIZE drf - 1) 1"

definition FLD_SET_DRF64 :: "field \<Rightarrow> NvU64 \<Rightarrow> NvU64 \<Rightarrow> NvU64" where
  "FLD_SET_DRF64 drf c v = (v AND NOT (DRF_SHIFTMASK64 drf)) OR DRF_DEF64 drf c"

definition FLD_SET_DRF_NUM64 :: "field \<Rightarrow> NvU64 \<Rightarrow> NvU64 \<Rightarrow> NvU64" where
  "FLD_SET_DRF_NUM64 drf n v = (v AND NOT (DRF_SHIFTMASK64 drf)) OR DRF_NUM64 drf n"

definition FLD_TEST_DRF64 :: "field \<Rightarrow> NvU64 \<Rightarrow> NvU64 \<Rightarrow> bool" where
  "FLD_TEST_DRF64 drf c v \<longleftrightarrow> DRF_VAL64 drf v = c"

text \<open>
  The macros that take the whole name of the field (\<open>REF_*\<close>). \<open>REF_DEF\<close> and \<open>REF_NUM\<close> both cut the value to
  the field.
\<close>

definition REF_DEF :: "field \<Rightarrow> NvU32 \<Rightarrow> NvU32" where
  "REF_DEF drf d = push_bit (DRF_SHIFT drf) (d AND DRF_MASK drf)"

definition REF_VAL :: "field \<Rightarrow> NvU32 \<Rightarrow> NvU32" where
  "REF_VAL drf v = drop_bit (DRF_SHIFT drf) v AND DRF_MASK drf"

definition REF_NUM :: "field \<Rightarrow> NvU32 \<Rightarrow> NvU32" where
  "REF_NUM drf n = push_bit (DRF_SHIFT drf) (n AND DRF_MASK drf)"

definition FLD_TEST_REF :: "field \<Rightarrow> NvU32 \<Rightarrow> NvU32 \<Rightarrow> bool" where
  "FLD_TEST_REF drf c v \<longleftrightarrow> REF_VAL drf v = c"

definition FLD_SET_REF_NUM :: "field \<Rightarrow> NvU32 \<Rightarrow> NvU32 \<Rightarrow> NvU32" where
  "FLD_SET_REF_NUM drf n v = (v AND NOT (DRF_SHIFTMASK drf)) OR REF_NUM drf n"

definition REF_DEF64 :: "field \<Rightarrow> NvU64 \<Rightarrow> NvU64" where
  "REF_DEF64 drf d = push_bit (DRF_SHIFT64 drf) (d AND DRF_MASK64 drf)"

definition REF_VAL64 :: "field \<Rightarrow> NvU64 \<Rightarrow> NvU64" where
  "REF_VAL64 drf v = drop_bit (DRF_SHIFT64 drf) v AND DRF_MASK64 drf"

definition REF_NUM64 :: "field \<Rightarrow> NvU64 \<Rightarrow> NvU64" where
  "REF_NUM64 drf n = push_bit (DRF_SHIFT64 drf) (n AND DRF_MASK64 drf)"

definition FLD_SET_REF_NUM64 :: "field \<Rightarrow> NvU64 \<Rightarrow> NvU64 \<Rightarrow> NvU64" where
  "FLD_SET_REF_NUM64 drf n v = (v AND NOT (DRF_SHIFTMASK64 drf)) OR REF_NUM64 drf n"

text \<open>\<open>REF_NUM64\<close> as it is for \<open>MISRA_14_3\<close>, where the bounds of the field are reduced modulo 63.\<close>

definition REF_NUM64_MISRA :: "field \<Rightarrow> NvU64 \<Rightarrow> NvU64" where
  "REF_NUM64_MISRA drf n =
     push_bit (DRF_BASE drf mod 63) (n AND drop_bit (63 - DRF_EXTENT drf mod 63 + DRF_BASE drf mod 63) (- 1))"

text \<open>Reading what was written; fields lie inside the word.\<close>

fun in_word :: "nat \<Rightarrow> field \<Rightarrow> bool" where
  "in_word n (Bits hi lo) \<longleftrightarrow> lo \<le> hi \<and> hi < n"

fun field_disj :: "field \<Rightarrow> field \<Rightarrow> bool" where
  "field_disj (Bits h1 l1) (Bits h2 l2) \<longleftrightarrow> h1 < l2 \<or> h2 < l1"

fun field_cut :: "field \<Rightarrow> 'a::len word \<Rightarrow> 'a word" where
  "field_cut (Bits hi lo) n = take_bit (Suc (hi - lo)) n"

lemma bit_DRF_VAL: "in_word 32 (Bits hi lo) \<Longrightarrow> bit (DRF_VAL (Bits hi lo) v) k \<longleftrightarrow> k \<le> hi - lo \<and> bit v (lo + k)"
  by (auto simp: DRF_VAL_def DRF_SHIFT_def DRF_MASK_def bit_simps dest: bit_imp_le_length)

lemma bit_DRF_VAL64: "in_word 64 (Bits hi lo) \<Longrightarrow> bit (DRF_VAL64 (Bits hi lo) v) k \<longleftrightarrow> k \<le> hi - lo \<and> bit v (lo + k)"
  by (auto simp: DRF_VAL64_def DRF_SHIFT64_def DRF_MASK64_def bit_simps dest: bit_imp_le_length)

lemma bit_FLD_SET_DRF_NUM:
  "in_word 32 (Bits hi lo) \<Longrightarrow> bit (FLD_SET_DRF_NUM (Bits hi lo) n v) i \<longleftrightarrow>
     (if lo \<le> i \<and> i \<le> hi then bit n (i - lo) else bit v i)"
  by (auto simp: FLD_SET_DRF_NUM_def DRF_SHIFTMASK_def DRF_NUM_def DRF_SHIFT_def DRF_MASK_def bit_simps
      dest: bit_imp_le_length)

lemma bit_FLD_SET_DRF_NUM64:
  "in_word 64 (Bits hi lo) \<Longrightarrow> bit (FLD_SET_DRF_NUM64 (Bits hi lo) n v) i \<longleftrightarrow>
     (if lo \<le> i \<and> i \<le> hi then bit n (i - lo) else bit v i)"
  by (auto simp: FLD_SET_DRF_NUM64_def DRF_SHIFTMASK64_def DRF_NUM64_def DRF_SHIFT64_def DRF_MASK64_def bit_simps
      dest: bit_imp_le_length)

interpretation f32: bitfield DRF_VAL FLD_SET_DRF_NUM field_cut "\<lambda>_. in_word 32" field_disj
proof unfold_locales
  fix f g :: field and n m :: NvU32
  obtain h1 l1 h2 l2 where fg: "f = Bits h1 l1" "g = Bits h2 l2" by (cases f; cases g) auto
  show "in_word 32 f \<Longrightarrow> DRF_VAL f (FLD_SET_DRF_NUM f n m) = field_cut f n"
    unfolding fg by (rule bit_word_eqI) (auto simp: bit_DRF_VAL bit_FLD_SET_DRF_NUM bit_take_bit_iff)
  show "in_word 32 f \<Longrightarrow> in_word 32 g \<Longrightarrow> field_disj f g \<Longrightarrow> DRF_VAL f (FLD_SET_DRF_NUM g n m) = DRF_VAL f m"
    unfolding fg by (rule bit_word_eqI) (auto simp: bit_DRF_VAL bit_FLD_SET_DRF_NUM)
qed simp

interpretation f64: bitfield DRF_VAL64 FLD_SET_DRF_NUM64 field_cut "\<lambda>_. in_word 64" field_disj
proof unfold_locales
  fix f g :: field and n m :: NvU64
  obtain h1 l1 h2 l2 where fg: "f = Bits h1 l1" "g = Bits h2 l2" by (cases f; cases g) auto
  show "in_word 64 f \<Longrightarrow> DRF_VAL64 f (FLD_SET_DRF_NUM64 f n m) = field_cut f n"
    unfolding fg by (rule bit_word_eqI) (auto simp: bit_DRF_VAL64 bit_FLD_SET_DRF_NUM64 bit_take_bit_iff)
  show "in_word 64 f \<Longrightarrow> in_word 64 g \<Longrightarrow> field_disj f g \<Longrightarrow> DRF_VAL64 f (FLD_SET_DRF_NUM64 g n m) = DRF_VAL64 f m"
    unfolding fg by (rule bit_word_eqI) (auto simp: bit_DRF_VAL64 bit_FLD_SET_DRF_NUM64)
qed simp

text \<open>A constant of the field's width is shifted the same with and without the mask.\<close>

lemma and_DRF_MASK: "in_word 32 (Bits hi lo) \<Longrightarrow> c AND DRF_MASK (Bits hi lo) = take_bit (Suc (hi - lo)) c"
  by (rule bit_word_eqI) (auto simp: DRF_MASK_def bit_simps)

lemma DRF_DEF_NUM:
  "in_word 32 (Bits hi lo) \<Longrightarrow> take_bit (Suc (hi - lo)) c = c \<Longrightarrow> DRF_DEF (Bits hi lo) c = DRF_NUM (Bits hi lo) c"
  unfolding DRF_DEF_def DRF_NUM_def by (simp add: and_DRF_MASK)

lemma FLD_SET_DRF_constant:
  "in_word 32 (Bits hi lo) \<Longrightarrow> take_bit (Suc (hi - lo)) c = c \<Longrightarrow>
    FLD_SET_DRF (Bits hi lo) c v = FLD_SET_DRF_NUM (Bits hi lo) c v"
  by (simp add: FLD_SET_DRF_def FLD_SET_DRF_NUM_def DRF_DEF_NUM del: in_word.simps)

text \<open>The two variants of \<open>REF_NUM64\<close> differ on a field that reaches bit 63.\<close>

lemma REF_NUM64_variants: "REF_NUM64 (Bits 63 0) n = n" "REF_NUM64_MISRA (Bits 63 0) n = n AND 1"
  by (rule bit_word_eqI; auto simp: REF_NUM64_def REF_NUM64_MISRA_def DRF_SHIFT64_def DRF_MASK64_def bit_simps)+

text \<open>A field of the first word of an array, read by the macros for one word and for many.\<close>

lemma DRF_VAL_is_MW: "in_word 32 (Bits hi lo) \<Longrightarrow> DRF_VAL (Bits hi lo) w = DRF_VAL_MW (MW hi lo) (w # ws)"
  by (rule bit_word_eqI) (auto simp: bit_DRF_VAL bit_DRF_VAL_MW_1 mw_bit_def)

text \<open>The signed reading extends the highest bit of the field.\<close>

lemma xor_minus_sign:
  fixes w :: "'a::len word"
  assumes "s < LENGTH('a)" "\<forall>i > s. \<not> bit w i"
  shows "(w XOR push_bit s 1) - push_bit s 1 = signed_take_bit s w"
proof (cases "bit w s")
  case True
  have high: "bit w i \<Longrightarrow> i < Suc s" for i using assms(2) not_less_eq by blast
  have "w XOR push_bit s 1 = unset_bit s w" using True by (auto intro!: bit_word_eqI simp: bit_simps)
  moreover have "unset_bit s w + 2 ^ s = unset_bit s w OR 2 ^ s"
    by (rule disjunctive_add) (auto simp: bit_simps)
  moreover have "unset_bit s w OR 2 ^ s = w" using True by (auto intro!: bit_word_eqI simp: bit_simps)
  ultimately have "(w XOR push_bit s 1) - push_bit s 1 = w - 2 * 2 ^ s" by (simp add: push_bit_eq_mult algebra_simps)
  also have "\<dots> = w + NOT (mask (Suc s))" by (simp add: not_eq_complement mask_eq_exp_minus_1)
  also have "\<dots> = w OR NOT (mask (Suc s))" by (rule disjunctive_add) (auto simp: bit_simps dest: high)
  also have "\<dots> = signed_take_bit s w"
    using True assms(1) by (auto intro!: bit_word_eqI simp: bit_simps min_def less_Suc_eq dest: high split: if_splits)
  finally show ?thesis .
next
  case False
  have high: "s \<le> i \<Longrightarrow> \<not> bit w i" for i using assms(2) False by (cases "i = s") auto
  have "w XOR push_bit s 1 = w OR 2 ^ s" using False by (auto intro!: bit_word_eqI simp: bit_simps)
  moreover have "w + 2 ^ s = w OR 2 ^ s" by (rule disjunctive_add) (use False in \<open>auto simp: bit_simps\<close>)
  moreover have "signed_take_bit s w = w" using False assms(1) by (auto intro!: bit_word_eqI simp: bit_simps min_def high split: if_splits)
  ultimately show ?thesis by (simp add: push_bit_eq_mult algebra_simps)
qed

lemma DRF_VAL_SIGNED_extends:
  assumes "in_word 32 (Bits hi lo)"
  shows "DRF_VAL_SIGNED (Bits hi lo) v = signed_take_bit (hi - lo) (DRF_VAL (Bits hi lo) v)"
  using assms xor_minus_sign [of "hi - lo" "DRF_VAL (Bits hi lo) v"]
  by (auto simp: DRF_VAL_SIGNED_def DRF_SIZE_def bit_DRF_VAL)

lemma DRF_VAL_SIGNED64_extends:
  assumes "in_word 64 (Bits hi lo)"
  shows "DRF_VAL_SIGNED64 (Bits hi lo) v = signed_take_bit (hi - lo) (DRF_VAL64 (Bits hi lo) v)"
  using assms xor_minus_sign [of "hi - lo" "DRF_VAL64 (Bits hi lo) v"]
  by (auto simp: DRF_VAL_SIGNED64_def DRF_SIZE_def bit_DRF_VAL64)

end
