(* ===== verification/Drf_Bytes.thy ===== *)
theory Drf_Bytes
  imports Drf
begin

text \<open>
  The bit field macros of \<open>driverapi/internal/nvidia/nvmisc.h\<close> for a stream of bytes (\<open>DRF_*_BS\<close>). A field
  \<open>MW(hi:lo)\<close> names bits of the stream, counted from bit 0 of its first byte. Reading a byte that the
  stream does not have, which the source calls a page fault, is \<open>None\<close>. The reference semantics is the
  multi-word macro on the stream packed into little-endian words.
\<close>

section \<open>The macros\<close>

definition byte_at :: "NvU8 list \<Rightarrow> nat \<Rightarrow> NvU32 option" where
  "byte_at v i = (if i < length v then Some (ucast (v ! i)) else None)"

definition or_byte :: "NvU32 option \<Rightarrow> NvU32 option \<Rightarrow> nat \<Rightarrow> NvU32 option" where
  "or_byte a b s = Option.bind a (\<lambda>x. map_option (\<lambda>y. x OR push_bit s y) b)"

definition DRF_READ_1BYTE_BS :: "drf \<Rightarrow> NvU8 list \<Rightarrow> NvU32 option" where
  "DRF_READ_1BYTE_BS drf v = byte_at v (DRF_WORD_MW drf * 4)"

definition DRF_READ_2BYTE_BS :: "drf \<Rightarrow> NvU8 list \<Rightarrow> NvU32 option" where
  "DRF_READ_2BYTE_BS drf v = or_byte (DRF_READ_1BYTE_BS drf v) (byte_at v (DRF_WORD_MW drf * 4 + 1)) 8"

definition DRF_READ_3BYTE_BS :: "drf \<Rightarrow> NvU8 list \<Rightarrow> NvU32 option" where
  "DRF_READ_3BYTE_BS drf v = or_byte (DRF_READ_2BYTE_BS drf v) (byte_at v (DRF_WORD_MW drf * 4 + 2)) 16"

definition DRF_READ_4BYTE_BS :: "drf \<Rightarrow> NvU8 list \<Rightarrow> NvU32 option" where
  "DRF_READ_4BYTE_BS drf v = or_byte (DRF_READ_3BYTE_BS drf v) (byte_at v (DRF_WORD_MW drf * 4 + 3)) 24"

definition DRF_READ_1BYTE_BS_HIGH :: "drf \<Rightarrow> NvU8 list \<Rightarrow> NvU32 option" where
  "DRF_READ_1BYTE_BS_HIGH drf v = byte_at v (DRF_WORD_MW_HIGH drf * 4)"

definition DRF_READ_2BYTE_BS_HIGH :: "drf \<Rightarrow> NvU8 list \<Rightarrow> NvU32 option" where
  "DRF_READ_2BYTE_BS_HIGH drf v =
     or_byte (DRF_READ_1BYTE_BS_HIGH drf v) (byte_at v (DRF_WORD_MW_HIGH drf * 4 + 1)) 8"

definition DRF_READ_3BYTE_BS_HIGH :: "drf \<Rightarrow> NvU8 list \<Rightarrow> NvU32 option" where
  "DRF_READ_3BYTE_BS_HIGH drf v =
     or_byte (DRF_READ_2BYTE_BS_HIGH drf v) (byte_at v (DRF_WORD_MW_HIGH drf * 4 + 2)) 16"

definition DRF_READ_4BYTE_BS_HIGH :: "drf \<Rightarrow> NvU8 list \<Rightarrow> NvU32 option" where
  "DRF_READ_4BYTE_BS_HIGH drf v =
     or_byte (DRF_READ_3BYTE_BS_HIGH drf v) (byte_at v (DRF_WORD_MW_HIGH drf * 4 + 3)) 24"

definition DRF_READ_1WORD_BS :: "drf \<Rightarrow> NvU8 list \<Rightarrow> NvU32 option" where
  "DRF_READ_1WORD_BS drf v =
     (if DRF_EXTENT_MW drf < 8 then DRF_READ_1BYTE_BS drf v
      else if DRF_EXTENT_MW drf < 16 then DRF_READ_2BYTE_BS drf v
      else if DRF_EXTENT_MW drf < 24 then DRF_READ_3BYTE_BS drf v
      else DRF_READ_4BYTE_BS drf v)"

definition DRF_READ_1WORD_BS_HIGH :: "drf \<Rightarrow> NvU8 list \<Rightarrow> NvU32 option" where
  "DRF_READ_1WORD_BS_HIGH drf v =
     (if DRF_EXTENT_MW drf < 8 then DRF_READ_1BYTE_BS_HIGH drf v
      else if DRF_EXTENT_MW drf < 16 then DRF_READ_2BYTE_BS_HIGH drf v
      else if DRF_EXTENT_MW drf < 24 then DRF_READ_3BYTE_BS_HIGH drf v
      else DRF_READ_4BYTE_BS_HIGH drf v)"

definition DRF_VAL_BS_1WORD :: "drf \<Rightarrow> NvU8 list \<Rightarrow> NvU32 option" where
  "DRF_VAL_BS_1WORD drf v =
     map_option (\<lambda>w. drop_bit (DRF_SHIFT_MW drf) w AND DRF_MASK_MW drf) (DRF_READ_1WORD_BS drf v)"

definition DRF_VAL_BS_2WORD :: "drf \<Rightarrow> NvU8 list \<Rightarrow> NvU32 option" where
  "DRF_VAL_BS_2WORD drf v =
     or_byte (map_option (\<lambda>w. drop_bit (DRF_SHIFT_MW drf) w AND 0xFFFFFFFF) (DRF_READ_4BYTE_BS drf v))
       (map_option (\<lambda>w. drop_bit 0 w AND DRF_MASK_MW_HIGH drf) (DRF_READ_1WORD_BS_HIGH drf v))
       (DRF_MERGE_SHIFT drf)"

definition DRF_VAL_BS :: "drf \<Rightarrow> NvU8 list \<Rightarrow> NvU32 option" where
  "DRF_VAL_BS drf v = (if DRF_SPANS drf then DRF_VAL_BS_2WORD drf v else DRF_VAL_BS_1WORD drf v)"

section \<open>Little-endian words\<close>

primrec bs_word :: "NvU8 list \<Rightarrow> nat \<Rightarrow> nat \<Rightarrow> NvU32" where
  "bs_word v j 0 = 0"
| "bs_word v j (Suc n) = bs_word v j n OR push_bit (8 * n) (ucast (v ! (j + n)))"

lemma byte_range: "8 * n \<le> k \<Longrightarrow> k < 8 * Suc n \<Longrightarrow> k div 8 = n \<and> k mod 8 = k - 8 * (n::nat)"
  by (auto dest!: le_Suc_ex)

lemma bit_bs_word: "bit (bs_word v j n) k \<longleftrightarrow> k < 32 \<and> k < 8 * n \<and> bit (v ! (j + k div 8)) (k mod 8)"
proof (induction n)
  case (Suc n)
  show ?case
  proof (cases "8 * n \<le> k \<and> k < 8 * Suc n")
    case True
    then show ?thesis using byte_range [of n k] by (auto simp: Suc.IH bit_simps)
  next
    case False
    then show ?thesis by (auto simp: Suc.IH bit_simps dest: bit_imp_le_length)
  qed
qed simp

text \<open>The stream as words; bytes past its end are 0.\<close>

definition bs_words :: "NvU8 list \<Rightarrow> NvU32 list" where
  "bs_words v = map (\<lambda>i. bs_word v (4 * i) (min 4 (length v - 4 * i))) [0 ..< (length v + 3) div 4]"

lemma length_bs_words: "length (bs_words v) = (length v + 3) div 4"
  by (simp add: bs_words_def)

lemma word_of_byte: "i div 8 < length v \<Longrightarrow> i div 32 < length (bs_words v)"
  unfolding length_bs_words by (auto simp: div_less_iff_less_mult)

lemma byte_of_bit: "4 * (i div 32) + i mod 32 div 8 = i div 8" for i :: nat
proof -
  have "i mod 32 = 8 * (i div 8 mod 4) + i mod 8" using mod_mult2_eq [of i 8 4] by simp
  moreover have "i div 32 = i div 8 div 4" using div_mult2_eq [of i 8 4] by simp
  ultimately show ?thesis by simp
qed

lemma mod_in_word: "i mod 32 mod 8 = i mod (8::nat)"
  by (rule mod_mod_cancel) simp

lemma mw_bit_bs_words:
  assumes "i div 8 < length v"
  shows "mw_bit (bs_words v) i \<longleftrightarrow> bit (v ! (i div 8)) (i mod 8)"
proof -
  have "i mod 32 div 8 < 4" by (simp add: div_less_iff_less_mult)
  then have "i mod 32 div 8 < min 4 (length v - 4 * (i div 32))" using byte_of_bit [of i] assms by linarith
  then have "i mod 32 < 8 * min 4 (length v - 4 * (i div 32))" by (simp only: div_less_iff_less_mult zero_less_numeral mult.commute)
  moreover have "i div 32 < (length v + 3) div 4" using word_of_byte [OF assms] by (simp add: length_bs_words)
  ultimately show ?thesis by (simp add: mw_bit_def bs_words_def bit_bs_word byte_of_bit mod_in_word)
qed

section \<open>What the reads give\<close>

lemmas bs_reads = DRF_READ_1BYTE_BS_def DRF_READ_2BYTE_BS_def DRF_READ_3BYTE_BS_def DRF_READ_4BYTE_BS_def
  DRF_READ_1BYTE_BS_HIGH_def DRF_READ_2BYTE_BS_HIGH_def DRF_READ_3BYTE_BS_HIGH_def DRF_READ_4BYTE_BS_HIGH_def

definition read_le :: "NvU8 list \<Rightarrow> nat \<Rightarrow> nat \<Rightarrow> NvU32 option" where
  "read_le v j n = (if j + n \<le> length v then Some (bs_word v j n) else None)"

lemma or_byte_read_le: "or_byte (read_le v j n) (byte_at v (j + n)) (8 * n) = read_le v j (Suc n)"
  by (auto simp: or_byte_def read_le_def byte_at_def)

lemma byte_at_read_le: "byte_at v j = read_le v j 1"
  by (auto simp: read_le_def byte_at_def)

lemma read_le_bytes:
  "byte_at v j = read_le v j 1"
  "or_byte (read_le v j 1) (byte_at v (j + 1)) 8 = read_le v j 2"
  "or_byte (read_le v j 2) (byte_at v (j + 2)) 16 = read_le v j 3"
  "or_byte (read_le v j 3) (byte_at v (j + 3)) 24 = read_le v j 4"
  using or_byte_read_le [of v j 1] or_byte_read_le [of v j 2] or_byte_read_le [of v j 3]
  by (simp_all add: byte_at_read_le eval_nat_numeral)

lemma one_word_reads:
  assumes "e < 32"
  shows "(if e < 8 then read_le v j 1 else if e < 16 then read_le v j 2 else if e < 24 then read_le v j 3
      else read_le v j 4) = read_le v j (Suc (e div 8))"
proof -
  consider "e < 8" | "8 \<le> e" "e < 16" | "16 \<le> e" "e < 24" | "24 \<le> e" by linarith
  then show ?thesis
  proof cases
    case 2 then have "e div 8 = 1" by (intro div_nat_eqI) auto
    then show ?thesis using 2 by (simp add: numeral_2_eq_2)
  next
    case 3 then have "e div 8 = 2" by (intro div_nat_eqI) auto
    then show ?thesis using 3 by simp
  next
    case 4 then have "e div 8 = 3" using assms by (intro div_nat_eqI) auto
    then show ?thesis using 4 by simp
  qed simp
qed

lemma DRF_READ_1WORD_BS_eq:
  "DRF_READ_1WORD_BS drf v = read_le v (4 * DRF_WORD_MW drf) (Suc (DRF_EXTENT_MW drf div 8))"
  "DRF_READ_1WORD_BS_HIGH drf v = read_le v (4 * DRF_WORD_MW_HIGH drf) (Suc (DRF_EXTENT_MW drf div 8))"
  "DRF_READ_4BYTE_BS drf v = read_le v (4 * DRF_WORD_MW drf) 4"
proof -
  have e: "DRF_EXTENT_MW drf < 32" by (simp add: DRF_EXTENT_MW_def)
  note r = byte_at_read_le [of v "4 * DRF_WORD_MW drf"] read_le_bytes(2-4) [of v "4 * DRF_WORD_MW drf"]
  note rh = byte_at_read_le [of v "4 * DRF_WORD_MW_HIGH drf"] read_le_bytes(2-4) [of v "4 * DRF_WORD_MW_HIGH drf"]
  show "DRF_READ_4BYTE_BS drf v = read_le v (4 * DRF_WORD_MW drf) 4"
    unfolding bs_reads mult.commute [of _ 4] r by (rule refl)
  show "DRF_READ_1WORD_BS drf v = read_le v (4 * DRF_WORD_MW drf) (Suc (DRF_EXTENT_MW drf div 8))"
    unfolding DRF_READ_1WORD_BS_def bs_reads mult.commute [of _ 4] r by (rule one_word_reads [OF e])
  show "DRF_READ_1WORD_BS_HIGH drf v = read_le v (4 * DRF_WORD_MW_HIGH drf) (Suc (DRF_EXTENT_MW drf div 8))"
    unfolding DRF_READ_1WORD_BS_HIGH_def bs_reads mult.commute [of _ 4] rh by (rule one_word_reads [OF e])
qed

lemma read_le_within: "read_le v j n = Some w \<Longrightarrow> bit w k \<longleftrightarrow> k < 32 \<and> k < 8 * n \<and> bit (v ! (j + k div 8)) (k mod 8)"
  by (auto simp: read_le_def bit_bs_word split: if_splits)

text \<open>Each read sees the word of the packed stream, as far as it was read.\<close>

lemma bit_bs_words_word:
  assumes "q * 4 + k div 8 < length v" "k < 32"
  shows "bit (bs_words v ! q) k \<longleftrightarrow> bit (v ! (4 * q + k div 8)) (k mod 8)"
proof -
  have "(32 * q + k) div 32 = q" "(32 * q + k) mod 32 = k" using assms(2) by auto
  then show ?thesis
    using mw_bit_bs_words [of "32 * q + k" v] byte_of_bit [of "32 * q + k"] mod_in_word [of "32 * q + k"] assms(1)
    by (simp add: mw_bit_def mult.commute)
qed

lemma read_le_bs_words:
  assumes "read_le v (4 * q) n = Some w" "n \<le> 4"
  shows "w = take_bit (8 * n) (bs_words v ! q)"
proof (rule bit_word_eqI)
  fix k assume "k < LENGTH(32)"
  moreover have "k < 8 * n \<Longrightarrow> q * 4 + k div 8 < length v"
    using assms(1) div_less_iff_less_mult [of 8 k n] by (auto simp: read_le_def split: if_splits)
  ultimately show "bit w k \<longleftrightarrow> bit (take_bit (8 * n) (bs_words v ! q)) k"
    using read_le_within [OF assms(1), of k] bit_bs_words_word [of q k v] by (auto simp: bit_take_bit_iff)
qed

lemma read_le_Some: "j + n \<le> length v \<Longrightarrow> \<exists>w. read_le v j n = Some w"
  by (simp add: read_le_def)

lemma and_take_bit: "(\<And>k. bit m k \<Longrightarrow> k < n) \<Longrightarrow> take_bit n w AND m = w AND (m :: 'a::len word)"
  by (rule bit_word_eqI) (auto simp: bit_simps)

lemma drop_take_and:
  "(\<And>k. bit m k \<Longrightarrow> s + k < n) \<Longrightarrow> drop_bit s (take_bit n w) AND m = drop_bit s w AND (m :: 'a::len word)"
  by (rule bit_word_eqI) (auto simp: bit_simps)

lemma within_bytes: "e < 8 * Suc (e div 8)" for e :: nat
  using dividend_less_times_div [of 8 e] by simp

lemma read_bytes_ok: "4 * (i div 32) + Suc (i mod 32 div 8) \<le> n \<longleftrightarrow> i div 8 < n"
  using byte_of_bit [of i] by auto

lemma DRF_VAL_BS_1:
  assumes "lo \<le> hi" "hi div 32 = lo div 32"
  shows "DRF_VAL_BS_1WORD (MW hi lo) v =
     (if hi div 8 < length v then Some (DRF_VAL_MW_1WORD (MW hi lo) (bs_words v)) else None)"
proof -
  let ?n = "Suc (hi mod 32 div 8)" and ?q = "lo div 32"
  have ok: "drf_ok (Suc ?q) (MW hi lo)" using assms by simp
  have low: "bit (DRF_MASK_MW (MW hi lo)) k \<Longrightarrow> lo mod 32 + k < 8 * ?n" for k
  proof -
    assume "bit (DRF_MASK_MW (MW hi lo)) k"
    then have "k \<le> hi mod 32 - lo mod 32" using bit_DRF_MASK_MW [OF ok] same_word(2) [OF assms] by simp
    then have "lo mod 32 + k \<le> hi mod 32" using same_word(1) [OF assms] by (simp add: le_diff_conv2 add.commute)
    then show ?thesis using within_bytes by (rule le_less_trans)
  qed
  have r: "DRF_READ_1WORD_BS (MW hi lo) v = read_le v (4 * ?q) ?n"
    by (simp add: DRF_READ_1WORD_BS_eq DRF_WORD_MW_def DRF_EXTENT_MW_def)
  have le: "?n \<le> 4" by (simp add: Suc_le_eq div_less_iff_less_mult)
  show ?thesis
  proof (cases "hi div 8 < length v")
    case True
    then obtain w where w: "read_le v (4 * ?q) ?n = Some w"
      using read_le_Some [of "4 * ?q" ?n v] read_bytes_ok [of hi "length v"] assms(2) by auto
    show ?thesis
      using True unfolding DRF_VAL_BS_1WORD_def r w read_le_bs_words [OF w le]
      by (simp add: DRF_VAL_MW_1WORD_def DRF_WORD_MW_def DRF_SHIFT_MW_def drop_take_and [OF low] del: mult_Suc_right)
  next
    case False
    then have "read_le v (4 * ?q) ?n = None" using read_bytes_ok [of hi "length v"] assms(2) by (simp add: read_le_def)
    then show ?thesis using False by (simp add: DRF_VAL_BS_1WORD_def r)
  qed
qed

lemma DRF_VAL_BS_2:
  assumes "lo \<le> hi" "hi div 32 \<noteq> lo div 32"
  shows "DRF_VAL_BS_2WORD (MW hi lo) v =
     (if hi div 8 < length v then Some (DRF_VAL_MW_2WORD (MW hi lo) (bs_words v)) else None)"
proof -
  let ?n = "Suc (hi mod 32 div 8)" and ?q = "lo div 32" and ?q' = "hi div 32"
  have lt: "?q < ?q'" using assms div_le_mono [of lo hi 32] by simp
  have high: "bit (DRF_MASK_MW_HIGH (MW hi lo)) k \<Longrightarrow> k < 8 * ?n" for k
    using within_bytes [of "hi mod 32"] by (auto simp: DRF_MASK_MW_HIGH_def DRF_EXTENT_MW_def bit_simps)
  have r: "DRF_READ_4BYTE_BS (MW hi lo) v = read_le v (4 * ?q) 4"
    "DRF_READ_1WORD_BS_HIGH (MW hi lo) v = read_le v (4 * ?q') ?n"
    by (simp_all add: DRF_READ_1WORD_BS_eq DRF_WORD_MW_def DRF_WORD_MW_HIGH_def DRF_EXTENT_MW_def)
  have le: "?n \<le> 4" by (simp add: Suc_le_eq div_less_iff_less_mult)
  show ?thesis
  proof (cases "hi div 8 < length v")
    case True
    then have in_stream: "4 * ?q' + ?n \<le> length v" "4 * ?q + 4 \<le> length v"
      using read_bytes_ok [of hi "length v"] lt by auto
    obtain w w' where w: "read_le v (4 * ?q) 4 = Some w" and w': "read_le v (4 * ?q') ?n = Some w'"
      using in_stream [THEN read_le_Some] by blast
    have "w = bs_words v ! ?q" using read_le_bs_words [OF w] by (simp add: take_bit_word_eq_self)
    then show ?thesis
      using True unfolding DRF_VAL_BS_2WORD_def r w w' read_le_bs_words [OF w' le]
      by (simp add: or_byte_def DRF_VAL_MW_2WORD_def DRF_WORD_MW_def DRF_WORD_MW_HIGH_def DRF_SHIFT_MW_def
          and_take_bit [OF high] del: mult_Suc_right)
  next
    case False
    then have "read_le v (4 * ?q') ?n = None" using read_bytes_ok [of hi "length v"] by (simp add: read_le_def)
    then show ?thesis using False by (simp add: DRF_VAL_BS_2WORD_def r or_byte_def split: bind_split)
  qed
qed

text \<open>
  C37: reading a field of at most 32 bits from a stream of bytes gives what the multi-word macro gives on the
  stream packed into little-endian words, that is bit \<open>k\<close> of the result is bit \<open>(lo + k) mod 8\<close> of byte
  \<open>(lo + k) div 8\<close>; and it faults only when the last byte of the field itself is past the end of the
  stream, so no byte beyond those that hold the field is read.
\<close>

theorem byte_stream_fields:
  assumes "lo \<le> hi" "hi - lo < 32"
  shows "DRF_VAL_BS (MW hi lo) v =
      (if hi div 8 < length v then Some (DRF_VAL_MW (MW hi lo) (bs_words v)) else None) \<and>
    (hi div 8 < length v \<longrightarrow> (\<forall>k. bit (the (DRF_VAL_BS (MW hi lo) v)) k \<longleftrightarrow>
      k \<le> hi - lo \<and> bit (v ! ((lo + k) div 8)) ((lo + k) mod 8)))"
proof -
  have eq: "DRF_VAL_BS (MW hi lo) v =
      (if hi div 8 < length v then Some (DRF_VAL_MW (MW hi lo) (bs_words v)) else None)"
    using DRF_VAL_BS_1 [OF assms(1)] DRF_VAL_BS_2 [OF assms(1)]
    by (simp add: DRF_VAL_BS_def DRF_VAL_MW_def DRF_SPANS_def)
  have "bit (DRF_VAL_MW (MW hi lo) (bs_words v)) k \<longleftrightarrow>
      k \<le> hi - lo \<and> bit (v ! ((lo + k) div 8)) ((lo + k) mod 8)" if len: "hi div 8 < length v" for k
  proof -
    have "hi div 32 < length (bs_words v)" using word_of_byte [OF len] .
    then have "bit (DRF_VAL_MW (MW hi lo) (bs_words v)) k \<longleftrightarrow> k \<le> hi - lo \<and> mw_bit (bs_words v) (lo + k)"
      using bit_DRF_VAL_MW_1 [of "bs_words v" hi lo] bit_DRF_VAL_MW_2 [OF assms] assms(1)
      by (cases "hi div 32 = lo div 32") auto
    moreover have "k \<le> hi - lo \<Longrightarrow> (lo + k) div 8 < length v"
      using len assms(1) div_le_mono [of "lo + k" hi 8] by linarith
    ultimately show ?thesis by (auto simp: mw_bit_bs_words)
  qed
  then show ?thesis by (simp add: eq)
qed

theorem byte_stream_fields_witness:
  "DRF_VAL_BS (MW 39 28) [0, 0, 0, 0x50, 0xA7] = Some (DRF_VAL_MW (MW 39 28) (bs_words [0, 0, 0, 0x50, 0xA7])) \<and>
    DRF_VAL_BS (MW 39 28) [0, 0, 0, 0x50, 0xA7] = Some 0xA75 \<and> DRF_VAL_BS (MW 39 28) [0, 0, 0, 0x50] = None"
proof -
  have "DRF_VAL_BS (MW 39 28) [0, 0, 0, 0x50, 0xA7] = Some 0xA75" by code_simp
  then show ?thesis
    using byte_stream_fields [of 28 39 "[0, 0, 0, 0x50, 0xA7]"] byte_stream_fields [of 28 39 "[0, 0, 0, 0x50]"] by simp
qed

end
