(* ===== verification/Bit_Utils.thy ===== *)
theory Bit_Utils
  imports Prelude
begin

text \<open>
  The bit utilities of \<open>driverapi/internal/nvidia/nvmisc.h\<close>: counting and finding set bits, powers of
  two, iteration over a mask and alignment. Each is written with the shifts and masks of the source and
  compared with what it computes: the set of the positions of the bits that are set, or the number.
  A shift by the width of the operand or more, undefined in C, gives 0 here.
\<close>

section \<open>Single bits and pairs of words\<close>

definition NVBIT32 :: "nat \<Rightarrow> NvU32" where "NVBIT32 b = push_bit b 1"
definition NVBIT64 :: "nat \<Rightarrow> NvU64" where "NVBIT64 b = push_bit b 1"

definition NV_CONCAT_32_TO_64 :: "NvU32 \<Rightarrow> NvU32 \<Rightarrow> NvU64" where
  "NV_CONCAT_32_TO_64 hi lo = push_bit 32 (ucast hi) OR ucast lo"

text \<open>The index of the bit that is set, when there is only one.\<close>

definition BIT_IDX_32 :: "NvU32 \<Rightarrow> NvU32" where
  "BIT_IDX_32 n =
     (if n AND 0xFFFF0000 \<noteq> 0 then 0x10 else 0) OR
     (if n AND 0xFF00FF00 \<noteq> 0 then 0x08 else 0) OR
     (if n AND 0xF0F0F0F0 \<noteq> 0 then 0x04 else 0) OR
     (if n AND 0xCCCCCCCC \<noteq> 0 then 0x02 else 0) OR
     (if n AND 0xAAAAAAAA \<noteq> 0 then 0x01 else 0)"

definition BIT_IDX_64 :: "NvU64 \<Rightarrow> NvU32" where
  "BIT_IDX_64 n =
     (if n AND 0xFFFFFFFF00000000 \<noteq> 0 then 0x20 else 0) OR
     (if n AND 0xFFFF0000FFFF0000 \<noteq> 0 then 0x10 else 0) OR
     (if n AND 0xFF00FF00FF00FF00 \<noteq> 0 then 0x08 else 0) OR
     (if n AND 0xF0F0F0F0F0F0F0F0 \<noteq> 0 then 0x04 else 0) OR
     (if n AND 0xCCCCCCCCCCCCCCCC \<noteq> 0 then 0x02 else 0) OR
     (if n AND 0xAAAAAAAAAAAAAAAA \<noteq> 0 then 0x01 else 0)"

definition LOWESTBIT :: "'a::len word \<Rightarrow> 'a word" where
  "LOWESTBIT x = x AND ((x - 1) XOR x)"

definition ONEBITSET :: "'a::len word \<Rightarrow> bool" where
  "ONEBITSET x \<longleftrightarrow> x \<noteq> 0 \<and> x AND (x - 1) = 0"

definition LOWESTBITIDX_32 :: "NvU32 \<Rightarrow> NvU32" where
  "LOWESTBITIDX_32 n32 = BIT_IDX_32 (LOWESTBIT n32)"

definition LOWESTBITIDX_64 :: "NvU64 \<Rightarrow> NvU32" where
  "LOWESTBITIDX_64 n64 = BIT_IDX_64 (LOWESTBIT n64)"

text \<open>\<open>while (n32 >>= 1) count++\<close>, with \<open>n\<close> shifted before it is tested.\<close>

lemma shift_smaller: "n \<noteq> 0 \<Longrightarrow> unat (drop_bit 1 (n :: 'a::len word)) < unat n"
  unfolding unat_drop_bit_eq by (simp add: drop_bit_eq_div unat_gt_0)

function highest_loop :: "NvU32 \<Rightarrow> NvU32 \<Rightarrow> NvU32" where
  "highest_loop n32 count = (let n32 = drop_bit 1 n32 in if n32 \<noteq> 0 then highest_loop n32 (count + 1) else count)"
  by pat_completeness auto
termination
proof (relation "measure (\<lambda>(n, c). unat n)")
  fix n x :: NvU32 assume "x = drop_bit 1 n" "x \<noteq> 0"
  then show "((x, c + 1), n, c) \<in> measure (\<lambda>(n, c). unat n)" for c :: NvU32
    using shift_smaller [of n] by (cases "n = 0") auto
qed simp

declare highest_loop.simps [simp del]

definition HIGHESTBITIDX_32 :: "NvU32 \<Rightarrow> NvU32" where
  "HIGHESTBITIDX_32 n32 = highest_loop n32 0"

definition HIGHESTBIT :: "NvU32 \<Rightarrow> NvU32" where
  "HIGHESTBIT n32 = NVBIT32 (unat (HIGHESTBITIDX_32 n32))"

section \<open>Counting bits\<close>

definition nvPopCount32 :: "NvU32 \<Rightarrow> NvU32" where
  "nvPopCount32 x =
     (let temp = x;
          temp = temp - (drop_bit 1 temp AND 0x55555555);
          temp = (temp AND 0x33333333) + (drop_bit 2 temp AND 0x33333333);
          temp = drop_bit 24 (((temp + drop_bit 4 temp) AND 0x0F0F0F0F) * 0x01010101)
      in temp)"

definition nvPopCount64 :: "NvU64 \<Rightarrow> NvU32" where
  "nvPopCount64 x =
     (let temp = x;
          temp = temp - (drop_bit 1 temp AND 0x5555555555555555);
          temp = (temp AND 0x3333333333333333) + (drop_bit 2 temp AND 0x3333333333333333);
          temp = (temp + drop_bit 4 temp) AND 0x0F0F0F0F0F0F0F0F;
          temp = drop_bit 56 (temp * 0x0101010101010101)
      in ucast temp)"

definition nvMaskPos32 :: "NvU32 \<Rightarrow> NvU32 \<Rightarrow> NvU32" where
  "nvMaskPos32 m bitIdx = nvPopCount32 (m AND (NVBIT32 (unat bitIdx) - 1))"

section \<open>Powers of two\<close>

definition nvNextPow2_U32 :: "NvU32 \<Rightarrow> NvU32" where
  "nvNextPow2_U32 x =
     (let y = x; y = y - 1; y = y OR drop_bit 1 y; y = y OR drop_bit 2 y; y = y OR drop_bit 4 y;
          y = y OR drop_bit 8 y; y = y OR drop_bit 16 y
      in y + 1)"

definition nvPrevPow2_U32 :: "NvU32 \<Rightarrow> NvU32" where
  "nvPrevPow2_U32 x =
     (let y = x; y = y OR drop_bit 1 y; y = y OR drop_bit 2 y; y = y OR drop_bit 4 y;
          y = y OR drop_bit 8 y; y = y OR drop_bit 16 y
      in y - drop_bit 1 y)"

definition nvPrevPow2_U64 :: "NvU64 \<Rightarrow> NvU64" where
  "nvPrevPow2_U64 x =
     (let y = x; y = y OR drop_bit 1 y; y = y OR drop_bit 2 y; y = y OR drop_bit 4 y;
          y = y OR drop_bit 8 y; y = y OR drop_bit 16 y; y = y OR drop_bit 32 y
      in y - drop_bit 1 y)"

definition ROUNDUP_POW2_U64 :: "NvU64 \<Rightarrow> NvU64" where
  "ROUNDUP_POW2_U64 n64 =
     (let y = n64 - 1; y = y OR drop_bit 1 y; y = y OR drop_bit 2 y; y = y OR drop_bit 4 y;
          y = y OR drop_bit 8 y; y = y OR drop_bit 16 y; y = y OR drop_bit 32 y
      in y + 1)"

section \<open>Masks\<close>

definition NV_BITMASK64 :: "int \<Rightarrow> NvU64" where
  "NV_BITMASK64 n = (if n < 1 then 0 else drop_bit (if n > 64 then 0 else nat (64 - n)) (- 1))"

definition NV_TWO_N_MINUS_ONE :: "nat \<Rightarrow> NvU64" where
  "NV_TWO_N_MINUS_ONE n = push_bit ((n + 1) div 2) (push_bit (n div 2) 1) - 1"

text \<open>
  \<open>FOR_EACH_INDEX_IN_MASK(64, index, mask) body\<close>: \<open>lclMsk\<close> moves right by one in every pass, also in one
  that \<open>continue\<close> ends.
\<close>

function for_each_index :: "(nat \<Rightarrow> 's \<Rightarrow> 's) \<Rightarrow> nat \<Rightarrow> NvU64 \<Rightarrow> 's \<Rightarrow> 's" where
  "for_each_index body index lclMsk s =
     (if lclMsk = 0 then s
      else for_each_index body (index + 1) (drop_bit 1 lclMsk)
        (if NVBIT64 0 AND lclMsk = 0 then s else body index s))"
  by pat_completeness auto
termination
  by (relation "measure (\<lambda>(b, i, m, s). unat m)") (use shift_smaller in auto)

declare for_each_index.simps [simp del]

section \<open>Alignment\<close>

definition NV_ALIGN_DOWN :: "'a::len word \<Rightarrow> 'a word \<Rightarrow> 'a word" where
  "NV_ALIGN_DOWN v gran = v AND NOT (v - v + gran - 1)"

definition NV_ALIGN_UP :: "'a::len word \<Rightarrow> 'a word \<Rightarrow> 'a word" where
  "NV_ALIGN_UP v gran = (v + (gran - 1)) AND NOT (v - v + gran - 1)"

definition NV_IS_ALIGNED :: "'a::len word \<Rightarrow> 'a word \<Rightarrow> bool" where
  "NV_IS_ALIGNED v gran \<longleftrightarrow> 0 = v AND (gran - 1)"

definition NV_CEIL :: "'a::len word \<Rightarrow> 'a word \<Rightarrow> 'a word" where
  "NV_CEIL a b = (a + b - 1) div b"

end
