(* ===== verification/Bit_Counting.thy ===== *)
theory Bit_Counting
  imports Bit_Utils
begin

text \<open>
  The population count of \<open>driverapi/internal/nvidia/nvmisc.h\<close> counts the bits: the proof follows the
  intermediate words as numbers with digits in fields of two, four and eight bits.
\<close>

section \<open>Counting bits is counting\<close>

text \<open>
  The intermediate words hold sums of neighbouring bits in fields of two, four and eight bits.
  \<open>pack k ds\<close> is a number with the digits \<open>ds\<close>, the lowest first, in fields of \<open>k\<close> bits.
\<close>

definition pack :: "nat \<Rightarrow> nat list \<Rightarrow> nat" where
  "pack k ds = horner_sum id (2 ^ k) ds"

lemma pack_simps [simp]: "pack k [] = 0" "pack k (d # ds) = d + 2 ^ k * pack k ds"
  by (simp_all add: pack_def)

fun pairsum :: "nat list \<Rightarrow> nat list" where
  "pairsum (x # y # ds) = (x + y) # pairsum ds"
| "pairsum _ = []"

text \<open>The mask that keeps every other field of \<open>k\<close> bits, for \<open>n\<close> pairs of fields.\<close>

definition alternate :: "nat \<Rightarrow> nat \<Rightarrow> nat" where
  "alternate k n = pack (2 * k) (replicate n (2 ^ k - 1))"

lemma alternate_Suc: "alternate k (Suc n) = (2 ^ k - 1) + 2 ^ (2 * k) * alternate k n"
  by (simp add: alternate_def)

lemma and_split:
  fixes a b c d :: nat
  assumes "a < 2 ^ n" "c < 2 ^ n"
  shows "(a + 2 ^ n * b) AND (c + 2 ^ n * d) = (a AND c) + 2 ^ n * (b AND d)"
proof -
  let ?v = "a + 2 ^ n * b" and ?w = "c + 2 ^ n * d"
  have p: "take_bit n ?v = a" "drop_bit n ?v = b" "take_bit n ?w = c" "drop_bit n ?w = d"
    using assms by (simp_all add: take_bit_eq_mod drop_bit_eq_div)
  have "take_bit n (?v AND ?w) = (a AND c)" "drop_bit n (?v AND ?w) = (b AND d)"
    by (simp_all only: take_bit_and drop_bit_and p)
  then show ?thesis using bits_ident [of n "?v AND ?w"] by (simp add: push_bit_eq_mult ac_simps)
qed

lemma and_low: "x < 2 ^ k \<Longrightarrow> (x + 2 ^ k * y) AND (2 ^ k - 1) = (x :: nat)"
  unfolding mask_eq_exp_minus_1 [symmetric] take_bit_eq_mask [symmetric] by (simp add: take_bit_eq_mod)


text \<open>One stage: the digits are added in pairs.\<close>

lemma pair_stage:
  assumes "\<forall>d \<in> set ds. d < 2 ^ k" "length ds = 2 * n"
  shows "(pack k ds AND alternate k n) + (drop_bit k (pack k ds) AND alternate k n) = pack (2 * k) (pairsum ds)"
    "(pack k ds AND alternate k n) + 2 ^ k * (drop_bit k (pack k ds) AND alternate k n) = pack k ds"
proof -
  have "(pack k ds AND alternate k n) + (drop_bit k (pack k ds) AND alternate k n) = pack (2 * k) (pairsum ds) \<and>
    (pack k ds AND alternate k n) + 2 ^ k * (drop_bit k (pack k ds) AND alternate k n) = pack k ds"
    using assms
  proof (induction ds arbitrary: n rule: pairsum.induct)
    case (1 x y ds)
    obtain m where n: "n = Suc m" "length ds = 2 * m" using 1(3) by (cases n) auto
    let ?r = "pack k ds" and ?M = "alternate k m"
    have dx: "x < 2 ^ k" using 1(2) by simp
    have dy: "y < 2 ^ k" using 1(2) by simp
    have sq: "(2::nat) ^ (2 * k) = 2 ^ k * 2 ^ k" by (simp add: mult_2 power_add)
    have small: "x + 2 ^ k * y < 2 ^ (2 * k)" "y + 2 ^ k * (?r mod 2 ^ k) < 2 ^ (2 * k)" "(2::nat) ^ k - 1 < 2 ^ (2 * k)"
    proof -
      have le: "a + 2 ^ k * b < 2 ^ (2 * k)" if "a < 2 ^ k" "b < 2 ^ k" for a b :: nat
      proof -
        have "2 ^ k * Suc b \<le> 2 ^ k * 2 ^ k" using that(2) by (intro mult_le_mono2) simp
        then show ?thesis using that(1) unfolding sq by simp
      qed
      show "x + 2 ^ k * y < 2 ^ (2 * k)" "y + 2 ^ k * (?r mod 2 ^ k) < 2 ^ (2 * k)" using le dx dy by simp_all
      show "(2::nat) ^ k - 1 < 2 ^ (2 * k)" using le [of "2 ^ k - 1" 0] by simp
    qed
    have whole: "pack k (x # y # ds) = (x + 2 ^ k * y) + 2 ^ (2 * k) * ?r"
      by (simp only: pack_simps sq) (simp add: algebra_simps)
    have shifted: "drop_bit k (pack k (x # y # ds)) = (y + 2 ^ k * (?r mod 2 ^ k)) + 2 ^ (2 * k) * drop_bit k ?r"
    proof -
      have "drop_bit k (pack k (x # y # ds)) = y + 2 ^ k * ?r" using dx by (simp add: drop_bit_eq_div)
      moreover have "2 ^ k * ?r = 2 ^ k * (?r mod 2 ^ k) + 2 ^ (2 * k) * (?r div 2 ^ k)"
        using arg_cong [OF mod_mult_div_eq [of ?r "2 ^ k"], of "(*) (2 ^ k)"]
        by (simp only: distrib_left sq mult.assoc)
      ultimately show ?thesis by (simp only: drop_bit_eq_div [where n = k and a = ?r] add.assoc)
    qed
    have a1: "pack k (x # y # ds) AND alternate k n = x + 2 ^ (2 * k) * (?r AND ?M)"
      unfolding whole n(1) alternate_Suc and_split [OF small(1,3)] and_low [OF dx] ..
    have a2: "drop_bit k (pack k (x # y # ds)) AND alternate k n = y + 2 ^ (2 * k) * (drop_bit k ?r AND ?M)"
      unfolding shifted n(1) alternate_Suc and_split [OF small(2,3)] and_low [OF dy] ..
    have IH: "(?r AND ?M) + (drop_bit k ?r AND ?M) = pack (2 * k) (pairsum ds)"
      "(?r AND ?M) + 2 ^ k * (drop_bit k ?r AND ?M) = ?r"
      using 1(1) [of m] 1(2) n(2) by auto
    show ?case
    proof
      show "(pack k (x # y # ds) AND alternate k n) + (drop_bit k (pack k (x # y # ds)) AND alternate k n) =
          pack (2 * k) (pairsum (x # y # ds))"
        unfolding a1 a2 pairsum.simps pack_simps(2) [of "2 * k"] IH(1) [symmetric] by (simp add: algebra_simps)
      have "x + 2 ^ (2 * k) * (?r AND ?M) + 2 ^ k * (y + 2 ^ (2 * k) * (drop_bit k ?r AND ?M)) =
          (x + 2 ^ k * y) + 2 ^ (2 * k) * ((?r AND ?M) + 2 ^ k * (drop_bit k ?r AND ?M))"
        by (simp add: algebra_simps)
      from this show "(pack k (x # y # ds) AND alternate k n) + 2 ^ k * (drop_bit k (pack k (x # y # ds)) AND alternate k n) =
          pack k (x # y # ds)"
        unfolding a1 a2 unfolding IH(2) whole .
    qed
  qed (auto simp: alternate_def)
  then show "(pack k ds AND alternate k n) + (drop_bit k (pack k ds) AND alternate k n) = pack (2 * k) (pairsum ds)"
    "(pack k ds AND alternate k n) + 2 ^ k * (drop_bit k (pack k ds) AND alternate k n) = pack k ds" by simp_all
qed

lemma pairsum_facts:
  assumes "length ds = 2 * n" "\<forall>d \<in> set ds. d \<le> m"
  shows "length (pairsum ds) = n \<and> sum_list (pairsum ds) = sum_list ds \<and> (\<forall>d \<in> set (pairsum ds). d \<le> 2 * m)"
  using assms
proof (induction ds arbitrary: n rule: pairsum.induct)
  case (1 x y ds)
  then show ?case by (cases n) fastforce+
qed auto

lemma pack_less: "\<forall>d \<in> set ds. d < 2 ^ k \<Longrightarrow> pack k ds < 2 ^ (k * length ds)"
proof (induction ds)
  case (Cons d ds)
  have "2 ^ k * Suc (pack k ds) \<le> 2 ^ k * 2 ^ (k * length ds)" using Cons by (intro mult_le_mono2) simp
  then show ?case using Cons.prems by (simp add: power_add)
qed simp


text \<open>The variant that masks after adding, which needs room for the carries.\<close>

lemma pack_mod: "\<forall>d \<in> set ds. d \<le> m \<Longrightarrow> m < 2 ^ k \<Longrightarrow> pack k ds mod 2 ^ k \<le> m"
  by (cases ds) (auto simp: le_less_trans)

lemma add_stage:
  assumes "\<forall>d \<in> set ds. d \<le> m" "2 * m < 2 ^ k" "length ds = 2 * n"
  shows "(pack k ds + drop_bit k (pack k ds)) AND alternate k n = pack (2 * k) (pairsum ds) \<and>
    pack k ds + drop_bit k (pack k ds) < 2 ^ (k * length ds)"
  using assms(1,3)
proof (induction ds arbitrary: n rule: pairsum.induct)
  case (1 x y ds)
  obtain l where n: "n = Suc l" "length ds = 2 * l" using 1(3) by (cases n) auto
  let ?r = "pack k ds"
  have m: "x \<le> m" "y \<le> m" "?r mod 2 ^ k \<le> m" using 1(2) assms(2) pack_mod [of ds m k] by auto
  have sq: "(2::nat) ^ (2 * k) = 2 ^ k * 2 ^ k" by (simp add: mult_2 power_add)
  have low: "(x + y) + 2 ^ k * (y + ?r mod 2 ^ k) < 2 ^ (2 * k)" "(2::nat) ^ k - 1 < 2 ^ (2 * k)" "x + y < 2 ^ k"
  proof -
    have "2 ^ k * Suc (y + ?r mod 2 ^ k) \<le> 2 ^ k * 2 ^ k" using m assms(2) by (intro mult_le_mono2) simp
    then show "(x + y) + 2 ^ k * (y + ?r mod 2 ^ k) < 2 ^ (2 * k)" using m assms(2) unfolding sq by simp
    show "(2::nat) ^ k - 1 < 2 ^ (2 * k)" by (rule less_le_trans [of _ "2 ^ k"]) (simp_all add: power_increasing)
    show "x + y < 2 ^ k" using m assms(2) by simp
  qed
  have shifted: "drop_bit k (pack k (x # y # ds)) = y + 2 ^ k * ?r" using m(1) assms(2) by (simp add: drop_bit_eq_div)
  have "2 ^ k * ?r = 2 ^ k * (?r mod 2 ^ k) + 2 ^ (2 * k) * drop_bit k ?r"
    using arg_cong [OF mod_mult_div_eq [of ?r "2 ^ k"], of "(*) (2 ^ k)"]
    by (simp only: distrib_left sq mult.assoc drop_bit_eq_div)
  then have sum: "pack k (x # y # ds) + drop_bit k (pack k (x # y # ds)) =
      ((x + y) + 2 ^ k * (y + ?r mod 2 ^ k)) + 2 ^ (2 * k) * (?r + drop_bit k ?r)"
    unfolding shifted by (simp only: pack_simps sq) (simp add: algebra_simps)
  have IH: "(?r + drop_bit k ?r) AND alternate k l = pack (2 * k) (pairsum ds)"
    "?r + drop_bit k ?r < 2 ^ (k * length ds)" using 1(1) [of l] 1(2) n(2) by auto
  have "2 ^ (2 * k) * Suc (?r + drop_bit k ?r) \<le> 2 ^ (2 * k) * 2 ^ (k * length ds)"
    using IH(2) by (intro mult_le_mono2) simp
  then have "pack k (x # y # ds) + drop_bit k (pack k (x # y # ds)) < 2 ^ (2 * k) * 2 ^ (k * length ds)"
    unfolding sum using low(1) by simp
  moreover have "2 ^ (2 * k) * 2 ^ (k * length ds) = (2::nat) ^ (k * length (x # y # ds))"
    by (simp add: power_add [symmetric] algebra_simps)
  ultimately show ?case
    unfolding sum n(1) alternate_Suc and_split [OF low(1,2)] and_low [OF low(3)] IH(1) by simp
qed (auto simp: alternate_def)

text \<open>The same on words.\<close>

lemma word_first_stage:
  fixes x :: "'a::len word"
  assumes "unat x = pack 1 ds" "\<forall>d \<in> set ds. d < 2" "length ds = 2 * n" "unat m = alternate 1 n"
  shows "unat (x - (drop_bit 1 x AND m)) = pack 2 (pairsum ds)"
proof -
  let ?b = "drop_bit 1 x AND m"
  have b: "unat ?b = drop_bit 1 (pack 1 ds) AND alternate 1 n"
    by (simp only: unsigned_and_eq unat_drop_bit_eq assms(1,4))
  note st = pair_stage [of ds 1 n, simplified power_one_right mult_1_right, OF assms(2,3)]
  have "unat ?b \<le> unat x" unfolding b assms(1) using st(2) by linarith
  then have "unat (x - ?b) = unat x - unat ?b" by (intro unat_sub) (simp add: word_le_nat_alt)
  then show ?thesis unfolding b assms(1) using st by linarith
qed


lemma word_pair_stage:
  fixes w :: "'a::len word"
  assumes "unat w = pack k ds" "\<forall>d \<in> set ds. d < 2 ^ k" "length ds = 2 * n" "unat m = alternate k n"
    and "pack (2 * k) (pairsum ds) < 2 ^ LENGTH('a)"
  shows "unat ((w AND m) + (drop_bit k w AND m)) = pack (2 * k) (pairsum ds)"
proof -
  have "unat (w AND m) + unat (drop_bit k w AND m) = pack (2 * k) (pairsum ds)"
    using pair_stage(1) [OF assms(2,3)] by (simp only: unsigned_and_eq unat_drop_bit_eq assms(1,4))
  then show ?thesis using assms(5) by (simp add: unat_word_ariths)
qed

lemma word_add_stage:
  fixes w :: "'a::len word"
  assumes "unat w = pack k ds" "\<forall>d \<in> set ds. d \<le> d0" "2 * d0 < 2 ^ k" "length ds = 2 * n" "unat m = alternate k n"
    and "k * length ds = LENGTH('a)"
  shows "unat ((w + drop_bit k w) AND m) = pack (2 * k) (pairsum ds)"
proof -
  note st = add_stage [OF assms(2,3,4)]
  have "unat (w + drop_bit k w) = pack k ds + drop_bit k (pack k ds)"
    using st by (simp add: unat_word_ariths unat_drop_bit_eq assms(1,6))
  then show ?thesis using st by (simp only: unsigned_and_eq assms(5))
qed

text \<open>The product with \<open>0x01010101\<close> has the sum of the four bytes in its highest byte.\<close>

lemma top_digit:
  fixes low :: nat
  assumes "low < q" "s < r" "p = q * r"
  shows "(low + q * s + p * h) mod p div q = s"
proof -
  have "q * Suc s \<le> q * r" using assms(2) by (intro mult_le_mono2) simp
  then have "low + q * s < p" using assms(1,3) by simp
  then have "(low + q * s + p * h) mod p = low + q * s" by simp
  then show ?thesis using assms(1) by simp
qed

lemma sum_bytes_32:
  assumes "length ds = 4" "sum_list ds < 256"
  shows "pack 8 ds * 0x01010101 mod 2 ^ 32 div 2 ^ 24 = sum_list ds"
proof -
  obtain a b c d where ds: "ds = [a, b, c, d]" using assms(1) by (auto simp: numeral_eq_Suc length_Suc_conv)
  have e: "pack 8 ds * 0x01010101 = (a + 2 ^ 8 * (a + b) + 2 ^ 16 * (a + b + c)) + 2 ^ 24 * sum_list ds +
      2 ^ 32 * (b + c + d + 2 ^ 8 * (c + d) + 2 ^ 16 * d)"
    by (simp add: ds algebra_simps)
  have l: "a + 2 ^ 8 * (a + b) + 2 ^ 16 * (a + b + c) < 2 ^ 24" using assms(2) by (simp add: ds)
  show ?thesis unfolding e by (rule top_digit [OF l assms(2)]) simp
qed

lemma sum_bytes_64:
  assumes "length ds = 8" "sum_list ds < 256"
  shows "pack 8 ds * 0x0101010101010101 mod 2 ^ 64 div 2 ^ 56 = sum_list ds"
proof -
  obtain a b c d e f g h where ds: "ds = [a, b, c, d, e, f, g, h]" using assms(1) by (auto simp: numeral_eq_Suc length_Suc_conv)
  let ?low = "a + 2 ^ 8 * (a + b) + 2 ^ 16 * (a + b + c) + 2 ^ 24 * (a + b + c + d) + 2 ^ 32 * (a + b + c + d + e) +
    2 ^ 40 * (a + b + c + d + e + f) + 2 ^ 48 * (a + b + c + d + e + f + g)"
  have e: "pack 8 ds * 0x0101010101010101 = ?low + 2 ^ 56 * sum_list ds +
      2 ^ 64 * ((b + c + d + e + f + g + h) + 2 ^ 8 * (c + d + e + f + g + h) + 2 ^ 16 * (d + e + f + g + h) +
        2 ^ 24 * (e + f + g + h) + 2 ^ 32 * (f + g + h) + 2 ^ 40 * (g + h) + 2 ^ 48 * h)"
    by (simp add: ds algebra_simps)
  have l: "?low < 2 ^ 56" using assms(2) by (simp add: ds)
  show ?thesis unfolding e by (rule top_digit [OF l assms(2)]) simp
qed


lemma unat_pack_bits:
  fixes x :: "'a::len word"
  defines "ds \<equiv> map (\<lambda>i. of_bool (bit x i)) [0 ..< LENGTH('a)]"
  shows "unat x = pack 1 ds" "\<forall>d \<in> set ds. d < 2" "\<forall>d \<in> set ds. d \<le> 1" "length ds = LENGTH('a)" "sum_list ds = card {i. bit x i}"
proof -
  have p: "pack 1 (map of_bool bs) = horner_sum of_bool 2 bs" for bs
    by (induction bs) simp_all
  have ds: "ds = map of_bool (map (bit (unat x)) [0 ..< LENGTH('a)])" by (simp add: ds_def bit_unsigned_iff)
  have "pack 1 ds = horner_sum of_bool 2 (map (bit (unat x)) [0 ..< LENGTH('a)])" unfolding ds by (rule p)
  then show "unat x = pack 1 ds" by (simp add: horner_sum_bit_eq_take_bit take_bit_nat_eq_self)
  have "{i. bit x i} = {i. i < LENGTH('a) \<and> bit x i}" using bit_imp_le_length by auto
  moreover have "sum_list (map (\<lambda>i. of_bool (P i)) [0 ..< n]) = card {i. i < n \<and> P i}" for P and n :: nat
  proof (induction n)
    case (Suc n)
    have "{i. i < Suc n \<and> P i} = {i. i < n \<and> P i} \<union> (if P n then {n} else {})" by (auto simp: less_Suc_eq)
    then show ?case using Suc by (simp add: card_insert_if)
  qed simp
  ultimately show "sum_list ds = card {i. bit x i}" by (simp add: ds_def)
qed (auto simp: ds_def)


lemma pairsum_all:
  assumes "length ds = 2 * n" "\<forall>d \<in> set ds. d \<le> m"
  shows "length (pairsum ds) = n" "sum_list (pairsum ds) = sum_list ds" "\<forall>d \<in> set (pairsum ds). d \<le> 2 * m"
  using pairsum_facts [OF assms] by blast+

lemma replicate_numeral_Cons: "replicate (numeral k) x = x # replicate (pred_numeral k) x"
  by (simp add: numeral_eq_Suc)

lemma popcount_32: "unat (nvPopCount32 x) = card {i. bit x i}"
proof -
  define d1 where "d1 = map (\<lambda>i. of_bool (bit x i) :: nat) [0 ..< LENGTH(32)]"
  define d2 where "d2 = pairsum d1"
  define d4 where "d4 = pairsum d2"
  define d8 where "d8 = pairsum d4"
  note b = unat_pack_bits [where x = x, folded d1_def]
  have l1: "length d1 = 2 * 16" using b(4) by simp
  note f1 = pairsum_all [OF l1 b(3), folded d2_def]
  have l2: "length d2 = 2 * 8" using f1(1) by simp
  note f2 = pairsum_all [OF l2 f1(3), folded d4_def]
  have l4: "length d4 = 2 * 4" using f2(1) by simp
  note f4 = pairsum_all [OF l4 f2(3), folded d8_def]
  define t1 where "t1 = x - (drop_bit 1 x AND 0x55555555)"
  define t2 where "t2 = (t1 AND 0x33333333) + (drop_bit 2 t1 AND 0x33333333)"
  define t3 where "t3 = (t2 + drop_bit 4 t2) AND 0x0F0F0F0F"
  have m: "unat (0x55555555 :: NvU32) = alternate 1 16" "unat (0x33333333 :: NvU32) = alternate 2 8"
    "unat (0x0F0F0F0F :: NvU32) = alternate 4 4" by (simp_all add: alternate_def replicate_numeral_Cons)
  have t1: "unat t1 = pack 2 d2" unfolding t1_def d2_def by (rule word_first_stage [OF b(1,2) l1 m(1)])
  have "pack 4 d4 < 2 ^ LENGTH(32)" using pack_less [of d4 4] f2(1,3) by fastforce
  then have t2: "unat t2 = pack 4 d4"
    using word_pair_stage [OF t1 _ l2 m(2)] f1(3) unfolding t2_def d4_def by fastforce
  have t3: "unat t3 = pack 8 d8"
    using word_add_stage [OF t2 f2(3) _ l4 m(3)] f2(1) unfolding t3_def d8_def by simp
  have "sum_list d8 = card {i. bit x i}" using b(5) f1(2) f2(2) f4(2) by simp
  moreover have "sum_list d8 \<le> sum_list (map (\<lambda>_. 8) d8)"
    using sum_list_mono [of d8 id "\<lambda>_. 8"] f4(3) by simp
  ultimately have s: "sum_list d8 = card {i. bit x i}" "sum_list d8 < 256" using f4(1) by (simp_all add: sum_list_triv)
  have "nvPopCount32 x = drop_bit 24 (t3 * 0x01010101)"
    by (simp only: nvPopCount32_def Let_def t1_def t2_def t3_def)
  then have "unat (nvPopCount32 x) = pack 8 d8 * 0x01010101 mod 2 ^ 32 div 2 ^ 24"
    by (simp only: unat_drop_bit_eq drop_bit_eq_div unat_word_ariths t3) simp
  then show ?thesis using sum_bytes_32 [OF f4(1) s(2)] s(1) by simp
qed

lemma popcount_64: "unat (nvPopCount64 x) = card {i. bit x i}"
proof -
  define d1 where "d1 = map (\<lambda>i. of_bool (bit x i) :: nat) [0 ..< LENGTH(64)]"
  define d2 where "d2 = pairsum d1"
  define d4 where "d4 = pairsum d2"
  define d8 where "d8 = pairsum d4"
  note b = unat_pack_bits [where x = x, folded d1_def]
  have l1: "length d1 = 2 * 32" using b(4) by simp
  note f1 = pairsum_all [OF l1 b(3), folded d2_def]
  have l2: "length d2 = 2 * 16" using f1(1) by simp
  note f2 = pairsum_all [OF l2 f1(3), folded d4_def]
  have l4: "length d4 = 2 * 8" using f2(1) by simp
  note f4 = pairsum_all [OF l4 f2(3), folded d8_def]
  define t1 where "t1 = x - (drop_bit 1 x AND 0x5555555555555555)"
  define t2 where "t2 = (t1 AND 0x3333333333333333) + (drop_bit 2 t1 AND 0x3333333333333333)"
  define t3 where "t3 = (t2 + drop_bit 4 t2) AND 0x0F0F0F0F0F0F0F0F"
  have m: "unat (0x5555555555555555 :: NvU64) = alternate 1 32" "unat (0x3333333333333333 :: NvU64) = alternate 2 16"
    "unat (0x0F0F0F0F0F0F0F0F :: NvU64) = alternate 4 8" by (simp_all add: alternate_def replicate_numeral_Cons)
  have t1: "unat t1 = pack 2 d2" unfolding t1_def d2_def by (rule word_first_stage [OF b(1,2) l1 m(1)])
  have "pack 4 d4 < 2 ^ LENGTH(64)" using pack_less [of d4 4] f2(1,3) by fastforce
  then have t2: "unat t2 = pack 4 d4"
    using word_pair_stage [OF t1 _ l2 m(2)] f1(3) unfolding t2_def d4_def by fastforce
  have t3: "unat t3 = pack 8 d8"
    using word_add_stage [OF t2 f2(3) _ l4 m(3)] f2(1) unfolding t3_def d8_def by simp
  have "sum_list d8 = card {i. bit x i}" using b(5) f1(2) f2(2) f4(2) by simp
  moreover have "sum_list d8 \<le> sum_list (map (\<lambda>_. 8) d8)"
    using sum_list_mono [of d8 id "\<lambda>_. 8"] f4(3) by simp
  ultimately have s: "sum_list d8 = card {i. bit x i}" "sum_list d8 < 256" using f4(1) by (simp_all add: sum_list_triv)
  have "nvPopCount64 x = ucast (drop_bit 56 (t3 * 0x0101010101010101))"
    by (simp only: nvPopCount64_def Let_def t1_def t2_def t3_def)
  moreover have "unat (drop_bit 56 (t3 * 0x0101010101010101)) = pack 8 d8 * 0x0101010101010101 mod 2 ^ 64 div 2 ^ 56"
    by (simp only: unat_drop_bit_eq drop_bit_eq_div unat_word_ariths t3) simp
  ultimately show ?thesis using sum_bytes_64 [OF f4(1) s(2)] s by (simp add: unsigned_ucast_eq take_bit_nat_eq_self)
qed

lemma maskpos_32:
  assumes "unat i < 32"
  shows "unat (nvMaskPos32 m i) = card {j. j < unat i \<and> bit m j}"
proof -
  have "NVBIT32 (unat i) - 1 = mask (unat i)" by (simp add: NVBIT32_def push_bit_eq_mult mask_eq_exp_minus_1)
  then have "m AND (NVBIT32 (unat i) - 1) = take_bit (unat i) m" by (simp add: take_bit_eq_mask)
  then show ?thesis by (simp add: nvMaskPos32_def popcount_32 bit_take_bit_iff)
qed

text \<open>
  C36: \<open>nvPopCount32\<close> and \<open>nvPopCount64\<close>, which add up neighbouring fields with masks, shifts and one
  multiplication, return the number of positions at which the argument has a bit, and
  \<open>nvMaskPos32\<close> the number of those below the given position, for every argument.
\<close>

theorem popcount_correct:
  "unat (nvPopCount32 x) = card {i. bit x i} \<and> unat (nvPopCount64 y) = card {i. bit y i} \<and>
    (unat i < 32 \<longrightarrow> unat (nvMaskPos32 x i) = card {j. j < unat i \<and> bit x j})"
  using popcount_32 popcount_64 maskpos_32 by blast

theorem popcount_correct_witness:
  "unat (nvMaskPos32 0xCD 6) = 3 \<and> card {j. j < 6 \<and> bit (0xCD :: NvU32) j} = 3"
proof -
  have "nvMaskPos32 0xCD 6 = 3" by code_simp
  then show ?thesis using popcount_correct [of "0xCD" 0 6] by simp
qed

end
