(* ===== verification/Bit_Properties.thy ===== *)
theory Bit_Properties
  imports Bit_Counting
begin

text \<open>
  What the other bit utilities of \<open>driverapi/internal/nvidia/nvmisc.h\<close> compute: the lowest and the highest
  bit, powers of two, the iteration over a mask, and alignment, the last next to the rounding of the
  driver itself.
\<close>

section \<open>Finding bits\<close>

text \<open>A word that is not 0 is its lowest bit and the bits above.\<close>

lemma lowest_split:
  fixes x :: "'a::len word"
  assumes "x \<noteq> 0"
  obtains l where "bit x l" "\<forall>i < l. \<not> bit x i" "x - 1 = unset_bit l x OR mask l"
proof -
  obtain n where "bit x n" using assms by (auto simp: bit_eq_iff)
  define l where "l = (LEAST i. bit x i)"
  have l: "bit x l" "\<forall>i < l. \<not> bit x i" using LeastI [of "bit x", OF \<open>bit x n\<close>] not_less_Least by (auto simp: l_def)
  have len: "l < LENGTH('a)" using l(1) by (rule bit_imp_le_length)
  let ?y = "unset_bit l x"
  have "?y + 2 ^ l = ?y OR 2 ^ l"
    by (rule disjunctive_add) (auto simp: bit_unset_bit_iff bit_exp_iff)
  also have "\<dots> = x" using l(1) by (auto intro!: bit_word_eqI simp: bit_simps)
  finally have x: "?y + 2 ^ l = x" .
  have "?y + mask l = ?y OR mask l"
    by (rule disjunctive_add) (use l(2) in \<open>auto simp: bit_unset_bit_iff bit_mask_iff\<close>)
  moreover have "x - 1 = ?y + mask l" unfolding mask_eq_exp_minus_1 using x by (simp add: algebra_simps)
  ultimately show thesis using that l by metis
qed

lemma LOWESTBIT_power:
  fixes x :: "'a::len word"
  assumes "bit x l" "\<forall>i < l. \<not> bit x i"
  shows "LOWESTBIT x = 2 ^ l"
proof -
  have "x \<noteq> 0" using assms(1) by auto
  then obtain k where k: "bit x k" "\<forall>i < k. \<not> bit x i" "x - 1 = unset_bit k x OR mask k" by (rule lowest_split)
  have "k = l" using assms k(1,2) by (metis linorder_neqE_nat)
  then show ?thesis using k assms
    by (auto intro!: bit_word_eqI simp: LOWESTBIT_def bit_simps)
qed

lemma word_zero_iff: "(w :: 'a::len word) = 0 \<longleftrightarrow> (\<forall>i. \<not> bit w i)"
  by (auto simp: bit_eq_iff dest: bit_imp_le_length)

lemma ONEBITSET_iff:
  fixes x :: "'a::len word"
  shows "ONEBITSET x \<longleftrightarrow> card {i. bit x i} = 1"
proof (cases "x = 0")
  case False
  then obtain l where l: "bit x l" "\<forall>i < l. \<not> bit x i" "x - 1 = unset_bit l x OR mask l" by (rule lowest_split)
  have "x AND (x - 1) = unset_bit l x"
    unfolding l(3) using l(2) by (auto intro!: bit_word_eqI simp: bit_simps)
  then have "ONEBITSET x \<longleftrightarrow> unset_bit l x = 0" using False by (simp add: ONEBITSET_def)
  also have "\<dots> \<longleftrightarrow> {i. bit x i} = {l}"
    using l(1) unfolding word_zero_iff by (auto simp: bit_unset_bit_iff)
  also have "\<dots> \<longleftrightarrow> card {i. bit x i} = 1" using l(1) by (metis One_nat_def card_1_singleton_iff mem_Collect_eq singletonD)
  finally show ?thesis .
qed (simp add: ONEBITSET_def)

text \<open>The index of a power of two, by looking at all of them.\<close>

lemma below_numeral: "i < n \<Longrightarrow> i \<in> set (0 # 1 # [2 ..< n])"
  using less_2_cases_iff [of i] by (cases "i < 2") simp_all

lemma BIT_IDX_32_power: "i < 32 \<Longrightarrow> unat (BIT_IDX_32 (2 ^ i)) = i"
proof -
  have "list_all (\<lambda>i. unat (BIT_IDX_32 (2 ^ i)) = i) (0 # 1 # [2 ..< 32])"
    by (simp add: BIT_IDX_32_def upt_rec_numeral del: set_upt)
  then show "i < 32 \<Longrightarrow> unat (BIT_IDX_32 (2 ^ i)) = i" unfolding list_all_iff using below_numeral by blast
qed

lemma BIT_IDX_64_power: "i < 64 \<Longrightarrow> unat (BIT_IDX_64 (2 ^ i)) = i"
proof -
  have "list_all (\<lambda>i. unat (BIT_IDX_64 (2 ^ i)) = i) (0 # 1 # [2 ..< 64])"
    by (simp add: BIT_IDX_64_def upt_rec_numeral del: set_upt)
  then show "i < 64 \<Longrightarrow> unat (BIT_IDX_64 (2 ^ i)) = i" unfolding list_all_iff using below_numeral by blast
qed

lemma lowest_index:
  fixes x :: NvU32 and y :: NvU64
  shows "x \<noteq> 0 \<Longrightarrow> unat (LOWESTBITIDX_32 x) = (LEAST i. bit x i)"
    "y \<noteq> 0 \<Longrightarrow> unat (LOWESTBITIDX_64 y) = (LEAST i. bit y i)"
proof -
  have least: "l = (LEAST i. bit w i)" if "bit w l" "\<forall>i < l. \<not> bit w i" for w :: "'a::len word" and l
    using that by (metis LeastI not_less_Least linorder_neqE_nat)
  show "unat (LOWESTBITIDX_32 x) = (LEAST i. bit x i)" if nz: "x \<noteq> 0"
  proof -
    obtain l where l: "bit x l" "\<forall>i < l. \<not> bit x i" by (rule lowest_split [OF nz])
    show ?thesis using LOWESTBIT_power [OF l] BIT_IDX_32_power [of l] bit_imp_le_length [OF l(1)] least [OF l]
      by (simp add: LOWESTBITIDX_32_def)
  qed
  show "unat (LOWESTBITIDX_64 y) = (LEAST i. bit y i)" if nz: "y \<noteq> 0"
  proof -
    obtain l where l: "bit y l" "\<forall>i < l. \<not> bit y i" by (rule lowest_split [OF nz])
    show ?thesis using LOWESTBIT_power [OF l] BIT_IDX_64_power [of l] bit_imp_le_length [OF l(1)] least [OF l]
      by (simp add: LOWESTBITIDX_64_def)
  qed
qed


text \<open>\<open>HIGHESTBITIDX_32\<close>: the loop counts the shifts until nothing is left.\<close>

lemma highest_loop_run:
  "n \<noteq> 0 \<Longrightarrow> \<exists>k. unat (highest_loop n c) = (unat c + k) mod 2 ^ 32 \<and> 2 ^ k \<le> unat n \<and> unat n < 2 ^ Suc k"
proof (induction n c rule: highest_loop.induct)
  case (1 n c)
  let ?m = "drop_bit 1 n"
  have m: "unat ?m = unat n div 2" unfolding unat_drop_bit_eq by (simp add: drop_bit_eq_div)
  show ?case
  proof (cases "?m = 0")
    case True
    then have "unat n div 2 = 0" unfolding m [symmetric] by simp
    then have "unat n < 2" by simp
    moreover have "0 < unat n" using 1(2) by (simp add: unat_gt_0)
    ultimately show ?thesis using True unsigned_less [of c, where ?'a = nat] by (intro exI [of _ 0]) (simp add: highest_loop.simps [of n c] Let_def)
  next
    case False
    then obtain k where k: "unat (highest_loop ?m (c + 1)) = (unat (c + 1) + k) mod 2 ^ 32"
      "2 ^ k \<le> unat n div 2" "unat n div 2 < 2 ^ Suc k"
      using 1(1) [OF refl] unfolding m by blast
    have "unat (highest_loop n c) = (unat c + Suc k) mod 2 ^ 32"
      using False k(1) by (simp add: highest_loop.simps [of n c] Let_def unat_word_ariths mod_simps)
    then show ?thesis using k(2,3) by (intro exI [of _ "Suc k"]) auto
  qed
qed

lemma power_bounds_unique:
  fixes v :: nat
  assumes "2 ^ k \<le> v" "v < 2 ^ Suc k" "2 ^ j \<le> v" "v < 2 ^ Suc j"
  shows "k = j"
proof (rule ccontr)
  assume "k \<noteq> j"
  then consider "Suc k \<le> j" | "Suc j \<le> k" by linarith
  then show False
    using assms power_increasing [of "Suc k" j "2 :: nat"] power_increasing [of "Suc j" k "2 :: nat"] by cases auto
qed

lemma HIGHESTBITIDX_32_log:
  assumes "n \<noteq> 0"
  shows "2 ^ unat (HIGHESTBITIDX_32 n) \<le> unat n" "unat n < 2 ^ Suc (unat (HIGHESTBITIDX_32 n))"
proof -
  obtain k where k: "unat (HIGHESTBITIDX_32 n) = k mod 2 ^ 32" "2 ^ k \<le> unat n" "unat n < 2 ^ Suc k"
    using highest_loop_run [OF assms, of 0] by (auto simp: HIGHESTBITIDX_32_def)
  have "(2::nat) ^ k < 2 ^ 32" using k(2) unsigned_less [of n, where ?'a = nat] by simp
  then have "k < 32" by (rule power_less_imp_less_exp [rotated]) simp
  then have "unat (HIGHESTBITIDX_32 n) = k" using k(1) by simp
  then show "2 ^ unat (HIGHESTBITIDX_32 n) \<le> unat n" "unat n < 2 ^ Suc (unat (HIGHESTBITIDX_32 n))"
    using k(2,3) by simp_all
qed


section \<open>Rounding to a power of two\<close>

text \<open>After shifts by 1, 2, 4, ... every bit at or below a set bit is set.\<close>

lemma smear_step:
  fixes x y :: "'a::len word"
  assumes "\<forall>i. bit y i \<longleftrightarrow> (\<exists>d < m. bit x (i + d))"
  shows "\<forall>i. bit (y OR drop_bit m y) i \<longleftrightarrow> (\<exists>d < 2 * m. bit x (i + d))"
proof
  fix i
  have "bit (y OR drop_bit m y) i \<longleftrightarrow> (\<exists>d < m. bit x (i + d)) \<or> (\<exists>d < m. bit x (m + i + d))"
    by (simp only: bit_or_iff bit_drop_bit_eq comp_def assms add.commute [of i m])
  also have "\<dots> \<longleftrightarrow> (\<exists>d < 2 * m. bit x (i + d))"
  proof
    assume "(\<exists>d < m. bit x (i + d)) \<or> (\<exists>d < m. bit x (m + i + d))"
    then show "\<exists>d < 2 * m. bit x (i + d)"
    proof
      assume "\<exists>d < m. bit x (m + i + d)"
      then obtain d where "d < m" "bit x (i + (m + d))" by (auto simp: ac_simps)
      then show ?thesis by (intro exI [of _ "m + d"]) simp
    next
      assume "\<exists>d < m. bit x (i + d)"
      then obtain d where "d < m" "bit x (i + d)" by blast
      then show ?thesis by (intro exI [of _ d]) simp
    qed
  next
    assume "\<exists>d < 2 * m. bit x (i + d)"
    then obtain d where d: "d < 2 * m" "bit x (i + d)" by blast
    show "(\<exists>d < m. bit x (i + d)) \<or> (\<exists>d < m. bit x (m + i + d))"
    proof (cases "d < m")
      case False
      then have "m + i + (d - m) = i + d" "d - m < m" using d(1) by simp_all
      then show ?thesis using d(2) by metis
    qed (use d(2) in blast)
  qed
  finally show "bit (y OR drop_bit m y) i \<longleftrightarrow> (\<exists>d < 2 * m. bit x (i + d))" .
qed

definition smear_32 :: "NvU32 \<Rightarrow> NvU32" where
  "smear_32 y = (let y = y OR drop_bit 1 y; y = y OR drop_bit 2 y; y = y OR drop_bit 4 y; y = y OR drop_bit 8 y in
     y OR drop_bit 16 y)"

definition smear_64 :: "NvU64 \<Rightarrow> NvU64" where
  "smear_64 y = (let y = y OR drop_bit 1 y; y = y OR drop_bit 2 y; y = y OR drop_bit 4 y; y = y OR drop_bit 8 y;
     y = y OR drop_bit 16 y in y OR drop_bit 32 y)"

lemma smear_mask:
  fixes x w :: "'a::len word"
  assumes "\<forall>i. bit w i \<longleftrightarrow> (\<exists>d < LENGTH('a). bit x (i + d))" "2 ^ h \<le> unat x" "unat x < 2 ^ Suc h"
  shows "w = mask (Suc h)"
proof -
  have top: "bit x h"
  proof (rule ccontr)
    assume "\<not> bit x h"
    then have "\<not> bit (unat x) h" by (simp add: bit_unsigned_iff)
    then have "even (unat x div 2 ^ h)" by (simp add: bit_iff_odd)
    moreover have "unat x div 2 ^ h = 1" using assms(2,3) by (intro div_nat_eqI) auto
    ultimately show False by simp
  qed
  have above: "i \<le> h" if "bit x i" for i
  proof (rule ccontr)
    assume "\<not> i \<le> h"
    then have "unat x < 2 ^ i" using assms(3) power_increasing [of "Suc h" i "2 :: nat"] by linarith
    moreover have "bit (unat x) i" using that by (simp add: bit_unsigned_iff)
    ultimately show False by (simp add: bit_iff_odd)
  qed
  have "h < LENGTH('a)" using top by (rule bit_imp_le_length)
  show ?thesis
  proof (rule bit_word_eqI)
    fix i assume "i < LENGTH('a)"
    have "(\<exists>d < LENGTH('a). bit x (i + d)) \<longleftrightarrow> i < Suc h"
    proof
      assume "i < Suc h"
      then show "\<exists>d < LENGTH('a). bit x (i + d)" using top \<open>h < LENGTH('a)\<close> by (intro exI [of _ "h - i"]) simp
    qed (use above in fastforce)
    then show "bit w i \<longleftrightarrow> bit (mask (Suc h) :: 'a word) i" using \<open>i < LENGTH('a)\<close> by (simp add: assms(1) bit_mask_iff)
  qed
qed

lemma smear_bits:
  fixes x :: NvU32 and y :: NvU64
  shows "\<forall>i. bit (smear_32 x) i \<longleftrightarrow> (\<exists>d < LENGTH(32). bit x (i + d))"
    "\<forall>i. bit (smear_64 y) i \<longleftrightarrow> (\<exists>d < LENGTH(64). bit y (i + d))"
proof -
  have a: "\<forall>i. bit w i \<longleftrightarrow> (\<exists>d < 1. bit w (i + d))" for w :: "'a::len word" by simp
  have n: "2 * 1 = (2::nat)" "2 * 2 = (4::nat)" "2 * 4 = (8::nat)" "2 * 8 = (16::nat)" "2 * 16 = (32::nat)" "2 * 32 = (64::nat)" by simp_all
  note s2 = smear_step [OF a, unfolded n]
  note s4 = smear_step [OF s2, unfolded n]
  note s8 = smear_step [OF s4, unfolded n]
  note s16 = smear_step [OF s8, unfolded n]
  note s32 = smear_step [OF s16, unfolded n]
  note s64 = smear_step [OF s32, unfolded n]
  show "\<forall>i. bit (smear_32 x) i \<longleftrightarrow> (\<exists>d < LENGTH(32). bit x (i + d))"
    using s32 [of x] by (simp only: smear_32_def Let_def) simp
  show "\<forall>i. bit (smear_64 y) i \<longleftrightarrow> (\<exists>d < LENGTH(64). bit y (i + d))"
    using s64 [of y] by (simp only: smear_64_def Let_def) simp
qed


definition pow2_above :: "nat \<Rightarrow> nat" where
  "pow2_above n = (LEAST p. n \<le> p \<and> (\<exists>k. p = 2 ^ k))"

definition pow2_below :: "nat \<Rightarrow> nat" where
  "pow2_below n = (GREATEST p. p \<le> n \<and> (\<exists>k. p = 2 ^ k))"

lemma pow2_above_eq:
  assumes "2 ^ h < n" "n \<le> 2 ^ Suc h"
  shows "pow2_above n = 2 ^ Suc h"
  unfolding pow2_above_def
proof (rule Least_equality)
  fix p assume "n \<le> p \<and> (\<exists>k. p = 2 ^ k)"
  then obtain k where k: "p = 2 ^ k" "n \<le> 2 ^ k" by blast
  then have "(2::nat) ^ h < 2 ^ k" using assms(1) by linarith
  then have "Suc h \<le> k" by simp
  then show "2 ^ Suc h \<le> p" unfolding k(1) by (intro power_increasing) simp_all
qed (use assms in blast)

lemma pow2_below_eq:
  assumes "2 ^ h \<le> n" "n < 2 ^ Suc h"
  shows "pow2_below n = 2 ^ h"
  unfolding pow2_below_def
proof (rule Greatest_equality)
  fix p assume "p \<le> n \<and> (\<exists>k. p = 2 ^ k)"
  then obtain k where k: "p = 2 ^ k" "2 ^ k \<le> n" by blast
  then have "(2::nat) ^ k < 2 ^ Suc h" using assms(2) by linarith
  then have "k \<le> h" by (simp del: power_Suc)
  then show "p \<le> 2 ^ h" unfolding k(1) by (intro power_increasing) simp_all
qed (use assms in blast)

lemma between_powers: "0 < n \<Longrightarrow> \<exists>h. 2 ^ h \<le> n \<and> n < 2 ^ Suc h" for n :: nat
  using ex_power_ivl1 [of 2 n] by auto

lemma unat_word_power: "unat (2 ^ h :: 'a::len word) = 2 ^ h mod 2 ^ LENGTH('a)"
  by (metis (no_types) of_nat_numeral of_nat_power unat_of_nat)

lemma smeared_prev:
  fixes x w :: "'a::len word"
  assumes "\<forall>i. bit w i \<longleftrightarrow> (\<exists>d < LENGTH('a). bit x (i + d))"
  shows "unat (w - drop_bit 1 w) = (if x = 0 then 0 else pow2_below (unat x))"
proof (cases "x = 0")
  case True
  then have "w = 0" using assms by (simp add: word_zero_iff)
  then show ?thesis using True by simp
next
  case False
  then obtain h where h: "2 ^ h \<le> unat x" "unat x < 2 ^ Suc h" using between_powers [of "unat x"] by (auto simp: unat_gt_0)
  have "(2::nat) ^ h < 2 ^ LENGTH('a)" using h(1) unsigned_less [of x, where ?'a = nat] by linarith
  then have len: "h < LENGTH('a)" by simp
  have w: "w = mask (Suc h)" by (rule smear_mask [OF assms h])
  have "drop_bit 1 w = mask h" unfolding w using len by (intro bit_word_eqI) (auto simp: bit_simps)
  moreover have "mask (Suc h) = (mask h + 2 ^ h :: 'a word)" by (simp add: mask_eq_exp_minus_1 algebra_simps)
  ultimately have "w - drop_bit 1 w = 2 ^ h" unfolding w by simp
  then show ?thesis using len False pow2_below_eq [OF h] by (simp add: unat_word_power)
qed

lemma smeared_next:
  fixes x w :: "'a::len word"
  assumes "\<forall>i. bit w i \<longleftrightarrow> (\<exists>d < LENGTH('a). bit (x - 1) (i + d))"
  shows "unat (w + 1) = (if x = 0 then 0 else pow2_above (unat x) mod 2 ^ LENGTH('a))"
proof (cases "x = 0 \<or> x = 1")
  case True
  then consider "x = 0" | "x = 1" "x \<noteq> 0" by blast
  then show ?thesis
  proof cases
    case 1
    then have "bit w i" if "i < LENGTH('a)" for i
      using assms that by (auto simp: bit_minus_1_iff intro: exI [of _ 0])
    then have "w = - 1" by (auto intro!: bit_word_eqI)
    then show ?thesis using 1 by simp
  next
    case 2
    have "w = 0" using assms 2(1) by (simp add: word_zero_iff)
    moreover have "pow2_above 1 = 1"
      unfolding pow2_above_def by (rule Least_equality) (auto intro: exI [of _ 0])
    ultimately show ?thesis using 2 by simp
  qed
next
  case False
  then have nz: "x - 1 \<noteq> 0" by simp
  have ux: "unat (x - 1) + 1 = unat x" using False by (simp add: unat_minus_one Suc_leI unat_gt_0)
  obtain h where h: "2 ^ h \<le> unat (x - 1)" "unat (x - 1) < 2 ^ Suc h" using between_powers [of "unat (x - 1)"] nz by (auto simp: unat_gt_0)
  have w: "w = mask (Suc h)" by (rule smear_mask [OF assms h])
  have "w + 1 = 2 ^ Suc h" unfolding w mask_eq_exp_minus_1 by simp
  then have "unat (w + 1) = 2 ^ Suc h mod 2 ^ LENGTH('a)" by (simp only: unat_word_power)
  moreover have "pow2_above (unat x) = 2 ^ Suc h" by (rule pow2_above_eq) (use h ux in linarith)+
  ultimately show ?thesis using False by simp
qed

lemma power_routines_smear:
  "nvNextPow2_U32 x = smear_32 (x - 1) + 1" "nvPrevPow2_U32 x = smear_32 x - drop_bit 1 (smear_32 x)"
  "ROUNDUP_POW2_U64 y = smear_64 (y - 1) + 1" "nvPrevPow2_U64 y = smear_64 y - drop_bit 1 (smear_64 y)"
  by (simp_all only: nvNextPow2_U32_def nvPrevPow2_U32_def ROUNDUP_POW2_U64_def nvPrevPow2_U64_def smear_32_def smear_64_def Let_def)

section \<open>Iterating over a mask\<close>

lemma set_bits_upt:
  fixes m :: NvU64
  shows "filter (bit m) [0 ..< 64] = (if bit m 0 then [0] else []) @ map Suc (filter (bit (drop_bit 1 m)) [0 ..< 64])"
proof -
  have "[0 ..< 64] = 0 # map Suc [0 ..< 63]" by (simp add: map_Suc_upt upt_rec [of 0 64] del: upt_rec_numeral)
  then have "filter (bit m) [0 ..< 64] = (if bit m 0 then [0] else []) @ map Suc (filter (\<lambda>j. bit m (Suc j)) [0 ..< 63])"
    by (simp only: filter.simps filter_map comp_def) simp
  moreover have "filter (bit (drop_bit 1 m)) [0 ..< 64] = filter (\<lambda>j. bit m (Suc j)) [0 ..< 63]"
  proof -
    have "[0 ..< 64] = [0 ..< 63] @ [63]" using upt_Suc_append [of 0 63] by (simp del: upt_rec_numeral)
    moreover have "\<not> bit (drop_bit 1 m) 63" by (auto simp: bit_drop_bit_eq dest: bit_imp_le_length)
    moreover have "filter (bit (drop_bit 1 m)) [0 ..< 63] = filter (\<lambda>j. bit m (Suc j)) [0 ..< 63]"
      by (rule filter_cong) (simp_all add: bit_drop_bit_eq)
    ultimately show ?thesis by (simp del: upt_rec_numeral)
  qed
  ultimately show ?thesis by simp
qed

lemma for_each_index_run:
  "for_each_index body i m s = fold body (map ((+) i) (filter (bit m) [0 ..< 64])) s"
proof (induction body i m s rule: for_each_index.induct)
  case (1 body i m s)
  show ?case
  proof (cases "m = 0")
    case False
    have "NVBIT64 0 AND m = 0 \<longleftrightarrow> \<not> bit m 0" by (simp add: NVBIT64_def one_and_eq bit_0 odd_iff_mod_2_eq_one)
    then show ?thesis
      using False 1 [OF False] unfolding set_bits_upt [of m] for_each_index.simps [of body i m s]
      by (simp add: comp_def del: upt_rec_numeral)
  qed (simp add: for_each_index.simps)
qed


text \<open>The positions of a mask in ascending order.\<close>

lemma sorted_bits: "filter (bit m) [0 ..< 64] = sorted_list_of_set {i. bit (m :: NvU64) i}"
proof -
  have "{i. bit m i} = set (filter (bit m) [0 ..< 64])" using bit_imp_le_length [of m] by auto
  then show ?thesis
    by (simp add: sorted_list_of_set_sort_remdups sorted_sort_id sorted_filter [of id, simplified] distinct_remdups_id del: set_filter upt_rec_numeral)
qed

text \<open>
  C39: \<open>FOR_EACH_INDEX_IN_MASK\<close> ends for every mask and runs its body exactly at the positions of the bits
  that are set, each once and in ascending order, \<open>nvPopCount64\<close> times in all. The first position is
  the one \<open>LOWESTBITIDX_64\<close> finds by masks alone.
\<close>

theorem mask_iteration:
  "for_each_index body 0 m s = fold body (sorted_list_of_set {i. bit m i}) s \<and>
    length (sorted_list_of_set {i. bit m i}) = unat (nvPopCount64 m) \<and>
    (m \<noteq> 0 \<longrightarrow> hd (sorted_list_of_set {i. bit m i}) = unat (LOWESTBITIDX_64 m))"
proof -
  have run: "for_each_index body 0 m s = fold body (sorted_list_of_set {i. bit m i}) s"
    by (simp add: for_each_index_run sorted_bits map_idI del: upt_rec_numeral)
  have fin: "finite {i. bit m i}" using bit_imp_le_length [of m] by (auto intro: finite_subset [of _ "{..< 64}"])
  have first: "hd (sorted_list_of_set {i. bit m i}) = (LEAST i. bit m i)" if "m \<noteq> 0"
  proof -
    have ne: "{i. bit m i} \<noteq> {}" using that by (auto simp: word_zero_iff)
    then show ?thesis
      using fin by (simp add: sorted_list_of_set_nonempty Min_def [symmetric] Least_Min)
  qed
  show ?thesis using run first lowest_index(2) [of m] popcount_64 [of m] by simp
qed

theorem mask_iteration_witness:
  "for_each_index (\<lambda>i ns. ns @ [i]) 0 0xCD [] = [0, 2, 3, 6, 7] \<and> hd (sorted_list_of_set {i. bit (0xCD :: NvU64) i}) = 0"
proof -
  have "for_each_index (\<lambda>i ns. ns @ [i]) 0 0xCD [] = [0, 2, 3, 6, 7]" "LOWESTBITIDX_64 0xCD = 0" by code_simp+
  then show ?thesis using mask_iteration [of "\<lambda>_ s. s" "0xCD" "()"] by simp
qed

text \<open>
  C38: the rounding to powers of two, done by smearing the highest bit to the right: \<open>nvPrevPow2\<close> gives the
  greatest power of two not above its argument (0 for 0), \<open>nvNextPow2_U32\<close> and \<open>ROUNDUP_POW2_U64\<close> the least
  one not below it, which wraps to 0 when it does not fit the word; 0 is left as it is. The shift loop
  of \<open>HIGHESTBITIDX_32\<close> ends with the exponent of \<open>nvPrevPow2_U32\<close>.
\<close>

theorem power_of_two_rounding:
  "unat (nvPrevPow2_U32 x) = (if x = 0 then 0 else pow2_below (unat x)) \<and>
    unat (nvPrevPow2_U64 y) = (if y = 0 then 0 else pow2_below (unat y)) \<and>
    unat (nvNextPow2_U32 x) = (if x = 0 then 0 else pow2_above (unat x) mod 2 ^ 32) \<and>
    unat (ROUNDUP_POW2_U64 y) = (if y = 0 then 0 else pow2_above (unat y) mod 2 ^ 64) \<and>
    (x \<noteq> 0 \<longrightarrow> unat (nvPrevPow2_U32 x) = 2 ^ unat (HIGHESTBITIDX_32 x))"
proof -
  have "unat (nvPrevPow2_U32 x) = 2 ^ unat (HIGHESTBITIDX_32 x)" if "x \<noteq> 0"
    unfolding power_routines_smear smeared_prev [OF smear_bits(1)]
    using that pow2_below_eq [OF HIGHESTBITIDX_32_log [OF that]] by simp
  then show ?thesis
    unfolding power_routines_smear
    using smeared_prev [OF smear_bits(1) [of x]] smeared_prev [OF smear_bits(2) [of y]]
      smeared_next [OF smear_bits(1) [of "x - 1"]] smeared_next [OF smear_bits(2) [of "y - 1"]]
    by simp
qed

theorem power_of_two_rounding_witness:
  "unat (nvNextPow2_U32 0x80000001) = 0 \<and> pow2_above 0x80000001 mod 2 ^ 32 = 0 \<and> pow2_below 1000 = 512"
proof -
  have "nvNextPow2_U32 0x80000001 = 0" "nvPrevPow2_U32 1000 = 512" by code_simp+
  then show ?thesis
    using power_of_two_rounding [of "0x80000001" 0] power_of_two_rounding [of 1000 0] by simp
qed

section \<open>Alignment\<close>

lemma align_down_eq: "k < LENGTH('a) \<Longrightarrow> NV_ALIGN_DOWN v (2 ^ k) = push_bit k (drop_bit k (v :: 'a::len word))"
  unfolding NV_ALIGN_DOWN_def diff_self add_0 mask_eq_exp_minus_1 [symmetric]
  by (rule bit_word_eqI) (auto simp: bit_simps)

lemma align_up_eq: "NV_ALIGN_UP v g = NV_ALIGN_DOWN (v + (g - 1)) g"
  by (simp add: NV_ALIGN_UP_def NV_ALIGN_DOWN_def)

lemma unat_align_down:
  fixes v :: "'a::len word"
  assumes "k < LENGTH('a)"
  shows "unat (NV_ALIGN_DOWN v (2 ^ k)) = unat v div 2 ^ k * 2 ^ k"
proof -
  have "push_bit k (drop_bit k v) + take_bit k v = v" by (rule bits_ident)
  then have "push_bit k (drop_bit k v) = v - take_bit k v" by (simp add: eq_diff_eq)
  moreover have "unat (take_bit k v) = unat v mod 2 ^ k" unfolding unsigned_take_bit_eq by (simp add: take_bit_eq_mod)
  moreover have "unat v mod 2 ^ k \<le> unat v" by simp
  ultimately have "unat (NV_ALIGN_DOWN v (2 ^ k)) = unat v - unat v mod 2 ^ k"
    unfolding align_down_eq [OF assms] by (simp only: unat_word_minus)
  then show ?thesis by (simp only: minus_mod_eq_div_mult)
qed

text \<open>
  For a granularity that is a power of two, \<open>NV_ALIGN_UP\<close> and the driver's own \<open>roundUp\<close> are the same
  function, on the values that wrap around as well.
\<close>

lemma align_up_is_roundUp:
  assumes "k < 64"
  shows "NV_ALIGN_UP v (2 ^ k) = roundUp64 v (2 ^ k)"
proof -
  have p: "unat (2 ^ k :: NvU64) = 2 ^ k" using power_strict_increasing [OF assms, of "2 :: nat"] by (simp add: unat_word_power)
  have "unat (roundUp64 v (2 ^ k)) = unat (v + (2 ^ k - 1)) div 2 ^ k * 2 ^ k mod 2 ^ 64"
    by (simp add: roundUp64_def ceilDiv64_def unat_word_ariths(2) unat_div p add_diff_eq)
  moreover have "unat (v + (2 ^ k - 1)) div 2 ^ k * 2 ^ k < 2 ^ 64"
    by (rule le_less_trans [OF div_times_less_eq_dividend])
      (use unsigned_less [of "v + (2 ^ k - 1)", where ?'a = nat] in simp)
  ultimately show ?thesis
    using unat_align_down [of k "v + (2 ^ k - 1)"] assms by (simp add: align_up_eq word_unat_eq_iff)
qed

lemma aligned_iff:
  fixes v :: "'a::len word"
  assumes "k < LENGTH('a)"
  shows "NV_IS_ALIGNED v (2 ^ k) \<longleftrightarrow> 2 ^ k dvd unat v"
proof -
  have "NV_IS_ALIGNED v (2 ^ k) \<longleftrightarrow> take_bit k v = 0"
    by (auto simp: NV_IS_ALIGNED_def mask_eq_exp_minus_1 [symmetric] take_bit_eq_mask)
  also have "\<dots> \<longleftrightarrow> unat (take_bit k v) = 0" by (simp only: unat_eq_zero)
  finally show ?thesis unfolding unsigned_take_bit_eq by (simp add: take_bit_eq_mod mod_eq_0_iff_dvd)
qed

end
