(* ===== verification/Misc_Memory.thy ===== *)
theory Misc_Memory
  imports Prelude
begin

text \<open>
  The byte loops of \<open>driverapi/internal/nvidia/nvmisc.h\<close> (\<open>NVMISC_MEMSET\<close>, \<open>NVMISC_MEMCPY\<close>,
  \<open>NVMISC_STRNCPY\<close>) over a memory that maps some addresses to bytes, and the masks over an array of
  32-bit words (\<open>NV_BITMASK32_*\<close>). A read or a write of an address that is not mapped, undefined in C,
  is \<open>None\<close>. The loops write to the memory they read from, so a copy sees the bytes it has written
  already where the two ranges overlap.
\<close>

section \<open>Byte loops\<close>

type_synonym bytes = "nat \<Rightarrow> NvU8 option"

definition store_byte :: "nat \<Rightarrow> NvU8 \<Rightarrow> bytes \<Rightarrow> bytes option" where
  "store_byte a c m = (if m a = None then None else Some (m(a \<mapsto> c)))"

function memset_loop :: "nat \<Rightarrow> NvU8 \<Rightarrow> nat \<Rightarrow> nat \<Rightarrow> bytes \<Rightarrow> bytes option" where
  "memset_loop b c n i m =
     (if i < n then Option.bind (store_byte (b + i) c m) (memset_loop b c n (i + 1)) else Some m)"
  by pat_completeness auto
termination by (relation "measure (\<lambda>(b, c, n, i, m). n - i)") auto

definition NVMISC_MEMSET :: "nat \<Rightarrow> NvU8 \<Rightarrow> nat \<Rightarrow> bytes \<Rightarrow> bytes option" where
  "NVMISC_MEMSET s c n m = memset_loop s c n 0 m"

function memcpy_loop :: "nat \<Rightarrow> nat \<Rightarrow> nat \<Rightarrow> nat \<Rightarrow> bytes \<Rightarrow> bytes option" where
  "memcpy_loop dst src n i m =
     (if i < n then
        Option.bind (m (src + i)) (\<lambda>c. Option.bind (store_byte (dst + i) c m) (memcpy_loop dst src n (i + 1)))
      else Some m)"
  by pat_completeness auto
termination by (relation "measure (\<lambda>(d, s, n, i, m). n - i)") auto

definition NVMISC_MEMCPY :: "nat \<Rightarrow> nat \<Rightarrow> nat \<Rightarrow> bytes \<Rightarrow> bytes option" where
  "NVMISC_MEMCPY dst src n m = memcpy_loop dst src n 0 m"

text \<open>The first loop of \<open>NVMISC_STRNCPY\<close> reads \<open>src[i]\<close> again after it has stored it.\<close>

function strncpy_loop :: "nat \<Rightarrow> nat \<Rightarrow> nat \<Rightarrow> nat \<Rightarrow> bytes \<Rightarrow> (nat \<times> bytes) option" where
  "strncpy_loop dst src n i m =
     (if i < n then
        Option.bind (m (src + i)) (\<lambda>c. Option.bind (store_byte (dst + i) c m) (\<lambda>m.
          if m (src + i) = Some 0 then Some (i, m) else strncpy_loop dst src n (i + 1) m))
      else Some (i, m))"
  by pat_completeness auto
termination by (relation "measure (\<lambda>(d, s, n, i, m). n - i)") auto

definition NVMISC_STRNCPY :: "nat \<Rightarrow> nat \<Rightarrow> nat \<Rightarrow> bytes \<Rightarrow> bytes option" where
  "NVMISC_STRNCPY dst src n m = Option.bind (strncpy_loop dst src n 0 m) (\<lambda>(i, m). memset_loop dst 0 n i m)"

declare memset_loop.simps [simp del] memcpy_loop.simps [simp del] strncpy_loop.simps [simp del]

section \<open>What the loops leave in memory\<close>

definition mapped :: "bytes \<Rightarrow> nat \<Rightarrow> nat \<Rightarrow> bool" where
  "mapped m a n \<longleftrightarrow> (\<forall>j < n. m (a + j) \<noteq> None)"

lemma store_byte_mapped: "m a \<noteq> None \<Longrightarrow> store_byte a c m = Some (m(a \<mapsto> c))"
  by (simp add: store_byte_def)

lemma mapped_upd: "mapped m a n \<Longrightarrow> mapped (m(b \<mapsto> c)) a n"
  by (simp add: mapped_def)

lemma memset_loop_result:
  "mapped m b n \<Longrightarrow>
    memset_loop b c n i m = Some (\<lambda>a. if b + i \<le> a \<and> a < b + n then Some c else m a)"
proof (induction b c n i m rule: memset_loop.induct)
  case (1 b c n i m)
  show ?case
  proof (cases "i < n")
    case True
    then have s: "store_byte (b + i) c m = Some (m(b + i \<mapsto> c))" using 1(2) by (simp add: store_byte_def mapped_def)
    have "memset_loop b c n i m = memset_loop b c n (i + 1) (m(b + i \<mapsto> c))"
      using True by (subst memset_loop.simps) (simp add: s)
    also have "\<dots> = Some (\<lambda>a. if b + (i + 1) \<le> a \<and> a < b + n then Some c else (m(b + i \<mapsto> c)) a)"
      by (rule 1(1) [OF True s mapped_upd [OF 1(2)]])
    finally show ?thesis using True by (auto simp: fun_eq_iff)
  next
    case False then show ?thesis by (subst memset_loop.simps) (auto simp: fun_eq_iff)
  qed
qed

lemma memcpy_loop_result:
  "mapped m dst n \<Longrightarrow> mapped m src n \<Longrightarrow> dst \<le> src \<or> src + n \<le> dst \<Longrightarrow>
    memcpy_loop dst src n i m = Some (\<lambda>a. if dst + i \<le> a \<and> a < dst + n then m (src + (a - dst)) else m a)"
proof (induction dst src n i m rule: memcpy_loop.induct)
  case (1 dst src n i m)
  show ?case
  proof (cases "i < n")
    case True
    then obtain c where c: "m (src + i) = Some c" using 1(3) by (auto simp: mapped_def)
    have s: "store_byte (dst + i) c m = Some (m(dst + i \<mapsto> c))" using 1(2) True by (simp add: store_byte_def mapped_def)
    have IH: "memcpy_loop dst src n (i + 1) (m(dst + i \<mapsto> c)) =
        Some (\<lambda>a. if dst + (i + 1) \<le> a \<and> a < dst + n then (m(dst + i \<mapsto> c)) (src + (a - dst)) else (m(dst + i \<mapsto> c)) a)"
      by (rule 1(1) [OF True c s mapped_upd [OF 1(2)] mapped_upd [OF 1(3)] 1(4)])
    have ne: "src + (a - dst) \<noteq> dst + i" if "dst + (i + 1) \<le> a" "a < dst + n" for a
      using 1(4) that by linarith
    have "memcpy_loop dst src n i m = memcpy_loop dst src n (i + 1) (m(dst + i \<mapsto> c))"
      using True by (subst memcpy_loop.simps) (simp add: s c)
    also note IH
    finally show ?thesis using True c ne by (auto simp: fun_eq_iff)
  next
    case False then show ?thesis by (subst memcpy_loop.simps) (auto simp: fun_eq_iff)
  qed
qed

text \<open>A string of \<open>k\<close> characters at \<open>src\<close>, of which the first \<open>n\<close> bytes are looked at.\<close>

definition string_at :: "bytes \<Rightarrow> nat \<Rightarrow> nat \<Rightarrow> nat \<Rightarrow> bool" where
  "string_at m src k n \<longleftrightarrow> k \<le> n \<and> (\<forall>j < k. \<exists>c. m (src + j) = Some c \<and> c \<noteq> 0) \<and> (k < n \<longrightarrow> m (src + k) = Some 0)"

lemma string_at_upd:
  "string_at m src k n \<Longrightarrow> a < src \<or> src + min (Suc k) n \<le> a \<Longrightarrow> string_at (m(a \<mapsto> c)) src k n"
  by (auto simp: string_at_def)

lemma strncpy_loop_result:
  "mapped m dst n \<Longrightarrow> string_at m src k n \<Longrightarrow> dst + n \<le> src \<or> src + min (Suc k) n \<le> dst \<Longrightarrow> i \<le> k \<Longrightarrow>
    \<exists>m'. strncpy_loop dst src n i m = Some (k, m') \<and> mapped m' dst n \<and>
      (\<forall>a. m' a = (if dst + i \<le> a \<and> a < dst + k then m (src + (a - dst))
         else if k < n \<and> a = dst + k then Some 0 else m a))"
proof (induction dst src n i m rule: strncpy_loop.induct)
  case (1 dst src n i m)
  show ?case
  proof (cases "i < n")
    case True
    have "\<exists>c. m (src + i) = Some c \<and> (c = 0 \<longleftrightarrow> i = k)"
      using 1(3,5) True by (cases "i = k") (auto simp: string_at_def dest!: spec [of _ i])
    then obtain c where c: "m (src + i) = Some c" "c = 0 \<longleftrightarrow> i = k" by blast
    let ?m = "m(dst + i \<mapsto> c)"
    have s: "store_byte (dst + i) c m = Some ?m" using 1(2) True by (simp add: store_byte_def mapped_def)
    have apart: "dst + i < src \<or> src + min (Suc k) n \<le> dst + i" using 1(4) True by linarith
    then have again: "?m (src + i) = Some c" using c True 1(5) by auto
    show ?thesis
    proof (cases "i = k")
      case stop: True
      then show ?thesis
        using True c s again mapped_upd [OF 1(2)] by (subst strncpy_loop.simps) (auto simp: c)
    next
      case False
      then have le: "i + 1 \<le> k" using 1(5) by simp
      have "\<exists>m'. strncpy_loop dst src n (i + 1) ?m = Some (k, m') \<and> mapped m' dst n \<and>
          (\<forall>a. m' a = (if dst + (i + 1) \<le> a \<and> a < dst + k then ?m (src + (a - dst))
             else if k < n \<and> a = dst + k then Some 0 else ?m a))"
        by (rule 1(1) [OF True c(1) s _ mapped_upd [OF 1(2)] string_at_upd [OF 1(3) apart] 1(4) le])
          (use again c False in auto)
      then obtain m' where m': "strncpy_loop dst src n (i + 1) ?m = Some (k, m')" "mapped m' dst n"
        "\<And>a. m' a = (if dst + (i + 1) \<le> a \<and> a < dst + k then ?m (src + (a - dst))
             else if k < n \<and> a = dst + k then Some 0 else ?m a)" by blast
      have ne: "src + (a - dst) \<noteq> dst + i" if "dst + (i + 1) \<le> a" "a < dst + k" for a
        using 1(3,4) that by (auto simp: string_at_def)
      have "strncpy_loop dst src n i m = Some (k, m')"
        using True c s again False m'(1) by (subst strncpy_loop.simps) auto
      moreover have "m' a = (if dst + i \<le> a \<and> a < dst + k then m (src + (a - dst))
          else if k < n \<and> a = dst + k then Some 0 else m a)" for a
        using le c(1) ne [of a] by (auto simp: m'(3))
      ultimately show ?thesis using m'(2) by blast
    qed
  next
    case False
    then have "i = k" "k = n" using 1(3,5) by (auto simp: string_at_def)
    then show ?thesis using 1(2) by (subst strncpy_loop.simps) auto
  qed
qed

text \<open>
  \<open>NVMISC_STRNCPY\<close> returns and writes exactly the \<open>n\<close> bytes at \<open>dest\<close>: the characters of the string,
  then zeros; when the string has \<open>n\<close> characters or more no terminator is written. It does so with nothing
  mapped behind the terminator of the source. \<open>NVMISC_MEMCPY\<close> returns and leaves at \<open>dest\<close> what was at
  \<open>src\<close>, also for ranges that overlap when \<open>dest\<close> is the lower one, and changes nothing else.
\<close>

theorem bytes_copied:
  assumes "mapped m dst n"
  shows "(string_at m src k n \<and> (dst + n \<le> src \<or> src + min (Suc k) n \<le> dst) \<longrightarrow>
      NVMISC_STRNCPY dst src n m =
        Some (\<lambda>a. if dst \<le> a \<and> a < dst + n then (if a < dst + k then m (src + (a - dst)) else Some 0) else m a)) \<and>
    (mapped m src n \<and> (dst \<le> src \<or> src + n \<le> dst) \<longrightarrow>
      NVMISC_MEMCPY dst src n m = Some (\<lambda>a. if dst \<le> a \<and> a < dst + n then m (src + (a - dst)) else m a))"
proof (intro conjI impI)
  assume "string_at m src k n \<and> (dst + n \<le> src \<or> src + min (Suc k) n \<le> dst)"
  then have str: "string_at m src k n" and apart: "dst + n \<le> src \<or> src + min (Suc k) n \<le> dst" by auto
  obtain m' where m': "strncpy_loop dst src n 0 m = Some (k, m')" "mapped m' dst n"
    "\<And>a. m' a = (if dst + 0 \<le> a \<and> a < dst + k then m (src + (a - dst)) else if k < n \<and> a = dst + k then Some 0 else m a)"
    using strncpy_loop_result [OF assms str apart, of 0] by blast
  have "k \<le> n" using str by (simp add: string_at_def)
  then show "NVMISC_STRNCPY dst src n m =
      Some (\<lambda>a. if dst \<le> a \<and> a < dst + n then (if a < dst + k then m (src + (a - dst)) else Some 0) else m a)"
    by (auto simp: NVMISC_STRNCPY_def m'(1) memset_loop_result [OF m'(2)] m'(3) fun_eq_iff)
next
  assume "mapped m src n \<and> (dst \<le> src \<or> src + n \<le> dst)"
  then show "NVMISC_MEMCPY dst src n m = Some (\<lambda>a. if dst \<le> a \<and> a < dst + n then m (src + (a - dst)) else m a)"
    using memcpy_loop_result [OF assms, of src 0] by (simp add: NVMISC_MEMCPY_def)
qed

text \<open>The string \<open>AB\<close>, with no byte mapped behind its terminator, copied into five bytes.\<close>

definition copy_memory :: bytes where
  "copy_memory a = (if a < 5 then Some 0xFF else if a = 16 then Some 0x41 else if a = 17 then Some 0x42
     else if a = 18 then Some 0 else None)"

theorem bytes_copied_witness:
  "map_option (\<lambda>m. map m [0 ..< 6]) (NVMISC_STRNCPY 0 16 5 copy_memory) =
      Some [Some 0x41, Some 0x42, Some 0, Some 0, Some 0, None] \<and>
    map_option (\<lambda>m. map m [0 ..< 5]) (NVMISC_MEMCPY 0 1 4 copy_memory) =
      Some [Some 0xFF, Some 0xFF, Some 0xFF, Some 0xFF, Some 0xFF] \<and>
    NVMISC_MEMCPY 0 16 4 copy_memory = None"
proof -
  have m: "mapped copy_memory 0 5" "mapped copy_memory 0 4" "mapped copy_memory 1 4"
    by (auto simp: mapped_def copy_memory_def)
  have "j < 2 \<Longrightarrow> j = 0 \<or> j = (1::nat)" for j by auto
  then have "string_at copy_memory 16 2 5" by (auto simp: string_at_def copy_memory_def)
  then have "NVMISC_STRNCPY 0 16 5 copy_memory =
      Some (\<lambda>a. if 0 \<le> a \<and> a < 0 + 5 then (if a < 0 + 2 then copy_memory (16 + (a - 0)) else Some 0) else copy_memory a)"
    using bytes_copied [OF m(1), of 16 2] by simp
  moreover have "NVMISC_MEMCPY 0 1 4 copy_memory =
      Some (\<lambda>a. if 0 \<le> a \<and> a < 0 + 4 then copy_memory (1 + (a - 0)) else copy_memory a)"
    using bytes_copied [OF m(2), of 1] m(3) by simp
  moreover have "NVMISC_MEMCPY 0 16 4 copy_memory = None"
    by (simp add: NVMISC_MEMCPY_def memcpy_loop.simps store_byte_def copy_memory_def)
  ultimately show ?thesis by (simp add: copy_memory_def upt_rec)
qed

section \<open>Masks over an array of words\<close>

definition NV_BITMASK32_IDX :: "NvU32 \<Rightarrow> NvU32" where
  "NV_BITMASK32_IDX chId = drop_bit 5 (chId AND NOT 0x1F)"

definition NV_BITMASK32_OFFSET :: "NvU32 \<Rightarrow> NvU32" where
  "NV_BITMASK32_OFFSET chId = chId AND 0x1F"

definition NV_BITMASK32_SET :: "NvU32 list \<Rightarrow> NvU32 \<Rightarrow> NvU32 list" where
  "NV_BITMASK32_SET ms chId =
     (let i = unat (NV_BITMASK32_IDX chId) in ms[i := ms ! i OR push_bit (unat (NV_BITMASK32_OFFSET chId)) 1])"

definition NV_BITMASK32_GET :: "NvU32 list \<Rightarrow> NvU32 \<Rightarrow> NvU32" where
  "NV_BITMASK32_GET ms chId =
     (ms ! unat (NV_BITMASK32_IDX chId)) AND push_bit (unat (NV_BITMASK32_OFFSET chId)) 1"

lemma NV_BITMASK32_IDX_div: "unat (NV_BITMASK32_IDX c) = unat c div 32"
proof -
  have "NOT (0x1F :: NvU32) = NOT (mask 5)" by (simp add: mask_eq_exp_minus_1)
  then have "NV_BITMASK32_IDX c = drop_bit 5 c"
    unfolding NV_BITMASK32_IDX_def \<open>NOT 0x1F = NOT (mask 5)\<close> by (intro bit_word_eqI) (auto simp: bit_simps simp del: mask_numeral dest: bit_imp_le_length)
  then have "unat (NV_BITMASK32_IDX c) = drop_bit 5 (unat c)" by (simp only: unat_drop_bit_eq)
  then show ?thesis by (simp add: drop_bit_eq_div)
qed

lemma NV_BITMASK32_OFFSET_mod: "unat (NV_BITMASK32_OFFSET c) = unat c mod 32"
proof -
  have "NV_BITMASK32_OFFSET c = take_bit 5 c" by (simp add: NV_BITMASK32_OFFSET_def take_bit_eq_mask mask_numeral)
  then show ?thesis by (simp only: unsigned_take_bit_eq) (simp add: take_bit_eq_mod)
qed

text \<open>Setting the bit of a channel sets the one \<open>NV_BITMASK32_GET\<close> reads for it, and no other channel's.\<close>

lemma NV_BITMASK32_GET_SET:
  assumes "unat c div 32 < length ms" "unat d div 32 < length ms"
  shows "NV_BITMASK32_GET (NV_BITMASK32_SET ms c) d \<noteq> 0 \<longleftrightarrow> d = c \<or> NV_BITMASK32_GET ms d \<noteq> 0"
proof -
  have get: "NV_BITMASK32_GET xs d \<noteq> 0 \<longleftrightarrow> bit (xs ! (unat d div 32)) (unat d mod 32)" for xs
    by (simp add: NV_BITMASK32_GET_def NV_BITMASK32_IDX_div NV_BITMASK32_OFFSET_mod bit_iff_and_push_bit_not_eq_0)
  have "d = c \<longleftrightarrow> unat d div 32 = unat c div 32 \<and> unat d mod 32 = unat c mod 32"
    by (metis div_mod_decomp unsigned_word_eqI)
  then show ?thesis
    using assms unfolding get
    by (auto simp: NV_BITMASK32_SET_def NV_BITMASK32_IDX_div NV_BITMASK32_OFFSET_mod Let_def nth_list_update bit_simps)
qed

end
