(* ===== verification/Spec2Isabelle.thy ===== *)
theory Spec2Isabelle
  imports Prelude Drf Qmd_Tables Kernel_Interface Va_Space Channel Cmd_Queue Queue_Proofs
    Queue_Properties Launch Launch_Proofs Launch_Properties Copy_Kernels Stream_Order Stream_Api
    Device_Copy Module_Image Module_Attrs Module_Loader Status_Names Device_Init Contexts
    Context_Channels Session Drf_Words Drf_Bytes Bit_Utils Bit_Counting Bit_Properties Misc_Memory
begin

text \<open>
  A verification development for LibreCuda, a driver library that runs CUDA kernels on NVIDIA GPUs
  by talking to the kernel module directly.

  \<^bold>\<open>The program.\<close> \<open>driverapi/src/librecuda.cpp\<close> implements the public API (initialisation, contexts,
  memory, modules, streams, events) on top of \<open>ioctl\<close> calls, in global tables; \<open>driverapi/src/cmdqueue.cpp\<close>
  implements a stream as an \<open>NvCommandQueue\<close>: it builds words of GPU commands in two buffers (compute and
  copy), moves a buffer to a backlog when the other engine is used, hands buffers to the GP FIFO of the
  context's channels and waits on a timeline semaphore that the GPU releases;
  \<open>driverapi/src/memcopy.cpp\<close> copies device memory with the kernels of \<open>driverapi/kernels/memcpy/memcpy.cu\<close>.
  A session initialises the driver, creates a context (which makes two channels and loads the copy
  kernels as a module), creates streams in it, loads modules, and enqueues launches, copies and events.

  \<^bold>\<open>How the code is modelled.\<close> Operations are programs of the state and error monad of \<open>Prelude\<close>: a function
  from a state to an error or a result and the state at that point. \<open>validate\<close>, \<open>fail\<close>, \<open>bind\<close> and
  \<open>block\<close> are the statement macros of the source. The errors are a failed status (\<open>Fail\<close>), an uncaught
  exception (\<open>Throw\<close>), undefined behaviour (\<open>UB\<close>) and a poll that used up its fuel. Integers have the
  width of the source's types (\<open>NvU64\<close> and so on are word types), so sums wrap as in the code. Objects on the C++ heap
  (contexts, streams, events, functions, modules) are entries of maps, addressed by number, with 0 for
  the null pointer. The state grows along the components, each record extending the one before:
  \<open>os\<close> (descriptors and the log of kernel calls), \<open>vm\<close> (devices, contexts, allocation tables), \<open>drv\<close>
  (queues, events, functions, GPU memory words), \<open>api\<close> (streams), \<open>d2d\<close> (copy kernels), \<open>modl\<close>
  (modules, GPU memory bytes), \<open>glob\<close> (the remaining globals).

  \<^bold>\<open>Theories.\<close>
  \<^item> \<open>Prelude\<close>: integer types, statuses, the statement combinators with their run and preservation lemmas,
    rounding, allocation runs and the interface of a bump allocator (locale \<open>bump\<close>).
  \<^item> \<open>Drf\<close>: the multi-word bit field macros of \<open>nvmisc.h\<close> (locale \<open>bitfield\<close>, interpreted on the macros).
    \<open>Drf_Words\<close>: the macros for fields of one 32-bit or 64-bit word (two more interpretations of \<open>bitfield\<close>).
    \<open>Drf_Bytes\<close>: those for a stream of bytes, equal to the multi-word macros on the packed stream.
  \<^item> \<open>Bit_Utils\<close>: the bit utilities of \<open>nvmisc.h\<close>; \<open>Bit_Counting\<close> and \<open>Bit_Properties\<close> compare them with the
    set of the bits that are set. \<open>Misc_Memory\<close>: its byte loops and its masks over an array of words.
  \<^item> \<open>Qmd_Tables\<close>: the eight launch descriptor layouts of the class headers; their fields are independent.
  \<^item> \<open>Kernel_Interface\<close>: \<open>nv_iowr\<close>, \<open>uvm_ioctl\<close>, \<open>rm_alloc\<close>, \<open>rm_ctrl\<close> and their checking macros.
  \<^item> \<open>Va_Space\<close>: \<open>gpuAlloc\<close>, \<open>gpuSystemAlloc\<close>, \<open>gpuFree\<close>, the mappings, the pointer queries. The invariant of
    the tables, and disjointness of everything handed out (interpretation \<open>va\<close> of \<open>bump\<close>).
  \<^item> \<open>Channel\<close>: method headers and FIFO entries, with the decoder that reads a word stream as GPU
    operations. The decoder, after the layouts of \<open>clc56f.h\<close>, is the meaning of commands everywhere else.
  \<^item> \<open>Cmd_Queue\<close>: every operation of \<open>NvCommandQueue\<close> but the launch. \<open>Queue_Proofs\<close> holds what each does to
    the state, and the invariant \<open>queue_inv\<close> with its preservation; \<open>Queue_Properties\<close> the contracts: signal pool
    (locale \<open>id_pool\<close>), argument page (\<open>bump\<close>), submission, starting, awaiting, events.
  \<^item> \<open>Launch\<close>: \<open>ensureEnoughLocalMem\<close> and \<open>launchFunction\<close>. \<open>Launch_Proofs\<close> follows its stages,
    \<open>Launch_Properties\<close> states what the descriptor, the argument block and the commands hold.
  \<^item> \<open>Stream_Order\<close>: the abstract specification of a stream, the list of operations asked of it, and the
    refinement: the steps of a queue append to what the GPU is handed (locale \<open>tracing\<close>).
  \<^item> \<open>Stream_Api\<close>: \<open>libreCuStream*\<close>, \<open>libreCuEvent*\<close>, \<open>libreCuLaunchKernel\<close>; a new stream is ready.
  \<^item> \<open>Copy_Kernels\<close>: the copy kernels as the moves of each thread, and the interleavings of threads.
  \<^item> \<open>Device_Copy\<close>: \<open>memcpyD2D\<close> and \<open>libreCuMemCpy\<close>; what the launches copy, and from which size on they
    copy too much.
  \<^item> \<open>Module_Image\<close>, \<open>Module_Attrs\<close>, \<open>Module_Loader\<close>: \<open>libreCuModuleLoadData\<close> in its stages: placing the sections
    and applying relocations, reading the attribute, parameter and constant sections, building the
    functions; the module queries.
  \<^item> \<open>Status_Names\<close>: the statuses and the table of their names.
  \<^item> \<open>Device_Init\<close>: \<open>libreCuInit\<close>, \<open>CUDA_VISIBLE_DEVICES\<close>, the device queries, \<open>libreCuGetErrorString\<close>.
  \<^item> \<open>Contexts\<close>, \<open>Context_Channels\<close>: channels, \<open>libreCuCtxCreate_v2\<close>, loading of the copy kernels, attributes;
    where the channels of a context lie.
  \<^item> \<open>Session\<close>: the components together, from a file loaded as a module to the launch of its code on a stream.

  \<^bold>\<open>Parameters.\<close> What is not source of the repository is an argument of the definitions: \<open>K\<close>, the kernel
  module, answers each call from the calls made so far; \<open>G\<close> is what the GPU does between two polls of the
  CPU, with \<open>gpu_keeps\<close> saying that it leaves the queue and event objects alone; \<open>elfio\<close> is the ELF reader;
  \<open>names\<close> the iteration order of an unordered set; \<open>cubin\<close> the embedded kernel binaries; \<open>env\<close> the value of
  \<open>CUDA_VISIBLE_DEVICES\<close>. Every property that assumes something about them has a witness on concrete ones.

  \<^bold>\<open>Bounds and fuel.\<close> The only loop of the program that may not end is the poll of \<open>signalWaitCpu\<close>; it
  takes a number of polls, and \<open>await_after_start\<close> shows that some number is enough whenever the GPU
  performs the releases it was handed. \<open>attr_loop\<close> counts passes over an attribute section;
  \<open>attribute_loop_ends\<close> shows that a fourth of its length is always enough. The card list has its
  declared 128 entries (\<open>n_infos\<close>). The loops of \<open>nvmisc.h\<close> end
  because a mask is shifted or an index grows towards its bound. All other loops are over lists the code holds.

  \<^bold>\<open>Not modelled.\<close> Debug output. The release of deleted C++ objects (a use after it is not excluded). The conversion of an elapsed
  time to a \<open>float\<close>. The contents of the embedded kernel binaries, which are generated data. Of the class and control
  headers of the kernel interface, which only declare constants and structures, those that the driver does
  not use. Of \<open>nvmisc.h\<close>, the macros with an index, those for MISRA, the register macros, whose accesses are
  defined nowhere, and the conversions of pointers. Tests and examples, which need a GPU.
\<close>

end
